(* ===== verification/Cephtrace_Prelude.thy ===== *)
theory Cephtrace_Prelude
  imports Main "HOL-Library.Word"
begin

text \<open>
  Shared ground of the development: the widths of the C integers the sources use, the
  narrowing of a wide value to a C \<open>int\<close>, the overlay of a byte run on a fixed C array,
  the little-endian reading of a byte run, and the collections of facts the component
  theories add to.

  \<^item> \<open>probe_simps\<close> holds the unfolding facts of the helpers the BPF probes share;
  \<^item> \<open>inv_intros\<close> holds the preservation facts of the probe invariants.
\<close>

unbundle bit_operations_syntax

named_theorems probe_simps
named_theorems inv_intros
named_theorems str_simps

section \<open>Machine integers\<close>

type_synonym u8 = "8 word"
type_synonym u16 = "16 word"
type_synonym u32 = "32 word"
type_synonym u64 = "64 word"
type_synonym bytes = "8 word list"

text \<open>
  A C \<open>int\<close> is modelled as an HOL \<open>int\<close>; where the source assigns a wider value to an
  \<open>int\<close> the truncation to 32 bits with sign is written out.
\<close>

definition to_c_int :: "int \<Rightarrow> int" where
  "to_c_int x = signed_take_bit 31 x"

definition c_int_range :: "int \<Rightarrow> bool" where
  "c_int_range x \<longleftrightarrow> - 2147483648 \<le> x \<and> x < 2147483648"

lemma to_c_int_id: "c_int_range x \<Longrightarrow> to_c_int x = x"
  by (simp add: to_c_int_def c_int_range_def signed_take_bit_int_eq_self)

lemma to_c_int_range: "c_int_range (to_c_int x)"
  using signed_take_bit_int_greater_eq_minus_exp [of 31 x]
    signed_take_bit_int_less_exp [of 31 x]
  by (simp add: to_c_int_def c_int_range_def)

lemma unat_diff_le:
  fixes a b :: "'a::len word"
  assumes "b \<le> a"
  shows "unat (a - b) = unat a - unat b"
  using assms by (simp add: unat_sub)

lemma uint_diff_le:
  fixes a b :: "'a::len word"
  shows "b \<le> a \<Longrightarrow> uint (a - b) = uint a - uint b"
  using uint_sub_lem [of b a] by (simp add: word_le_def)

lemma word_diff_div_le:
  fixes a b k :: "'a::len word"
  assumes "b \<le> a"
  shows "unat ((a - b) div k) = (unat a - unat b) div unat k"
  using assms by (simp add: unat_div_distrib unat_sub)

lemma unat_ucast_up:
  fixes w :: "'a::len word"
  assumes "LENGTH('a) \<le> LENGTH('b::len)"
  shows "unat (ucast w :: 'b word) = unat w"
proof -
  have "unat w < 2 ^ LENGTH('b)"
    using unsigned_less [of w, where ?'a = nat] assms
    by (meson le_less_trans less_le_trans one_le_numeral power_increasing)
  then show ?thesis
    by (simp add: unsigned_ucast_eq take_bit_nat_eq_self)
qed

lemma word_less_not_zero_diff:
  fixes a b :: "'a::len word"
  shows "b < a \<Longrightarrow> b \<le> a"
  by simp

section \<open>Byte runs\<close>

text \<open>
  A read of \<open>n\<close> bytes into a larger C array replaces its first \<open>n\<close> bytes and leaves the
  rest: \<open>overlay new old\<close>.
\<close>

definition overlay :: "'a list \<Rightarrow> 'a list \<Rightarrow> 'a list" where
  "overlay new old = new @ drop (length new) old"

lemma length_overlay [simp]:
  "length new \<le> length old \<Longrightarrow> length (overlay new old) = length old"
  by (simp add: overlay_def)

lemma overlay_Nil [simp]: "overlay [] old = old"
  by (simp add: overlay_def)

lemma nth_overlay_ge:
  "length new \<le> i \<Longrightarrow> i < length old \<Longrightarrow> overlay new old ! i = old ! i"
  by (simp add: overlay_def nth_append)

text \<open>The value of a little-endian byte run, the order of both supported machines.\<close>

fun le_val :: "bytes \<Rightarrow> nat" where
  "le_val [] = 0"
| "le_val (b # bs) = unat b + 256 * le_val bs"

lemma le_val_bound: "le_val bs < 256 ^ length bs"
proof (induction bs)
  case Nil
  then show ?case by simp
next
  case (Cons b bs)
  have "unat b < 256" using unsigned_less [of b] by simp
  with Cons.IH show ?case by simp
qed

definition u16_of :: "bytes \<Rightarrow> u16" where
  "u16_of bs = of_nat (le_val bs)"

definition u32_of :: "bytes \<Rightarrow> u32" where
  "u32_of bs = of_nat (le_val bs)"

definition u64_of :: "bytes \<Rightarrow> u64" where
  "u64_of bs = of_nat (le_val bs)"

definition int32_of :: "bytes \<Rightarrow> int" where
  "int32_of bs = sint (u32_of bs)"

section \<open>C strings in fixed arrays\<close>

text \<open>
  The C string an array holds: the bytes before the first NUL. \<open>None\<close> when the array
  holds no NUL, where C would read on past its end.
\<close>

fun c_string :: "bytes \<Rightarrow> bytes option" where
  "c_string [] = None"
| "c_string (b # bs) = (if b = 0 then Some [] else map_option ((#) b) (c_string bs))"

lemma c_string_Some_iff: "(\<exists>s. c_string bs = Some s) \<longleftrightarrow> 0 \<in> set bs"
  by (induction bs) auto

lemma c_string_SomeI: "0 \<in> set bs \<Longrightarrow> \<exists>s. c_string bs = Some s"
  by (simp add: c_string_Some_iff)

lemma c_string_length: "c_string bs = Some s \<Longrightarrow> length s < length bs"
  by (induction bs arbitrary: s) (auto split: if_splits)

lemma c_string_no_nul: "c_string bs = Some s \<Longrightarrow> 0 \<notin> set s"
  by (induction bs arbitrary: s) (auto split: if_splits)

text \<open>\<open>strnlen\<close>: the length of that string, at most \<open>n\<close>.\<close>

fun strnlen :: "bytes \<Rightarrow> nat \<Rightarrow> nat" where
  "strnlen [] n = 0"
| "strnlen (b # bs) 0 = 0"
| "strnlen (b # bs) (Suc n) = (if b = 0 then 0 else Suc (strnlen bs n))"

lemma strnlen_le: "strnlen bs n \<le> n"
  by (induction bs n rule: strnlen.induct) auto

lemma strnlen_le_length: "strnlen bs n \<le> length bs"
  by (induction bs n rule: strnlen.induct) auto

lemma strnlen_take_no_nul: "0 \<notin> set (take (strnlen bs n) bs)"
  by (induction bs n rule: strnlen.induct) auto

lemma strnlen_c_string:
  "c_string bs = Some s \<Longrightarrow> length bs \<le> n \<Longrightarrow> take (strnlen bs n) bs = s"
  by (induction bs n arbitrary: s rule: strnlen.induct) (auto split: if_splits)

section \<open>Maps\<close>

lemma map_add_singleton: "(m(k \<mapsto> v)) k' = (if k' = k then Some v else m k')"
  by simp

lemma fun_upd_None_Some: "(m(k := None)) k' = Some v \<longleftrightarrow> k' \<noteq> k \<and> m k' = Some v"
  by auto

lemma fun_upd_Some_Some:
  "(m(k \<mapsto> w)) k' = Some v \<longleftrightarrow> (k' = k \<and> v = w) \<or> (k' \<noteq> k \<and> m k' = Some v)"
  by auto

end
