(* ===== verification/CxxString.thy ===== *)
theory CxxString
  imports Cephtrace_Prelude
begin

text \<open>
  The operations of \<open>std::string\<close> and of the C++ library's number formatting that the
  sources use, on HOL strings. A position that the library reports as \<open>npos\<close> is \<open>None\<close>;
  an exception of \<open>std::stoi\<close> is \<open>None\<close>.
\<close>

section \<open>Searching\<close>

definition starts_with :: "'a list \<Rightarrow> 'a list \<Rightarrow> bool" where
  "starts_with pat s \<longleftrightarrow> take (length pat) s = pat"

lemma starts_with_Nil [simp]: "starts_with [] s"
  by (simp add: starts_with_def)

lemma starts_with_Cons [simp]:
  "starts_with (c # pat) (d # s) \<longleftrightarrow> c = d \<and> starts_with pat s"
  by (auto simp: starts_with_def)

lemma starts_with_Cons_Nil [simp]: "\<not> starts_with (c # pat) []"
  by (simp add: starts_with_def)

lemma starts_with_append [simp]: "starts_with pat (pat @ s)"
  by (simp add: starts_with_def)

lemma starts_with_iff: "starts_with pat s \<longleftrightarrow> (\<exists>t. s = pat @ t)"
proof
  assume "starts_with pat s"
  then have "s = pat @ drop (length pat) s"
    by (metis append_take_drop_id starts_with_def)
  then show "\<exists>t. s = pat @ t" ..
qed auto

text \<open>\<open>s.find(pat)\<close> and \<open>s.find(c)\<close>.\<close>

fun str_find :: "'a list \<Rightarrow> 'a list \<Rightarrow> nat option" where
  "str_find pat [] = (if pat = [] then Some 0 else None)"
| "str_find pat (c # s) =
     (if starts_with pat (c # s) then Some 0 else map_option Suc (str_find pat s))"

definition str_contains :: "'a list \<Rightarrow> 'a list \<Rightarrow> bool" where
  "str_contains pat s \<longleftrightarrow> str_find pat s \<noteq> None"

lemma str_find_Some:
  "str_find pat s = Some i \<Longrightarrow> \<exists>t u. s = t @ pat @ u \<and> length t = i"
proof (induction s arbitrary: i)
  case Nil
  then show ?case by (auto split: if_splits)
next
  case (Cons c s)
  show ?case
  proof (cases "starts_with pat (c # s)")
    case True
    with Cons.prems show ?thesis by (auto simp: starts_with_iff)
  next
    case False
    with Cons.prems obtain j where "str_find pat s = Some j" "i = Suc j" by auto
    with Cons.IH obtain t u where "s = t @ pat @ u" "length t = j" by blast
    with \<open>i = Suc j\<close> have "c # s = (c # t) @ pat @ u \<and> length (c # t) = i" by simp
    then show ?thesis by blast
  qed
qed

lemma str_find_None: "str_find pat s = None \<Longrightarrow> s \<noteq> t @ pat @ u"
proof (induction s arbitrary: t)
  case Nil
  then show ?case by (auto split: if_splits)
next
  case (Cons c s)
  then show ?case by (cases t) (auto simp: starts_with_iff split: if_splits)
qed

lemma str_contains_iff: "str_contains pat s \<longleftrightarrow> (\<exists>t u. s = t @ pat @ u)"
proof
  assume "str_contains pat s"
  then obtain i where "str_find pat s = Some i" by (auto simp: str_contains_def)
  from str_find_Some [OF this] show "\<exists>t u. s = t @ pat @ u" by blast
next
  assume "\<exists>t u. s = t @ pat @ u"
  then show "str_contains pat s"
    using str_find_None [of pat s] by (auto simp: str_contains_def)
qed

lemma str_find_append_le: "\<exists>j \<le> length t. str_find pat (t @ pat @ u) = Some j"
proof (induction t)
  case Nil
  have "starts_with pat (pat @ u)" by simp
  then show ?case by (cases "pat @ u") auto
next
  case (Cons c t)
  then show ?case by (cases "starts_with pat (c # t @ pat @ u)") auto
qed

lemma str_find_first:
  assumes "str_find pat s = Some i" and "pat \<noteq> []"
  shows "\<not> str_contains pat (take i s)"
proof
  assume "str_contains pat (take i s)"
  then obtain t u where tu: "take i s = t @ pat @ u" by (auto simp: str_contains_iff)
  then have "s = t @ pat @ (u @ drop i s)" by (metis append.assoc append_take_drop_id)
  with assms str_find_append_le [of t pat "u @ drop i s"] have "i \<le> length t" by auto
  moreover have "length (take i s) \<le> i" by simp
  with tu have "length t + length pat \<le> i" by simp
  ultimately show False using assms(2) by (cases pat) simp_all
qed

definition char_find :: "'a \<Rightarrow> 'a list \<Rightarrow> nat option" where
  "char_find c s = str_find [c] s"

text \<open>\<open>s.find_last_of(c)\<close>.\<close>

fun find_last_of :: "'a \<Rightarrow> 'a list \<Rightarrow> nat option" where
  "find_last_of c [] = None"
| "find_last_of c (d # s) =
     (case find_last_of c s of
        Some i \<Rightarrow> Some (Suc i)
      | None \<Rightarrow> if d = c then Some 0 else None)"

lemma find_last_of_None: "find_last_of c s = None \<longleftrightarrow> c \<notin> set s"
  by (induction s) (auto split: option.splits)

lemma find_last_of_Some:
  "find_last_of c s = Some i \<Longrightarrow>
     i < length s \<and> s ! i = c \<and> c \<notin> set (drop (Suc i) s)"
proof (induction s arbitrary: i)
  case Nil
  then show ?case by simp
next
  case (Cons d s)
  show ?case
  proof (cases "find_last_of c s")
    case None
    with Cons.prems have "d = c" "i = 0" by (simp_all split: if_splits)
    with None show ?thesis by (simp add: find_last_of_None)
  next
    case (Some j)
    with Cons.prems have "i = Suc j" by simp
    with Cons.IH [OF Some] show ?thesis by simp
  qed
qed

lemma find_last_of_split:
  assumes "find_last_of c s = Some i"
  shows "s = take i s @ c # drop (Suc i) s"
  using find_last_of_Some [OF assms] by (metis id_take_nth_drop)

lemma find_last_of_append_no [simp]:
  "c \<notin> set t \<Longrightarrow> find_last_of c (s @ c # t) = Some (length s)"
proof (induction s)
  case Nil
  then have "find_last_of c t = None" by (simp add: find_last_of_None)
  then show ?case by simp
next
  case (Cons a s)
  then show ?case by simp
qed

section \<open>Splitting\<close>

text \<open>
  The tokens of a \<open>std::getline(stream, token, delim)\<close> loop: every delimiter ends a token
  and a trailing empty token is not delivered.
\<close>

fun getline_aux :: "char \<Rightarrow> string \<Rightarrow> string \<Rightarrow> string list" where
  "getline_aux d acc [] = (if acc = [] then [] else [rev acc])"
| "getline_aux d acc (c # s) =
     (if c = d then rev acc # getline_aux d [] s else getline_aux d (c # acc) s)"

definition getline_split :: "char \<Rightarrow> string \<Rightarrow> string list" where
  "getline_split d s = getline_aux d [] s"

lemma getline_aux_no_delim:
  "d \<notin> set acc \<Longrightarrow> t \<in> set (getline_aux d acc s) \<Longrightarrow> d \<notin> set t"
  by (induction d acc s rule: getline_aux.induct) (auto split: if_splits)

lemma getline_split_no_delim: "t \<in> set (getline_split d s) \<Longrightarrow> d \<notin> set t"
  using getline_aux_no_delim [of d "[]"] by (simp add: getline_split_def)

lemma getline_aux_token:
  "d \<notin> set t \<Longrightarrow>
   getline_aux d acc (t @ d # s) = rev (rev t @ acc) # getline_aux d [] s"
  by (induction t arbitrary: acc) auto

lemma getline_aux_last:
  "d \<notin> set t \<Longrightarrow> rev t @ acc \<noteq> [] \<Longrightarrow> getline_aux d acc t = [rev (rev t @ acc)]"
  by (induction t arbitrary: acc) auto

text \<open>Joining with a separator, the inverse on tokens without the separator.\<close>

fun str_join :: "'a list \<Rightarrow> 'a list list \<Rightarrow> 'a list" where
  "str_join sep [] = []"
| "str_join sep [x] = x"
| "str_join sep (x # y # ys) = x @ sep @ str_join sep (y # ys)"

lemma getline_split_join:
  assumes "\<forall>t \<in> set ts. d \<notin> set t" and "ts \<noteq> [] \<Longrightarrow> last ts \<noteq> []"
  shows "getline_split d (str_join [d] ts) = ts"
  using assms
proof (induction "[d]" ts rule: str_join.induct)
  case 1
  then show ?case by (simp add: getline_split_def)
next
  case (2 x)
  then show ?case by (simp add: getline_split_def getline_aux_last)
next
  case (3 x y ys)
  then show ?case by (simp add: getline_split_def getline_aux_token)
qed

section \<open>Numbers\<close>

definition digit_char :: "nat \<Rightarrow> char" where
  "digit_char d = (if d < 10 then char_of (48 + d) else char_of (87 + d))"

definition is_digit :: "char \<Rightarrow> bool" where
  "is_digit c \<longleftrightarrow> 48 \<le> (of_char c :: nat) \<and> (of_char c :: nat) \<le> 57"

definition digit_val :: "char \<Rightarrow> nat" where
  "digit_val c = (of_char c :: nat) - 48"

definition is_space :: "char \<Rightarrow> bool" where
  "is_space c \<longleftrightarrow> (of_char c :: nat) = 32 \<or> 9 \<le> (of_char c :: nat) \<and> (of_char c :: nat) \<le> 13"

text \<open>\<open>std::to_string\<close> and \<open>std::hex\<close> on unsigned values.\<close>

fun show_base :: "nat \<Rightarrow> nat \<Rightarrow> string" where
  "show_base b n =
     (if n < b \<or> b < 2 then [digit_char n]
      else show_base b (n div b) @ [digit_char (n mod b)])"

declare show_base.simps [simp del]

definition show_nat :: "nat \<Rightarrow> string" where
  "show_nat n = show_base 10 n"

definition show_hex :: "nat \<Rightarrow> string" where
  "show_hex n = show_base 16 n"

definition show_int :: "int \<Rightarrow> string" where
  "show_int i = (if i < 0 then CHR ''-'' # show_nat (nat (- i)) else show_nat (nat i))"

text \<open>The digit run at the start of a string, with the value read so far.\<close>

fun scan_digits :: "nat \<Rightarrow> string \<Rightarrow> nat \<times> string" where
  "scan_digits acc [] = (acc, [])"
| "scan_digits acc (c # s) =
     (if is_digit c then scan_digits (10 * acc + digit_val c) s else (acc, c # s))"

text \<open>
  \<open>strtol\<close> in base 10: white space, an optional sign, a non-empty digit run. \<open>None\<close> when
  there is no digit; otherwise the value and the rest of the string.
\<close>

definition scan_unsigned :: "string \<Rightarrow> (nat \<times> string) option" where
  "scan_unsigned s =
     (case s of
        [] \<Rightarrow> None
      | c # _ \<Rightarrow> if is_digit c then Some (scan_digits 0 s) else None)"

definition scan_int :: "string \<Rightarrow> (int \<times> string) option" where
  "scan_int s =
     (let t = dropWhile is_space s in
      case t of
        [] \<Rightarrow> None
      | c # u \<Rightarrow>
          if c = CHR ''-'' then map_option (\<lambda>(n, r). (- int n, r)) (scan_unsigned u)
          else if c = CHR ''+'' then map_option (\<lambda>(n, r). (int n, r)) (scan_unsigned u)
          else map_option (\<lambda>(n, r). (int n, r)) (scan_unsigned t))"

text \<open>\<open>std::stoi\<close>: \<open>None\<close> stands for \<open>invalid_argument\<close> or \<open>out_of_range\<close>.\<close>

definition stoi :: "string \<Rightarrow> int option" where
  "stoi s =
     (case scan_int s of
        None \<Rightarrow> None
      | Some (v, _) \<Rightarrow> if c_int_range v then Some v else None)"

lemma stoi_range: "stoi s = Some v \<Longrightarrow> c_int_range v"
  by (auto simp: stoi_def split: option.splits if_splits)

lemma of_char_digit_char [simp]: "d < 10 \<Longrightarrow> (of_char (digit_char d) :: nat) = 48 + d"
  by (simp add: digit_char_def)

lemma is_digit_digit_char [simp]: "d < 10 \<Longrightarrow> is_digit (digit_char d)"
  by (simp add: is_digit_def)

lemma digit_val_digit_char [simp]: "d < 10 \<Longrightarrow> digit_val (digit_char d) = d"
  by (simp add: digit_val_def)

lemma show_nat_rec:
  "show_nat n = (if n < 10 then [digit_char n] else show_nat (n div 10) @ [digit_char (n mod 10)])"
  by (simp add: show_nat_def show_base.simps [of 10 n])

lemma show_nat_not_Nil [simp]: "show_nat n \<noteq> []"
  by (subst show_nat_rec) simp

lemma show_nat_digits: "c \<in> set (show_nat n) \<Longrightarrow> is_digit c"
proof (induction n rule: less_induct)
  case (less n)
  show ?case
  proof (cases "n < 10")
    case True
    with less.prems show ?thesis by (subst (asm) show_nat_rec) simp
  next
    case False
    with less.prems have "c \<in> set (show_nat (n div 10)) \<or> c = digit_char (n mod 10)"
      by (subst (asm) show_nat_rec) auto
    with False less.IH [of "n div 10"] show ?thesis by auto
  qed
qed

lemma scan_digits_append:
  assumes "\<forall>c \<in> set s. is_digit c"
  shows "scan_digits acc (s @ t) = scan_digits (fst (scan_digits acc s)) t"
  using assms by (induction s arbitrary: acc) auto

lemma scan_digits_all:
  "\<forall>c \<in> set s. is_digit c \<Longrightarrow> snd (scan_digits acc s) = []"
  by (induction s arbitrary: acc) auto

lemma scan_digits_show_nat: "fst (scan_digits 0 (show_nat n)) = n"
proof (induction n rule: less_induct)
  case (less n)
  show ?case
  proof (cases "n < 10")
    case True
    then show ?thesis by (subst show_nat_rec) simp
  next
    case False
    then have "fst (scan_digits 0 (show_nat (n div 10))) = n div 10"
      by (intro less.IH) simp
    with False show ?thesis
      by (subst show_nat_rec)
         (simp add: scan_digits_append show_nat_digits)
  qed
qed

lemma scan_digits_show_nat_append:
  assumes "r = [] \<or> \<not> is_digit (hd r)"
  shows "scan_digits 0 (show_nat n @ r) = (n, r)"
proof -
  have "scan_digits 0 (show_nat n @ r) = scan_digits n r"
    by (simp add: scan_digits_append show_nat_digits scan_digits_show_nat)
  also have "\<dots> = (n, r)" using assms by (cases r) auto
  finally show ?thesis .
qed

lemma show_nat_Cons:
  obtains c s where "show_nat n = c # s" "is_digit c"
  using show_nat_not_Nil [of n] show_nat_digits [of _ n]
  by (metis list.exhaust list.set_intros(1))

lemma scan_unsigned_show_nat:
  assumes "r = [] \<or> \<not> is_digit (hd r)"
  shows "scan_unsigned (show_nat n @ r) = Some (n, r)"
proof -
  obtain c s where "show_nat n = c # s" "is_digit c" by (rule show_nat_Cons)
  then show ?thesis
    using scan_digits_show_nat_append [OF assms, of n] by (simp add: scan_unsigned_def)
qed

lemma is_digit_not_sign [simp]:
  "is_digit c \<Longrightarrow> c \<noteq> CHR ''-''" "is_digit c \<Longrightarrow> c \<noteq> CHR ''+''" "is_digit c \<Longrightarrow> \<not> is_space c"
  by (auto simp: is_digit_def is_space_def)

lemma scan_int_show_nat:
  assumes "r = [] \<or> \<not> is_digit (hd r)"
  shows "scan_int (show_nat n @ r) = Some (int n, r)"
proof -
  obtain c s where cs: "show_nat n = c # s" "is_digit c" by (rule show_nat_Cons)
  then show ?thesis
    using scan_unsigned_show_nat [OF assms, of n] by (simp add: scan_int_def)
qed

lemma scan_int_show_int:
  assumes "r = [] \<or> \<not> is_digit (hd r)"
  shows "scan_int (show_int i @ r) = Some (i, r)"
proof (cases "i < 0")
  case True
  have "\<not> is_space (CHR ''-'')" by (simp add: is_space_def)
  with True scan_unsigned_show_nat [OF assms, of "nat (- i)"] show ?thesis
    by (simp add: show_int_def scan_int_def)
next
  case False
  with scan_int_show_nat [OF assms, of "nat i"] show ?thesis
    by (simp add: show_int_def)
qed

lemma stoi_show_int: "c_int_range i \<Longrightarrow> stoi (show_int i) = Some i"
  using scan_int_show_int [of "[]" i] by (simp add: stoi_def)

lemma stoi_show_nat: "n < 2147483648 \<Longrightarrow> stoi (show_nat n) = Some (int n)"
  using scan_int_show_nat [of "[]" n] by (simp add: stoi_def c_int_range_def)

lemma show_nat_inj: "show_nat m = show_nat n \<Longrightarrow> m = n"
  by (metis scan_digits_show_nat)

end
