(* ===== verification/Ceph_Types.thy ===== *)
theory Ceph_Types
  imports CxxString
begin

text \<open>
  \<open>src/bpf_ceph_types.h\<close>: the OSD op codes and their classification, the ObjectStore
  transaction op codes, and the structures the BPF programs and the userspace tools share.
  The two op tables are the source's X-macro tables, row by row; \<open>ceph_osd_op_str\<close> and
  \<open>objectstore_txn_op_str\<close> are the switches the sources expand from them.
\<close>

section \<open>OSD op codes\<close>

datatype osd_op_mode = RD | WR | RMW | SUB | CACHE
datatype osd_op_class = DATA | ATTR | EXEC | PG

fun osd_mode_bits :: "osd_op_mode \<Rightarrow> int" where
  "osd_mode_bits RD = 0x1000"
| "osd_mode_bits WR = 0x2000"
| "osd_mode_bits RMW = 0x3000"
| "osd_mode_bits SUB = 0x4000"
| "osd_mode_bits CACHE = 0x8000"

fun osd_class_bits :: "osd_op_class \<Rightarrow> int" where
  "osd_class_bits DATA = 0x0200"
| "osd_class_bits ATTR = 0x0300"
| "osd_class_bits EXEC = 0x0400"
| "osd_class_bits PG = 0x0500"

definition CEPH_OSD_OP_TYPE :: int where
  "CEPH_OSD_OP_TYPE = 0x0f00"

definition CEPH_OSD_OP_MODE :: int where
  "CEPH_OSD_OP_MODE = 0xf000"

definition osd_op1 :: "osd_op_mode \<Rightarrow> int \<Rightarrow> int" where
  "osd_op1 mode nr = osd_mode_bits mode OR nr"

definition osd_op :: "osd_op_mode \<Rightarrow> osd_op_class \<Rightarrow> int \<Rightarrow> int" where
  "osd_op mode cls nr = osd_mode_bits mode OR (osd_class_bits cls OR nr)"

definition ceph_osd_ops :: "(string \<times> int \<times> string) list" where
  "ceph_osd_ops =
    [(''READ'', osd_op RD DATA 1, ''read''),
     (''STAT'', osd_op RD DATA 2, ''stat''),
     (''MAPEXT'', osd_op RD DATA 3, ''mapext''),
     (''CHECKSUM'', osd_op RD DATA 31, ''checksum''),
     (''MASKTRUNC'', osd_op RD DATA 4, ''masktrunc''),
     (''SPARSE_READ'', osd_op RD DATA 5, ''sparse-read''),
     (''NOTIFY'', osd_op RD DATA 6, ''notify''),
     (''NOTIFY_ACK'', osd_op RD DATA 7, ''notify-ack''),
     (''ASSERT_VER'', osd_op RD DATA 8, ''assert-version''),
     (''LIST_WATCHERS'', osd_op RD DATA 9, ''list-watchers''),
     (''LIST_SNAPS'', osd_op RD DATA 10, ''list-snaps''),
     (''SYNC_READ'', osd_op RD DATA 11, ''sync_read''),
     (''WRITE'', osd_op WR DATA 1, ''write''),
     (''WRITEFULL'', osd_op WR DATA 2, ''writefull''),
     (''TRUNCATE'', osd_op WR DATA 3, ''truncate''),
     (''ZERO'', osd_op WR DATA 4, ''zero''),
     (''DELETE'', osd_op WR DATA 5, ''delete''),
     (''APPEND'', osd_op WR DATA 6, ''append''),
     (''STARTSYNC'', osd_op WR DATA 7, ''startsync''),
     (''SETTRUNC'', osd_op WR DATA 8, ''settrunc''),
     (''TRIMTRUNC'', osd_op WR DATA 9, ''trimtrunc''),
     (''TMAPUP'', osd_op RMW DATA 10, ''tmapup''),
     (''TMAPPUT'', osd_op WR DATA 11, ''tmapput''),
     (''TMAPGET'', osd_op RD DATA 12, ''tmapget''),
     (''CREATE'', osd_op WR DATA 13, ''create''),
     (''ROLLBACK'', osd_op WR DATA 14, ''rollback''),
     (''WATCH'', osd_op WR DATA 15, ''watch''),
     (''OMAPGETKEYS'', osd_op RD DATA 17, ''omap-get-keys''),
     (''OMAPGETVALS'', osd_op RD DATA 18, ''omap-get-vals''),
     (''OMAPGETHEADER'', osd_op RD DATA 19, ''omap-get-header''),
     (''OMAPGETVALSBYKEYS'', osd_op RD DATA 20, ''omap-get-vals-by-keys''),
     (''OMAPSETVALS'', osd_op WR DATA 21, ''omap-set-vals''),
     (''OMAPSETHEADER'', osd_op WR DATA 22, ''omap-set-header''),
     (''OMAPCLEAR'', osd_op WR DATA 23, ''omap-clear''),
     (''OMAPRMKEYS'', osd_op WR DATA 24, ''omap-rm-keys''),
     (''OMAPRMKEYRANGE'', osd_op WR DATA 44, ''omap-rm-key-range''),
     (''OMAP_CMP'', osd_op RD DATA 25, ''omap-cmp''),
     (''COPY_FROM'', osd_op WR DATA 26, ''copy-from''),
     (''COPY_FROM2'', osd_op WR DATA 45, ''copy-from2''),
     (''UNDIRTY'', osd_op WR DATA 28, ''undirty''),
     (''ISDIRTY'', osd_op RD DATA 29, ''isdirty''),
     (''COPY_GET'', osd_op RD DATA 30, ''copy-get''),
     (''CACHE_FLUSH'', osd_op CACHE DATA 31, ''cache-flush''),
     (''CACHE_EVICT'', osd_op CACHE DATA 32, ''cache-evict''),
     (''CACHE_TRY_FLUSH'', osd_op CACHE DATA 33, ''cache-try-flush''),
     (''TMAP2OMAP'', osd_op RMW DATA 34, ''tmap2omap''),
     (''SETALLOCHINT'', osd_op WR DATA 35, ''set-alloc-hint''),
     (''CACHE_PIN'', osd_op WR DATA 36, ''cache-pin''),
     (''CACHE_UNPIN'', osd_op WR DATA 37, ''cache-unpin''),
     (''WRITESAME'', osd_op WR DATA 38, ''write-same''),
     (''CMPEXT'', osd_op RD DATA 32, ''cmpext''),
     (''SET_REDIRECT'', osd_op WR DATA 39, ''set-redirect''),
     (''SET_CHUNK'', osd_op CACHE DATA 40, ''set-chunk''),
     (''TIER_PROMOTE'', osd_op WR DATA 41, ''tier-promote''),
     (''UNSET_MANIFEST'', osd_op WR DATA 42, ''unset-manifest''),
     (''TIER_FLUSH'', osd_op CACHE DATA 43, ''tier-flush''),
     (''TIER_EVICT'', osd_op CACHE DATA 44, ''tier-evict''),
     (''GETXATTR'', osd_op RD ATTR 1, ''getxattr''),
     (''GETXATTRS'', osd_op RD ATTR 2, ''getxattrs''),
     (''CMPXATTR'', osd_op RD ATTR 3, ''cmpxattr''),
     (''SETXATTR'', osd_op WR ATTR 1, ''setxattr''),
     (''SETXATTRS'', osd_op WR ATTR 2, ''setxattrs''),
     (''RESETXATTRS'', osd_op WR ATTR 3, ''resetxattrs''),
     (''RMXATTR'', osd_op WR ATTR 4, ''rmxattr''),
     (''PULL'', osd_op1 SUB 1, ''pull''),
     (''PUSH'', osd_op1 SUB 2, ''push''),
     (''BALANCEREADS'', osd_op1 SUB 3, ''balance-reads''),
     (''UNBALANCEREADS'', osd_op1 SUB 4, ''unbalance-reads''),
     (''SCRUB'', osd_op1 SUB 5, ''scrub''),
     (''SCRUB_RESERVE'', osd_op1 SUB 6, ''scrub-reserve''),
     (''SCRUB_UNRESERVE'', osd_op1 SUB 7, ''scrub-unreserve''),
     (''SCRUB_MAP'', osd_op1 SUB 9, ''scrub-map''),
     (''CALL'', osd_op RD EXEC 1, ''call''),
     (''PGLS'', osd_op RD PG 1, ''pgls''),
     (''PGLS_FILTER'', osd_op RD PG 2, ''pgls-filter''),
     (''PG_HITSET_LS'', osd_op RD PG 3, ''pg-hitset-ls''),
     (''PG_HITSET_GET'', osd_op RD PG 4, ''pg-hitset-get''),
     (''PGNLS'', osd_op RD PG 5, ''pgnls''),
     (''PGNLS_FILTER'', osd_op RD PG 6, ''pgnls-filter''),
     (''SCRUBLS'', osd_op RD PG 7, ''scrubls'')]"

definition CEPH_OSD_OP_READ :: int where
  "CEPH_OSD_OP_READ = osd_op RD DATA 1"

definition CEPH_OSD_OP_SPARSE_READ :: int where
  "CEPH_OSD_OP_SPARSE_READ = osd_op RD DATA 5"

definition CEPH_OSD_OP_SYNC_READ :: int where
  "CEPH_OSD_OP_SYNC_READ = osd_op RD DATA 11"

definition CEPH_OSD_OP_WRITE :: int where
  "CEPH_OSD_OP_WRITE = osd_op WR DATA 1"

definition CEPH_OSD_OP_WRITEFULL :: int where
  "CEPH_OSD_OP_WRITEFULL = osd_op WR DATA 2"

definition CEPH_OSD_OP_ZERO :: int where
  "CEPH_OSD_OP_ZERO = osd_op WR DATA 4"

definition CEPH_OSD_OP_APPEND :: int where
  "CEPH_OSD_OP_APPEND = osd_op WR DATA 6"

definition CEPH_OSD_OP_MAPEXT :: int where
  "CEPH_OSD_OP_MAPEXT = osd_op RD DATA 3"

definition CEPH_OSD_OP_CMPEXT :: int where
  "CEPH_OSD_OP_CMPEXT = osd_op RD DATA 32"

definition CEPH_OSD_OP_OMAPSETVALS :: int where
  "CEPH_OSD_OP_OMAPSETVALS = osd_op WR DATA 21"

definition CEPH_OSD_OP_OMAPGETKEYS :: int where
  "CEPH_OSD_OP_OMAPGETKEYS = osd_op RD DATA 17"

definition CEPH_OSD_OP_CALL :: int where
  "CEPH_OSD_OP_CALL = osd_op RD EXEC 1"

lemmas osd_op_defs =
  osd_op_def osd_op1_def CEPH_OSD_OP_READ_def CEPH_OSD_OP_SPARSE_READ_def CEPH_OSD_OP_SYNC_READ_def CEPH_OSD_OP_WRITE_def CEPH_OSD_OP_WRITEFULL_def CEPH_OSD_OP_ZERO_def CEPH_OSD_OP_APPEND_def CEPH_OSD_OP_MAPEXT_def CEPH_OSD_OP_CMPEXT_def CEPH_OSD_OP_OMAPSETVALS_def CEPH_OSD_OP_OMAPGETKEYS_def CEPH_OSD_OP_CALL_def

definition ceph_osd_op_str :: "int \<Rightarrow> string option" where
  "ceph_osd_op_str opc = map_of (map snd ceph_osd_ops) opc"

definition ceph_osd_op_call :: "int \<Rightarrow> bool" where
  "ceph_osd_op_call opc \<longleftrightarrow> opc = CEPH_OSD_OP_CALL"

definition ceph_osd_op_extent :: "int \<Rightarrow> bool" where
  "ceph_osd_op_extent opc \<longleftrightarrow>
     opc = CEPH_OSD_OP_READ \<or> opc = CEPH_OSD_OP_SPARSE_READ \<or> opc = CEPH_OSD_OP_SYNC_READ \<or>
     opc = CEPH_OSD_OP_WRITE \<or> opc = CEPH_OSD_OP_WRITEFULL \<or> opc = CEPH_OSD_OP_ZERO \<or>
     opc = CEPH_OSD_OP_APPEND \<or> opc = CEPH_OSD_OP_MAPEXT \<or> opc = CEPH_OSD_OP_CMPEXT \<or>
     opc = CEPH_OSD_OP_OMAPSETVALS \<or> opc = CEPH_OSD_OP_OMAPGETKEYS"

definition ceph_osd_op_type_data :: "int \<Rightarrow> bool" where
  "ceph_osd_op_type_data opc \<longleftrightarrow> opc AND CEPH_OSD_OP_TYPE = osd_class_bits DATA"

definition ceph_osd_op_type_attr :: "int \<Rightarrow> bool" where
  "ceph_osd_op_type_attr opc \<longleftrightarrow> opc AND CEPH_OSD_OP_TYPE = osd_class_bits ATTR"

definition ceph_osd_op_type_exec :: "int \<Rightarrow> bool" where
  "ceph_osd_op_type_exec opc \<longleftrightarrow> opc AND CEPH_OSD_OP_TYPE = osd_class_bits EXEC"

definition ceph_osd_op_type_pg :: "int \<Rightarrow> bool" where
  "ceph_osd_op_type_pg opc \<longleftrightarrow> opc AND CEPH_OSD_OP_TYPE = osd_class_bits PG"

lemma distinct_osd_opcodes: "distinct (map (fst \<circ> snd) ceph_osd_ops)"
  by (simp add: ceph_osd_ops_def osd_op_defs)

lemma distinct_osd_op_names: "distinct (map (snd \<circ> snd) ceph_osd_ops)"
  by (simp add: ceph_osd_ops_def)

lemma ceph_osd_op_str_Some_iff:
  "ceph_osd_op_str opc = Some s \<longleftrightarrow> (\<exists>nm. (nm, opc, s) \<in> set ceph_osd_ops)"
proof -
  have "distinct (map fst (map snd ceph_osd_ops))"
    using distinct_osd_opcodes by simp
  then have "map_of (map snd ceph_osd_ops) opc = Some s \<longleftrightarrow> (opc, s) \<in> set (map snd ceph_osd_ops)"
    by (rule map_of_eq_Some_iff)
  then show ?thesis by (force simp: ceph_osd_op_str_def)
qed

lemma ceph_osd_op_str_inj:
  assumes "ceph_osd_op_str a = Some s" and "ceph_osd_op_str b = Some s"
  shows "a = b"
proof -
  from assms obtain m n where "(m, a, s) \<in> set ceph_osd_ops" "(n, b, s) \<in> set ceph_osd_ops"
    by (auto simp: ceph_osd_op_str_Some_iff)
  moreover have "inj_on (snd \<circ> snd) (set ceph_osd_ops)"
    using distinct_osd_op_names by (simp add: distinct_map)
  ultimately show ?thesis
    using inj_onD [of "snd \<circ> snd" "set ceph_osd_ops" "(m, a, s)" "(n, b, s)"] by simp
qed

section \<open>ObjectStore transaction op codes\<close>

definition objectstore_txn_ops :: "(string \<times> int \<times> string) list" where
  "objectstore_txn_ops =
    [(''NOP'', 0, ''nop''),
     (''CREATE'', 7, ''create''),
     (''COLL_MOVE'', 8, ''coll_move''),
     (''TOUCH'', 9, ''touch''),
     (''WRITE'', 10, ''write''),
     (''ZERO'', 11, ''zero''),
     (''TRUNCATE'', 12, ''truncate''),
     (''REMOVE'', 13, ''remove''),
     (''SETATTR'', 14, ''setattr''),
     (''SETATTRS'', 15, ''setattrs''),
     (''RMATTR'', 16, ''rmattr''),
     (''CLONE'', 17, ''clone''),
     (''CLONERANGE'', 18, ''clonerange''),
     (''TRIMCACHE'', 19, ''trimcache''),
     (''MKCOLL'', 20, ''mkcoll''),
     (''RMCOLL'', 21, ''rmcoll''),
     (''COLL_ADD'', 22, ''coll_add''),
     (''COLL_REMOVE'', 23, ''coll_remove''),
     (''COLL_SETATTR'', 24, ''coll_setattr''),
     (''COLL_RMATTR'', 25, ''coll_rmattr''),
     (''COLL_SETATTRS'', 26, ''coll_setattrs''),
     (''RMATTRS'', 28, ''rmattrs''),
     (''COLL_RENAME'', 29, ''coll_rename''),
     (''CLONERANGE2'', 30, ''clonerange2''),
     (''OMAP_CLEAR'', 31, ''omap_clear''),
     (''OMAP_SETKEYS'', 32, ''omap_setkeys''),
     (''OMAP_RMKEYS'', 33, ''omap_rmkeys''),
     (''OMAP_SETHEADER'', 34, ''omap_setheader''),
     (''SPLIT_COLLECTION'', 35, ''split_collection''),
     (''SPLIT_COLLECTION2'', 36, ''split_collection2''),
     (''OMAP_RMKEYRANGE'', 37, ''omap_rmkeyrange''),
     (''COLL_MOVE_RENAME'', 38, ''coll_move_rename''),
     (''SETALLOCHINT'', 39, ''setallochint''),
     (''COLL_HINT'', 40, ''coll_hint''),
     (''TRY_RENAME'', 41, ''try_rename''),
     (''COLL_SET_BITS'', 42, ''coll_set_bits''),
     (''MERGE_COLLECTION'', 43, ''merge_collection''),
     (''TOUCH_TEMP'', 44, ''touch_temp'')]"

definition objectstore_txn_op_str :: "int \<Rightarrow> string option" where
  "objectstore_txn_op_str opc = map_of (map snd objectstore_txn_ops) opc"

lemma distinct_txn_opcodes: "distinct (map (fst \<circ> snd) objectstore_txn_ops)"
  by (simp add: objectstore_txn_ops_def)

section \<open>Constants\<close>

definition MSG_OSD_OP :: u16 where "MSG_OSD_OP = 42"
definition MSG_OSD_REPOP :: u16 where "MSG_OSD_REPOP = 112"
definition MAX_ACTING :: nat where "MAX_ACTING = 16"
definition MAX_CLIENT_OPS :: nat where "MAX_CLIENT_OPS = 3"
definition OBJECT_NAME_LEN :: nat where "OBJECT_NAME_LEN = 64"
definition MAX_DETAIL_OPS :: nat where "MAX_DETAIL_OPS = 8"
definition BS_LAT_NAME_LEN :: nat where "BS_LAT_NAME_LEN = 40"
definition CEPH_OSD_FLAG_WRITE :: u16 where "CEPH_OSD_FLAG_WRITE = 0x0020"
definition flag_delayed :: u8 where "flag_delayed = 4"
definition OBJECTSTORE_TXN_OP_SIZE :: u64 where "OBJECTSTORE_TXN_OP_SIZE = 72"
definition OSDTRACE_BUFFER_PTR_RAW_OFFSET :: u64 where "OSDTRACE_BUFFER_PTR_RAW_OFFSET = 8"
definition OSDTRACE_BUFFER_PTR_OFF_OFFSET :: u64 where "OSDTRACE_BUFFER_PTR_OFF_OFFSET = 16"
definition OSDTRACE_BUFFER_RAW_DATA_OFFSET :: u64 where "OSDTRACE_BUFFER_RAW_DATA_OFFSET = 32"

lemmas ceph_const_defs =
  MSG_OSD_OP_def MSG_OSD_REPOP_def MAX_ACTING_def MAX_CLIENT_OPS_def OBJECT_NAME_LEN_def
  MAX_DETAIL_OPS_def BS_LAT_NAME_LEN_def CEPH_OSD_FLAG_WRITE_def flag_delayed_def
  OBJECTSTORE_TXN_OP_SIZE_def OSDTRACE_BUFFER_PTR_RAW_OFFSET_def
  OSDTRACE_BUFFER_PTR_OFF_OFFSET_def OSDTRACE_BUFFER_RAW_DATA_OFFSET_def

section \<open>Shared structures\<close>

text \<open>Arrays are lists; their C lengths are part of \<open>op_v_shape\<close> and \<open>client_op_v_shape\<close>.\<close>

record cls_op =
  cls_name :: bytes      \<comment> \<open>\<open>char[16]\<close>\<close>
  method_name :: bytes   \<comment> \<open>\<open>char[32]\<close>\<close>

record client_op_k =
  ck_cid :: u64
  ck_tid :: u64

record client_op_v =
  cv_cid :: u64
  cv_tid :: u64
  cv_rw :: u16
  cv_sent_stamp :: u64
  cv_finish_stamp :: u64
  cv_target_osd :: u32
  cv_pid :: u32
  cv_object_name :: bytes
  cv_m_pool :: u64
  cv_m_seed :: u32
  cv_acting :: "int list"
  cv_offset :: u64
  cv_length :: u64
  cv_ops :: "u16 list"
  cv_ops_size :: u32
  cv_cls_ops :: "cls_op list"

record op_k =
  k_pid :: u32
  k_owner :: u64
  k_tid :: u64

record ctx_k =
  x_pid :: u32
  x_seqid :: u32
  x_start_stamp :: u64

record peers_info =
  peer1 :: int
  peer2 :: int
  sent_stamp :: u64
  recv_stamp1 :: u64
  recv_stamp2 :: u64

record delay_info =
  d_cnt :: int
  d_delays :: "bytes list"

record bluestore_lat_v =
  bl_pid :: u32
  bl_lat :: u64
  bl_name :: bytes

record op_v =
  v_pid :: u32
  v_owner :: u64
  v_tid :: u64
  v_op_type :: u16
  v_recv_stamp :: u64
  v_throttle_stamp :: u64
  v_recv_complete_stamp :: u64
  v_dispatch_stamp :: u64
  v_enqueue_stamp :: u64
  v_dequeue_stamp :: u64
  v_execute_ctx_stamp :: u64
  v_submit_transaction_stamp :: u64
  v_queue_transaction_stamp :: u64
  v_do_write_stamp :: u64
  v_wctx_finish_stamp :: u64
  v_aio_submit_stamp :: u64
  v_aio_done_stamp :: u64
  v_kv_submit_stamp :: u64
  v_kv_committed_stamp :: u64
  v_aio_size :: int
  v_pi :: peers_info
  v_di :: delay_info
  v_reply_stamp :: u64
  v_wb :: u64
  v_rb :: u64
  v_m_pool :: u64
  v_m_seed :: u32
  v_object_name :: bytes
  v_detail_ops :: "u32 list"
  v_cls_ops :: "cls_op list"
  v_detail_ops_captured :: u32
  v_detail_ops_total :: u32
  v_detail_ops_unavailable :: u32

record VarLocation =
  vl_reg :: int
  vl_offset :: int
  vl_stack :: bool

record Field =
  f_offset :: int
  f_pointer :: bool

text \<open>\<open>VarField\<close> of the BPF side (and \<open>VarField_Kernel\<close>): ten field slots and a size.\<close>

record VarField =
  vf_varloc :: VarLocation
  vf_fields :: "Field list"
  vf_size :: int

text \<open>\<open>VarField\<close> of the userspace side: a vector of fields.\<close>

record UVarField =
  uv_varloc :: VarLocation
  uv_fields :: "Field list"

definition zero_cls_op :: cls_op where
  "zero_cls_op = \<lparr>cls_name = replicate 16 0, method_name = replicate 32 0\<rparr>"

definition VarLocation_init :: VarLocation where
  "VarLocation_init = \<lparr>vl_reg = 0, vl_offset = 0, vl_stack = False\<rparr>"

definition zero_op_v :: op_v where
  "zero_op_v = \<lparr>v_pid = 0, v_owner = 0, v_tid = 0, v_op_type = 0, v_recv_stamp = 0,
     v_throttle_stamp = 0, v_recv_complete_stamp = 0, v_dispatch_stamp = 0,
     v_enqueue_stamp = 0, v_dequeue_stamp = 0, v_execute_ctx_stamp = 0,
     v_submit_transaction_stamp = 0, v_queue_transaction_stamp = 0, v_do_write_stamp = 0,
     v_wctx_finish_stamp = 0, v_aio_submit_stamp = 0, v_aio_done_stamp = 0,
     v_kv_submit_stamp = 0, v_kv_committed_stamp = 0, v_aio_size = 0,
     v_pi = \<lparr>peer1 = 0, peer2 = 0, sent_stamp = 0, recv_stamp1 = 0, recv_stamp2 = 0\<rparr>,
     v_di = \<lparr>d_cnt = 0, d_delays = replicate 5 (replicate 32 0)\<rparr>,
     v_reply_stamp = 0, v_wb = 0, v_rb = 0, v_m_pool = 0, v_m_seed = 0,
     v_object_name = replicate 64 0, v_detail_ops = replicate 8 0,
     v_cls_ops = replicate 8 zero_cls_op, v_detail_ops_captured = 0,
     v_detail_ops_total = 0, v_detail_ops_unavailable = 0\<rparr>"

definition zero_client_op_v :: client_op_v where
  "zero_client_op_v = \<lparr>cv_cid = 0, cv_tid = 0, cv_rw = 0, cv_sent_stamp = 0,
     cv_finish_stamp = 0, cv_target_osd = 0, cv_pid = 0, cv_object_name = replicate 128 0,
     cv_m_pool = 0, cv_m_seed = 0, cv_acting = replicate 16 0, cv_offset = 0, cv_length = 0,
     cv_ops = replicate 3 0, cv_ops_size = 0, cv_cls_ops = replicate 3 zero_cls_op\<rparr>"

section \<open>Structure sizes\<close>

text \<open>
  \<open>sizeof\<close> by the natural-alignment rule of the C ABI: each member, given as its size and
  alignment, starts at the next multiple of its alignment, and the whole is rounded up to the
  largest alignment. A packed structure is the plain sum.
\<close>

definition round_up :: "nat \<Rightarrow> nat \<Rightarrow> nat" where
  "round_up n a = (if n mod a = 0 then n else n + (a - n mod a))"

fun layout_end :: "nat \<Rightarrow> (nat \<times> nat) list \<Rightarrow> nat" where
  "layout_end off [] = off"
| "layout_end off ((sz, al) # ms) = layout_end (round_up off al + sz) ms"

fun max_align :: "(nat \<times> nat) list \<Rightarrow> nat" where
  "max_align [] = 1"
| "max_align ((sz, al) # ms) = max al (max_align ms)"

definition c_sizeof :: "(nat \<times> nat) list \<Rightarrow> nat" where
  "c_sizeof ms = round_up (layout_end 0 ms) (max_align ms)"

definition packed_sizeof :: "(nat \<times> nat) list \<Rightarrow> nat" where
  "packed_sizeof ms = sum_list (map fst ms)"

definition bluestore_lat_v_members :: "(nat \<times> nat) list" where
  "bluestore_lat_v_members = [(4, 4), (8, 8), (40, 1)]"

definition peers_info_members :: "(nat \<times> nat) list" where
  "peers_info_members = [(4, 4), (4, 4), (8, 8), (8, 8), (8, 8)]"

definition delay_info_members :: "(nat \<times> nat) list" where
  "delay_info_members = [(4, 4), (5 * 32, 1)]"

definition op_v_members :: "(nat \<times> nat) list" where
  "op_v_members =
     [(4, 4), (8, 8), (8, 8), (2, 2)] @ replicate 15 (8, 8) @
     [(4, 4), (c_sizeof peers_info_members, 8), (c_sizeof delay_info_members, 4),
      (8, 8), (8, 8), (8, 8), (8, 8), (4, 4), (64, 1), (8 * 4, 4), (8 * 48, 1),
      (4, 4), (4, 4), (4, 4)]"

definition sizeof_op_v :: nat where
  "sizeof_op_v = c_sizeof op_v_members"

definition sizeof_bluestore_lat_v :: nat where
  "sizeof_bluestore_lat_v = c_sizeof bluestore_lat_v_members"

lemma sizeof_bluestore_lat_v_eq: "sizeof_bluestore_lat_v = 56"
  by (simp add: sizeof_bluestore_lat_v_def c_sizeof_def bluestore_lat_v_members_def round_up_def)

lemma sizeof_op_v_eq: "sizeof_op_v = 888"
  by code_simp

end
