(* ===== verification/Bpf_Runtime.thy ===== *)
theory Bpf_Runtime
  imports Ceph_Types
begin

text \<open>
  \<open>src/bpf_utils.h\<close> and the kernel services the BPF programs call. The kernel is a parameter:
  one record for what a probe invocation sees (registers, clock, user memory, whether the
  ring buffer has room), and for each BPF map an update function that must satisfy the laws
  of the locale \<open>lru_map\<close> or \<open>hash_map\<close>. The x86-64 branch of \<open>fetch_register\<close> is modelled;
  the arm64 branch is modelled separately and not used by the probes below.
\<close>

section \<open>What one invocation sees\<close>

record pt_regs =
  r_ax :: u64
  r_dx :: u64
  r_cx :: u64
  r_bx :: u64
  r_si :: u64
  r_di :: u64
  r_bp :: u64
  r_sp :: u64
  r_8 :: u64
  r_9 :: u64
  r_10 :: u64
  r_11 :: u64
  r_12 :: u64
  r_13 :: u64
  r_14 :: u64
  r_15 :: u64

text \<open>
  \<open>read_user a n\<close> is what the destination holds after \<open>bpf_probe_read_user(dst, n, a)\<close>; no
  caller in the uprobe programs looks at its return value, and on a fault the kernel fills the
  destination. \<open>read_user_str a n\<close> is what \<open>bpf_probe_read_user_str\<close> has written.
\<close>

record user_mem =
  read_user :: "u64 \<Rightarrow> nat \<Rightarrow> bytes"
  read_user_str :: "u64 \<Rightarrow> nat \<Rightarrow> bytes"

text \<open>
  \<open>e_ktime i\<close> is the \<open>i\<close>-th answer of \<open>bpf_ktime_get_boot_ns\<close> within the invocation and
  \<open>e_rb_ok\<close> says whether \<open>bpf_ringbuf_reserve\<close> finds room.
\<close>

record kenv =
  e_regs :: pt_regs
  e_pid_tgid :: u64
  e_ktime :: "nat \<Rightarrow> u64"
  e_mem :: user_mem
  e_rb_ok :: bool
  e_cpu :: nat

definition get_pid :: "kenv \<Rightarrow> u32" where
  "get_pid e = ucast (drop_bit 32 (e_pid_tgid e))"

definition get_tid :: "kenv \<Rightarrow> u32" where
  "get_tid e = ucast (e_pid_tgid e)"

lemma get_pid_tid_inj:
  assumes "get_pid a = get_pid b" and "get_tid a = get_tid b"
  shows "e_pid_tgid a = e_pid_tgid b"
proof (rule bit_word_eqI)
  fix n assume "n < LENGTH(64)"
  show "bit (e_pid_tgid a) n \<longleftrightarrow> bit (e_pid_tgid b) n"
  proof (cases "n < 32")
    case True
    from assms(2) have "bit (ucast (e_pid_tgid a) :: u32) n = bit (ucast (e_pid_tgid b) :: u32) n"
      by (simp add: get_tid_def)
    with True show ?thesis by (simp add: bit_simps)
  next
    case False
    then obtain m where m: "n = 32 + m" by (metis le_Suc_ex linorder_not_less)
    from assms(1) have "bit (ucast (drop_bit 32 (e_pid_tgid a)) :: u32) m
        = bit (ucast (drop_bit 32 (e_pid_tgid b)) :: u32) m"
      by (simp add: get_pid_def)
    with m \<open>n < LENGTH(64)\<close> show ?thesis by (simp add: bit_simps)
  qed
qed

text \<open>The argument registers that libbpf's \<open>PT_REGS_PARMn\<close> name on x86-64.\<close>

definition PT_REGS_PARM2 :: "pt_regs \<Rightarrow> u64" where "PT_REGS_PARM2 r = r_si r"
definition PT_REGS_PARM3 :: "pt_regs \<Rightarrow> u64" where "PT_REGS_PARM3 r = r_dx r"
definition PT_REGS_PARM4 :: "pt_regs \<Rightarrow> u64" where "PT_REGS_PARM4 r = r_cx r"

definition fetch_register :: "pt_regs \<Rightarrow> int \<Rightarrow> u64" where
  "fetch_register ctx reg =
     (if reg = 0 then r_ax ctx
      else if reg = 1 then r_dx ctx
      else if reg = 2 then r_cx ctx
      else if reg = 3 then r_bx ctx
      else if reg = 4 then r_si ctx
      else if reg = 5 then r_di ctx
      else if reg = 6 then r_bp ctx
      else if reg = 7 then r_sp ctx
      else if reg = 8 then r_8 ctx
      else if reg = 9 then r_9 ctx
      else if reg = 10 then r_10 ctx
      else if reg = 11 then r_11 ctx
      else if reg = 12 then r_12 ctx
      else if reg = 13 then r_13 ctx
      else if reg = 14 then r_14 ctx
      else if reg = 15 then r_15 ctx
      else 0)"

definition fetch_register_arm64 :: "u64 list \<Rightarrow> u64 \<Rightarrow> int \<Rightarrow> u64" where
  "fetch_register_arm64 regs sp reg =
     (if 0 \<le> reg \<and> reg \<le> 30 then regs ! nat reg else if reg = 31 then sp else 0)"

lemma fetch_register_unknown: "reg < 0 \<or> 15 < reg \<Longrightarrow> fetch_register ctx reg = 0"
  by (auto simp: fetch_register_def)

section \<open>Time\<close>

record utime_t =
  u_sec :: u32
  u_nsec :: u32

definition to_nsec :: "utime_t \<Rightarrow> u64" where
  "to_nsec ut = ucast (u_sec ut) * 1000000000 + ucast (u_nsec ut)"

lemma unat_to_nsec: "unat (to_nsec ut) = unat (u_sec ut) * 1000000000 + unat (u_nsec ut)"
proof -
  have "unat (u_sec ut) < 4294967296" "unat (u_nsec ut) < 4294967296"
    using unsigned_less [of "u_sec ut"] unsigned_less [of "u_nsec ut"] by simp_all
  then show ?thesis
    by (simp add: to_nsec_def unat_word_ariths unat_ucast_up)
qed

section \<open>The member walk\<close>

text \<open>
  One step of the unrolled walk: field \<open>i\<close> either dereferences the current address and adds
  its offset, or only adds its offset.
\<close>

definition field_step :: "user_mem \<Rightarrow> Field \<Rightarrow> u64 \<Rightarrow> u64" where
  "field_step um f cur =
     (if f_pointer f then u64_of (read_user um cur 8) + of_int (f_offset f)
      else cur + of_int (f_offset f))"

text \<open>\<open>fetch_var_member_addr\<close>, with the nine unrolled steps and the early returns between them.\<close>

definition fetch_var_member_addr :: "user_mem \<Rightarrow> u64 \<Rightarrow> VarField \<Rightarrow> u64" where
  "fetch_var_member_addr um cur0 vf =
     (let fl = vf_fields vf; sz = vf_size vf; loc = vf_varloc vf in
      if cur0 = 0 then 0
      else
        let cur = (if vl_stack loc
                   then (let c = cur0 + of_int (vl_offset loc) in
                         if f_pointer (fl ! 1) then u64_of (read_user um c 8) else c)
                   else cur0);
            c1 = cur + of_int (f_offset (fl ! 1)) in
        if 2 \<ge> sz then c1 else
        let c2 = field_step um (fl ! 2) c1 in
        if 3 \<ge> sz then c2 else
        let c3 = field_step um (fl ! 3) c2 in
        if 4 \<ge> sz then c3 else
        let c4 = field_step um (fl ! 4) c3 in
        if 5 \<ge> sz then c4 else
        let c5 = field_step um (fl ! 5) c4 in
        if 6 \<ge> sz then c5 else
        let c6 = field_step um (fl ! 6) c5 in
        if 7 \<ge> sz then c6 else
        let c7 = field_step um (fl ! 7) c6 in
        if 8 \<ge> sz then c7 else
        let c8 = field_step um (fl ! 8) c7 in
        if 9 \<ge> sz then c8 else
        field_step um (fl ! 9) c8)"

text \<open>
  The walk as the loop it stands for: the root value, the first member, then one step per
  further field of the path.
\<close>

fun walk_fields :: "user_mem \<Rightarrow> Field list \<Rightarrow> u64 \<Rightarrow> u64" where
  "walk_fields um [] cur = cur"
| "walk_fields um (f # fs) cur = walk_fields um fs (field_step um f cur)"

definition root_addr :: "user_mem \<Rightarrow> VarLocation \<Rightarrow> Field \<Rightarrow> u64 \<Rightarrow> u64" where
  "root_addr um loc f1 v =
     (if \<not> vl_stack loc then v
      else let c = v + of_int (vl_offset loc) in
           if f_pointer f1 then u64_of (read_user um c 8) else c)"

definition path_addr :: "user_mem \<Rightarrow> u64 \<Rightarrow> VarLocation \<Rightarrow> Field list \<Rightarrow> u64" where
  "path_addr um v loc path =
     (if v = 0 then 0
      else walk_fields um (drop 2 path) (root_addr um loc (path ! 1) v + of_int (f_offset (path ! 1))))"

text \<open>For the path lengths the field array can hold, the unrolled code is that loop.\<close>

lemma drop2_take:
  "n \<le> length fl \<Longrightarrow> drop 2 (take n fl) = map ((!) fl) [2..<n]"
  by (auto simp: list_eq_iff_nth_eq)

lemma fetch_is_path_addr:
  assumes "2 \<le> vf_size vf" and "vf_size vf \<le> 10" and "vf_size vf \<le> int (length (vf_fields vf))"
  shows "fetch_var_member_addr um v vf =
    path_addr um v (vf_varloc vf) (take (nat (vf_size vf)) (vf_fields vf))"
proof -
  define n where "n = nat (vf_size vf)"
  have sz: "vf_size vf = int n" "2 \<le> n" "n \<le> length (vf_fields vf)"
    using assms by (simp_all add: n_def)
  have drops: "drop 2 (take m (vf_fields vf)) = map ((!) (vf_fields vf)) [2..<m]" if "m = n" for m
    using drop2_take sz(3) that by blast
  from sz(2) assms(2) sz(1) have "n \<in> {2, 3, 4, 5, 6, 7, 8, 9, 10}"
    by simp linarith
  then show ?thesis
    by (elim insertE emptyE)
      (simp_all add: fetch_var_member_addr_def path_addr_def drops root_addr_def Let_def sz(1))
qed

section \<open>Reading a probe variable\<close>

type_synonym hprobes = "int \<Rightarrow> VarField option"

definition read_hprobe_varfield :: "kenv \<Rightarrow> hprobes \<Rightarrow> int \<Rightarrow> nat \<Rightarrow> bytes option" where
  "read_hprobe_varfield e hp varid sz =
     (case hp varid of
        Some vf \<Rightarrow>
          (let v = fetch_register (e_regs e) (vl_reg (vf_varloc vf));
               addr = fetch_var_member_addr (e_mem e) v vf
           in Some (read_user (e_mem e) addr sz))
      | None \<Rightarrow> None)"

definition read_hprobe_utime :: "kenv \<Rightarrow> hprobes \<Rightarrow> int \<Rightarrow> u64 option" where
  "read_hprobe_utime e hp varid =
     (case hp varid of
        Some vf \<Rightarrow>
          (let v = fetch_register (e_regs e) (vl_reg (vf_varloc vf));
               addr = fetch_var_member_addr (e_mem e) v vf;
               stamp = \<lparr>u_sec = u32_of (read_user (e_mem e) addr 4),
                        u_nsec = u32_of (read_user (e_mem e) (addr + 4) 4)\<rparr>
           in Some (to_nsec stamp))
      | None \<Rightarrow> None)"

section \<open>User memory\<close>

text \<open>
  The documented behaviour of the two read helpers: the first fills exactly \<open>n\<close> bytes; the
  second writes at most \<open>n\<close> bytes and ends them with a NUL.
\<close>

locale user_memory =
  fixes um :: user_mem
  assumes read_user_len: "length (read_user um a n) = n"
    and read_user_str_len: "length (read_user_str um a n) \<le> n"
    and read_user_str_nul: "0 < n \<Longrightarrow> 0 \<in> set (read_user_str um a n)"
begin

lemma overlay_read_len:
  "n \<le> length buf \<Longrightarrow> length (overlay (read_user um a n) buf) = length buf"
  by (simp add: read_user_len)

lemma overlay_read_str_len:
  "n \<le> length buf \<Longrightarrow> length (overlay (read_user_str um a n) buf) = length buf"
  using read_user_str_len [of a n] by simp

lemma overlay_read_keeps_tail:
  "n \<le> i \<Longrightarrow> i < length buf \<Longrightarrow> overlay (read_user um a n) buf ! i = buf ! i"
  by (rule nth_overlay_ge) (simp_all add: read_user_len)

lemma overlay_str_nul: "0 < n \<Longrightarrow> 0 \<in> set (overlay (read_user_str um a n) buf)"
  using read_user_str_nul [of n a] by (simp add: overlay_def)

end

text \<open>
  Memory given by a byte at each address satisfies the laws; a string read copies up to the
  first NUL or \<open>n - 1\<close> bytes and terminates.
\<close>

definition byte_mem :: "(u64 \<Rightarrow> u8) \<Rightarrow> user_mem" where
  "byte_mem f = \<lparr>read_user = (\<lambda>a n. map (\<lambda>i. f (a + of_nat i)) [0..<n]),
     read_user_str = (\<lambda>a n. if n = 0 then []
        else takeWhile (\<lambda>b. b \<noteq> 0) (map (\<lambda>i. f (a + of_nat i)) [0..<n - 1]) @ [0])\<rparr>"

lemma length_takeWhile_upt: "0 < n \<Longrightarrow> Suc (length (takeWhile P (map g [0..<n - 1]))) \<le> n"
  using length_takeWhile_le [of P "map g [0..<n - 1]"] by simp

interpretation byte_mem: user_memory "byte_mem f" for f
  by unfold_locales (auto simp: byte_mem_def length_takeWhile_upt [simplified])

section \<open>BPF maps\<close>

text \<open>
  What a program may rely on after \<open>bpf_map_update_elem\<close>: either the entry is stored or the
  call failed and nothing changed, and any other entry is kept or, in an LRU map, evicted.
\<close>

locale lru_map =
  fixes upd :: "('k \<Rightarrow> 'v option) \<Rightarrow> 'k \<Rightarrow> 'v \<Rightarrow> ('k \<Rightarrow> 'v option)"
  assumes upd_stored: "upd m k v k = Some v \<or> upd m k v = m"
    and upd_other: "k' \<noteq> k \<Longrightarrow> upd m k v k' = m k' \<or> upd m k v k' = None"
begin

lemma upd_entry:
  assumes "upd m k v k' = Some w"
  shows "(k' = k \<and> w = v) \<or> m k' = Some w"
proof (cases "k' = k")
  case True
  with upd_stored [of m k v] assms show ?thesis by auto
next
  case False
  with upd_other [of k' k m v] assms show ?thesis by auto
qed

lemma upd_all:
  assumes "\<And>k w. m k = Some w \<Longrightarrow> P k w" and "P k v" and "upd m k v k' = Some w"
  shows "P k' w"
  using upd_entry [OF assms(3)] assms(1,2) by auto

lemma dom_upd: "dom (upd m k v) \<subseteq> insert k (dom m)"
  using upd_entry by (fastforce simp: dom_def)

end

text \<open>An update of a key that is present replaces its value.\<close>

locale replacing_map = lru_map +
  assumes upd_replaces: "k \<in> dom m \<Longrightarrow> upd m k v k = Some v"
begin

lemma upd_at_key: "upd m k v k = Some v \<or> (m k = None \<and> upd m k v k = None)"
  using upd_stored [of m k v] upd_replaces [of k m v] by (cases "m k") auto

lemma upd_found: "upd m k v k = Some w \<Longrightarrow> w = v"
  using upd_at_key [of m k v] by auto

end

locale hash_map = replacing_map +
  assumes upd_keeps: "k' \<noteq> k \<Longrightarrow> upd m k v k' = m k'"
begin

lemma upd_present: "k \<in> dom m \<Longrightarrow> upd m k v = m(k \<mapsto> v)"
  using upd_keeps upd_replaces by fastforce

end

text \<open>
  The two kinds of map as the kernel documents them: a bounded hash table that refuses a new
  key when full, and an LRU table that evicts the keys chosen by \<open>ev\<close>.
\<close>

definition bounded_update ::
  "nat \<Rightarrow> ('k \<Rightarrow> 'v option) \<Rightarrow> 'k \<Rightarrow> 'v \<Rightarrow> ('k \<Rightarrow> 'v option)" where
  "bounded_update cap m k v = (if k \<in> dom m \<or> card (dom m) < cap then m(k \<mapsto> v) else m)"

definition evicting_update ::
  "(('k \<Rightarrow> 'v option) \<Rightarrow> 'k \<Rightarrow> bool) \<Rightarrow> ('k \<Rightarrow> 'v option) \<Rightarrow> 'k \<Rightarrow> 'v \<Rightarrow> ('k \<Rightarrow> 'v option)" where
  "evicting_update ev m k v = (\<lambda>k'. if k' = k then Some v else if ev m k' then None else m k')"

definition plain_update :: "('k \<Rightarrow> 'v option) \<Rightarrow> 'k \<Rightarrow> 'v \<Rightarrow> ('k \<Rightarrow> 'v option)" where
  "plain_update m k v = m(k \<mapsto> v)"

interpretation bounded: hash_map "bounded_update cap"
  by unfold_locales (auto simp: bounded_update_def)

interpretation evicting: replacing_map "evicting_update ev"
  by unfold_locales (auto simp: evicting_update_def)

interpretation plain: hash_map plain_update
  by unfold_locales (auto simp: plain_update_def)

section \<open>Machines driven by probe events\<close>

text \<open>
  A BPF program set is a step function over a state; an invariant of the initial state kept by
  every step holds after any sequence of probe hits. \<open>good\<close> is the assumption on one hit (the
  kernel laws and the clock).
\<close>

locale probe_machine =
  fixes step :: "'e \<Rightarrow> 's \<Rightarrow> 's" and good :: "'s \<Rightarrow> 'e \<Rightarrow> bool" and inv :: "'s \<Rightarrow> bool"
  assumes step_inv: "inv s \<Longrightarrow> good s x \<Longrightarrow> inv (step x s)"
begin

inductive reach :: "'s \<Rightarrow> 's \<Rightarrow> bool" for s0 where
  reach_init: "reach s0 s0"
| reach_step: "reach s0 s \<Longrightarrow> good s x \<Longrightarrow> reach s0 (step x s)"

lemma reach_inv: "reach s0 s \<Longrightarrow> inv s0 \<Longrightarrow> inv s"
  by (induction rule: reach.induct) (auto intro: step_inv)

fun run :: "'e list \<Rightarrow> 's \<Rightarrow> 's" where
  "run [] s = s"
| "run (x # xs) s = run xs (step x s)"

end

end
