(* ===== verification/Osd_Probes.thy ===== *)
theory Osd_Probes
  imports Bpf_Runtime
begin

text \<open>
  \<open>src/osdtrace.bpf.c\<close>: the uprobe programs of osdtrace as functions on the state of their
  BPF maps. One definition per program; each takes the configuration fixed at load time (the
  read-only globals, the probe variable table and the kernel's map updates), what this
  invocation sees, and the state. A pointer obtained by \<open>bpf_map_lookup_elem\<close> and written
  through is a store back into the map (\<open>put_op\<close>). One invocation is atomic in the model.
\<close>

datatype osd_event = OpEvent op_v | BluestoreEvent bluestore_lat_v

record osd_bpf =
  s_ops :: "op_k \<Rightarrow> op_v option"
  s_ptid_opk :: "u64 \<Rightarrow> op_k option"
  s_ctx_opk :: "ctx_k \<Rightarrow> op_k option"
  s_rb :: "osd_event list"
  s_rb_drops :: "nat \<Rightarrow> u64"

record osd_rodata =
  CEPH_OSD_OP_SIZE :: u32
  CEPH_OSD_OP_BUFFER_CARRIAGE_OFFSET :: u32
  CEPH_OSD_OP_CLS_CLASS_OFFSET :: u32
  CEPH_OSD_OP_CLS_METHOD_OFFSET :: u32
  LATENCY_THRESHOLD_NS :: u64
  BOOTSTAMP_NS :: u64

record osd_cfg =
  c_ro :: osd_rodata
  c_hprobes :: hprobes
  c_upd_ops :: "(op_k \<Rightarrow> op_v option) \<Rightarrow> op_k \<Rightarrow> op_v \<Rightarrow> (op_k \<Rightarrow> op_v option)"
  c_upd_ptid :: "(u64 \<Rightarrow> op_k option) \<Rightarrow> u64 \<Rightarrow> op_k \<Rightarrow> (u64 \<Rightarrow> op_k option)"
  c_upd_ctx :: "(ctx_k \<Rightarrow> op_k option) \<Rightarrow> ctx_k \<Rightarrow> op_k \<Rightarrow> (ctx_k \<Rightarrow> op_k option)"

section \<open>Shared helpers\<close>

definition put_op :: "op_k \<Rightarrow> op_v \<Rightarrow> osd_bpf \<Rightarrow> osd_bpf" where
  "put_op k v s = s\<lparr>s_ops := (s_ops s)(k \<mapsto> v)\<rparr>"

definition del_op :: "op_k \<Rightarrow> osd_bpf \<Rightarrow> osd_bpf" where
  "del_op k s = s\<lparr>s_ops := (s_ops s)(k := None)\<rparr>"

definition del_ptid :: "u64 \<Rightarrow> osd_bpf \<Rightarrow> osd_bpf" where
  "del_ptid t s = s\<lparr>s_ptid_opk := (s_ptid_opk s)(t := None)\<rparr>"

definition set_ptid :: "osd_cfg \<Rightarrow> u64 \<Rightarrow> op_k \<Rightarrow> osd_bpf \<Rightarrow> osd_bpf" where
  "set_ptid c t k s = s\<lparr>s_ptid_opk := c_upd_ptid c (s_ptid_opk s) t k\<rparr>"

definition del_ctx :: "ctx_k \<Rightarrow> osd_bpf \<Rightarrow> osd_bpf" where
  "del_ctx x s = s\<lparr>s_ctx_opk := (s_ctx_opk s)(x := None)\<rparr>"

definition set_ctx :: "osd_cfg \<Rightarrow> ctx_k \<Rightarrow> op_k \<Rightarrow> osd_bpf \<Rightarrow> osd_bpf" where
  "set_ctx c x k s = s\<lparr>s_ctx_opk := c_upd_ctx c (s_ctx_opk s) x k\<rparr>"

definition submit :: "osd_event \<Rightarrow> osd_bpf \<Rightarrow> osd_bpf" where
  "submit ev s = s\<lparr>s_rb := s_rb s @ [ev]\<rparr>"

definition count_rb_drop :: "kenv \<Rightarrow> osd_bpf \<Rightarrow> osd_bpf" where
  "count_rb_drop e s = s\<lparr>s_rb_drops := (s_rb_drops s)(e_cpu e := s_rb_drops s (e_cpu e) + 1)\<rparr>"

definition rd :: "osd_cfg \<Rightarrow> kenv \<Rightarrow> int \<Rightarrow> nat \<Rightarrow> bytes option" where
  "rd c e varid n = read_hprobe_varfield e (c_hprobes c) varid n"

text \<open>
  The key most probes build: the owner is read at \<open>varid\<close> and its failure ignored (the key
  was cleared), the tid is read next and its failure ends the probe.
\<close>

definition read_opk :: "osd_cfg \<Rightarrow> kenv \<Rightarrow> int \<Rightarrow> op_k option" where
  "read_opk c e varid =
     (let owner = (case rd c e varid 8 of Some b \<Rightarrow> u64_of b | None \<Rightarrow> 0) in
      case rd c e (varid + 1) 8 of
        None \<Rightarrow> None
      | Some b \<Rightarrow> Some \<lparr>k_pid = get_pid e, k_owner = owner, k_tid = u64_of b\<rparr>)"

text \<open>
  The end of the completion probes: the finished record goes to the ring buffer, or is counted
  as dropped when there is no room; either way the entry is deleted.
\<close>

definition emit_op :: "kenv \<Rightarrow> op_k \<Rightarrow> op_v \<Rightarrow> osd_bpf \<Rightarrow> osd_bpf" where
  "emit_op e k v s =
     (if e_rb_ok e then del_op k (submit (OpEvent v) s) else del_op k (count_rb_drop e s))"

definition emit_bs :: "kenv \<Rightarrow> bluestore_lat_v \<Rightarrow> osd_bpf \<Rightarrow> osd_bpf" where
  "emit_bs e v s = (if e_rb_ok e then submit (BluestoreEvent v) s else count_rb_drop e s)"

section \<open>Capturing the decoded op vector\<close>

definition capture_cls :: "osd_rodata \<Rightarrow> user_mem \<Rightarrow> u64 \<Rightarrow> cls_op" where
  "capture_cls ro um op_addr =
     (let cls_len = hd (read_user um (op_addr + ucast (CEPH_OSD_OP_CLS_CLASS_OFFSET ro)) 1);
          method_len = hd (read_user um (op_addr + ucast (CEPH_OSD_OP_CLS_METHOD_OFFSET ro)) 1);
          node = u64_of (read_user um
                   (op_addr + ucast (CEPH_OSD_OP_BUFFER_CARRIAGE_OFFSET ro) - 16) 8);
          raw = u64_of (read_user um (node + 8) 8);
          off = u32_of (read_user um (node + 16) 4);
          data = u64_of (read_user um (raw + 32) 8);
          str_start = data + ucast off;
          clen = cls_len AND 15;
          mlen = method_len AND 31
      in \<lparr>cls_name = overlay (read_user um str_start (unat clen)) (replicate 16 0),
          method_name = overlay (read_user um (str_start + ucast cls_len) (unat mlen))
                          (replicate 32 0)\<rparr>)"

definition capture_one :: "osd_rodata \<Rightarrow> user_mem \<Rightarrow> u64 \<Rightarrow> nat \<Rightarrow> op_v \<Rightarrow> op_v" where
  "capture_one ro um ops_start i vp =
     (let op_addr = ops_start + ucast (of_nat i * CEPH_OSD_OP_SIZE ro);
          opcode = u16_of (read_user um op_addr 2);
          vp1 = vp\<lparr>v_detail_ops := (v_detail_ops vp)[i := ucast opcode]\<rparr>;
          vp2 = (if ceph_osd_op_call (uint opcode)
                 then vp1\<lparr>v_cls_ops := (v_cls_ops vp1)[i := capture_cls ro um op_addr]\<rparr>
                 else vp1)
      in vp2\<lparr>v_detail_ops_captured := v_detail_ops_captured vp2 + 1\<rparr>)"

fun capture_loop :: "osd_rodata \<Rightarrow> user_mem \<Rightarrow> u64 \<Rightarrow> nat list \<Rightarrow> op_v \<Rightarrow> op_v" where
  "capture_loop ro um ops_start [] vp = vp"
| "capture_loop ro um ops_start (i # rest) vp =
     (if v_detail_ops_total vp \<le> of_nat i then vp
      else capture_loop ro um ops_start rest (capture_one ro um ops_start i vp))"

definition capture_decoded_osd_ops ::
  "osd_rodata \<Rightarrow> user_mem \<Rightarrow> op_v \<Rightarrow> u64 \<Rightarrow> u64 \<Rightarrow> op_v" where
  "capture_decoded_osd_ops ro um vp ops_start ops_finish =
     (if CEPH_OSD_OP_SIZE ro = 0 \<or> ops_start = 0 \<or> ops_finish < ops_start then vp
      else
        let ops_bytes = ops_finish - ops_start;
            vp1 = vp\<lparr>v_detail_ops_total := ucast (ops_bytes div ucast (CEPH_OSD_OP_SIZE ro))\<rparr>
        in capture_loop ro um ops_start [0..<MAX_DETAIL_OPS] vp1)"

text \<open>Reading the object name, clamped to the array less its terminator.\<close>

definition read_object_name :: "user_mem \<Rightarrow> u64 \<Rightarrow> u64 \<Rightarrow> op_v \<Rightarrow> op_v" where
  "read_object_name um str_addr name_len vp =
     (let len = (ucast name_len :: u32);
          len1 = (if of_nat (OBJECT_NAME_LEN - 1) < len then of_nat (OBJECT_NAME_LEN - 1) else len);
          n = unat (len1 AND of_nat (OBJECT_NAME_LEN - 1))
      in vp\<lparr>v_object_name := overlay (read_user um str_addr n) (v_object_name vp)\<rparr>)"

section \<open>The probes\<close>

definition uprobe_enqueue_op :: "osd_cfg \<Rightarrow> kenv \<Rightarrow> osd_bpf \<Rightarrow> osd_bpf" where
  "uprobe_enqueue_op c e s =
     (let op_type = (case rd c e 0 2 of Some b \<Rightarrow> u16_of b | None \<Rightarrow> 0) in
      if op_type \<noteq> MSG_OSD_OP \<and> op_type \<noteq> MSG_OSD_REPOP then s
      else
      case rd c e 1 8 of None \<Rightarrow> s | Some ob \<Rightarrow>
      case rd c e 2 8 of None \<Rightarrow> s | Some tb \<Rightarrow>
      let key = \<lparr>k_pid = get_pid e, k_owner = u64_of ob, k_tid = u64_of tb\<rparr>;
          existing = s_ops s key;
          retry = (case existing of
                     None \<Rightarrow> False
                   | Some old \<Rightarrow> e_ktime e 0 - v_enqueue_stamp old < 5000000000);
          now = (if existing = None then e_ktime e 0 else e_ktime e 1)
      in
      if retry then s
      else
        let s1 = s\<lparr>s_ops := c_upd_ops c (s_ops s) key zero_op_v\<rparr> in
        case s_ops s1 key of None \<Rightarrow> s1 | Some value \<Rightarrow>
        let v1 = value\<lparr>v_enqueue_stamp := now, v_pid := k_pid key, v_tid := k_tid key,
                      v_owner := k_owner key, v_op_type := op_type,
                      v_pi := (v_pi value)\<lparr>peer1 := - 1, peer2 := - 1\<rparr>\<rparr>
        in
        (case (read_hprobe_utime e (c_hprobes c) 3, read_hprobe_utime e (c_hprobes c) 4,
               read_hprobe_utime e (c_hprobes c) 5, read_hprobe_utime e (c_hprobes c) 6) of
           (Some rcv, Some thr, Some rcc, Some dsp) \<Rightarrow>
             put_op key (v1\<lparr>v_recv_stamp := rcv, v_throttle_stamp := thr,
                           v_recv_complete_stamp := rcc, v_dispatch_stamp := dsp\<rparr>) s1
         | _ \<Rightarrow> del_op key s1))"

definition uprobe_dequeue_op :: "osd_cfg \<Rightarrow> kenv \<Rightarrow> osd_bpf \<Rightarrow> osd_bpf" where
  "uprobe_dequeue_op c e s0 =
     (let ptid = e_pid_tgid e;
          s = del_ptid ptid s0;
          op_type = (case rd c e 10 2 of Some b \<Rightarrow> u16_of b | None \<Rightarrow> 0)
      in
      if op_type \<noteq> MSG_OSD_OP \<and> op_type \<noteq> MSG_OSD_REPOP then s
      else
      case read_opk c e 11 of None \<Rightarrow> s | Some key \<Rightarrow>
      case s_ops s key of None \<Rightarrow> s | Some vp \<Rightarrow>
      let vp1 = (if v_dequeue_stamp vp = 0 then vp\<lparr>v_dequeue_stamp := e_ktime e 0\<rparr> else vp) in
      case rd c e 13 8 of None \<Rightarrow> put_op key vp1 s | Some pb \<Rightarrow>
      let vp2 = vp1\<lparr>v_m_pool := u64_of pb\<rparr> in
      case rd c e 14 4 of None \<Rightarrow> put_op key vp2 s | Some sb \<Rightarrow>
      let vp3 = vp2\<lparr>v_m_seed := u32_of sb\<rparr>; s1 = put_op key vp3 s in
      if op_type = MSG_OSD_REPOP \<and> v_queue_transaction_stamp vp3 = 0
      then set_ptid c ptid key s1 else s1)"

definition uprobe_execute_ctx :: "osd_cfg \<Rightarrow> kenv \<Rightarrow> osd_bpf \<Rightarrow> osd_bpf" where
  "uprobe_execute_ctx c e s =
     (case read_opk c e 20 of None \<Rightarrow> s | Some key \<Rightarrow>
      case s_ops s key of None \<Rightarrow> s | Some vp \<Rightarrow>
      let vp1 = vp\<lparr>v_execute_ctx_stamp := e_ktime e 0\<rparr>;
          vp2 =
            (if CEPH_OSD_OP_SIZE (c_ro c) \<noteq> 0 then
               (case rd c e 24 8 of
                  None \<Rightarrow> vp1
                | Some sb \<Rightarrow>
                    if u64_of sb = 0 then vp1
                    else (case rd c e 25 8 of
                            None \<Rightarrow> vp1
                          | Some fb \<Rightarrow> capture_decoded_osd_ops (c_ro c) (e_mem e) vp1
                                         (u64_of sb) (u64_of fb)))
             else vp1)
      in
      case rd c e 22 8 of None \<Rightarrow> put_op key vp2 s | Some lb \<Rightarrow>
      case rd c e 23 8 of None \<Rightarrow> put_op key vp2 s | Some ab \<Rightarrow>
      let name_len = u64_of lb; str_addr = u64_of ab in
      if str_addr = 0 \<or> name_len = 0 then put_op key vp2 s
      else put_op key (read_object_name (e_mem e) str_addr name_len vp2) s)"

definition uprobe_submit_transaction :: "osd_cfg \<Rightarrow> kenv \<Rightarrow> osd_bpf \<Rightarrow> osd_bpf" where
  "uprobe_submit_transaction c e s =
     (let ptid = e_pid_tgid e in
      case read_opk c e 30 of None \<Rightarrow> del_ptid ptid s | Some key \<Rightarrow>
      case s_ops s key of
        None \<Rightarrow> del_ptid ptid s
      | Some vp \<Rightarrow>
          set_ptid c ptid key (put_op key (vp\<lparr>v_submit_transaction_stamp := e_ktime e 0\<rparr>) s))"

definition uprobe_queue_transactions :: "osd_cfg \<Rightarrow> kenv \<Rightarrow> osd_bpf \<Rightarrow> osd_bpf" where
  "uprobe_queue_transactions c e s =
     (let ptid = e_pid_tgid e in
      case s_ptid_opk s ptid of None \<Rightarrow> s | Some key \<Rightarrow>
      case s_ops s key of
        None \<Rightarrow> del_ptid ptid s
      | Some vp \<Rightarrow>
          if v_queue_transaction_stamp vp = 0 \<and> v_aio_submit_stamp vp = 0 \<and>
             v_kv_committed_stamp vp = 0
          then put_op key (vp\<lparr>v_queue_transaction_stamp := e_ktime e 0\<rparr>) s
          else del_ptid ptid s)"

definition uprobe_do_write :: "osd_cfg \<Rightarrow> kenv \<Rightarrow> osd_bpf \<Rightarrow> osd_bpf" where
  "uprobe_do_write c e s =
     (case s_ptid_opk s (e_pid_tgid e) of None \<Rightarrow> s | Some key \<Rightarrow>
      case s_ops s key of
        None \<Rightarrow> s
      | Some vp \<Rightarrow>
          if v_do_write_stamp vp = 0 then put_op key (vp\<lparr>v_do_write_stamp := e_ktime e 0\<rparr>) s
          else s)"

text \<open>
  The two probes that move the correlation from the thread to the transaction context; they
  differ in the stamp and the variable ids.
\<close>

definition bind_ctx :: "osd_cfg \<Rightarrow> kenv \<Rightarrow> int \<Rightarrow> op_k \<Rightarrow> osd_bpf \<Rightarrow> osd_bpf" where
  "bind_ctx c e varid key s =
     (case rd c e varid 4 of None \<Rightarrow> s | Some qb \<Rightarrow>
      case rd c e (varid + 1) 8 of None \<Rightarrow> s | Some sb \<Rightarrow>
      set_ctx c \<lparr>x_pid = get_pid e, x_seqid = u32_of qb, x_start_stamp = u64_of sb\<rparr> key s)"

definition uprobe_wctx_finish :: "osd_cfg \<Rightarrow> kenv \<Rightarrow> osd_bpf \<Rightarrow> osd_bpf" where
  "uprobe_wctx_finish c e s =
     (let ptid = e_pid_tgid e in
      case s_ptid_opk s ptid of None \<Rightarrow> s | Some op_key \<Rightarrow>
      let s1 = del_ptid ptid s in
      case s_ops s1 op_key of None \<Rightarrow> s1 | Some vp \<Rightarrow>
      if v_aio_submit_stamp vp \<noteq> 0 \<or> v_kv_committed_stamp vp \<noteq> 0 then s1
      else bind_ctx c e 60 op_key
             (put_op op_key (vp\<lparr>v_wctx_finish_stamp := e_ktime e 0\<rparr>) s1))"

definition uprobe_txc_calc_cost :: "osd_cfg \<Rightarrow> kenv \<Rightarrow> osd_bpf \<Rightarrow> osd_bpf" where
  "uprobe_txc_calc_cost c e s =
     (let ptid = e_pid_tgid e in
      case s_ptid_opk s ptid of None \<Rightarrow> s | Some op_key \<Rightarrow>
      let s1 = del_ptid ptid s in
      case s_ops s1 op_key of None \<Rightarrow> s1 | Some vp \<Rightarrow>
      if v_aio_submit_stamp vp \<noteq> 0 \<or> v_kv_committed_stamp vp \<noteq> 0 then s1
      else bind_ctx c e 160 op_key s1)"

definition uprobe_txc_state_proc :: "osd_cfg \<Rightarrow> kenv \<Rightarrow> osd_bpf \<Rightarrow> osd_bpf" where
  "uprobe_txc_state_proc c e s =
     (case rd c e 70 4 of None \<Rightarrow> s | Some qb \<Rightarrow>
      case rd c e 71 8 of None \<Rightarrow> s | Some sb \<Rightarrow>
      let ck = \<lparr>x_pid = get_pid e, x_seqid = u32_of qb, x_start_stamp = u64_of sb\<rparr> in
      case s_ctx_opk s ck of None \<Rightarrow> s | Some key \<Rightarrow>
      case rd c e 72 4 of None \<Rightarrow> s | Some stb \<Rightarrow>
      case s_ops s key of None \<Rightarrow> s | Some vp \<Rightarrow>
      case c_hprobes c 73 of None \<Rightarrow> s | Some vf \<Rightarrow>
      let state = u32_of stb;
          v = fetch_register (e_regs e) (vl_reg (vf_varloc vf));
          now = e_ktime e 0
      in
      if state = 0 then
        let pending_addr = fetch_var_member_addr (e_mem e) v vf;
            pending_num = int32_of (read_user (e_mem e) pending_addr 4);
            vp1 = vp\<lparr>v_aio_submit_stamp := now, v_aio_size := pending_num\<rparr>
        in put_op key (if pending_num = 0 then vp1\<lparr>v_aio_done_stamp := now\<rparr> else vp1) s
      else if state = 1 then put_op key (vp\<lparr>v_aio_done_stamp := now\<rparr>) s
      else if state = 2 then put_op key (vp\<lparr>v_kv_submit_stamp := now\<rparr>) s
      else if state = 4 then del_ctx ck (put_op key (vp\<lparr>v_kv_committed_stamp := now\<rparr>) s)
      else s)"

definition uprobe_log_op_stats :: "osd_cfg \<Rightarrow> kenv \<Rightarrow> osd_bpf \<Rightarrow> osd_bpf" where
  "uprobe_log_op_stats c e s =
     (case read_opk c e 90 of None \<Rightarrow> s | Some key \<Rightarrow>
      case s_ops s key of
        None \<Rightarrow> del_op key s
      | Some vp \<Rightarrow>
          emit_op e key
            (vp\<lparr>v_reply_stamp := e_ktime e 0, v_wb := PT_REGS_PARM3 (e_regs e),
               v_rb := PT_REGS_PARM4 (e_regs e)\<rparr>) s)"

definition below_threshold :: "osd_rodata \<Rightarrow> u64 \<Rightarrow> u64 \<Rightarrow> bool" where
  "below_threshold ro recv_stamp reply_stamp =
     (0 < LATENCY_THRESHOLD_NS ro \<and>
      (let op_lat_ns =
         (if BOOTSTAMP_NS ro < recv_stamp then
            let recv_boot_ns = recv_stamp - BOOTSTAMP_NS ro in
            if recv_boot_ns < reply_stamp then reply_stamp - recv_boot_ns else 0
          else 0)
       in op_lat_ns < LATENCY_THRESHOLD_NS ro))"

definition uprobe_log_op_stats_v2 :: "osd_cfg \<Rightarrow> kenv \<Rightarrow> osd_bpf \<Rightarrow> osd_bpf" where
  "uprobe_log_op_stats_v2 c e s =
     (case read_hprobe_utime e (c_hprobes c) 94 of None \<Rightarrow> s | Some recv_stamp \<Rightarrow>
      if recv_stamp = 0 then s
      else
        let reply_stamp = e_ktime e 0 in
        if below_threshold (c_ro c) recv_stamp reply_stamp then s
        else
        let owner = (case rd c e 90 8 of Some b \<Rightarrow> u64_of b | None \<Rightarrow> 0) in
        case rd c e 91 8 of None \<Rightarrow> s | Some tb \<Rightarrow>
        case rd c e 95 2 of None \<Rightarrow> s | Some yb \<Rightarrow>
        if \<not> e_rb_ok e then count_rb_drop e s
        else submit (OpEvent (zero_op_v\<lparr>v_owner := owner, v_tid := u64_of tb, v_pid := get_pid e,
               v_reply_stamp := reply_stamp, v_wb := PT_REGS_PARM3 (e_regs e),
               v_rb := PT_REGS_PARM4 (e_regs e), v_recv_stamp := recv_stamp,
               v_op_type := u16_of yb\<rparr>)) s)"

definition uprobe_generate_subop :: "osd_cfg \<Rightarrow> kenv \<Rightarrow> osd_bpf \<Rightarrow> osd_bpf" where
  "uprobe_generate_subop c e s =
     (case read_opk c e 100 of None \<Rightarrow> s | Some key \<Rightarrow>
      case s_ops s key of None \<Rightarrow> s | Some vp \<Rightarrow>
      case rd c e 102 4 of None \<Rightarrow> s | Some pb \<Rightarrow>
      let peer_id = int32_of pb;
          pi0 = v_pi vp;
          pi1 = (if peer1 pi0 = - 1 then pi0\<lparr>peer1 := peer_id\<rparr> else pi0\<lparr>peer2 := peer_id\<rparr>)
      in put_op key (vp\<lparr>v_pi := pi1\<lparr>sent_stamp := e_ktime e 0\<rparr>\<rparr>) s)"

definition uprobe_do_repop_reply :: "osd_cfg \<Rightarrow> kenv \<Rightarrow> osd_bpf \<Rightarrow> osd_bpf" where
  "uprobe_do_repop_reply c e s =
     (case read_opk c e 110 of None \<Rightarrow> s | Some key \<Rightarrow>
      case rd c e 112 4 of None \<Rightarrow> s | Some ob \<Rightarrow>
      let osdid = int32_of ob in
      case s_ops s key of None \<Rightarrow> s | Some vp \<Rightarrow>
      if osdid = peer1 (v_pi vp)
      then put_op key (vp\<lparr>v_pi := (v_pi vp)\<lparr>recv_stamp1 := e_ktime e 0\<rparr>\<rparr>) s
      else if osdid = peer2 (v_pi vp)
      then put_op key (vp\<lparr>v_pi := (v_pi vp)\<lparr>recv_stamp2 := e_ktime e 0\<rparr>\<rparr>) s
      else s)"

text \<open>Recording one delay reason: slot \<open>idx\<close> receives the bytes and the count grows.\<close>

definition add_delay :: "op_v \<Rightarrow> bytes \<Rightarrow> op_v" where
  "add_delay vp bs =
     (let di = v_di vp; idx = nat (d_cnt di) in
      vp\<lparr>v_di := di\<lparr>d_delays := (d_delays di)[idx := overlay bs (d_delays di ! idx)],
                    d_cnt := d_cnt di + 1\<rparr>\<rparr>)"

text \<open>The slot index is the count read as an unsigned 32-bit value.\<close>

definition delay_idx :: "op_v \<Rightarrow> u32" where
  "delay_idx vp = of_int (d_cnt (v_di vp))"

definition uprobe_mark_flag_point_string :: "osd_cfg \<Rightarrow> kenv \<Rightarrow> osd_bpf \<Rightarrow> osd_bpf" where
  "uprobe_mark_flag_point_string c e s =
     (let flag = (ucast (PT_REGS_PARM2 (e_regs e)) :: u8) in
      if flag AND flag_delayed = 0 then s
      else
      case read_opk c e 121 of None \<Rightarrow> s | Some key \<Rightarrow>
      case s_ops s key of None \<Rightarrow> s | Some vp \<Rightarrow>
      case rd c e 123 4 of None \<Rightarrow> s | Some lb \<Rightarrow>
      case rd c e 124 8 of None \<Rightarrow> s | Some ab \<Rightarrow>
      let len = u32_of lb in
      if 5 \<le> delay_idx vp \<or> 32 \<le> len then s
      else put_op key (add_delay vp (read_user (e_mem e) (u64_of ab) (unat len))) s)"

definition uprobe_mark_flag_point :: "osd_cfg \<Rightarrow> kenv \<Rightarrow> osd_bpf \<Rightarrow> osd_bpf" where
  "uprobe_mark_flag_point c e s =
     (let flag = (ucast (PT_REGS_PARM2 (e_regs e)) :: u8) in
      if flag AND flag_delayed = 0 then s
      else
      case read_opk c e 181 of None \<Rightarrow> s | Some key \<Rightarrow>
      case s_ops s key of None \<Rightarrow> s | Some vp \<Rightarrow>
      if 5 \<le> delay_idx vp then s
      else put_op key
             (add_delay vp (read_user_str (e_mem e) (PT_REGS_PARM3 (e_regs e)) 32)) s)"

definition log_latency_event :: "osd_cfg \<Rightarrow> kenv \<Rightarrow> int \<Rightarrow> osd_bpf \<Rightarrow> osd_bpf" where
  "log_latency_event c e varid s =
     (let nm = overlay (read_user_str (e_mem e) (PT_REGS_PARM2 (e_regs e)) BS_LAT_NAME_LEN)
                 (replicate BS_LAT_NAME_LEN 0) in
      case rd c e varid 8 of None \<Rightarrow> s | Some lb \<Rightarrow>
      emit_bs e \<lparr>bl_pid = get_pid e, bl_lat = u64_of lb, bl_name = nm\<rparr> s)"

definition uprobe_log_latency :: "osd_cfg \<Rightarrow> kenv \<Rightarrow> osd_bpf \<Rightarrow> osd_bpf" where
  "uprobe_log_latency c e s = log_latency_event c e 131 s"

definition uprobe_log_latency_fn :: "osd_cfg \<Rightarrow> kenv \<Rightarrow> osd_bpf \<Rightarrow> osd_bpf" where
  "uprobe_log_latency_fn c e s = log_latency_event c e 191 s"

definition uprobe_log_subop_stats :: "osd_cfg \<Rightarrow> kenv \<Rightarrow> osd_bpf \<Rightarrow> osd_bpf" where
  "uprobe_log_subop_stats c e s =
     (case read_opk c e 140 of None \<Rightarrow> s | Some key \<Rightarrow>
      case s_ops s key of None \<Rightarrow> s | Some vp \<Rightarrow>
      case rd c e 142 8 of None \<Rightarrow> del_op key s | Some lb \<Rightarrow>
      emit_op e key (vp\<lparr>v_wb := u64_of lb, v_reply_stamp := e_ktime e 0\<rparr>) s)"

definition uprobe_ec_submit_transaction :: "osd_cfg \<Rightarrow> kenv \<Rightarrow> osd_bpf \<Rightarrow> osd_bpf" where
  "uprobe_ec_submit_transaction c e s =
     (case read_opk c e 150 of None \<Rightarrow> s | Some key \<Rightarrow>
      case s_ops s key of None \<Rightarrow> s | Some vp \<Rightarrow> del_op key s)"

definition repop_name :: "osd_cfg \<Rightarrow> kenv \<Rightarrow> op_v \<Rightarrow> op_v" where
  "repop_name c e vp =
     (case rd c e 173 8 of None \<Rightarrow> vp | Some lb \<Rightarrow>
      let name_len = u64_of lb in
      if name_len = 0 then vp
      else
      case rd c e 174 8 of None \<Rightarrow> vp | Some ab \<Rightarrow>
      let str_addr = u64_of ab in
      if str_addr = 0 then vp
      else read_object_name (e_mem e) str_addr name_len vp)"

definition uprobe_repop_commit :: "osd_cfg \<Rightarrow> kenv \<Rightarrow> osd_bpf \<Rightarrow> osd_bpf" where
  "uprobe_repop_commit c e s =
     (case read_opk c e 170 of None \<Rightarrow> s | Some key \<Rightarrow>
      case s_ops s key of None \<Rightarrow> s | Some vp \<Rightarrow>
      case rd c e 172 8 of None \<Rightarrow> del_op key s | Some lb \<Rightarrow>
      emit_op e key
        (repop_name c e (vp\<lparr>v_wb := u64_of lb, v_reply_stamp := e_ktime e 0\<rparr>)) s)"

fun txn_loop :: "user_mem \<Rightarrow> u64 \<Rightarrow> u64 \<Rightarrow> nat list \<Rightarrow> op_v \<Rightarrow> op_v" where
  "txn_loop um op_buffer txn_ops [] vp = vp"
| "txn_loop um op_buffer txn_ops (i # rest) vp =
     (if txn_ops \<le> of_nat i then vp
      else let captured = v_detail_ops_captured vp in
        if of_nat MAX_DETAIL_OPS \<le> captured then vp
        else let opcode = u32_of (read_user um (op_buffer + of_nat i * OBJECTSTORE_TXN_OP_SIZE) 4) in
          txn_loop um op_buffer txn_ops rest
            (vp\<lparr>v_detail_ops := (v_detail_ops vp)
                   [unat (captured AND of_nat (MAX_DETAIL_OPS - 1)) := opcode],
               v_detail_ops_captured := captured + 1\<rparr>))"

definition uprobe_txc_add_transaction :: "osd_cfg \<Rightarrow> kenv \<Rightarrow> osd_bpf \<Rightarrow> osd_bpf" where
  "uprobe_txc_add_transaction c e s =
     (case s_ptid_opk s (e_pid_tgid e) of None \<Rightarrow> s | Some key \<Rightarrow>
      case s_ops s key of None \<Rightarrow> s | Some vp \<Rightarrow>
      if v_op_type vp \<noteq> MSG_OSD_REPOP then s
      else
      case rd c e 200 8 of None \<Rightarrow> s | Some tb \<Rightarrow>
      let txn_ops = u64_of tb in
      if txn_ops = 0 then s
      else
      let vp1 = vp\<lparr>v_detail_ops_total := v_detail_ops_total vp + ucast txn_ops\<rparr>;
          s1 = put_op key vp1 s;
          um = e_mem e
      in
      case rd c e 202 4 of None \<Rightarrow> s1 | Some nb \<Rightarrow>
      if u32_of nb \<noteq> 1 then
        put_op key (vp1\<lparr>v_detail_ops_captured := 0, v_detail_ops_unavailable := 1\<rparr>) s
      else if v_detail_ops_unavailable vp1 \<noteq> 0 then s1
      else
      case rd c e 201 8 of None \<Rightarrow> s1 | Some cb \<Rightarrow>
      let carriage = u64_of cb in
      if carriage = 0 then s1
      else
      let raw = u64_of (read_user um (carriage + OSDTRACE_BUFFER_PTR_RAW_OFFSET) 8) in
      if raw = 0 then s1
      else
      let buffer_offset = u32_of (read_user um (carriage + OSDTRACE_BUFFER_PTR_OFF_OFFSET) 4);
          raw_data = u64_of (read_user um (raw + OSDTRACE_BUFFER_RAW_DATA_OFFSET) 8)
      in
      if raw_data = 0 then s1
      else put_op key
             (txn_loop um (raw_data + ucast buffer_offset) txn_ops [0..<MAX_DETAIL_OPS] vp1) s)"

section \<open>All probes\<close>

datatype osd_probe =
    EnqueueOp | DequeueOp | ExecuteCtx | SubmitTransaction | QueueTransactions | DoWrite
  | WctxFinish | TxcStateProc | LogOpStats | LogOpStatsV2 | GenerateSubop | DoRepopReply
  | MarkFlagPointString | LogLatency | LogSubopStats | EcSubmitTransaction | TxcCalcCost
  | RepopCommit | MarkFlagPoint | LogLatencyFn | TxcAddTransaction

text \<open>The program behind each probe, in the order of the \<open>func_progid\<close> table.\<close>

fun osd_prog :: "osd_probe \<Rightarrow> osd_cfg \<Rightarrow> kenv \<Rightarrow> osd_bpf \<Rightarrow> osd_bpf" where
  "osd_prog EnqueueOp = uprobe_enqueue_op"
| "osd_prog DequeueOp = uprobe_dequeue_op"
| "osd_prog ExecuteCtx = uprobe_execute_ctx"
| "osd_prog SubmitTransaction = uprobe_submit_transaction"
| "osd_prog QueueTransactions = uprobe_queue_transactions"
| "osd_prog DoWrite = uprobe_do_write"
| "osd_prog WctxFinish = uprobe_wctx_finish"
| "osd_prog TxcStateProc = uprobe_txc_state_proc"
| "osd_prog LogOpStats = uprobe_log_op_stats"
| "osd_prog LogOpStatsV2 = uprobe_log_op_stats_v2"
| "osd_prog GenerateSubop = uprobe_generate_subop"
| "osd_prog DoRepopReply = uprobe_do_repop_reply"
| "osd_prog MarkFlagPointString = uprobe_mark_flag_point_string"
| "osd_prog LogLatency = uprobe_log_latency"
| "osd_prog LogSubopStats = uprobe_log_subop_stats"
| "osd_prog EcSubmitTransaction = uprobe_ec_submit_transaction"
| "osd_prog TxcCalcCost = uprobe_txc_calc_cost"
| "osd_prog RepopCommit = uprobe_repop_commit"
| "osd_prog MarkFlagPoint = uprobe_mark_flag_point"
| "osd_prog LogLatencyFn = uprobe_log_latency_fn"
| "osd_prog TxcAddTransaction = uprobe_txc_add_transaction"

definition osd_step :: "osd_cfg \<Rightarrow> osd_probe \<times> kenv \<Rightarrow> osd_bpf \<Rightarrow> osd_bpf" where
  "osd_step c pe s = osd_prog (fst pe) c (snd pe) s"

definition osd_init :: osd_bpf where
  "osd_init = \<lparr>s_ops = Map.empty, s_ptid_opk = Map.empty, s_ctx_opk = Map.empty,
     s_rb = [], s_rb_drops = (\<lambda>_. 0)\<rparr>"

end
