(* ===== verification/Osd_Invariants.thy ===== *)
theory Osd_Invariants
  imports Osd_Probes
begin

text \<open>
  The invariants of the osdtrace probes. \<open>op_ok T k v\<close> says of an entry that it carries its own
  key, that its arrays have their C sizes and every C string in them is terminated, that the
  delay count indexes the delay slots, and that every stamp is unset or lies between the
  enqueue stamp and the clock \<open>T\<close>. One lemma per probe shows that it keeps the invariant; the
  locale \<open>probe_machine\<close> then gives it for any sequence of probe hits.
\<close>

section \<open>Well-formed entries\<close>

definition keyed :: "op_k \<Rightarrow> op_v \<Rightarrow> bool" where
  "keyed k v \<longleftrightarrow> v_pid v = k_pid k \<and> v_owner v = k_owner k \<and> v_tid v = k_tid k \<and>
     (v_op_type v = MSG_OSD_OP \<or> v_op_type v = MSG_OSD_REPOP)"

definition cls_shaped :: "cls_op \<Rightarrow> bool" where
  "cls_shaped co \<longleftrightarrow> length (cls_name co) = 16 \<and> 0 \<in> set (cls_name co) \<and>
     length (method_name co) = 32 \<and> 0 \<in> set (method_name co)"

definition delays_shaped :: "delay_info \<Rightarrow> bool" where
  "delays_shaped di \<longleftrightarrow> 0 \<le> d_cnt di \<and> d_cnt di \<le> 5 \<and> length (d_delays di) = 5 \<and>
     (\<forall>d\<in>set (d_delays di). length d = 32 \<and> 0 \<in> set d) \<and>
     (\<forall>i<5. d_cnt di \<le> int i \<longrightarrow> d_delays di ! i = replicate 32 0)"

definition name_shaped :: "bytes \<Rightarrow> bool" where
  "name_shaped n \<longleftrightarrow> length n = OBJECT_NAME_LEN \<and> n ! (OBJECT_NAME_LEN - 1) = 0"

definition shaped :: "op_v \<Rightarrow> bool" where
  "shaped v \<longleftrightarrow> name_shaped (v_object_name v) \<and> length (v_detail_ops v) = MAX_DETAIL_OPS \<and>
     length (v_cls_ops v) = MAX_DETAIL_OPS \<and> (\<forall>co\<in>set (v_cls_ops v). cls_shaped co) \<and>
     delays_shaped (v_di v)"

text \<open>Every stamp taken on the boot clock after the enqueue.\<close>

definition later_stamps :: "op_v \<Rightarrow> u64 list" where
  "later_stamps v =
     [v_dequeue_stamp v, v_execute_ctx_stamp v, v_submit_transaction_stamp v,
      v_queue_transaction_stamp v, v_do_write_stamp v, v_wctx_finish_stamp v,
      v_aio_submit_stamp v, v_aio_done_stamp v, v_kv_submit_stamp v, v_kv_committed_stamp v,
      sent_stamp (v_pi v), recv_stamp1 (v_pi v), recv_stamp2 (v_pi v), v_reply_stamp v]"

definition timed :: "u64 \<Rightarrow> op_v \<Rightarrow> bool" where
  "timed T v \<longleftrightarrow> v_enqueue_stamp v \<le> T \<and>
     (\<forall>t\<in>set (later_stamps v). t = 0 \<or> v_enqueue_stamp v \<le> t \<and> t \<le> T)"

definition op_ok :: "u64 \<Rightarrow> op_k \<Rightarrow> op_v \<Rightarrow> bool" where
  "op_ok T k v \<longleftrightarrow> keyed k v \<and> shaped v \<and> timed T v"

fun event_ok :: "u64 \<Rightarrow> osd_event \<Rightarrow> bool" where
  "event_ok T (OpEvent v) \<longleftrightarrow> shaped v \<and> timed T v"
| "event_ok T (BluestoreEvent b) \<longleftrightarrow> length (bl_name b) = BS_LAT_NAME_LEN \<and> 0 \<in> set (bl_name b)"

definition osd_inv :: "u64 \<Rightarrow> osd_bpf \<Rightarrow> bool" where
  "osd_inv T s \<longleftrightarrow> (\<forall>k v. s_ops s k = Some v \<longrightarrow> op_ok T k v) \<and> (\<forall>ev\<in>set (s_rb s). event_ok T ev)"

section \<open>How the state updates act on the invariant\<close>

lemma timed_mono: "timed T v \<Longrightarrow> T \<le> T' \<Longrightarrow> timed T' v"
  by (auto simp: timed_def)

lemma op_ok_mono: "op_ok T k v \<Longrightarrow> T \<le> T' \<Longrightarrow> op_ok T' k v"
  by (auto simp: op_ok_def intro: timed_mono)

lemma event_ok_mono: "event_ok T ev \<Longrightarrow> T \<le> T' \<Longrightarrow> event_ok T' ev"
  by (cases ev) (auto intro: timed_mono)

lemma osd_inv_mono: "osd_inv T s \<Longrightarrow> T \<le> T' \<Longrightarrow> osd_inv T' s"
  by (auto simp: osd_inv_def intro: op_ok_mono event_ok_mono)

lemma osd_invD: "osd_inv T s \<Longrightarrow> s_ops s k = Some v \<Longrightarrow> op_ok T k v"
  by (simp add: osd_inv_def)

lemma osd_inv_put [inv_intros]: "osd_inv T s \<Longrightarrow> op_ok T k v \<Longrightarrow> osd_inv T (put_op k v s)"
  by (auto simp: osd_inv_def put_op_def)

lemma osd_inv_del_op [inv_intros]: "osd_inv T s \<Longrightarrow> osd_inv T (del_op k s)"
  by (auto simp: osd_inv_def del_op_def)

lemma osd_inv_del_ptid [inv_intros]: "osd_inv T s \<Longrightarrow> osd_inv T (del_ptid t s)"
  by (simp add: osd_inv_def del_ptid_def)

lemma osd_inv_set_ptid [inv_intros]: "osd_inv T s \<Longrightarrow> osd_inv T (set_ptid c t k s)"
  by (simp add: osd_inv_def set_ptid_def)

lemma osd_inv_del_ctx [inv_intros]: "osd_inv T s \<Longrightarrow> osd_inv T (del_ctx x s)"
  by (simp add: osd_inv_def del_ctx_def)

lemma osd_inv_set_ctx [inv_intros]: "osd_inv T s \<Longrightarrow> osd_inv T (set_ctx c x k s)"
  by (simp add: osd_inv_def set_ctx_def)

lemma osd_inv_submit [inv_intros]: "osd_inv T s \<Longrightarrow> event_ok T ev \<Longrightarrow> osd_inv T (submit ev s)"
  by (auto simp: osd_inv_def submit_def)

lemma osd_inv_count [inv_intros]: "osd_inv T s \<Longrightarrow> osd_inv T (count_rb_drop e s)"
  by (simp add: osd_inv_def count_rb_drop_def)

lemma osd_inv_emit_op [inv_intros]: "osd_inv T s \<Longrightarrow> op_ok T k v \<Longrightarrow> osd_inv T (emit_op e k v s)"
  by (auto simp: emit_op_def op_ok_def intro!: inv_intros)

lemma osd_inv_emit_bs [inv_intros]:
  "osd_inv T s \<Longrightarrow> event_ok T (BluestoreEvent b) \<Longrightarrow> osd_inv T (emit_bs e b s)"
  by (auto simp: emit_bs_def intro!: inv_intros)

lemma osd_inv_bind_ctx [inv_intros]: "osd_inv T s \<Longrightarrow> osd_inv T (bind_ctx c e i k s)"
  by (auto simp: bind_ctx_def Let_def split: option.splits intro!: inv_intros)

lemmas put_del_ops = put_op_def del_op_def del_ptid_def set_ptid_def del_ctx_def set_ctx_def
  submit_def count_rb_drop_def

lemma s_ops_del_ptid [simp]: "s_ops (del_ptid t s) = s_ops s"
  by (simp add: del_ptid_def)

section \<open>How the entry updates act on well-formed entries\<close>

text \<open>A stamp set to the current clock value.\<close>

lemma op_ok_stamps [simp]:
  assumes "op_ok T k v"
  shows "op_ok T k (v\<lparr>v_dequeue_stamp := T\<rparr>)" "op_ok T k (v\<lparr>v_execute_ctx_stamp := T\<rparr>)"
    "op_ok T k (v\<lparr>v_submit_transaction_stamp := T\<rparr>)"
    "op_ok T k (v\<lparr>v_queue_transaction_stamp := T\<rparr>)" "op_ok T k (v\<lparr>v_do_write_stamp := T\<rparr>)"
    "op_ok T k (v\<lparr>v_wctx_finish_stamp := T\<rparr>)" "op_ok T k (v\<lparr>v_aio_submit_stamp := T\<rparr>)"
    "op_ok T k (v\<lparr>v_aio_done_stamp := T\<rparr>)" "op_ok T k (v\<lparr>v_kv_submit_stamp := T\<rparr>)"
    "op_ok T k (v\<lparr>v_kv_committed_stamp := T\<rparr>)" "op_ok T k (v\<lparr>v_reply_stamp := T\<rparr>)"
    "op_ok T k (v\<lparr>v_pi := (v_pi v)\<lparr>recv_stamp1 := T\<rparr>\<rparr>)"
    "op_ok T k (v\<lparr>v_pi := (v_pi v)\<lparr>recv_stamp2 := T\<rparr>\<rparr>)"
    "op_ok T k (v\<lparr>v_pi := (v_pi v)\<lparr>peer1 := p, sent_stamp := T\<rparr>\<rparr>)"
    "op_ok T k (v\<lparr>v_pi := (v_pi v)\<lparr>peer2 := p, sent_stamp := T\<rparr>\<rparr>)"
  using assms by (simp_all add: op_ok_def keyed_def shaped_def timed_def later_stamps_def)

text \<open>Fields the invariant does not speak of.\<close>

lemma op_ok_data [simp]:
  "op_ok T k (v\<lparr>v_m_pool := a\<rparr>) = op_ok T k v" "op_ok T k (v\<lparr>v_m_seed := b\<rparr>) = op_ok T k v"
  "op_ok T k (v\<lparr>v_aio_size := i\<rparr>) = op_ok T k v" "op_ok T k (v\<lparr>v_wb := a\<rparr>) = op_ok T k v"
  "op_ok T k (v\<lparr>v_rb := a\<rparr>) = op_ok T k v"
  "op_ok T k (v\<lparr>v_detail_ops_captured := b\<rparr>) = op_ok T k v"
  "op_ok T k (v\<lparr>v_detail_ops_total := b\<rparr>) = op_ok T k v"
  "op_ok T k (v\<lparr>v_detail_ops_unavailable := b\<rparr>) = op_ok T k v"
  by (simp_all add: op_ok_def keyed_def shaped_def timed_def later_stamps_def)

lemma op_ok_detail [simp]: "op_ok T k (v\<lparr>v_detail_ops := (v_detail_ops v)[i := w]\<rparr>) = op_ok T k v"
  by (simp add: op_ok_def keyed_def shaped_def timed_def later_stamps_def)

lemma op_ok_cls:
  assumes "op_ok T k v" and "cls_shaped co"
  shows "op_ok T k (v\<lparr>v_cls_ops := (v_cls_ops v)[i := co]\<rparr>)"
proof -
  have "\<forall>c\<in>set ((v_cls_ops v)[i := co]). cls_shaped c"
    using assms set_update_subset_insert [of "v_cls_ops v" i co]
    by (fastforce simp: op_ok_def shaped_def)
  with assms(1) show ?thesis
    by (simp add: op_ok_def keyed_def shaped_def timed_def later_stamps_def)
qed

lemma name_shaped_overlay:
  assumes "name_shaped n" and "length bs \<le> OBJECT_NAME_LEN - 1"
  shows "name_shaped (overlay bs n)"
proof -
  from assms have len: "length n = 64" "length bs \<le> 63"
    by (simp_all add: name_shaped_def OBJECT_NAME_LEN_def)
  then have "overlay bs n ! 63 = n ! 63" by (intro nth_overlay_ge) simp_all
  with assms(1) len show ?thesis by (simp add: name_shaped_def OBJECT_NAME_LEN_def)
qed

lemma op_ok_name:
  assumes "op_ok T k v" and "length bs \<le> OBJECT_NAME_LEN - 1"
  shows "op_ok T k (v\<lparr>v_object_name := overlay bs (v_object_name v)\<rparr>)"
proof -
  have "name_shaped (overlay bs (v_object_name v))"
    using assms by (intro name_shaped_overlay) (simp_all add: op_ok_def shaped_def)
  with assms(1) show ?thesis
    by (simp add: op_ok_def keyed_def shaped_def timed_def later_stamps_def)
qed

lemma delays_shaped_add:
  assumes "delays_shaped di" and "d_cnt di < 5" and "length bs \<le> 32"
    and "length bs < 32 \<or> 0 \<in> set bs"
  shows "delays_shaped (di\<lparr>d_delays := (d_delays di)
           [nat (d_cnt di) := overlay bs (d_delays di ! nat (d_cnt di))], d_cnt := d_cnt di + 1\<rparr>)"
proof -
  define i where "i = nat (d_cnt di)"
  have i: "i < 5" "d_cnt di = int i" using assms(1,2) by (auto simp: i_def delays_shaped_def)
  have slot: "d_delays di ! i = replicate 32 0"
    using assms(1) i by (simp add: delays_shaped_def)
  have new: "length (overlay bs (replicate 32 0)) = 32" "0 \<in> set (overlay bs (replicate 32 (0::u8)))"
    using assms(3,4) by (auto simp: overlay_def)
  have "\<forall>d\<in>set ((d_delays di)[i := overlay bs (replicate 32 0)]). length d = 32 \<and> 0 \<in> set d"
    using assms(1) new set_update_subset_insert [of "d_delays di" i "overlay bs (replicate 32 0)"]
    by (fastforce simp: delays_shaped_def)
  then show ?thesis
    using assms(1) i slot by (auto simp: delays_shaped_def simp flip: i_def)
qed

lemma op_ok_delay:
  assumes "op_ok T k v" and "\<not> 5 \<le> delay_idx v" and "length bs \<le> 32"
    and "length bs < 32 \<or> 0 \<in> set bs"
  shows "op_ok T k (add_delay v bs)"
proof -
  have ds: "delays_shaped (v_di v)" using assms(1) by (simp add: op_ok_def shaped_def)
  then have cnt: "d_cnt (v_di v) = 0 \<or> d_cnt (v_di v) = 1 \<or> d_cnt (v_di v) = 2 \<or>
      d_cnt (v_di v) = 3 \<or> d_cnt (v_di v) = 4 \<or> d_cnt (v_di v) = 5"
    by (auto simp: delays_shaped_def)
  with assms(2) have "d_cnt (v_di v) < 5" by (auto simp: delay_idx_def)
  from delays_shaped_add [OF ds this assms(3,4)] assms(1) show ?thesis
    by (simp add: add_delay_def Let_def op_ok_def keyed_def shaped_def timed_def later_stamps_def)
qed

section \<open>The capture loops\<close>

lemma and_31_less: "unat (w AND 31 :: u8) < 32"
  using word_and_le1 [of w 31] by (simp add: word_le_nat_alt)

lemma and_15_less: "unat (w AND 15 :: u8) < 16"
  using word_and_le1 [of w 15] by (simp add: word_le_nat_alt)

context user_memory
begin

lemma overlay_zero_nul:
  "n < m \<Longrightarrow> length (overlay (read_user um b n) (replicate m (0::u8))) = m \<and>
     0 \<in> set (overlay (read_user um b n) (replicate m (0::u8)))"
  by (simp add: overlay_def read_user_len)

lemma cls_shaped_capture: "cls_shaped (capture_cls ro um a)"
  unfolding capture_cls_def Let_def cls_shaped_def
  by (simp only: cls_op.simps overlay_zero_nul and_15_less and_31_less)

lemma op_ok_capture_one:
  assumes "op_ok T k v"
  shows "op_ok T k (capture_one ro um a i v)"
proof -
  have "op_ok T k (v\<lparr>v_detail_ops := (v_detail_ops v)[i := w]\<rparr>)" for w
    using assms by simp
  from op_ok_cls [OF this cls_shaped_capture] this show ?thesis
    by (simp add: capture_one_def Let_def)
qed

lemma op_ok_capture_loop: "op_ok T k v \<Longrightarrow> op_ok T k (capture_loop ro um a is v)"
  by (induction "is" arbitrary: v) (auto intro: op_ok_capture_one)

lemma op_ok_capture: "op_ok T k v \<Longrightarrow> op_ok T k (capture_decoded_osd_ops ro um v a b)"
  by (simp add: capture_decoded_osd_ops_def Let_def op_ok_capture_loop)

end

lemma op_ok_txn_loop: "op_ok T k v \<Longrightarrow> op_ok T k (txn_loop um a n is v)"
  by (induction um a n "is" v rule: txn_loop.induct) (auto simp: Let_def)

section \<open>Every probe keeps the invariant\<close>

text \<open>
  In each lemma \<open>T\<close> is the first clock reading of the invocation (the second for the enqueue
  probe), and the invariant has been lifted to it.
\<close>

lemma zero_op_v_ok:
  "t = MSG_OSD_OP \<or> t = MSG_OSD_REPOP \<Longrightarrow> n \<le> T \<Longrightarrow>
   op_ok T \<lparr>k_pid = x, k_owner = y, k_tid = z\<rparr>
     (zero_op_v\<lparr>v_enqueue_stamp := n, v_pid := x, v_tid := z, v_owner := y, v_op_type := t, v_pi := (v_pi zero_op_v)\<lparr>peer1 := p, peer2 := q\<rparr>,
     v_recv_stamp := a, v_throttle_stamp := b, v_recv_complete_stamp := c,
     v_dispatch_stamp := d\<rparr>)"
  by (auto simp: op_ok_def keyed_def shaped_def timed_def later_stamps_def zero_op_v_def
      name_shaped_def cls_shaped_def zero_cls_op_def delays_shaped_def OBJECT_NAME_LEN_def
      MAX_DETAIL_OPS_def)

lemma osd_inv_fresh:
  assumes "replacing_map upd" and "osd_inv T s"
  shows "op_ok T key w \<Longrightarrow> osd_inv T (put_op key w (s\<lparr>s_ops := upd (s_ops s) key z\<rparr>))"
    and "osd_inv T (del_op key (s\<lparr>s_ops := upd (s_ops s) key z\<rparr>))"
    and "upd (s_ops s) key z key = None \<Longrightarrow> osd_inv T (s\<lparr>s_ops := upd (s_ops s) key z\<rparr>)"
proof -
  have old: "s_ops s k' = Some v" if "upd (s_ops s) key z k' = Some v" "k' \<noteq> key" for k' v
    using lru_map.upd_entry [OF replacing_map.axioms(1) [OF assms(1)] that(1)] that(2) by simp
  show "op_ok T key w \<Longrightarrow> osd_inv T (put_op key w (s\<lparr>s_ops := upd (s_ops s) key z\<rparr>))"
    using assms(2) old by (auto simp: osd_inv_def put_op_def)
  show "osd_inv T (del_op key (s\<lparr>s_ops := upd (s_ops s) key z\<rparr>))"
    using assms(2) old by (auto simp: osd_inv_def del_op_def)
  show "osd_inv T (s\<lparr>s_ops := upd (s_ops s) key z\<rparr>)" if "upd (s_ops s) key z key = None"
  proof -
    have "k' \<noteq> key" if "upd (s_ops s) key z k' = Some v" for k' v
      using that \<open>upd (s_ops s) key z key = None\<close> by auto
    with assms(2) old show ?thesis by (auto simp: osd_inv_def)
  qed
qed

lemma enqueue_op_inv:
  assumes "osd_inv T s" and "replacing_map (c_upd_ops c)" and "e_ktime e 0 \<le> T" and "e_ktime e 1 \<le> T"
  shows "osd_inv T (uprobe_enqueue_op c e s)"
proof -
  note fresh = osd_inv_fresh [OF assms(2) assms(1)]
  note found = replacing_map.upd_found [OF assms(2)]
  show ?thesis
    using assms(1,3,4)
    by (auto simp: uprobe_enqueue_op_def Let_def split: option.splits if_splits
        intro!: fresh zero_op_v_ok dest!: found)
qed

lemma read_opk_cases: "read_opk c e i = None \<or> (\<exists>k. read_opk c e i = Some k)"
  by (cases "read_opk c e i") auto

lemma dequeue_op_inv:
  "osd_inv (e_ktime e 0) s \<Longrightarrow> osd_inv (e_ktime e 0) (uprobe_dequeue_op c e s)"
  unfolding uprobe_dequeue_op_def Let_def
  by (auto split: option.splits intro!: inv_intros dest: osd_invD)

lemma name_len_bound:
  fixes len :: u32
  shows "unat ((if of_nat (OBJECT_NAME_LEN - 1) < len then of_nat (OBJECT_NAME_LEN - 1) else len)
           AND of_nat (OBJECT_NAME_LEN - 1)) \<le> OBJECT_NAME_LEN - 1"
  using word_and_le1 [of _ "63 :: u32"] by (simp add: OBJECT_NAME_LEN_def word_le_nat_alt)

context user_memory
begin

lemma op_ok_name_read: "op_ok T k v \<Longrightarrow> op_ok T k (read_object_name um a n v)"
  unfolding read_object_name_def Let_def
  by (rule op_ok_name) (simp_all only: read_user_len name_len_bound)

end

lemma execute_ctx_inv:
  assumes "osd_inv (e_ktime e 0) s" and "user_memory (e_mem e)"
  shows "osd_inv (e_ktime e 0) (uprobe_execute_ctx c e s)"
  unfolding uprobe_execute_ctx_def Let_def
  using assms(1)
  by (auto split: option.splits dest: osd_invD
      intro!: inv_intros user_memory.op_ok_name_read [OF assms(2)] user_memory.op_ok_capture [OF assms(2)])

lemma submit_transaction_inv:
  "osd_inv (e_ktime e 0) s \<Longrightarrow> osd_inv (e_ktime e 0) (uprobe_submit_transaction c e s)"
  unfolding uprobe_submit_transaction_def Let_def
  by (auto split: option.splits intro!: inv_intros dest: osd_invD)

lemma queue_transactions_inv:
  "osd_inv (e_ktime e 0) s \<Longrightarrow> osd_inv (e_ktime e 0) (uprobe_queue_transactions c e s)"
  unfolding uprobe_queue_transactions_def Let_def
  by (auto split: option.splits intro!: inv_intros dest: osd_invD)

lemma do_write_inv:
  "osd_inv (e_ktime e 0) s \<Longrightarrow> osd_inv (e_ktime e 0) (uprobe_do_write c e s)"
  unfolding uprobe_do_write_def Let_def
  by (auto split: option.splits intro!: inv_intros dest: osd_invD)

lemma wctx_finish_inv:
  "osd_inv (e_ktime e 0) s \<Longrightarrow> osd_inv (e_ktime e 0) (uprobe_wctx_finish c e s)"
  unfolding uprobe_wctx_finish_def Let_def
  by (auto split: option.splits intro!: inv_intros dest: osd_invD)

lemma txc_calc_cost_inv: "osd_inv T s \<Longrightarrow> osd_inv T (uprobe_txc_calc_cost c e s)"
  unfolding uprobe_txc_calc_cost_def Let_def
  by (auto split: option.splits intro!: inv_intros dest: osd_invD)

lemma op_ok_aio_submit:
  "op_ok T k v \<Longrightarrow> op_ok T k (v\<lparr>v_aio_submit_stamp := T, v_aio_size := n\<rparr>)"
  by simp

lemma txc_state_proc_inv:
  "osd_inv (e_ktime e 0) s \<Longrightarrow> osd_inv (e_ktime e 0) (uprobe_txc_state_proc c e s)"
  unfolding uprobe_txc_state_proc_def Let_def
  by (auto split: option.splits intro!: inv_intros op_ok_stamps op_ok_aio_submit dest: osd_invD)

lemma log_op_stats_inv:
  "osd_inv (e_ktime e 0) s \<Longrightarrow> osd_inv (e_ktime e 0) (uprobe_log_op_stats c e s)"
  unfolding uprobe_log_op_stats_def Let_def
  by (auto split: option.splits intro!: inv_intros dest: osd_invD)

lemma zero_event_ok:
  "event_ok T (OpEvent (zero_op_v\<lparr>v_owner := a, v_tid := b, v_pid := p, v_reply_stamp := T,
     v_wb := w, v_rb := r, v_recv_stamp := x, v_op_type := y\<rparr>))"
  by (simp add: shaped_def timed_def later_stamps_def zero_op_v_def
      name_shaped_def cls_shaped_def zero_cls_op_def delays_shaped_def OBJECT_NAME_LEN_def
      MAX_DETAIL_OPS_def)

lemma log_op_stats_v2_inv:
  "osd_inv (e_ktime e 0) s \<Longrightarrow> osd_inv (e_ktime e 0) (uprobe_log_op_stats_v2 c e s)"
  unfolding uprobe_log_op_stats_v2_def Let_def
  by (auto split: option.splits simp del: event_ok.simps intro!: inv_intros zero_event_ok)

lemma generate_subop_inv:
  "osd_inv (e_ktime e 0) s \<Longrightarrow> osd_inv (e_ktime e 0) (uprobe_generate_subop c e s)"
  unfolding uprobe_generate_subop_def Let_def
  by (auto split: option.splits intro!: inv_intros dest: osd_invD)

lemma do_repop_reply_inv:
  "osd_inv (e_ktime e 0) s \<Longrightarrow> osd_inv (e_ktime e 0) (uprobe_do_repop_reply c e s)"
  unfolding uprobe_do_repop_reply_def Let_def
  by (auto split: option.splits intro!: inv_intros dest: osd_invD)

lemma mark_flag_point_string_inv:
  assumes "osd_inv T s" and "user_memory (e_mem e)"
  shows "osd_inv T (uprobe_mark_flag_point_string c e s)"
  unfolding uprobe_mark_flag_point_string_def Let_def
  using assms(1)
  by (auto split: option.splits intro!: inv_intros op_ok_delay
      simp: user_memory.read_user_len [OF assms(2)] word_le_nat_alt dest: osd_invD)

lemma mark_flag_point_inv:
  assumes "osd_inv T s" and "user_memory (e_mem e)"
  shows "osd_inv T (uprobe_mark_flag_point c e s)"
  unfolding uprobe_mark_flag_point_def Let_def
  using assms(1) user_memory.read_user_str_len [OF assms(2)]
    user_memory.read_user_str_nul [OF assms(2)]
  by (auto split: option.splits intro!: inv_intros op_ok_delay dest: osd_invD)

lemma log_latency_event_inv:
  assumes "osd_inv T s" and "user_memory (e_mem e)"
  shows "osd_inv T (log_latency_event c e i s)"
  unfolding log_latency_event_def Let_def
  using assms(1) user_memory.overlay_read_str_len [OF assms(2)]
    user_memory.overlay_str_nul [OF assms(2)]
  by (auto split: option.splits intro!: inv_intros simp: BS_LAT_NAME_LEN_def)

lemma log_subop_stats_inv:
  "osd_inv (e_ktime e 0) s \<Longrightarrow> osd_inv (e_ktime e 0) (uprobe_log_subop_stats c e s)"
  unfolding uprobe_log_subop_stats_def Let_def
  by (auto split: option.splits intro!: inv_intros dest: osd_invD)

lemma ec_submit_transaction_inv: "osd_inv T s \<Longrightarrow> osd_inv T (uprobe_ec_submit_transaction c e s)"
  unfolding uprobe_ec_submit_transaction_def Let_def
  by (auto split: option.splits intro!: inv_intros)

lemma repop_name_ok:
  assumes "op_ok T k v" and "user_memory (e_mem e)"
  shows "op_ok T k (repop_name c e v)"
  unfolding repop_name_def Let_def
  using assms(1)
  by (auto split: option.splits intro!: user_memory.op_ok_name_read [OF assms(2)])

lemma repop_commit_inv:
  assumes "osd_inv (e_ktime e 0) s" and "user_memory (e_mem e)"
  shows "osd_inv (e_ktime e 0) (uprobe_repop_commit c e s)"
  unfolding uprobe_repop_commit_def Let_def
  using assms
  by (auto split: option.splits intro!: inv_intros repop_name_ok dest: osd_invD)

lemma txc_add_transaction_inv:
  "osd_inv T s \<Longrightarrow> osd_inv T (uprobe_txc_add_transaction c e s)"
  unfolding uprobe_txc_add_transaction_def Let_def
  by (auto split: option.splits intro!: inv_intros op_ok_txn_loop dest: osd_invD)

lemma osd_step_inv:
  assumes "osd_inv (e_ktime (snd pe) 0) s" and "user_memory (e_mem (snd pe))"
    and "replacing_map (c_upd_ops c)" and "e_ktime (snd pe) 0 \<le> e_ktime (snd pe) 1"
  shows "osd_inv (e_ktime (snd pe) 1) (osd_step c pe s)"
proof -
  obtain p e where pe: "pe = (p, e)" by (cases pe)
  show ?thesis
  proof (cases "p = EnqueueOp")
    case True
    with assms pe show ?thesis
      by (simp add: osd_step_def enqueue_op_inv osd_inv_mono)
  next
    case False
    with assms pe have "osd_inv (e_ktime e 0) (osd_step c pe s)"
      by (cases p)
        (simp_all add: osd_step_def uprobe_log_latency_def uprobe_log_latency_fn_def
          dequeue_op_inv execute_ctx_inv submit_transaction_inv queue_transactions_inv
          do_write_inv wctx_finish_inv txc_calc_cost_inv txc_state_proc_inv log_op_stats_inv
          log_op_stats_v2_inv generate_subop_inv do_repop_reply_inv mark_flag_point_string_inv
          mark_flag_point_inv log_latency_event_inv log_subop_stats_inv
          ec_submit_transaction_inv repop_commit_inv txc_add_transaction_inv)
    with assms pe show ?thesis by (simp add: osd_inv_mono)
  qed
qed

section \<open>The probes as a machine\<close>

text \<open>
  The state is paired with the last clock reading; a hit is admissible when the clock has not
  gone back, user memory obeys its laws and the op map replaces present keys.
\<close>

definition osd_machine :: "osd_cfg \<Rightarrow> osd_probe \<times> kenv \<Rightarrow> osd_bpf \<times> u64 \<Rightarrow> osd_bpf \<times> u64" where
  "osd_machine c pe st = (osd_step c pe (fst st), e_ktime (snd pe) 1)"

definition osd_good :: "osd_cfg \<Rightarrow> osd_bpf \<times> u64 \<Rightarrow> osd_probe \<times> kenv \<Rightarrow> bool" where
  "osd_good c st pe \<longleftrightarrow>
     snd st \<le> e_ktime (snd pe) 0 \<and> e_ktime (snd pe) 0 \<le> e_ktime (snd pe) 1 \<and>
     user_memory (e_mem (snd pe)) \<and> replacing_map (c_upd_ops c)"

definition clocked_inv :: "osd_bpf \<times> u64 \<Rightarrow> bool" where
  "clocked_inv st = osd_inv (snd st) (fst st)"

interpretation osd: probe_machine "osd_machine c" "osd_good c" clocked_inv for c
proof
  fix st x
  assume "clocked_inv st" "osd_good c st x"
  then show "clocked_inv (osd_machine c x st)"
    unfolding clocked_inv_def osd_machine_def osd_good_def
    using osd_inv_mono osd_step_inv by fastforce
qed

lemma osd_init_inv: "osd_inv T osd_init"
  by (simp add: osd_inv_def osd_init_def)

section \<open>Which probes emit, and what\<close>

lemma rb_helpers [simp]:
  "s_rb (put_op k v s) = s_rb s" "s_rb (del_op k s) = s_rb s" "s_rb (del_ptid t s) = s_rb s"
  "s_rb (set_ptid c t k s) = s_rb s" "s_rb (del_ctx x s) = s_rb s" "s_rb (set_ctx c x k s) = s_rb s"
  "s_rb (count_rb_drop e s) = s_rb s" "s_rb (submit ev s) = s_rb s @ [ev]"
  "s_rb (s\<lparr>s_ops := m\<rparr>) = s_rb s"
  by (simp_all add: put_del_ops)

lemma rb_bind_ctx [simp]: "s_rb (bind_ctx c e i k s) = s_rb s"
  by (simp add: bind_ctx_def Let_def split: option.splits)

definition emitting :: "osd_probe \<Rightarrow> bool" where
  "emitting p \<longleftrightarrow> p \<in> {LogOpStats, LogOpStatsV2, LogLatency, LogLatencyFn, LogSubopStats, RepopCommit}"

lemma rb_quiet_1:
  "s_rb (uprobe_enqueue_op c e s) = s_rb s" "s_rb (uprobe_dequeue_op c e s) = s_rb s"
  "s_rb (uprobe_execute_ctx c e s) = s_rb s" "s_rb (uprobe_submit_transaction c e s) = s_rb s"
  "s_rb (uprobe_queue_transactions c e s) = s_rb s" "s_rb (uprobe_do_write c e s) = s_rb s"
  "s_rb (uprobe_wctx_finish c e s) = s_rb s" "s_rb (uprobe_txc_calc_cost c e s) = s_rb s"
  by (auto simp: uprobe_enqueue_op_def uprobe_dequeue_op_def uprobe_execute_ctx_def
      uprobe_submit_transaction_def uprobe_queue_transactions_def uprobe_do_write_def
      uprobe_wctx_finish_def uprobe_txc_calc_cost_def Let_def split: option.splits)

lemma rb_quiet_2:
  "s_rb (uprobe_txc_state_proc c e s) = s_rb s" "s_rb (uprobe_generate_subop c e s) = s_rb s"
  "s_rb (uprobe_do_repop_reply c e s) = s_rb s" "s_rb (uprobe_mark_flag_point_string c e s) = s_rb s"
  "s_rb (uprobe_mark_flag_point c e s) = s_rb s" "s_rb (uprobe_ec_submit_transaction c e s) = s_rb s"
  "s_rb (uprobe_txc_add_transaction c e s) = s_rb s"
  by (auto simp: uprobe_txc_state_proc_def uprobe_generate_subop_def uprobe_do_repop_reply_def
      uprobe_mark_flag_point_string_def uprobe_mark_flag_point_def
      uprobe_ec_submit_transaction_def uprobe_txc_add_transaction_def Let_def
      split: option.splits)

lemma rb_quiet: "\<not> emitting p \<Longrightarrow> s_rb (osd_prog p c e s) = s_rb s"
  by (cases p) (simp_all add: emitting_def rb_quiet_1 rb_quiet_2)

lemma rb_emit_op: "s_rb (emit_op e k v s) = s_rb s @ (if e_rb_ok e then [OpEvent v] else [])"
  by (simp add: emit_op_def)

lemma rb_emit_bs: "s_rb (emit_bs e b s) = s_rb s @ (if e_rb_ok e then [BluestoreEvent b] else [])"
  by (simp add: emit_bs_def)

text \<open>
  The three probes that complete an entry: either nothing is emitted, or the entry of the key
  is stamped, emitted and removed.
\<close>

definition completes :: "kenv \<Rightarrow> osd_bpf \<Rightarrow> osd_bpf \<Rightarrow> bool" where
  "completes e s s' \<longleftrightarrow>
     (\<exists>k v v'. s_ops s k = Some v \<and> v_reply_stamp v' = e_ktime e 0 \<and>
        v_pid v' = v_pid v \<and> v_owner v' = v_owner v \<and> v_tid v' = v_tid v \<and>
        s' = emit_op e k v' s)"

lemma completesI:
  "s_ops s k = Some v \<Longrightarrow> v_reply_stamp v' = e_ktime e 0 \<Longrightarrow> v_pid v' = v_pid v \<Longrightarrow>
   v_owner v' = v_owner v \<Longrightarrow> v_tid v' = v_tid v \<Longrightarrow> completes e s (emit_op e k v' s)"
  by (auto simp: completes_def)

lemma completes_cases:
  "s' = uprobe_log_op_stats c e s \<or> s' = uprobe_log_subop_stats c e s \<or>
   s' = uprobe_repop_commit c e s \<Longrightarrow> s_rb s' = s_rb s \<or> completes e s s'"
proof -
  have nm: "v_reply_stamp (repop_name c e v) = v_reply_stamp v" "v_pid (repop_name c e v) = v_pid v"
    "v_owner (repop_name c e v) = v_owner v" "v_tid (repop_name c e v) = v_tid v" for v
    by (simp_all add: repop_name_def read_object_name_def Let_def split: option.splits)
  have "s_rb (uprobe_log_op_stats c e s) = s_rb s \<or> completes e s (uprobe_log_op_stats c e s)"
    unfolding uprobe_log_op_stats_def
    by (auto split: option.splits intro: completesI)
  moreover have "s_rb (uprobe_log_subop_stats c e s) = s_rb s \<or>
      completes e s (uprobe_log_subop_stats c e s)"
    unfolding uprobe_log_subop_stats_def Let_def
    by (auto split: option.splits intro: completesI)
  moreover have "s_rb (uprobe_repop_commit c e s) = s_rb s \<or>
      completes e s (uprobe_repop_commit c e s)"
    unfolding uprobe_repop_commit_def Let_def
    by (auto split: option.splits intro: completesI simp: nm)
  ultimately show "s' = uprobe_log_op_stats c e s \<or> s' = uprobe_log_subop_stats c e s \<or>
   s' = uprobe_repop_commit c e s \<Longrightarrow> s_rb s' = s_rb s \<or> completes e s s'" by blast
qed

definition key_of :: "op_v \<Rightarrow> op_k" where
  "key_of v = \<lparr>k_pid = v_pid v, k_owner = v_owner v, k_tid = v_tid v\<rparr>"

lemma keyed_key_of: "keyed k v \<Longrightarrow> key_of v = k"
  by (simp add: keyed_def key_of_def)

lemma rb_step:
  "\<exists>evs. length evs \<le> 1 \<and> s_rb (osd_prog p c e s) = s_rb s @ evs \<and>
     (evs \<noteq> [] \<longrightarrow> emitting p \<and> e_rb_ok e)"
proof (cases "emitting p")
  case False
  then show ?thesis using rb_quiet [of p c e s] by (intro exI [of _ "[]"]) simp
next
  case True
  have "\<exists>evs. length evs \<le> 1 \<and> s_rb (osd_prog p c e s) = s_rb s @ evs \<and> (evs \<noteq> [] \<longrightarrow> e_rb_ok e)"
    using True
    by (cases p)
      (auto simp: emitting_def uprobe_log_op_stats_def uprobe_log_op_stats_v2_def
        uprobe_log_latency_def uprobe_log_latency_fn_def log_latency_event_def
        uprobe_log_subop_stats_def uprobe_repop_commit_def Let_def rb_emit_op rb_emit_bs
        split: option.splits)
  with True show ?thesis by blast
qed

lemma completes_removes:
  assumes "completes e s s'" and "osd_inv T s" and "s_rb s' = s_rb s @ [OpEvent v]"
  shows "s_ops s (key_of v) \<noteq> None \<and> s_ops s' (key_of v) = None"
proof -
  from assms(1) obtain k w v' where c: "s_ops s k = Some w" "v_pid v' = v_pid w"
    "v_owner v' = v_owner w" "v_tid v' = v_tid w" "s' = emit_op e k v' s"
    by (auto simp: completes_def)
  from assms(3) c(5) have v: "v = v'" by (simp add: rb_emit_op split: if_splits)
  from osd_invD [OF assms(2) c(1)] have "key_of w = k" by (simp add: op_ok_def keyed_key_of)
  with c v have "key_of v = k" by (simp add: key_of_def)
  with c show ?thesis by (simp add: emit_op_def put_del_ops)
qed

section \<open>What the capture loops record\<close>

lemma total_capture_one [simp]: "v_detail_ops_total (capture_one ro um a i v) = v_detail_ops_total v"
  by (simp add: capture_one_def Let_def)

lemma captured_capture_one [simp]:
  "v_detail_ops_captured (capture_one ro um a i v) = v_detail_ops_captured v + 1"
  by (simp add: capture_one_def Let_def)

lemma unat_of_nat_small: "i < 4294967296 \<Longrightarrow> unat (of_nat i :: u32) = i"
  by (simp add: unat_of_nat)

lemma capture_loop_fold:
  "n \<le> 4294967296 \<Longrightarrow> capture_loop ro um a [i..<n] v =
     fold (capture_one ro um a) [i..<min n (unat (v_detail_ops_total v))] v"
proof (induction "n - i" arbitrary: i v)
  case 0
  then show ?case by simp
next
  case (Suc d)
  then have i: "i < n" "[i..<n] = i # [Suc i..<n]" by (simp_all add: upt_conv_Cons)
  have u: "v_detail_ops_total v \<le> of_nat i \<longleftrightarrow> unat (v_detail_ops_total v) \<le> i"
    using i Suc.prems by (simp add: word_le_nat_alt unat_of_nat_small)
  show ?case
  proof (cases "unat (v_detail_ops_total v) \<le> i")
    case True
    then show ?thesis using i u by simp
  next
    case False
    then have "[i..<min n (unat (v_detail_ops_total v))] =
        i # [Suc i..<min n (unat (v_detail_ops_total v))]"
      using i by (simp add: upt_conv_Cons)
    moreover have "d = n - Suc i" using Suc.hyps(2) by simp
    from Suc.hyps(1) [OF this Suc.prems]
    have "capture_loop ro um a [Suc i..<n] (capture_one ro um a i v) =
        fold (capture_one ro um a) [Suc i..<min n (unat (v_detail_ops_total v))] (capture_one ro um a i v)"
      by simp
    ultimately show ?thesis using False u i by simp
  qed
qed

definition opcode_at :: "osd_rodata \<Rightarrow> user_mem \<Rightarrow> u64 \<Rightarrow> nat \<Rightarrow> u16" where
  "opcode_at ro um a i = u16_of (read_user um (a + ucast (of_nat i * CEPH_OSD_OP_SIZE ro)) 2)"

lemma fold_capture_detail:
  "v_detail_ops (fold (capture_one ro um a) [0..<n] v) =
     map (\<lambda>i. ucast (opcode_at ro um a i)) [0..<min n (length (v_detail_ops v))]
       @ drop n (v_detail_ops v)"
proof (induction n)
  case 0
  then show ?case by simp
next
  case (Suc n)
  have step: "v_detail_ops (capture_one ro um a n w) = (v_detail_ops w)[n := ucast (opcode_at ro um a n)]" for w
    by (simp add: capture_one_def Let_def opcode_at_def)
  show ?case
  proof (cases "n < length (v_detail_ops v)")
    case True
    then show ?thesis
      by (simp add: step Suc.IH list_update_append Cons_nth_drop_Suc [symmetric] min_def)
  next
    case False
    then show ?thesis by (simp add: step Suc.IH min_def list_update_beyond)
  qed
qed

lemma fold_capture_captured:
  "v_detail_ops_captured (fold (capture_one ro um a) is v) = v_detail_ops_captured v + of_nat (length is)"
  by (induction "is" arbitrary: v) (simp_all add: algebra_simps)

lemma fold_capture_total: "v_detail_ops_total (fold (capture_one ro um a) is v) = v_detail_ops_total v"
  by (induction "is" arbitrary: v) simp_all


lemma capture_spec:
  assumes "CEPH_OSD_OP_SIZE ro \<noteq> 0" and "a \<noteq> 0" and "a \<le> b"
  shows "capture_decoded_osd_ops ro um v a b =
    (let total = ucast ((b - a) div ucast (CEPH_OSD_OP_SIZE ro))
     in fold (capture_one ro um a) [0..<min MAX_DETAIL_OPS (unat total)] (v\<lparr>v_detail_ops_total := total\<rparr>))"
  using assms by (simp add: capture_decoded_osd_ops_def Let_def capture_loop_fold MAX_DETAIL_OPS_def
      not_less)

definition txn_opcode :: "user_mem \<Rightarrow> u64 \<Rightarrow> nat \<Rightarrow> u32" where
  "txn_opcode um a i = u32_of (read_user um (a + of_nat i * OBJECTSTORE_TXN_OP_SIZE) 4)"

lemma and_7_small: "n < 8 \<Longrightarrow> unat ((of_nat n :: u32) AND 7) = n"
proof -
  have "list_all (\<lambda>n. unat ((of_nat n :: u32) AND 7) = n) [0..<8]" by code_simp
  then show "n < 8 \<Longrightarrow> unat ((of_nat n :: u32) AND 7) = n" by (simp add: list_all_iff)
qed

lemma txn_loop_spec:
  assumes "v_detail_ops_captured v = of_nat c" and "c \<le> 8" and "length (v_detail_ops v) = 8"
    and "m \<le> 8" and "k = min (min m (unat n) - i) (8 - c)"
  shows "txn_loop um a n [i..<m] v =
     v\<lparr>v_detail_ops := take c (v_detail_ops v) @ map (txn_opcode um a) [i..<i + k]
          @ drop (c + k) (v_detail_ops v),
       v_detail_ops_captured := of_nat (c + k)\<rparr>"
  using assms(1-3,5)
proof (induction "m - i" arbitrary: i v c k)
  case 0
  then show ?case by simp
next
  case (Suc d)
  from Suc.hyps(2) have i: "i < m" "[i..<m] = i # [Suc i..<m]" by (simp_all add: upt_conv_Cons)
  have u: "n \<le> of_nat i \<longleftrightarrow> unat n \<le> i"
    using i assms(4) by (simp add: word_le_nat_alt unat_of_nat)
  have c8: "(8 :: u32) \<le> of_nat c \<longleftrightarrow> c = 8"
    using Suc.prems(2) by (simp add: word_le_nat_alt unat_of_nat)
  show ?case
  proof (cases "unat n \<le> i \<or> c = 8")
    case True
    then show ?thesis using i u c8 Suc.prems
      by (auto simp: Let_def MAX_DETAIL_OPS_def)
  next
    case False
    define j where "j = min (min m (unat n) - Suc i) (8 - Suc c)"
    have kj: "k = Suc j" using False i Suc.prems(2,4) by (auto simp: j_def min_def)
    have up: "[i..<i + Suc j] = i # [Suc i..<Suc i + j]" by (simp add: upt_conv_Cons)
    define w where "w = v\<lparr>v_detail_ops := (v_detail_ops v)[c := txn_opcode um a i],
        v_detail_ops_captured := of_nat (Suc c)\<rparr>"
    have c: "c < 8" using False Suc.prems(2) by simp
    have "txn_loop um a n [i..<m] v = txn_loop um a n [Suc i..<m] w"
      using False i u c8 c Suc.prems(1)
      by (simp add: Let_def MAX_DETAIL_OPS_def w_def and_7_small txn_opcode_def add.commute)
    also have "\<dots> = w\<lparr>v_detail_ops := take (Suc c) (v_detail_ops w)
          @ map (txn_opcode um a) [Suc i..<Suc i + j] @ drop (Suc c + j) (v_detail_ops w),
       v_detail_ops_captured := of_nat (Suc c + j)\<rparr>"
      using Suc.hyps(2) c Suc.prems(3) by (intro Suc.hyps(1)) (simp_all add: w_def j_def)
    also have "\<dots> = v\<lparr>v_detail_ops := take c (v_detail_ops v)
          @ map (txn_opcode um a) [i..<i + k] @ drop (c + k) (v_detail_ops v),
       v_detail_ops_captured := of_nat (c + k)\<rparr>"
      unfolding kj up using c Suc.prems(3) by (simp add: w_def take_Suc_conv_app_nth)
    finally show ?thesis .
  qed
qed

end
