(* ===== verification/Host.thy ===== *)
theory Host
  imports CxxString
begin

text \<open>
  The host the tools run on, as the sources see it: what the C library and the kernel answer
  to \<open>readlink\<close>, \<open>access\<close>, \<open>std::ifstream\<close>, \<open>opendir\<close>, \<open>popen\<close>, \<open>dlopen\<close>, \<open>getenv\<close>,
  \<open>uname\<close> and the libelf note walk. All of it is a parameter: a record of functions that
  every definition using the host takes as an argument.
\<close>

record host =
  h_readlink :: "string \<Rightarrow> string option"       \<comment> \<open>the whole link target\<close>
  h_exists :: "string \<Rightarrow> bool"                  \<comment> \<open>\<open>access(p, F_OK) == 0\<close>\<close>
  h_executable :: "string \<Rightarrow> bool"              \<comment> \<open>\<open>access(p, X_OK) == 0\<close>\<close>
  h_lines :: "string \<Rightarrow> string list option"     \<comment> \<open>lines of a file, \<open>None\<close> when it does not open\<close>
  h_tokens :: "string \<Rightarrow> string list option"    \<comment> \<open>its NUL-separated tokens\<close>
  h_proc :: "(string \<times> bool) list option"       \<comment> \<open>entries of \<open>/proc\<close>: name, is a directory\<close>
  h_popen :: "string \<Rightarrow> string option"          \<comment> \<open>what the command prints\<close>
  h_dlopen_loaded :: "string \<Rightarrow> bool"           \<comment> \<open>\<open>dlopen(.., RTLD_NOLOAD)\<close> succeeds\<close>
  h_dlopen :: "string \<Rightarrow> bool"                  \<comment> \<open>\<open>dlopen(.., RTLD_LAZY)\<close> succeeds\<close>
  h_dlinfo :: "string \<Rightarrow> string option"         \<comment> \<open>\<open>link_map->l_name\<close> of the open library\<close>
  h_getenv :: "string \<Rightarrow> string option"
  h_uname :: "string option"                    \<comment> \<open>\<open>utsname.machine\<close>\<close>
  h_elf_notes :: "string \<Rightarrow> (string \<times> (nat \<times> bytes) list) list option"
                                                \<comment> \<open>per note section: its name, then each note's type and descriptor\<close>
  h_euid :: int
  h_self :: int

text \<open>\<open>readlink(p, buf, n)\<close> truncates silently to \<open>n\<close> bytes.\<close>

definition readlink_n :: "host \<Rightarrow> string \<Rightarrow> nat \<Rightarrow> string option" where
  "readlink_n h p n = map_option (take n) (h_readlink h p)"

definition proc_file :: "int \<Rightarrow> string \<Rightarrow> string" where
  "proc_file pid f = ''/proc/'' @ show_int pid @ f"

end
