(* ===== verification/Process_Utils.thy ===== *)
theory Process_Utils
  imports Host
begin

text \<open>
  \<open>src/utils.h\<close>: the base name of a path, the executable of a process and the OSD id of a
  command line.
\<close>

section \<open>get_basename\<close>

definition get_basename :: "string \<Rightarrow> string" where
  "get_basename path =
     (case find_last_of (CHR ''/'') path of
        Some pos \<Rightarrow> drop (Suc pos) path
      | None \<Rightarrow> path)"

lemma get_basename_no_slash: "CHR ''/'' \<notin> set (get_basename path)"
  by (auto simp: get_basename_def find_last_of_None dest: find_last_of_Some split: option.splits)

lemma get_basename_id [simp]: "CHR ''/'' \<notin> set p \<Longrightarrow> get_basename p = p"
  by (simp add: get_basename_def find_last_of_None [THEN iffD2])

lemma get_basename_dir [simp]: "CHR ''/'' \<notin> set f \<Longrightarrow> get_basename (d @ CHR ''/'' # f) = f"
  by (simp add: get_basename_def)

lemma get_basename_idem [simp]: "get_basename (get_basename p) = get_basename p"
  by (simp add: get_basename_no_slash)

lemma get_basename_decomp: "\<exists>d. path = d @ get_basename path \<and> (d = [] \<or> last d = CHR ''/'')"
proof (cases "find_last_of (CHR ''/'') path")
  case None
  then show ?thesis by (simp add: get_basename_def)
next
  case (Some i)
  have "path = (take i path @ [CHR ''/'']) @ drop (Suc i) path"
    using find_last_of_split [OF Some] by simp
  with Some show ?thesis by (intro exI [of _ "take i path @ [CHR ''/'']"]) (simp add: get_basename_def)
qed

section \<open>get_exe_path_for_pid\<close>

text \<open>The buffer is 4096 bytes and \<open>readlink\<close> is given one less.\<close>

definition get_exe_path_for_pid :: "host \<Rightarrow> int \<Rightarrow> string" where
  "get_exe_path_for_pid h pid =
     (case readlink_n h (proc_file pid ''/exe'') 4095 of
        None \<Rightarrow> []
      | Some target \<Rightarrow>
          (case str_find '' (deleted)'' target of
             Some deleted_pos \<Rightarrow> take deleted_pos target
           | None \<Rightarrow> target))"

lemma get_exe_path_clean: "\<not> str_contains '' (deleted)'' (get_exe_path_for_pid h pid)"
proof (cases "readlink_n h (proc_file pid ''/exe'') 4095")
  case None
  then show ?thesis by (simp add: get_exe_path_for_pid_def str_contains_def)
next
  case (Some target)
  show ?thesis
  proof (cases "str_find '' (deleted)'' target")
    case None
    with Some show ?thesis by (simp add: get_exe_path_for_pid_def str_contains_def)
  next
    case pos: (Some i)
    have "\<not> str_contains '' (deleted)'' (take i target)"
      by (rule str_find_first [OF pos]) simp
    with Some pos show ?thesis by (simp add: get_exe_path_for_pid_def)
  qed
qed

section \<open>parse_osd_id_from_tokens\<close>

text \<open>
  The five cases tried for the token \<open>arg\<close> with the tokens \<open>rest\<close> after it, in the source's
  order. A case whose \<open>std::stoi\<close> throws is caught and the next case is tried.
\<close>

definition osd_id_next :: "string \<Rightarrow> string list \<Rightarrow> int option" where
  "osd_id_next arg rest =
     (if (arg = ''--id'' \<or> arg = ''-i'') \<and> rest \<noteq> [] then stoi (hd rest) else None)"

definition osd_id_assign :: "string \<Rightarrow> int option" where
  "osd_id_assign arg = (if starts_with ''--id='' arg then stoi (drop 5 arg) else None)"

definition osd_id_joined :: "string \<Rightarrow> int option" where
  "osd_id_joined arg =
     (if 2 < length arg \<and> starts_with ''-i'' arg \<and> is_digit (arg ! 2)
      then stoi (drop 2 arg) else None)"

definition osd_id_name :: "string \<Rightarrow> string list \<Rightarrow> int option" where
  "osd_id_name arg rest =
     (if (arg = ''-n'' \<or> arg = ''--name'') \<and> rest \<noteq> [] \<and> starts_with ''osd.'' (hd rest)
      then stoi (drop 4 (hd rest)) else None)"

definition osd_id_name_assign :: "string \<Rightarrow> int option" where
  "osd_id_name_assign arg =
     (if starts_with ''--name=osd.'' arg then stoi (drop 11 arg) else None)"

fun first_some :: "'a option list \<Rightarrow> 'a option" where
  "first_some [] = None"
| "first_some (Some x # _) = Some x"
| "first_some (None # xs) = first_some xs"

definition osd_id_at :: "string \<Rightarrow> string list \<Rightarrow> int option" where
  "osd_id_at arg rest =
     first_some [osd_id_next arg rest, osd_id_assign arg, osd_id_joined arg,
                 osd_id_name arg rest, osd_id_name_assign arg]"

fun parse_osd_id_from_tokens :: "string list \<Rightarrow> int" where
  "parse_osd_id_from_tokens [] = - 1"
| "parse_osd_id_from_tokens (arg # rest) =
     (case osd_id_at arg rest of
        Some v \<Rightarrow> v
      | None \<Rightarrow> parse_osd_id_from_tokens rest)"

text \<open>The tokens that can start one of the five cases.\<close>

definition osd_id_option :: "string \<Rightarrow> bool" where
  "osd_id_option t \<longleftrightarrow>
     starts_with ''--id'' t \<or> starts_with ''-i'' t \<or> t = ''-n'' \<or> starts_with ''--name'' t"

lemma osd_id_at_other: "\<not> osd_id_option t \<Longrightarrow> osd_id_at t rest = None"
  by (auto simp: osd_id_option_def osd_id_at_def osd_id_next_def osd_id_assign_def
      osd_id_joined_def osd_id_name_def osd_id_name_assign_def starts_with_iff)

lemma parse_osd_id_skip:
  "\<forall>t \<in> set pre. \<not> osd_id_option t \<Longrightarrow>
   parse_osd_id_from_tokens (pre @ rest) = parse_osd_id_from_tokens rest"
  by (induction pre) (simp_all add: osd_id_at_other)

lemmas osd_id_case_defs =
  osd_id_at_def osd_id_next_def osd_id_assign_def osd_id_joined_def osd_id_name_def
  osd_id_name_assign_def

lemma hd_show_nat_digit: "is_digit (show_nat n ! 0)"
  by (metis hd_conv_nth hd_in_set show_nat_digits show_nat_not_Nil)

lemma osd_id_formats:
  assumes "n < 2147483648"
  shows "osd_id_at ''--id'' (show_nat n # post) = Some (int n)"
    and "osd_id_at ''-i'' (show_nat n # post) = Some (int n)"
    and "osd_id_at (''--id='' @ show_nat n) post = Some (int n)"
    and "osd_id_at (''-i'' @ show_nat n) post = Some (int n)"
    and "osd_id_at ''-n'' ((''osd.'' @ show_nat n) # post) = Some (int n)"
    and "osd_id_at ''--name'' ((''osd.'' @ show_nat n) # post) = Some (int n)"
    and "osd_id_at (''--name=osd.'' @ show_nat n) post = Some (int n)"
  using assms hd_show_nat_digit [of n]
  by (simp_all add: osd_id_case_defs stoi_show_nat)

end
