(* ===== verification/Osd_Report.thy ===== *)
theory Osd_Report
  imports Osd_Invariants Process_Utils
begin

text \<open>
  The userspace side of osdtrace (\<open>src/osdtrace.cc\<close>): turning an event of the ring buffer into
  latencies, the histograms of the single-probe mode, and the printed lines. The process state
  is the table of known OSDs, the two histogram maps and the lines written to standard output.
\<close>

section \<open>Time\<close>

record timespec =
  tv_sec :: int
  tv_nsec :: int

definition timespec_diff :: "timespec \<Rightarrow> timespec \<Rightarrow> timespec" where
  "timespec_diff start stop =
     (if tv_nsec stop - tv_nsec start < 0
      then \<lparr>tv_sec = tv_sec stop - tv_sec start - 1,
            tv_nsec = tv_nsec stop - tv_nsec start + 1000000000\<rparr>
      else \<lparr>tv_sec = tv_sec stop - tv_sec start, tv_nsec = tv_nsec stop - tv_nsec start\<rparr>)"

definition get_bootstamp :: "timespec \<Rightarrow> timespec \<Rightarrow> u64" where
  "get_bootstamp realtime boottime =
     (let prevtime = timespec_diff boottime realtime
      in of_int (tv_sec prevtime) * 1000000000 + of_int (tv_nsec prevtime))"

section \<open>Size classes\<close>

definition knum :: "u64 \<Rightarrow> int" where
  "knum x = to_c_int (uint (x div 1024))"

function lsb :: "int \<Rightarrow> int" where
  "lsb x = (if x > 0 then 1 + lsb (x div 2) else 0)"
  by auto
termination by (relation "measure nat") auto

declare lsb.simps [simp del]

definition index :: "int \<Rightarrow> int" where
  "index k = (let b = lsb k in if b \<le> 2 then 0 else min 10 (b - 2))"

definition size_ranges :: "string list" where
  "size_ranges = [''(0, 4k)'', ''[4k, 8k)'', ''[8K, 16k)'', ''[16k, 32k)'', ''[32k, 64k)'',
     ''[64k, 128k)'', ''[128k, 256k)'', ''[256k, 512k)'', ''[512k, 1M)'', ''[1M, )'']"

section \<open>State and settings\<close>

text \<open>The bits of \<open>probe_mode\<close>.\<close>

definition OP_SINGLE_PROBE :: int where "OP_SINGLE_PROBE = 1"
definition OP_FULL_PROBE :: int where "OP_FULL_PROBE = 2"
definition BLUESTORE_PROBE :: int where "BLUESTORE_PROBE = 4"

record osd_settings =
  g_probe_mode :: int
  g_bootstamp :: u64
  g_threshold :: u64        \<comment> \<open>milliseconds\<close>

text \<open>
  \<open>osds[i]\<close>, \<open>pids[i]\<close> for \<open>i < num_osd\<close> as a list of pairs; \<open>std::map::operator[]\<close> makes an
  absent key map to an empty vector.
\<close>

record osd_ui =
  ui_osds :: "(int \<times> int) list"
  ui_wsrl :: "int \<Rightarrow> u64 list list"
  ui_rsrl :: "int \<Rightarrow> u64 list list"
  ui_out :: "string list"

definition osd_exists :: "osd_ui \<Rightarrow> int \<Rightarrow> bool" where
  "osd_exists ui i = (i \<in> fst ` set (ui_osds ui))"

definition osd_pid_to_id :: "host \<Rightarrow> osd_ui \<Rightarrow> u32 \<Rightarrow> int" where
  "osd_pid_to_id h ui pid =
     (case find (\<lambda>op. snd op = sint pid) (ui_osds ui) of
        Some op \<Rightarrow> fst op
      | None \<Rightarrow>
          (case h_tokens h (''/proc/'' @ show_nat (unat pid) @ ''/cmdline'') of
             None \<Rightarrow> - 1
           | Some args \<Rightarrow> parse_osd_id_from_tokens args))"

definition say :: "string \<Rightarrow> osd_ui \<Rightarrow> osd_ui" where
  "say l ui = ui\<lparr>ui_out := ui_out ui @ [l]\<rparr>"

section \<open>Histograms\<close>

definition resize11 :: "u64 list list \<Rightarrow> u64 list list" where
  "resize11 vs = (if vs = [] then replicate 11 [] else vs)"

definition add_sample :: "int \<Rightarrow> u64 \<Rightarrow> u64 list list \<Rightarrow> u64 list list" where
  "add_sample idx lat vs = vs[nat idx := (vs ! nat idx) @ [lat]]"

definition handle_single :: "osd_settings \<Rightarrow> op_v \<Rightarrow> int \<Rightarrow> osd_ui \<Rightarrow> osd_ui" where
  "handle_single g val osd_id ui =
     (let wvecs = resize11 (ui_wsrl ui osd_id);
          rvecs = resize11 (ui_rsrl ui osd_id);
          ui1 = ui\<lparr>ui_wsrl := (ui_wsrl ui)(osd_id := wvecs), ui_rsrl := (ui_rsrl ui)(osd_id := rvecs)\<rparr>
      in
      if v_recv_stamp val = 0 then ui1
      else
        let op_lat = v_reply_stamp val - (v_recv_stamp val - g_bootstamp g) in
        if 0 < v_wb val then
          ui1\<lparr>ui_wsrl := (ui_wsrl ui1)(osd_id := add_sample (index (knum (v_wb val))) op_lat wvecs)\<rparr>
        else if 0 < v_rb val then
          ui1\<lparr>ui_rsrl := (ui_rsrl ui1)(osd_id := add_sample (index (knum (v_rb val))) op_lat rvecs)\<rparr>
        else ui1)"

text \<open>
  \<open>l * q\<close> for an \<open>int l\<close> and a \<open>double\<close> constant \<open>q = m / 2^e\<close>, converted to an index: the exact
  product \<open>l * m\<close> is rounded to 53 significant bits, ties to even, scaled and truncated.
\<close>

fun bit_len :: "nat \<Rightarrow> nat" where
  "bit_len n = (if n = 0 then 0 else Suc (bit_len (n div 2)))"

declare bit_len.simps [simp del]

definition round53 :: "nat \<Rightarrow> nat" where
  "round53 p =
     (let s = bit_len p - 53; q = p div 2 ^ s; r = p mod 2 ^ s in
      if s = 0 then p
      else if 2 ^ s < 2 * r \<or> (2 * r = 2 ^ s \<and> odd q) then (q + 1) * 2 ^ s else q * 2 ^ s)"

definition dbl_index :: "nat \<Rightarrow> nat \<times> nat \<Rightarrow> nat" where
  "dbl_index l me = round53 (l * fst me) div 2 ^ snd me"

definition percentiles :: "(string \<times> nat \<times> nat) list" where
  "percentiles =
     [(''10.00th='', 3602879701896397, 55), (''50.00th='', 1, 1),
      (''90.00th='', 8106479329266893, 53), (''95.00th='', 4278419646001971, 52),
      (''99.00th='', 4458563631096791, 52), (''99.50th='', 8962163258467287, 53)]"

text \<open>\<open>%lld\<close> prints the bits of an unsigned 64-bit value as a signed one, \<open>%d\<close> a 32-bit one.\<close>

definition show_lld :: "u64 \<Rightarrow> string" where
  "show_lld x = show_int (sint x)"

definition show_d32 :: "u32 \<Rightarrow> string" where
  "show_d32 x = show_int (sint x)"

definition print_lat_dist :: "u64 list \<Rightarrow> string" where
  "print_lat_dist v =
     (let l = length v; sum = sum_list (map (\<lambda>x. x div 1000) v) in
      ''min='' @ show_lld (v ! 0 div 1000) @ '' max='' @ show_lld (v ! (l - 1) div 1000) @
      '' avg='' @ show_lld (sum div of_nat l) @ '' '' @
      concat (map (\<lambda>(label, q). label @ show_lld (v ! dbl_index l q div 1000) @ '' '') percentiles))"

text \<open>One section of a histogram; the loop stops after as many rows as there are labels.\<close>

definition print_rows :: "string \<Rightarrow> u64 list list \<Rightarrow> string list" where
  "print_rows sep vs =
     map (\<lambda>(label, xs). label @ '' | '' @ show_nat (length xs) @ sep @
            (if xs = [] then [] else print_lat_dist (sort xs)))
       (zip size_ranges vs)"

definition print_srl :: "osd_ui \<Rightarrow> int \<Rightarrow> string list" where
  "print_srl ui osd =
     [''OSD '' @ show_int osd, ''@write:''] @ print_rows '' | '' (ui_wsrl ui osd) @
     [''@read:''] @ print_rows '' |'' (ui_rsrl ui osd)"

definition print_all_srl :: "osd_ui \<Rightarrow> string list" where
  "print_all_srl ui = concat (map (\<lambda>op. print_srl ui (fst op) @ ['''', '''']) (ui_osds ui))"

section \<open>An op as userspace sees it\<close>

record osd_op_t =
  o_type :: u16
  o_wb :: u32
  o_rb :: u32
  o_is_write :: bool
  o_client_id :: u64
  o_req_id :: u64
  o_m_pool :: u64
  o_m_seed :: u32
  o_throttle_lat :: u64
  o_recv_lat :: u64
  o_dispatch_lat :: u64
  o_queue_lat :: u64
  o_delayed_cnt :: u32
  o_delayed_strs :: "string list"
  o_osd_lat :: u64
  o_peers :: "(int \<times> u64) list"
  o_bs_prepare_lat :: u64
  o_bs_aio_wait_lat :: u64
  o_bs_pg_seq_lat :: u64
  o_bs_kv_commit_lat :: u64
  o_bs_lat :: u64
  o_aio_size :: int
  o_op_lat :: u64
  o_object_name :: string
  o_detail_ops :: "u32 list"
  o_cls_ops :: "cls_op list"
  o_detail_ops_total :: u32
  o_detail_ops_unavailable :: bool

definition str_of :: "bytes \<Rightarrow> string" where
  "str_of bs = map (\<lambda>b. char_of (unat b)) bs"

text \<open>
  The string a \<open>char *\<close> into an array denotes, when the array holds a NUL; the probe invariant
  gives one for every array read this way.
\<close>

definition c_str :: "bytes \<Rightarrow> string" where
  "c_str bs = str_of (takeWhile (\<lambda>b. b \<noteq> 0) bs)"

definition safe_lat_us :: "u64 \<Rightarrow> u64 \<Rightarrow> u64" where
  "safe_lat_us end start = (if start \<noteq> 0 \<and> start < end then (end - start) div 1000 else 0)"

definition peer_entry :: "int \<Rightarrow> u64 \<Rightarrow> u64 \<Rightarrow> (int \<times> u64) list" where
  "peer_entry peer recv sent =
     (if peer \<noteq> - 1 \<and> recv \<noteq> 0
      then [(peer, if sent < recv then (recv - sent) div 1000 else 0)] else [])"

definition generate_op :: "u64 \<Rightarrow> op_v \<Rightarrow> osd_op_t" where
  "generate_op bootstamp val =
     (let rb = (ucast (v_rb val) :: u32);
          is_write = (v_op_type val = MSG_OSD_REPOP \<or> v_submit_transaction_stamp val \<noteq> 0 \<or> 0 < v_wb val);
          captured = min (unat (v_detail_ops_captured val)) MAX_DETAIL_OPS;
          recv_stamp = (if v_throttle_stamp val < v_recv_stamp val then v_throttle_stamp val
                        else v_recv_stamp val);
          pi = v_pi val
      in \<lparr>o_type = v_op_type val, o_wb = ucast (v_wb val), o_rb = rb, o_is_write = is_write,
          o_client_id = v_owner val, o_req_id = v_tid val,
          o_m_pool = v_m_pool val, o_m_seed = v_m_seed val,
          o_throttle_lat = (v_throttle_stamp val - recv_stamp) div 1000,
          o_recv_lat = (v_recv_complete_stamp val - recv_stamp) div 1000,
          o_dispatch_lat = (v_enqueue_stamp val - (v_recv_complete_stamp val - bootstamp)) div 1000,
          o_queue_lat = (v_dequeue_stamp val - v_enqueue_stamp val) div 1000,
          o_delayed_cnt = of_int (d_cnt (v_di val)),
          o_delayed_strs = map (\<lambda>i. c_str (d_delays (v_di val) ! i)) [0..<nat (d_cnt (v_di val))],
          o_osd_lat =
            (if is_write then safe_lat_us (v_queue_transaction_stamp val) (v_dequeue_stamp val)
             else if 0 < rb then safe_lat_us (v_execute_ctx_stamp val) (v_dequeue_stamp val) else 0),
          o_peers =
            (if v_op_type val = MSG_OSD_OP
             then peer_entry (peer1 pi) (recv_stamp1 pi) (sent_stamp pi) @
                  peer_entry (peer2 pi) (recv_stamp2 pi) (sent_stamp pi)
             else []),
          o_bs_prepare_lat = safe_lat_us (v_aio_submit_stamp val) (v_queue_transaction_stamp val),
          o_bs_aio_wait_lat = safe_lat_us (v_aio_done_stamp val) (v_aio_submit_stamp val),
          o_bs_pg_seq_lat = safe_lat_us (v_kv_submit_stamp val) (v_aio_done_stamp val),
          o_bs_kv_commit_lat = safe_lat_us (v_kv_committed_stamp val) (v_kv_submit_stamp val),
          o_bs_lat =
            (if is_write then safe_lat_us (v_kv_committed_stamp val) (v_queue_transaction_stamp val)
             else if 0 < rb then safe_lat_us (v_reply_stamp val) (v_execute_ctx_stamp val) else 0),
          o_aio_size = v_aio_size val,
          o_op_lat = (v_reply_stamp val - (recv_stamp - bootstamp)) div 1000,
          o_object_name = str_of (take (strnlen (v_object_name val) OBJECT_NAME_LEN) (v_object_name val)),
          o_detail_ops = take captured (v_detail_ops val),
          o_cls_ops = take captured (v_cls_ops val) @ replicate (MAX_DETAIL_OPS - captured) zero_cls_op,
          o_detail_ops_total = v_detail_ops_total val,
          o_detail_ops_unavailable = (v_detail_ops_unavailable val \<noteq> 0)\<rparr>)"

section \<open>Formatting\<close>

definition hex_digit :: "nat \<Rightarrow> char" where
  "hex_digit d = ''0123456789ABCDEF'' ! d"

definition name_char_plain :: "string \<Rightarrow> char \<Rightarrow> bool" where
  "name_char_plain name ch =
     (let c = of_char ch :: nat in
      32 < c \<and> c \<noteq> 127 \<and> ch \<noteq> CHR ''%'' \<and> (ch \<noteq> CHR ''-'' \<or> length name \<noteq> 1))"

definition name_char :: "string \<Rightarrow> char \<Rightarrow> string" where
  "name_char name ch =
     (if name_char_plain name ch then [ch]
      else [CHR ''%'', hex_digit (of_char ch div 16), hex_digit (of_char ch mod 16)])"

definition format_object_name :: "string \<Rightarrow> string" where
  "format_object_name name = (if name = [] then ''-'' else concat (map (name_char name) name))"

definition format_detail_op :: "osd_op_t \<Rightarrow> bool \<Rightarrow> nat \<Rightarrow> string" where
  "format_detail_op op transaction_ops i =
     (let opcode = o_detail_ops op ! i in
      if \<not> transaction_ops \<and> ceph_osd_op_call (sint opcode) \<and> i < MAX_DETAIL_OPS \<and>
         cls_name (o_cls_ops op ! i) ! 0 \<noteq> 0
      then ''call('' @ c_str (cls_name (o_cls_ops op ! i)) @ ''.'' @
           c_str (method_name (o_cls_ops op ! i)) @ '')''
      else
        (case (if transaction_ops then objectstore_txn_op_str (uint opcode)
               else ceph_osd_op_str (sint opcode)) of
           Some name \<Rightarrow> name
         | None \<Rightarrow> ''unknown-'' @ show_nat (unat opcode)))"

definition format_detail_ops :: "osd_op_t \<Rightarrow> bool \<Rightarrow> string" where
  "format_detail_ops op transaction_ops =
     (if o_detail_ops_unavailable op
      then ''[unavailable+'' @ show_nat (unat (o_detail_ops_total op)) @ '']''
      else
        let n = length (o_detail_ops op) in
        ''['' @ str_join '','' (map (format_detail_op op transaction_ops) [0..<n]) @
        (if n < unat (o_detail_ops_total op)
         then (if o_detail_ops op \<noteq> [] then '','' else []) @
              ''...+'' @ show_nat (unat (o_detail_ops_total op) - n)
         else []) @ '']'')"

definition print_delayed_info :: "osd_op_t \<Rightarrow> string list" where
  "print_delayed_info op =
     (if 0 < o_delayed_cnt op
      then [concat (map (\<lambda>i. ''[delayed'' @ show_nat (i + 1) @ '' '' @ o_delayed_strs op ! i @ '' ]'')
              [0..<unat (o_delayed_cnt op)])]
      else [])"

definition format_peers :: "osd_op_t \<Rightarrow> string" where
  "format_peers op =
     str_join '', '' (map (\<lambda>(p, lat). ''('' @ show_int p @ '', '' @ show_nat (unat lat) @ '')'')
       (o_peers op))"

text \<open>The parts the three op lines share, in the order of the \<open>printf\<close> formats.\<close>

definition line_head :: "osd_op_t \<Rightarrow> int \<Rightarrow> string \<Rightarrow> u32 \<Rightarrow> string" where
  "line_head op osd_id kind size_arg =
     ''osd '' @ show_int osd_id @ '' pg '' @ show_lld (o_m_pool op) @ ''.'' @
     show_hex (unat (o_m_seed op)) @ '' '' @ kind @ '' size '' @ show_d32 size_arg @
     '' client '' @ show_lld (o_client_id op) @ '' tid '' @ show_lld (o_req_id op) @
     '' object '' @ format_object_name (o_object_name op)"

definition line_lats :: "osd_op_t \<Rightarrow> string" where
  "line_lats op =
     '' throttle_lat '' @ show_lld (o_throttle_lat op) @ '' recv_lat '' @ show_lld (o_recv_lat op) @
     '' dispatch_lat '' @ show_lld (o_dispatch_lat op) @ '' queue_lat '' @ show_lld (o_queue_lat op) @
     '' osd_lat '' @ show_lld (o_osd_lat op)"

definition print_op_r :: "osd_op_t \<Rightarrow> int \<Rightarrow> string list" where
  "print_op_r op osd_id =
     (line_head op osd_id ''op_r'' (o_rb op) @ '' osd_ops '' @ format_detail_ops op False @
      line_lats op @ '' bluestore_lat '' @ show_lld (o_bs_lat op) @
      '' op_lat '' @ show_lld (o_op_lat op)) # print_delayed_info op"

definition print_subop_w :: "osd_op_t \<Rightarrow> int \<Rightarrow> string list" where
  "print_subop_w op osd_id =
     (line_head op osd_id ''subop_w'' (o_wb op) @ '' txn_ops '' @ format_detail_ops op True @
      line_lats op @ '' bluestore_lat '' @ show_lld (o_bs_lat op) @
      '' subop_lat '' @ show_lld (o_op_lat op)) # print_delayed_info op"

definition print_op_w :: "osd_op_t \<Rightarrow> int \<Rightarrow> string list" where
  "print_op_w op osd_id =
     (line_head op osd_id ''op_w'' (o_wb op) @ '' osd_ops '' @ format_detail_ops op False @
      line_lats op @ '' peers ['' @ format_peers op @ '']'' @
      '' bluestore_lat '' @ show_lld (o_bs_lat op) @
      '' op_lat '' @ show_lld (o_op_lat op)) # print_delayed_info op"

text \<open>
  The drop report: \<open>fd\<close> is the map's descriptor, \<open>vals\<close> the per-CPU counters when libbpf can
  say how many CPUs there are and the lookup succeeds.
\<close>

definition report_ringbuf_drops :: "int \<Rightarrow> u64 list option \<Rightarrow> string list" where
  "report_ringbuf_drops rb_drops_fd vals =
     (if rb_drops_fd < 0 then []
      else case vals of None \<Rightarrow> [] | Some vs \<Rightarrow>
        let total = sum_list vs in
        if 0 < total
        then [''Warning: '' @ show_nat (unat total) @
              '' events were dropped because the ring buffer was full'']
        else [])"

section \<open>Event dispatch\<close>

definition handle_full :: "osd_settings \<Rightarrow> op_v \<Rightarrow> int \<Rightarrow> osd_ui \<Rightarrow> osd_ui" where
  "handle_full g val osd_id ui =
     (let op = generate_op (g_bootstamp g) val in
      if o_op_lat op div 1000 < g_threshold g then ui
      else fold say
        (if o_type op = MSG_OSD_REPOP then print_subop_w op osd_id
         else if o_type op = MSG_OSD_OP
         then (if o_is_write op then print_op_w op osd_id else print_op_r op osd_id)
         else [''unsupported op type '' @ show_nat (unat (o_type op))]) ui)"

definition handle_bluestore :: "bluestore_lat_v \<Rightarrow> int \<Rightarrow> osd_ui \<Rightarrow> osd_ui" where
  "handle_bluestore val osd_id ui =
     (let lat_us = bl_lat val div 1000;
          name = (if bl_name val ! 0 \<noteq> 0 then c_str (bl_name val) else ''?'')
      in say (''osd '' @ show_int osd_id @ '' bluestore '' @ name @ '' lat '' @ show_lld lat_us @ '' us'') ui)"

fun event_size :: "osd_event \<Rightarrow> nat" where
  "event_size (OpEvent v) = sizeof_op_v"
| "event_size (BluestoreEvent b) = sizeof_bluestore_lat_v"

text \<open>The record an event's bytes are, read as the one or the other.\<close>

definition as_op_v :: "osd_event \<Rightarrow> op_v" where
  "as_op_v ev = (case ev of OpEvent v \<Rightarrow> v | BluestoreEvent _ \<Rightarrow> zero_op_v)"

definition as_bluestore :: "osd_event \<Rightarrow> bluestore_lat_v" where
  "as_bluestore ev = (case ev of BluestoreEvent b \<Rightarrow> b
     | OpEvent _ \<Rightarrow> \<lparr>bl_pid = 0, bl_lat = 0, bl_name = []\<rparr>)"

definition register_osd :: "int \<Rightarrow> int \<Rightarrow> osd_ui \<Rightarrow> osd_ui" where
  "register_osd osd_id pid ui =
     (if osd_exists ui osd_id then ui else ui\<lparr>ui_osds := ui_osds ui @ [(osd_id, pid)]\<rparr>)"

definition handle_event :: "host \<Rightarrow> osd_settings \<Rightarrow> osd_event \<Rightarrow> osd_ui \<Rightarrow> osd_ui" where
  "handle_event h g ev ui =
     (let is_bluestore_event = (event_size ev = sizeof_bluestore_lat_v);
          is_op_event = (event_size ev = sizeof_op_v);
          mode = g_probe_mode g
      in
      if is_op_event \<and> mode AND (OP_SINGLE_PROBE OR OP_FULL_PROBE) \<noteq> 0 then
        let val = as_op_v ev; pid = sint (v_pid val); osd_id = osd_pid_to_id h ui (v_pid val) in
        register_osd osd_id pid
          (if mode = OP_SINGLE_PROBE then handle_single g val osd_id ui
           else if mode AND OP_FULL_PROBE \<noteq> 0 then handle_full g val osd_id ui
           else ui)
      else if is_bluestore_event \<and> mode AND BLUESTORE_PROBE \<noteq> 0 then
        let val = as_bluestore ev; pid = sint (bl_pid val); osd_id = osd_pid_to_id h ui (bl_pid val) in
        register_osd osd_id pid (handle_bluestore val osd_id ui)
      else register_osd (- 1) 0 ui)"

end
