(* ===== verification/Osd_Report_Properties.thy ===== *)
theory Osd_Report_Properties
  imports Osd_Report Osd_Properties
begin

text \<open>
  What the osdtrace report guarantees: latencies that never wrap, object names that decode back
  to the traced bytes, size classes that match their labels, percentile indices inside the
  sample vector, and an event dispatch that keeps the OSD table free of duplicates.
\<close>

section \<open>Latencies\<close>

lemma unat_safe_lat_us:
  "unat (safe_lat_us end start) = (if start = 0 then 0 else (unat end - unat start) div 1000)"
proof (cases "start \<noteq> 0 \<and> start < end")
  case True
  then show ?thesis
    by (simp add: safe_lat_us_def word_diff_div_le order_less_imp_le)
next
  case False
  then show ?thesis by (auto simp: safe_lat_us_def word_less_nat_alt)
qed

lemma safe_lat_us_bound:
  assumes "start = 0 \<or> lo \<le> start" and "end = 0 \<or> end \<le> hi"
  shows "unat (safe_lat_us end start) * 1000 \<le> unat hi - unat lo"
proof -
  have "(unat end - unat start) div 1000 * 1000 \<le> unat end - unat start" by simp
  moreover have "start \<noteq> 0 \<Longrightarrow> unat end - unat start \<le> unat hi - unat lo"
    using assms by (auto simp: word_le_nat_alt)
  ultimately show ?thesis by (auto simp: unat_safe_lat_us)
qed

text \<open>The latencies of an op that are guarded by \<open>safe_lat_us\<close>.\<close>

definition guarded_lats :: "osd_op_t \<Rightarrow> u64 list" where
  "guarded_lats op = [o_osd_lat op, o_bs_prepare_lat op, o_bs_aio_wait_lat op, o_bs_pg_seq_lat op,
     o_bs_kv_commit_lat op, o_bs_lat op]"

lemma timed_stamps:
  assumes "timed T v"
  shows "\<And>t. t \<in> set (later_stamps v) \<Longrightarrow> t = 0 \<or> v_enqueue_stamp v \<le> t"
    and "\<And>t. t \<in> set (later_stamps v) \<Longrightarrow> t = 0 \<or> t \<le> T"
  using assms by (auto simp: timed_def)

lemma later_stamps_members:
  "v_dequeue_stamp v \<in> set (later_stamps v)" "v_execute_ctx_stamp v \<in> set (later_stamps v)"
  "v_queue_transaction_stamp v \<in> set (later_stamps v)" "v_aio_submit_stamp v \<in> set (later_stamps v)"
  "v_aio_done_stamp v \<in> set (later_stamps v)" "v_kv_submit_stamp v \<in> set (later_stamps v)"
  "v_kv_committed_stamp v \<in> set (later_stamps v)" "v_reply_stamp v \<in> set (later_stamps v)"
  by (simp_all add: later_stamps_def)

lemma guarded_lats_bound:
  assumes "timed T v" and "l \<in> set (guarded_lats (generate_op b v))"
  shows "unat l * 1000 \<le> unat T - unat (v_enqueue_stamp v)"
proof -
  have B: "unat (safe_lat_us e s) * 1000 \<le> unat T - unat (v_enqueue_stamp v)"
    if "s \<in> set (later_stamps v)" "e \<in> set (later_stamps v)" for e s
    using safe_lat_us_bound [OF timed_stamps(1) [OF assms(1) that(1)]
        timed_stamps(2) [OF assms(1) that(2)]] .
  note m = later_stamps_members [of v]
  have "\<forall>l\<in>set (guarded_lats (generate_op b v)). unat l * 1000 \<le> unat T - unat (v_enqueue_stamp v)"
    unfolding guarded_lats_def generate_op_def Let_def
    by (simp add: B m)
  with assms(2) show ?thesis by blast
qed

lemma peer_entry_bound:
  assumes "p \<in> set (peer_entry n r s)" and "r = 0 \<or> r \<le> T"
  shows "unat (snd p) * 1000 \<le> unat T \<and> fst p = n \<and> n \<noteq> - 1"
proof -
  have "unat ((r - s) div 1000) * 1000 \<le> unat T" if "s < r" "r \<le> T"
  proof -
    have "unat ((r - s) div 1000) * 1000 \<le> unat r - unat s"
      using that(1) by (simp add: word_diff_div_le order_less_imp_le)
    with that(2) show ?thesis by (simp add: word_le_nat_alt)
  qed
  with assms show ?thesis by (auto simp: peer_entry_def split: if_splits)
qed

lemma reach_event_ok:
  assumes "osd.reach c (osd_init, T0) (s, T)" and "ev \<in> set (s_rb s)"
  shows "event_ok T ev"
  using osd.reach_inv [OF assms(1)] osd_init_inv assms(2) by (simp add: clocked_inv_def osd_inv_def)

text \<open>C6: for every op event the probes can put into the ring buffer, no guarded latency of the
  report exceeds the time from the op's enqueue to the present, the queue latency is the exact
  difference when the op was dequeued, and at most two peers are listed, each with a latency
  within the time since boot: no unsigned difference among them has wrapped.\<close>

theorem reported_latencies_bounded:
  assumes "osd.reach c (osd_init, T0) (s, T)" and "OpEvent v \<in> set (s_rb s)"
  shows "(\<forall>l\<in>set (guarded_lats (generate_op b v)).
      unat l * 1000 \<le> unat T - unat (v_enqueue_stamp v)) \<and>
    (v_dequeue_stamp v \<noteq> 0 \<longrightarrow> unat (o_queue_lat (generate_op b v)) =
      (unat (v_dequeue_stamp v) - unat (v_enqueue_stamp v)) div 1000) \<and>
    length (o_peers (generate_op b v)) \<le> 2 \<and>
    (\<forall>p\<in>set (o_peers (generate_op b v)). fst p \<noteq> - 1 \<and> unat (snd p) * 1000 \<le> unat T)"
proof -
  have t: "timed T v" using reach_event_ok [OF assms] by simp
  then have r: "recv_stamp1 (v_pi v) = 0 \<or> recv_stamp1 (v_pi v) \<le> T"
    "recv_stamp2 (v_pi v) = 0 \<or> recv_stamp2 (v_pi v) \<le> T"
    "v_dequeue_stamp v = 0 \<or> v_enqueue_stamp v \<le> v_dequeue_stamp v"
    by (auto simp: timed_def later_stamps_def)
  have "v_dequeue_stamp v \<noteq> 0 \<longrightarrow> unat (o_queue_lat (generate_op b v)) =
      (unat (v_dequeue_stamp v) - unat (v_enqueue_stamp v)) div 1000"
    using r(3) by (auto simp: generate_op_def Let_def word_diff_div_le)
  moreover have "length (o_peers (generate_op b v)) \<le> 2"
    by (simp add: generate_op_def Let_def peer_entry_def)
  moreover have "\<forall>p\<in>set (o_peers (generate_op b v)). fst p \<noteq> - 1 \<and> unat (snd p) * 1000 \<le> unat T"
    by (auto simp: generate_op_def Let_def split: if_splits
        dest: peer_entry_bound [OF _ r(1)] peer_entry_bound [OF _ r(2)])
  ultimately show ?thesis using guarded_lats_bound [OF t] by blast
qed

definition demo_reply :: osd_bpf where
  "demo_reply = osd_step demo_cfg (LogOpStats, demo_env 2000) (demo_state 1000)"

definition demo_done :: op_v where
  "demo_done = zero_op_v\<lparr>v_enqueue_stamp := 1000, v_pid := 7, v_op_type := 42,
     v_pi := \<lparr>peer1 = - 1, peer2 = - 1, sent_stamp = 0, recv_stamp1 = 0, recv_stamp2 = 0\<rparr>,
     v_reply_stamp := 2000, v_wb := 640, v_rb := 320\<rparr>"

lemma demo_reply_rb: "s_rb demo_reply = [OpEvent demo_done]"
  by code_simp

lemma demo_reach_two: "osd.reach demo_cfg (osd_init, 0) (demo_reply, 2001)"
proof -
  have "osd_good demo_cfg (demo_state 1000, 1001) (LogOpStats, demo_env 2000)"
    using demo_memory demo_upd by (simp add: osd_good_def) (simp add: demo_env_def)
  from osd.reach_step [OF demo_reach_one this] show ?thesis
    by (simp add: osd_machine_def demo_reply_def demo_env_def)
qed

lemma reported_latencies_bounded_witness:
  "unat (o_bs_lat (generate_op 0 demo_done)) * 1000 \<le> 2001 - 1000"
  using reported_latencies_bounded [OF demo_reach_two, of demo_done 0] demo_reply_rb
  by (simp add: guarded_lats_def) (simp add: demo_done_def)

section \<open>Object names\<close>

text \<open>Reading a printed name back: \<open>%XY\<close> stands for the byte, the lone dash for no name.\<close>

definition hex_val :: "char \<Rightarrow> nat" where
  "hex_val c = (let n = of_char c :: nat in if n < 65 then n - 48 else n - 55)"

fun percent_decode :: "string \<Rightarrow> string" where
  "percent_decode (c # a # b # s) =
     (if c = CHR ''%'' then char_of (16 * hex_val a + hex_val b) # percent_decode s
      else c # percent_decode (a # b # s))"
| "percent_decode s = s"

definition read_object_field :: "string \<Rightarrow> string" where
  "read_object_field f = (if f = ''-'' then [] else percent_decode f)"

lemma hex_digits_checked:
  "list_all (\<lambda>d. hex_val (hex_digit d) = d \<and> 32 < (of_char (hex_digit d) :: nat) \<and>
     (of_char (hex_digit d) :: nat) \<noteq> 127) [0..<16]"
  by code_simp

lemma hex_val_digit: "d < 16 \<Longrightarrow> hex_val (hex_digit d) = d"
  using hex_digits_checked by (simp add: list_all_iff)

lemma hex_digit_visible: "d < 16 \<Longrightarrow> 32 < (of_char (hex_digit d) :: nat) \<and> (of_char (hex_digit d) :: nat) \<noteq> 127"
  using hex_digits_checked by (simp add: list_all_iff)

lemma of_char_less: "(of_char c :: nat) < 256"
  by (metis of_char_mod_256 mod_less_divisor zero_less_numeral)

lemma decode_name_char:
  "percent_decode (name_char name c @ s) = c # percent_decode s"
proof (cases "name_char_plain name c")
  case True
  then have "c \<noteq> CHR ''%''" by (auto simp: name_char_plain_def Let_def)
  then have "percent_decode (c # s) = c # percent_decode s"
    by (cases s; cases "tl s") auto
  with True show ?thesis by (simp add: name_char_def)
next
  case False
  have "char_of (16 * (of_char c div 16) + of_char c mod 16 :: nat) = c"
    by (metis char_of_char mult_div_mod_eq)
  moreover have "(of_char c :: nat) div 16 < 16"
    by (rule less_mult_imp_div_less) (use of_char_less [of c] in linarith)
  ultimately show ?thesis
    using False by (simp add: name_char_def hex_val_digit)
qed

lemma decode_name: "percent_decode (concat (map (name_char name) s)) = s"
  by (induction s) (simp_all add: decode_name_char)

lemma name_char_not_dash: "concat (map (name_char name) name) \<noteq> ''-''"
proof
  assume a: "concat (map (name_char name) name) = ''-''"
  then have "percent_decode (concat (map (name_char name) name)) = ''-''" by simp
  then have n: "name = ''-''" by (simp add: decode_name)
  with a show False by (simp add: name_char_def name_char_plain_def hex_digit_def)
qed

text \<open>C12: the object field of a report line decodes to exactly the traced object name, the empty
  name included, and holds no blank, control or delete character, so two names never print
  alike and the field never splits.\<close>

theorem object_name_roundtrip:
  "read_object_field (format_object_name name) = name \<and>
   list_all (\<lambda>c. 32 < (of_char c :: nat) \<and> (of_char c :: nat) \<noteq> 127) (format_object_name name) \<and>
   format_object_name name \<noteq> []"
proof -
  have "read_object_field (format_object_name name) = name"
    using name_char_not_dash [of name] decode_name [of name name]
    by (simp add: read_object_field_def format_object_name_def)
  moreover have "list_all (\<lambda>c. 32 < (of_char c :: nat) \<and> (of_char c :: nat) \<noteq> 127) (name_char n c)" for n c
    using hex_digit_visible of_char_less [of c]
    by (auto simp: name_char_def name_char_plain_def Let_def less_mult_imp_div_less)
  then have "list_all (\<lambda>c. 32 < (of_char c :: nat) \<and> (of_char c :: nat) \<noteq> 127) (format_object_name name)"
    by (simp add: format_object_name_def list_all_iff)
  moreover have "format_object_name name \<noteq> []"
    by (cases name) (auto simp: format_object_name_def name_char_def)
  ultimately show ?thesis by blast
qed

section \<open>Size classes\<close>

lemma lsb_power: "2 ^ n \<le> k \<Longrightarrow> k < 2 ^ Suc n \<Longrightarrow> lsb k = int n + 1"
proof (induction n arbitrary: k)
  case 0
  then have "k = 1" by simp
  then show ?case by (simp add: lsb.simps)
next
  case (Suc n)
  then have "lsb (k div 2) = int n + 1" by (intro Suc.IH) auto
  moreover have "0 < k" using Suc.prems(1) by (meson less_le_trans zero_less_numeral zero_less_power)
  ultimately show ?case by (simp add: lsb.simps [of k])
qed

lemma lsb_mono: "a \<le> b \<Longrightarrow> lsb a \<le> lsb b"
proof (induction a arbitrary: b rule: lsb.induct)
  case (1 a)
  have nonneg: "0 \<le> lsb x" for x by (induction x rule: lsb.induct) (simp add: lsb.simps)
  show ?case
  proof (cases "a > 0")
    case True
    then have "lsb (a div 2) \<le> lsb (b div 2)" using 1 by simp
    with True 1(2) show ?thesis by (simp add: lsb.simps [of a] lsb.simps [of b])
  next
    case False
    then show ?thesis using nonneg [of b] by (simp add: lsb.simps [of a])
  qed
qed

lemma lsb_small: "k < 4 \<Longrightarrow> lsb k \<le> 2"
  using lsb_mono [of k 3] lsb_power [of 1 3] by simp

lemma index_class:
  shows "k < 4 \<Longrightarrow> index k = 0"
    and "4 * 2 ^ j \<le> k \<Longrightarrow> k < 8 * 2 ^ j \<Longrightarrow> index k = min 10 (int j + 1)"
  using lsb_small [of k] lsb_power [of "j + 2" k] by (simp_all add: index_def Let_def power_add)

lemma index_top: "2048 \<le> k \<Longrightarrow> index k = 10"
  using lsb_mono [of 2048 k] lsb_power [of 11 2048] by (simp add: index_def Let_def)

lemma knum_small: "unat x < 2 ^ 41 \<Longrightarrow> knum x = int (unat x div 1024)"
proof -
  assume "unat x < 2 ^ 41"
  then have "unat x div 1024 < 2147483648" by (simp add: less_mult_imp_div_less)
  moreover have "uint (x div 1024) = int (unat x div 1024)"
    by (simp add: uint_nat unat_div_distrib)
  ultimately show ?thesis by (simp add: knum_def to_c_int_id c_int_range_def)
qed

text \<open>The size class of a request below 2 TiB follows the histogram labels up to 1 MiB: class
  0 holds everything below 4 KiB, class \<open>j + 1\<close> the sizes from \<open>4 KiB * 2^j\<close> to twice that, and
  everything from 2 MiB falls into class 10.\<close>

lemma size_class_of_request:
  assumes "unat x < 2 ^ 41"
  shows "(unat x < 4096 \<longrightarrow> index (knum x) = 0) \<and>
    (\<forall>j<9. 4096 * 2 ^ j \<le> unat x \<and> unat x < 8192 * 2 ^ j \<longrightarrow> index (knum x) = int j + 1) \<and>
    (2097152 \<le> unat x \<longrightarrow> index (knum x) = 10)"
proof -
  define n where "n = unat x"
  have k: "knum x = int (n div 1024)" using knum_small [OF assms] by (simp add: n_def)
  have "index (knum x) = int j + 1" if "j < 9" "4096 * 2 ^ j \<le> n" "n < 8192 * 2 ^ j" for j
  proof -
    from that(2) have "4 * 2 ^ j \<le> n div 1024"
      using div_le_mono [of "4096 * 2 ^ j" n 1024] by simp
    moreover from that(3) have "n div 1024 < 8 * 2 ^ j"
      by (simp add: less_mult_imp_div_less)
    ultimately have "int (4 * 2 ^ j) \<le> knum x" "knum x < int (8 * 2 ^ j)"
      unfolding k by (simp_all only: of_nat_le_iff of_nat_less_iff)
    then have "4 * 2 ^ j \<le> knum x" "knum x < 8 * 2 ^ j" by simp_all
    from index_class(2) [OF this] that(1) show ?thesis by simp
  qed
  moreover have "index (knum x) = 0" if "n < 4096"
  proof -
    from that have "n div 1024 < 4" by (simp add: less_mult_imp_div_less)
    with k show ?thesis by (intro index_class(1)) simp
  qed
  moreover have "index (knum x) = 10" if "2097152 \<le> n"
  proof -
    from that have "2048 \<le> n div 1024" using div_le_mono [of 2097152 n 1024] by simp
    with k show ?thesis by (intro index_top) simp
  qed
  ultimately show ?thesis by (simp add: n_def)
qed



section \<open>Percentiles\<close>

lemma bit_len_0 [simp]: "bit_len 0 = 0"
  by (subst bit_len.simps) simp

lemma bit_len_pos: "0 < n \<Longrightarrow> bit_len n = Suc (bit_len (n div 2))"
  by (subst bit_len.simps) simp

lemma bit_len_power: "2 ^ bit_len p \<le> 2 * p \<or> p = 0"
proof (induction p rule: less_induct)
  case (less p)
  show ?case
  proof (cases "p \<le> 1")
    case True
    then have "p = 0 \<or> p = 1" by auto
    then show ?thesis by (auto simp: bit_len_pos)
  next
    case False
    then have "2 ^ bit_len (p div 2) \<le> 2 * (p div 2)" using less.IH [of "p div 2"] by auto
    moreover have "bit_len p = Suc (bit_len (p div 2))" using False by (intro bit_len_pos) simp
    moreover have "2 * (p div 2) \<le> p" by simp
    ultimately show ?thesis by (simp del: times_div_less_eq_dividend)
  qed
qed

lemma round53_le: "round53 p * 2 ^ 52 \<le> p * (2 ^ 52 + 1)"
proof (cases "bit_len p - 53 = 0")
  case True
  then show ?thesis by (simp add: round53_def Let_def)
next
  case False
  define s where "s = bit_len p - 53"
  have "2 ^ (s + 53) \<le> 2 * p" using bit_len_power [of p] False by (auto simp: s_def)
  then have step: "2 ^ s * 2 ^ 52 \<le> p" by (simp add: power_add)
  have "p div 2 ^ s * 2 ^ s \<le> p" by simp
  moreover have "round53 p \<le> (p div 2 ^ s + 1) * 2 ^ s"
    by (simp add: round53_def Let_def flip: s_def)
  ultimately have "round53 p \<le> p + 2 ^ s" unfolding add_mult_distrib by linarith
  then have "round53 p * 2 ^ 52 \<le> (p + 2 ^ s) * 2 ^ 52" by simp
  with step show ?thesis by (simp add: algebra_simps)
qed

lemma dbl_index_less:
  assumes "0 < l" and "m * (2 ^ 52 + 1) < 2 ^ 52 * 2 ^ e"
  shows "dbl_index l (m, e) < l"
proof -
  have "round53 (l * m) * 2 ^ 52 \<le> l * (m * (2 ^ 52 + 1))"
    using round53_le [of "l * m"] by (simp add: mult.assoc)
  also have "\<dots> < l * (2 ^ 52 * 2 ^ e)" using assms by (simp only: mult_less_cancel1)
  finally have "round53 (l * m) < l * 2 ^ e" by (simp add: algebra_simps)
  then show ?thesis by (simp add: dbl_index_def less_mult_imp_div_less)
qed

text \<open>For any number of samples, the rounded floating-point index of each printed percentile
  is inside the sample vector.\<close>

lemma percentile_index_in_range:
  assumes "0 < l" and "(label, q) \<in> set percentiles"
  shows "dbl_index l q < l"
proof -
  have "list_all (\<lambda>(_, m, e). m * (2 ^ 52 + 1) < 2 ^ 52 * (2 ^ e :: nat)) percentiles"
    by (simp add: percentiles_def)
  then have "fst q * (2 ^ 52 + 1) < 2 ^ 52 * (2 ^ snd q :: nat)"
    using assms(2) by (force simp: list_all_iff)
  from dbl_index_less [OF assms(1) this] show ?thesis by simp
qed

section \<open>Event dispatch\<close>

lemma ui_osds_fold_say [simp]: "ui_osds (fold say ls ui) = ui_osds ui"
  by (induction ls arbitrary: ui) (simp_all add: say_def)

lemma ui_out_fold_say [simp]: "ui_out (fold say ls ui) = ui_out ui @ ls"
  by (induction ls arbitrary: ui) (simp_all add: say_def)

lemma ui_handlers [simp]:
  "ui_osds (handle_single g v i ui) = ui_osds ui" "ui_out (handle_single g v i ui) = ui_out ui"
  "ui_osds (handle_full g v i ui) = ui_osds ui" "ui_osds (handle_bluestore b i ui) = ui_osds ui"
  by (simp_all add: handle_single_def handle_full_def handle_bluestore_def say_def Let_def)

lemma ui_out_handle_full: "\<exists>ls. ui_out (handle_full g v i ui) = ui_out ui @ ls"
  by (simp add: handle_full_def Let_def)

lemma ui_out_register [simp]: "ui_out (register_osd i p ui) = ui_out ui"
  by (simp add: register_osd_def)

lemma distinct_register:
  "distinct (map fst (ui_osds ui)) \<Longrightarrow> distinct (map fst (ui_osds (register_osd i p ui)))"
  by (auto simp: register_osd_def osd_exists_def)

lemma register_prefix: "\<exists>l. length l \<le> 1 \<and> ui_osds (register_osd i p ui) = ui_osds ui @ l"
  by (simp add: register_osd_def)

lemma event_sizes: "sizeof_op_v \<noteq> sizeof_bluestore_lat_v"
  by (simp add: sizeof_op_v_eq sizeof_bluestore_lat_v_eq)

lemma handle_event_op:
  "handle_event h g (OpEvent v) ui =
     (if g_probe_mode g AND 3 \<noteq> 0
      then register_osd (osd_pid_to_id h ui (v_pid v)) (sint (v_pid v))
        (if g_probe_mode g = 1 then handle_single g v (osd_pid_to_id h ui (v_pid v)) ui
         else if g_probe_mode g AND 2 \<noteq> 0 then handle_full g v (osd_pid_to_id h ui (v_pid v)) ui
         else ui)
      else register_osd (- 1) 0 ui)"
  using event_sizes
  by (simp add: handle_event_def Let_def as_op_v_def OP_SINGLE_PROBE_def OP_FULL_PROBE_def)

lemma handle_event_bluestore:
  "handle_event h g (BluestoreEvent b) ui =
     (if g_probe_mode g AND 4 \<noteq> 0
      then register_osd (osd_pid_to_id h ui (bl_pid b)) (sint (bl_pid b))
        (handle_bluestore b (osd_pid_to_id h ui (bl_pid b)) ui)
      else register_osd (- 1) 0 ui)"
  using event_sizes
  by (simp add: handle_event_def Let_def as_bluestore_def BLUESTORE_PROBE_def)

text \<open>C15: handling an event only appends to the output and to the OSD table, adds at most one row
  to the table and never a second row for an OSD, and prints nothing for an event whose kind
  the probe mode does not ask for.\<close>

theorem handle_event_effects:
  assumes "distinct (map fst (ui_osds ui))"
  shows "distinct (map fst (ui_osds (handle_event h g ev ui))) \<and>
    (\<exists>l. length l \<le> 1 \<and> ui_osds (handle_event h g ev ui) = ui_osds ui @ l) \<and>
    (\<exists>ls. ui_out (handle_event h g ev ui) = ui_out ui @ ls) \<and>
    ((case ev of OpEvent _ \<Rightarrow> g_probe_mode g AND OP_FULL_PROBE = 0
       | BluestoreEvent _ \<Rightarrow> g_probe_mode g AND BLUESTORE_PROBE = 0) \<longrightarrow>
       ui_out (handle_event h g ev ui) = ui_out ui)"
proof (cases ev)
  case (OpEvent v)
  show ?thesis
    unfolding OpEvent handle_event_op
    using assms register_prefix ui_out_handle_full
    by (simp add: distinct_register register_osd_def osd_exists_def OP_FULL_PROBE_def)
next
  case (BluestoreEvent b)
  show ?thesis
    unfolding BluestoreEvent handle_event_bluestore
    using assms
    by (simp add: handle_bluestore_def say_def Let_def register_osd_def osd_exists_def
        BLUESTORE_PROBE_def)
qed

lemma handle_event_effects_witness:
  "ui_out (handle_event (undefined\<lparr>h_tokens := (\<lambda>_. None)\<rparr>)
     \<lparr>g_probe_mode = 4, g_bootstamp = 0, g_threshold = 0\<rparr> (OpEvent zero_op_v)
     \<lparr>ui_osds = [], ui_wsrl = (\<lambda>_. []), ui_rsrl = (\<lambda>_. []), ui_out = [''a'']\<rparr>) = [''a'']"
  using handle_event_effects [of "\<lparr>ui_osds = [], ui_wsrl = (\<lambda>_. []), ui_rsrl = (\<lambda>_. []), ui_out = [''a'']\<rparr>"
      "undefined\<lparr>h_tokens := (\<lambda>_. None)\<rparr>" "\<lparr>g_probe_mode = 4, g_bootstamp = 0, g_threshold = 0\<rparr>" "OpEvent zero_op_v"]
  by (simp add: OP_FULL_PROBE_def)

section \<open>Time\<close>

text \<open>The boot stamp is the number of nanoseconds by which the wall clock is ahead of the boot
  clock, whatever the order of their nanosecond parts.\<close>

lemma bootstamp_is_offset:
  assumes "0 \<le> tv_nsec boot" and "tv_nsec boot < 1000000000" and "0 \<le> tv_nsec real"
    and "tv_nsec real < 1000000000"
    and "0 \<le> (tv_sec real - tv_sec boot) * 1000000000 + (tv_nsec real - tv_nsec boot)"
    and "(tv_sec real - tv_sec boot) * 1000000000 + (tv_nsec real - tv_nsec boot) < 2 ^ 64"
  shows "uint (get_bootstamp real boot) =
    (tv_sec real - tv_sec boot) * 1000000000 + (tv_nsec real - tv_nsec boot) \<and>
    (let d = timespec_diff boot real in 0 \<le> tv_nsec d \<and> tv_nsec d < 1000000000)"
proof -
  let ?n = "(tv_sec real - tv_sec boot) * 1000000000 + (tv_nsec real - tv_nsec boot)"
  have u: "0 \<le> n \<Longrightarrow> n < 2 ^ 64 \<Longrightarrow> uint (of_int n :: u64) = n" for n
    by (simp add: unsigned_of_int take_bit_int_eq_self)
  have "get_bootstamp real boot = of_int ?n"
    by (simp add: get_bootstamp_def timespec_diff_def Let_def algebra_simps)
  moreover have "uint (of_int ?n :: u64) = ?n"
    by (rule u [OF assms(5,6)])
  ultimately show ?thesis
    using assms(1-4) by (simp add: timespec_diff_def Let_def)
qed

end
