(* ===== verification/Sorted_Map.thy ===== *)
theory Sorted_Map
  imports Main "HOL-Library.List_Lexorder" "HOL-Library.Char_ord"
begin

text \<open>
  \<open>std::map<std::string, T>\<close>: an association list kept in key order, so that iteration is in the
  order of the keys. \<open>smap_at\<close> reads with \<open>operator[]\<close>'s default, \<open>put2\<close> is the nested
  \<open>m[a][b] = v\<close> and \<open>look2\<close> the nested lookup.
\<close>

type_synonym 'a smap = "(string \<times> 'a) list"

fun smap_put :: "string \<Rightarrow> 'a \<Rightarrow> 'a smap \<Rightarrow> 'a smap" where
  "smap_put k v [] = [(k, v)]"
| "smap_put k v ((k', v') # m) =
     (if k = k' then (k, v) # m
      else if k < k' then (k, v) # (k', v') # m
      else (k', v') # smap_put k v m)"

definition smap_at :: "'a list smap \<Rightarrow> string \<Rightarrow> 'a list" where
  "smap_at m k = (case map_of m k of Some v \<Rightarrow> v | None \<Rightarrow> [])"

definition put2 :: "string \<Rightarrow> string \<Rightarrow> 'a \<Rightarrow> 'a smap smap \<Rightarrow> 'a smap smap" where
  "put2 a b v m = smap_put a (smap_put b v (smap_at m a)) m"

definition look2 :: "'a smap smap \<Rightarrow> string \<Rightarrow> string \<Rightarrow> 'a option" where
  "look2 m a b = map_of (smap_at m a) b"

definition smap_ok :: "'a smap \<Rightarrow> bool" where
  "smap_ok m \<longleftrightarrow> sorted (map fst m) \<and> distinct (map fst m)"

lemma map_of_smap_put [simp]: "map_of (smap_put k v m) = (map_of m)(k \<mapsto> v)"
  by (induction k v m rule: smap_put.induct) (auto simp: fun_eq_iff)

lemma keys_smap_put [simp]: "fst ` set (smap_put k v m) = insert k (fst ` set m)"
  by (induction k v m rule: smap_put.induct) auto

lemma smap_ok_Nil [simp]: "smap_ok []"
  by (simp add: smap_ok_def)

lemma smap_ok_put: "smap_ok m \<Longrightarrow> smap_ok (smap_put k v m)"
proof (induction k v m rule: smap_put.induct)
  case (1 k v)
  then show ?case by (simp add: smap_ok_def)
next
  case (2 k v k' v' m)
  have keys: "set (map fst (smap_put k v m)) = insert k (set (map fst m))"
    using keys_smap_put [of k v m] by simp
  show ?case
  proof (cases "k = k' \<or> k < k'")
    case True
    with 2(2) show ?thesis by (fastforce simp: smap_ok_def)
  next
    case False
    with 2 have "smap_ok (smap_put k v m)" by (simp add: smap_ok_def)
    with False 2(2) keys show ?thesis by (auto simp: smap_ok_def)
  qed
qed

lemma smap_at_put [simp]: "smap_at (smap_put k v m) a = (if a = k then v else smap_at m a)"
  by (simp add: smap_at_def)

lemma smap_at_Nil [simp]: "smap_at [] a = []"
  by (simp add: smap_at_def)

lemma look2_put2 [simp]:
  "look2 (put2 a b v m) c d = (if c = a \<and> d = b then Some v else look2 m c d)"
  by (simp add: look2_def put2_def)

lemma look2_Nil [simp]: "look2 [] a b = None"
  by (simp add: look2_def)

lemma look2_fold_put2:
  assumes "distinct (map fst xs)"
  shows "look2 (fold (\<lambda>(b, v). put2 a b (g v)) xs m) c d =
    (if c = a then (case map_of xs d of Some v \<Rightarrow> Some (g v) | None \<Rightarrow> look2 m a d) else look2 m c d)"
  using assms
proof (induction xs arbitrary: m)
  case Nil
  then show ?case by simp
next
  case (Cons x xs)
  have "map_of xs (fst x) = None" using Cons.prems by (simp add: map_of_eq_None_iff)
  with Cons show ?case by (cases x) (auto split: option.splits)
qed

end
