(* ===== verification/Version_Utils.thy ===== *)
theory Version_Utils
  imports Process_Utils
begin

text \<open>
  \<open>src/version_utils.cc\<close>: package versions, deleted libraries and executables, the search for
  a library or an executable, version comparison and the ELF build-id. The operating system is
  the \<open>host\<close> parameter. An uncaught exception of \<open>std::stoi\<close> on a \<open>/proc\<close> entry is \<open>None\<close>.
\<close>

section \<open>Package versions\<close>

definition package_base_name :: "string \<Rightarrow> string" where
  "package_base_name library_path =
     (let lib_name = get_basename library_path;
          base1 = (case str_find ''.so'' lib_name of Some p \<Rightarrow> take p lib_name | None \<Rightarrow> lib_name)
      in if take 3 base1 = ''lib'' then drop 3 base1 else base1)"

definition package_alt_names :: "string \<Rightarrow> string list" where
  "package_alt_names base_name =
     (if base_name = ''rados'' then [''librados2'', ''ceph-common'']
      else if base_name = ''rbd'' then [''librbd1'', ''ceph-common'']
      else if base_name = ''ceph-common'' then [''ceph-common'']
      else if base_name = ''ceph-osd'' then [''ceph-osd'', ''ceph-common'']
      else [base_name])"

definition strip_newline :: "string \<Rightarrow> string" where
  "strip_newline s = (if s \<noteq> [] \<and> last s = CHR 0x0A then butlast s else s)"

definition dpkg_cmd :: "string \<Rightarrow> string" where
  "dpkg_cmd pkg = ''dpkg -s '' @ pkg @ '' 2>/dev/null | grep '' @ [CHR 0x27] @ ''^Version:'' @ [CHR 0x27]
     @ '' | cut -d'' @ [CHR 0x27] @ '' '' @ [CHR 0x27] @ '' -f2''"

definition rpm_cmd :: "string \<Rightarrow> string" where
  "rpm_cmd pkg = ''rpm -q '' @ pkg @ '' --queryformat '' @ [CHR 0x27]
     @ ''%{EPOCH}:%{VERSION}-%{RELEASE}'' @ [CHR 0x27] @ '' 2>/dev/null''"

text \<open>
  The two query loops: the first acceptable answer is returned at once (\<open>Inl\<close>); otherwise the
  loop leaves its last \<open>result\<close> (\<open>Inr\<close>).
\<close>

fun dpkg_loop :: "host \<Rightarrow> string list \<Rightarrow> string \<Rightarrow> string + string" where
  "dpkg_loop h [] result = Inr result"
| "dpkg_loop h (pkg # pkgs) result =
     (case h_popen h (dpkg_cmd pkg) of
        None \<Rightarrow> dpkg_loop h pkgs result
      | Some out \<Rightarrow>
          let r = strip_newline out in
          if r \<noteq> [] then Inl r else dpkg_loop h pkgs r)"

fun rpm_loop :: "host \<Rightarrow> string list \<Rightarrow> string \<Rightarrow> string + string" where
  "rpm_loop h [] result = Inr result"
| "rpm_loop h (pkg # pkgs) result =
     (case h_popen h (rpm_cmd pkg) of
        None \<Rightarrow> rpm_loop h pkgs result
      | Some out \<Rightarrow>
          let r = strip_newline out in
          if r \<noteq> [] \<and> \<not> str_contains ''not installed'' r then Inl r else rpm_loop h pkgs [])"

definition get_package_version :: "host \<Rightarrow> string \<Rightarrow> string" where
  "get_package_version h library_path =
     (let alt_names = package_alt_names (package_base_name library_path);
          has_dpkg = h_executable h ''/usr/bin/dpkg'';
          has_rpm = h_executable h ''/usr/bin/rpm''
      in
      case (if has_dpkg then dpkg_loop h alt_names [] else Inr []) of
        Inl v \<Rightarrow> v
      | Inr result \<Rightarrow>
          (case (if has_rpm \<and> result = [] then rpm_loop h alt_names result else Inr result) of
             Inl v \<Rightarrow> v
           | Inr r \<Rightarrow> if r = [] then ''unknown'' else r))"

section \<open>Deleted libraries and executables\<close>

definition maps_path :: "int \<Rightarrow> string" where
  "maps_path pid = proc_file pid ''/maps''"

definition check_process_library_deleted :: "host \<Rightarrow> int \<Rightarrow> string \<Rightarrow> bool" where
  "check_process_library_deleted h pid lib_name =
     (case h_lines h (maps_path pid) of
        None \<Rightarrow> True
      | Some ls \<Rightarrow> \<exists>l\<in>set ls. str_contains lib_name l \<and> str_contains ''(deleted)'' l)"

text \<open>A \<open>/proc\<close> entry that stands for a process: a directory whose name starts with a digit.\<close>

definition is_pid_entry :: "string \<times> bool \<Rightarrow> bool" where
  "is_pid_entry d \<longleftrightarrow> snd d \<and> fst d \<noteq> [] \<and> is_digit (hd (fst d))"

definition maps_has :: "host \<Rightarrow> int \<Rightarrow> string \<Rightarrow> bool" where
  "maps_has h pid lib_name =
     (case h_lines h (maps_path pid) of
        None \<Rightarrow> False
      | Some ls \<Rightarrow> \<exists>l\<in>set ls. str_contains lib_name l)"

fun pids_with_library :: "host \<Rightarrow> string \<Rightarrow> (string \<times> bool) list \<Rightarrow> int list option" where
  "pids_with_library h lib_name [] = Some []"
| "pids_with_library h lib_name (d # ds) =
     (if \<not> is_pid_entry d then pids_with_library h lib_name ds
      else case stoi (fst d) of None \<Rightarrow> None | Some pid \<Rightarrow>
        map_option (\<lambda>ps. if maps_has h pid lib_name then pid # ps else ps)
          (pids_with_library h lib_name ds))"

definition check_library_deleted :: "host \<Rightarrow> int \<Rightarrow> string \<Rightarrow> bool option" where
  "check_library_deleted h process_id lib_name =
     (if 0 < process_id then Some (check_process_library_deleted h process_id lib_name)
      else case h_proc h of
        None \<Rightarrow> Some True
      | Some ds \<Rightarrow>
          map_option (\<lambda>pids. \<exists>pid\<in>set pids. check_process_library_deleted h pid lib_name)
            (pids_with_library h lib_name ds))"

definition exe_target :: "host \<Rightarrow> int \<Rightarrow> string option" where
  "exe_target h pid = readlink_n h (proc_file pid ''/exe'') 4095"

definition check_process_executable_deleted :: "host \<Rightarrow> int \<Rightarrow> string \<Rightarrow> bool" where
  "check_process_executable_deleted h pid exe_name =
     (case exe_target h pid of
        None \<Rightarrow> False
      | Some target \<Rightarrow> str_contains ''(deleted)'' target \<and> str_contains exe_name target)"

fun scan_executables :: "host \<Rightarrow> string \<Rightarrow> (string \<times> bool) list \<Rightarrow> bool option" where
  "scan_executables h exe_name [] = Some False"
| "scan_executables h exe_name (d # ds) =
     (if \<not> is_pid_entry d then scan_executables h exe_name ds
      else case stoi (fst d) of None \<Rightarrow> None | Some pid \<Rightarrow>
        (case exe_target h pid of
           None \<Rightarrow> scan_executables h exe_name ds
         | Some target \<Rightarrow>
             if str_contains exe_name target \<and> str_contains ''(deleted)'' target then Some True
             else scan_executables h exe_name ds))"

definition check_executable_deleted :: "host \<Rightarrow> int \<Rightarrow> string \<Rightarrow> bool option" where
  "check_executable_deleted h process_id exe_name =
     (if 0 < process_id then Some (check_process_executable_deleted h process_id exe_name)
      else case h_proc h of None \<Rightarrow> Some False | Some ds \<Rightarrow> scan_executables h exe_name ds)"

section \<open>Finding a library\<close>

definition upto_last_slash :: "string \<Rightarrow> string" where
  "upto_last_slash p = (case find_last_of (CHR ''/'') p of Some i \<Rightarrow> take (Suc i) p | None \<Rightarrow> [])"

fun scan_maps :: "host \<Rightarrow> string \<Rightarrow> int \<Rightarrow> string list \<Rightarrow> string" where
  "scan_maps h lib_name pid [] = []"
| "scan_maps h lib_name pid (line # ls) =
     (case char_find (CHR ''/'') line of
        None \<Rightarrow> scan_maps h lib_name pid ls
      | Some slash \<Rightarrow>
          let path = drop slash line; base = get_basename path in
          if str_contains ''(deleted)'' path then scan_maps h lib_name pid ls
          else if starts_with lib_name base then
            (let soname_path = upto_last_slash path @ lib_name in
             if base \<noteq> lib_name \<and> h_exists h (proc_file pid ''/root'' @ soname_path)
             then soname_path else path)
          else scan_maps h lib_name pid ls)"

definition find_library_path_from_maps :: "host \<Rightarrow> string \<Rightarrow> int \<Rightarrow> string" where
  "find_library_path_from_maps h lib_name pid =
     (case h_lines h (maps_path pid) of None \<Rightarrow> [] | Some ls \<Rightarrow> scan_maps h lib_name pid ls)"

definition library_search_dirs :: "string list" where
  "library_search_dirs =
     [''./lib'', ''/lib'', ''/lib64'', ''/lib64/ceph'', ''/usr/lib'', ''/usr/lib64'',
      ''/usr/lib64/ceph'', ''/lib/x86_64-linux-gnu'', ''/usr/lib/x86_64-linux-gnu'',
      ''/usr/lib/x86_64-linux-gnu/ceph'', ''/usr/local/lib'',
      ''/snap/microceph/current/lib/x86_64-linux-gnu'',
      ''/snap/microceph/current/lib/x86_64-linux-gnu/ceph'']"

definition library_names :: "string \<Rightarrow> string list" where
  "library_names lib_name =
     (if \<not> str_contains ''.so'' lib_name
      then [''lib'' @ lib_name @ ''.so'', ''lib'' @ lib_name @ ''.so.1'', ''lib'' @ lib_name @ ''.so.2'']
      else [lib_name])"

definition search_library_dirs :: "host \<Rightarrow> string \<Rightarrow> string \<Rightarrow> string" where
  "search_library_dirs h lib_name root_prefix =
     (case find (\<lambda>p. h_exists h (root_prefix @ p))
        (concat (map (\<lambda>dir. map (\<lambda>name. dir @ ''/'' @ name) (library_names lib_name))
           library_search_dirs)) of
        Some full_path \<Rightarrow> full_path
      | None \<Rightarrow> [])"

definition find_library_path :: "host \<Rightarrow> string \<Rightarrow> int \<Rightarrow> string" where
  "find_library_path h lib_name pid =
     (if pid \<noteq> - 1 then
        let result = find_library_path_from_maps h lib_name pid in
        if result \<noteq> [] then result
        else search_library_dirs h lib_name (proc_file pid ''/root'')
      else
        let handle = (h_dlopen_loaded h lib_name \<or> h_dlopen h lib_name) in
        case (if handle then h_dlinfo h lib_name else None) of
          Some path \<Rightarrow>
            if path \<noteq> [] \<and> path \<noteq> lib_name then path else search_library_dirs h lib_name []
        | None \<Rightarrow> search_library_dirs h lib_name [])"

section \<open>Finding an executable\<close>

text \<open>\<open>PATH\<close> split at every colon; an empty last part is kept, unlike with \<open>getline\<close>.\<close>

fun split_path :: "string \<Rightarrow> string \<Rightarrow> string list" where
  "split_path acc [] = [rev acc]"
| "split_path acc (c # s) =
     (if c = CHR '':'' then rev acc # split_path [] s else split_path (c # acc) s)"

definition common_exe_dirs :: "string list" where
  "common_exe_dirs = [''/usr/local/bin'', ''/bin'', ''/sbin'', ''/usr/sbin'', ''/usr/local/sbin'', ''./bin/'']"

definition exe_in_dirs :: "host \<Rightarrow> string \<Rightarrow> string list \<Rightarrow> string option" where
  "exe_in_dirs h exe_name dirs = find (h_executable h) (map (\<lambda>dir. dir @ ''/'' @ exe_name) dirs)"

definition find_executable_path :: "host \<Rightarrow> string \<Rightarrow> string" where
  "find_executable_path h exe_name =
     (if exe_name \<noteq> [] \<and> hd exe_name = CHR ''/'' \<and> h_executable h exe_name then exe_name
      else if h_executable h (''/usr/bin/'' @ exe_name) then ''/usr/bin/'' @ exe_name
      else
        case (case h_getenv h ''PATH'' of
                None \<Rightarrow> None
              | Some path_str \<Rightarrow> exe_in_dirs h exe_name (filter (\<lambda>d. d \<noteq> []) (split_path [] path_str))) of
          Some full_path \<Rightarrow> full_path
        | None \<Rightarrow> (case exe_in_dirs h exe_name common_exe_dirs of Some p \<Rightarrow> p | None \<Rightarrow> []))"

section \<open>Version comparison\<close>

text \<open>\<open>sscanf\<close> with \<open>%d.%d.%d\<close> into variables that hold 0: what was assigned, and how many.\<close>

definition scan_d :: "string \<Rightarrow> (int \<times> string) option" where
  "scan_d s = map_option (\<lambda>(n, r). (to_c_int n, r)) (scan_int s)"

definition sscanf_ddd :: "string \<Rightarrow> nat \<times> int \<times> int \<times> int" where
  "sscanf_ddd s =
     (case scan_d s of
        None \<Rightarrow> (0, 0, 0, 0)
      | Some (a, r1) \<Rightarrow>
          if r1 = [] \<or> hd r1 \<noteq> CHR ''.'' then (1, a, 0, 0) else
          (case scan_d (tl r1) of
             None \<Rightarrow> (1, a, 0, 0)
           | Some (b, r2) \<Rightarrow>
               if r2 = [] \<or> hd r2 \<noteq> CHR ''.'' then (2, a, b, 0) else
               (case scan_d (tl r2) of None \<Rightarrow> (2, a, b, 0) | Some (c, r3) \<Rightarrow> (3, a, b, c))))"

definition parse_ceph_version :: "string \<Rightarrow> (int \<times> int \<times> int) option" where
  "parse_ceph_version version =
     (if version = [] \<or> version = ''unknown'' then None
      else
        let ver_str = (case char_find (CHR '':'') version of
                         Some p \<Rightarrow> drop (Suc p) version | None \<Rightarrow> version)
        in case sscanf_ddd ver_str of (n, v) \<Rightarrow> if n < 2 then None else Some v)"

definition is_ceph_version_squid_or_above :: "string \<Rightarrow> bool" where
  "is_ceph_version_squid_or_above version =
     (case parse_ceph_version version of
        None \<Rightarrow> False
      | Some (major, minor, patch) \<Rightarrow>
          19 * 10000 + 2 * 100 + 0 \<le> to_c_int (major * 10000 + minor * 100 + patch))"

section \<open>Build-id and architecture\<close>

definition NT_GNU_BUILD_ID :: nat where "NT_GNU_BUILD_ID = 3"

text \<open>\<open>%02x\<close> of each byte.\<close>

definition hex_byte :: "u8 \<Rightarrow> string" where
  "hex_byte b = [digit_char (unat b div 16), digit_char (unat b mod 16)]"

definition section_build_id :: "string \<times> (nat \<times> bytes) list \<Rightarrow> string" where
  "section_build_id sec =
     (if fst sec \<noteq> ''.note.gnu.build-id'' then []
      else case find (\<lambda>n. fst n = NT_GNU_BUILD_ID) (snd sec) of
        None \<Rightarrow> []
      | Some n \<Rightarrow> concat (map hex_byte (snd n)))"

definition get_elf_build_id :: "host \<Rightarrow> string \<Rightarrow> string" where
  "get_elf_build_id h path =
     (case h_elf_notes h path of
        None \<Rightarrow> []
      | Some secs \<Rightarrow>
          (case find (\<lambda>r. r \<noteq> []) (map section_build_id secs) of Some r \<Rightarrow> r | None \<Rightarrow> []))"

definition get_host_arch :: "host \<Rightarrow> string" where
  "get_host_arch h =
     (case h_uname h of
        None \<Rightarrow> []
      | Some m \<Rightarrow>
          if m = ''x86_64'' then ''amd64''
          else if m = ''aarch64'' then ''arm64''
          else if m = ''ppc64le'' then ''ppc64el''
          else if m = ''s390x'' then ''s390x''
          else if m = ''armv7l'' \<or> m = ''armv6l'' then ''armhf''
          else if m = ''i686'' \<or> m = ''i386'' then ''i386''
          else m)"

text \<open>What \<open>--version\<close> prints, from the build-time strings.\<close>

definition print_tool_version :: "string \<Rightarrow> string \<Rightarrow> string \<Rightarrow> string \<Rightarrow> string \<Rightarrow> string list" where
  "print_tool_version version git_describe git_branch build_date tool_name =
     (let is_dev_build = (git_describe \<noteq> []) in
      [tool_name @ '' '' @ version @ (if is_dev_build then '' (development build)'' else [])] @
      (if is_dev_build
       then [''Based on:  cephtrace '' @ version,
             ''Git:       '' @ git_describe @
               (if git_branch \<noteq> [] \<and> git_branch \<noteq> ''HEAD'' then '' (branch '' @ git_branch @ '')'' else [])]
       else []) @
      [''Built:     '' @ build_date])"

section \<open>Properties\<close>

lemma char_find_here: "c \<notin> set t \<Longrightarrow> char_find c (t @ c # u) = Some (length t)"
  unfolding char_find_def by (induction t) auto

lemma char_find_None: "char_find c s = None \<longleftrightarrow> c \<notin> set s"
  unfolding char_find_def by (induction s) auto

lemma show_nat_no: "\<not> is_digit c \<Longrightarrow> c \<notin> set (show_nat n)"
  using show_nat_digits by blast

lemma not_digit_chars: "\<not> is_digit (CHR '':'')" "\<not> is_digit (CHR ''.'')" "\<not> is_digit (CHR ''-'')"
  by (simp_all add: is_digit_def)

definition dotted :: "nat \<Rightarrow> nat \<Rightarrow> nat \<Rightarrow> string" where
  "dotted a b c = show_nat a @ ''.'' @ show_nat b @ ''.'' @ show_nat c"

lemma scan_d_show_nat:
  "\<lbrakk>r = [] \<or> \<not> is_digit (hd r); n < 2147483648\<rbrakk> \<Longrightarrow> scan_d (show_nat n @ r) = Some (int n, r)"
  by (simp add: scan_d_def scan_int_show_nat to_c_int_id c_int_range_def)

lemma sscanf_dotted:
  assumes "r = [] \<or> \<not> is_digit (hd r)" and "a < 2147483648" and "b < 2147483648" and "c < 2147483648"
  shows "sscanf_ddd (dotted a b c @ r) = (3, int a, int b, int c)"
  using assms
  by (simp add: sscanf_ddd_def dotted_def scan_d_show_nat not_digit_chars)

lemma parse_dotted:
  assumes "r = [] \<or> \<not> is_digit (hd r)" and "e = [] \<and> CHR '':'' \<notin> set r \<or> (\<exists>n. e = show_nat n @ '':'')"
    and "a < 2147483648" and "b < 2147483648" and "c < 2147483648"
  shows "parse_ceph_version (e @ dotted a b c @ r) = Some (int a, int b, int c)"
proof -
  let ?v = "e @ dotted a b c @ r"
  have dots: "CHR ''.'' \<in> set ?v" by (simp add: dotted_def)
  moreover have "CHR ''.'' \<notin> set ''unknown''" by simp
  ultimately have ne: "?v \<noteq> []" "?v \<noteq> ''unknown''" by (force, metis)
  have strip: "(case char_find (CHR '':'') ?v of Some p \<Rightarrow> drop (Suc p) ?v | None \<Rightarrow> ?v) = dotted a b c @ r"
  proof (cases "e = []")
    case True
    have "CHR '':'' \<notin> set ?v"
      using assms(2) True by (auto simp: dotted_def show_nat_no not_digit_chars)
    then have "char_find (CHR '':'') ?v = None" by (simp only: char_find_None not_False_eq_True)
    then show ?thesis using True by simp
  next
    case False
    then obtain n where e: "e = show_nat n @ '':''" using assms(2) by auto
    have "char_find (CHR '':'') (show_nat n @ CHR '':'' # dotted a b c @ r) = Some (length (show_nat n))"
      by (rule char_find_here) (simp add: show_nat_no not_digit_chars)
    then show ?thesis by (simp add: e)
  qed
  show ?thesis
    unfolding parse_ceph_version_def Let_def strip
    using ne by (simp add: sscanf_dotted [OF assms(1,3-5)])
qed

text \<open>Versions in their order: by release, then minor number, then patch level.\<close>

datatype ceph_version = Version int int int

instantiation ceph_version :: linorder
begin

fun less_eq_ceph_version :: "ceph_version \<Rightarrow> ceph_version \<Rightarrow> bool" where
  "less_eq_ceph_version (Version a b c) (Version a' b' c') \<longleftrightarrow>
     a < a' \<or> a = a' \<and> (b < b' \<or> b = b' \<and> c \<le> c')"

definition less_ceph_version :: "ceph_version \<Rightarrow> ceph_version \<Rightarrow> bool" where
  "less_ceph_version v w \<longleftrightarrow> v \<le> w \<and> \<not> w \<le> (v :: ceph_version)"

instance
proof
  fix u v w :: ceph_version
  show "v < w \<longleftrightarrow> v \<le> w \<and> \<not> w \<le> v" by (rule less_ceph_version_def)
  show "v \<le> v" by (cases v) simp
  show "v \<le> w" if "v \<le> u" "u \<le> w" using that by (cases u; cases v; cases w) auto
  show "v = w" if "v \<le> w" "w \<le> v" using that by (cases v; cases w) auto
  show "v \<le> w \<or> w \<le> v" by (cases v; cases w) auto
qed

end

lemma to_c_int_version:
  "\<lbrakk>a < 200000; b < 100; c < 100\<rbrakk> \<Longrightarrow> to_c_int (int a * 10000 + int b * 100 + int c) = int a * 10000 + int b * 100 + int c"
  by (rule to_c_int_id) (simp add: c_int_range_def)

text \<open>C24: for a package version in dpkg or rpm form whose minor and patch numbers are below 100, the
  squid test, a comparison of one weighted sum, is the comparison with 19.2.0 in the order of
  versions.\<close>

theorem squid_test_correct:
  assumes "e = [] \<and> CHR '':'' \<notin> set r \<or> (\<exists>n. e = show_nat n @ '':'')"
    and "r = [] \<or> \<not> is_digit (hd r)" and "a < 200000" and "b < 100" and "c < 100"
  shows "is_ceph_version_squid_or_above (e @ dotted a b c @ r) \<longleftrightarrow>
    Version 19 2 0 \<le> Version (int a) (int b) (int c)"
proof -
  have p: "parse_ceph_version (e @ dotted a b c @ r) = Some (int a, int b, int c)"
    using assms by (intro parse_dotted) simp_all
  show ?thesis
    using assms(4,5) by (simp add: is_ceph_version_squid_or_above_def p to_c_int_version [OF assms(3-5)]) linarith
qed

lemma squid_test_correct_witness:
  "is_ceph_version_squid_or_above ((show_nat 2 @ '':'') @ dotted 19 2 1 @ ''-1.el9'')"
proof -
  have "\<exists>n. show_nat 2 @ '':'' = show_nat n @ '':''" by blast
  then show ?thesis
    using squid_test_correct [of "show_nat 2 @ '':''" "''-1.el9''" 19 2 1] not_digit_chars by simp
qed

lemma starts_with_upto_slash:
  "CHR ''/'' \<notin> set f \<Longrightarrow> get_basename (upto_last_slash p @ f) = f"
proof (cases "find_last_of (CHR ''/'') p")
  case None
  then show "CHR ''/'' \<notin> set f \<Longrightarrow> ?thesis" by (simp add: upto_last_slash_def)
next
  case (Some i)
  then have "take (Suc i) p = take i p @ [CHR ''/'']"
    using find_last_of_Some [OF Some] by (auto simp: take_Suc_conv_app_nth)
  with Some show "CHR ''/'' \<notin> set f \<Longrightarrow> ?thesis" by (simp add: upto_last_slash_def)
qed

lemma scan_maps_found:
  assumes "scan_maps h lib pid ls = p" and "p \<noteq> []" and "CHR ''/'' \<notin> set lib"
  shows "starts_with lib (get_basename p) \<and>
    (\<exists>l\<in>set ls. \<exists>i. char_find (CHR ''/'') l = Some i \<and> \<not> str_contains ''(deleted)'' (drop i l) \<and>
       starts_with lib (get_basename (drop i l)) \<and>
       (p = drop i l \<or> get_basename p = lib \<and> h_exists h (proc_file pid ''/root'' @ p)))"
  using assms
proof (induction h lib pid ls rule: scan_maps.induct)
  case (1 h lib pid)
  then show ?case by simp
next
  case (2 h lib pid line ls)
  show ?case
  proof (cases "char_find (CHR ''/'') line")
    case None
    with 2 show ?thesis by auto
  next
    case (Some i)
    show ?thesis
    proof (cases "\<not> str_contains ''(deleted)'' (drop i line) \<and> starts_with lib (get_basename (drop i line))")
      case True
      then show ?thesis
        using 2(4-6) Some starts_with_append [of lib "[]"]
        by (auto simp: Let_def starts_with_upto_slash split: if_splits)
    next
      case False
      with Some 2(4) have r: "scan_maps h lib pid ls = p" by (auto simp: Let_def split: if_splits)
      from False have "str_contains ''(deleted)'' (drop i line) \<or>
          \<not> str_contains ''(deleted)'' (drop i line) \<and> \<not> starts_with lib (get_basename (drop i line))"
        by blast
      with 2(2,3) [OF Some refl refl] r 2(5,6) show ?thesis by auto
    qed
  qed
qed


definition demo_host :: host where
  "demo_host = \<lparr>h_readlink = (\<lambda>_. None), h_exists = (\<lambda>p. p = ''/proc/7/root/usr/lib/librbd.so.1''),
     h_executable = (\<lambda>_. False),
     h_lines = (\<lambda>p. if p = ''/proc/7/maps''
                    then Some [''7f00-7f01 r--p 00 08:01 5 /usr/lib/librbd.so.1.19.0''] else None),
     h_tokens = (\<lambda>_. None), h_proc = None, h_popen = (\<lambda>_. None), h_dlopen_loaded = (\<lambda>_. False),
     h_dlopen = (\<lambda>_. False), h_dlinfo = (\<lambda>_. None), h_getenv = (\<lambda>_. None), h_uname = None,
     h_elf_notes = (\<lambda>_. None), h_euid = 0, h_self = 1\<rparr>"


end
