(* ===== verification/Dwarf_Data.thy ===== *)
theory Dwarf_Data
  imports Sorted_Map Ceph_Types Version_Utils
begin

text \<open>
  The data a \<open>DwarfParser\<close> holds once a binary has been analysed, and the ways it is stored and
  loaded (\<open>src/dwarf_parser.cc\<close>): export to and import from JSON, and the tables compiled into
  the tool. The JSON library is third party: its values are the datatype \<open>json\<close> (numbers are the
  integers), its text form is a parameter.
\<close>

section \<open>JSON values\<close>

datatype json =
    JNull
  | JBool bool
  | JNum int
  | JStr string
  | JArr "json list"
  | JObj "(string \<times> json) list"

text \<open>\<open>j[k] = v\<close> on an ordered object: an existing key keeps its place, a new one goes last.\<close>

fun jset :: "string \<Rightarrow> json \<Rightarrow> (string \<times> json) list \<Rightarrow> (string \<times> json) list" where
  "jset k v [] = [(k, v)]"
| "jset k v ((k', v') # m) = (if k' = k then (k', v) # m else (k', v') # jset k v m)"

fun is_object :: "json \<Rightarrow> bool" where
  "is_object (JObj m) = True"
| "is_object _ = False"

fun jget :: "json \<Rightarrow> string \<Rightarrow> json option" where
  "jget (JObj m) k = map_of m k"
| "jget _ k = None"

text \<open>\<open>items()\<close> and the range loop over a value.\<close>

fun j_items :: "json \<Rightarrow> (string \<times> json) list" where
  "j_items (JObj m) = m"
| "j_items (JArr xs) = zip (map show_nat [0..<length xs]) xs"
| "j_items JNull = []"
| "j_items j = [([], j)]"

fun j_elems :: "json \<Rightarrow> json list" where
  "j_elems (JObj m) = map snd m"
| "j_elems (JArr xs) = xs"
| "j_elems JNull = []"
| "j_elems j = [j]"

text \<open>The conversions of \<open>get<T>()\<close>; \<open>None\<close> is a thrown \<open>type_error\<close>.\<close>

fun j_int :: "json \<Rightarrow> int option" where
  "j_int (JNum n) = Some (to_c_int n)"
| "j_int (JBool b) = Some (of_bool b)"
| "j_int _ = None"

fun j_u32 :: "json \<Rightarrow> u32 option" where
  "j_u32 (JNum n) = Some (of_int n)"
| "j_u32 (JBool b) = Some (of_bool b)"
| "j_u32 _ = None"

fun j_u64 :: "json \<Rightarrow> u64 option" where
  "j_u64 (JNum n) = Some (of_int n)"
| "j_u64 _ = None"

fun j_bool :: "json \<Rightarrow> bool option" where
  "j_bool (JBool b) = Some b"
| "j_bool _ = None"

fun j_str :: "json \<Rightarrow> string option" where
  "j_str (JStr s) = Some s"
| "j_str _ = None"

section \<open>The parser's data\<close>

record dwarf_data =
  mod_func2vf :: "UVarField list smap smap"
  mod_func2pc :: "u64 smap smap"
  mod_type_sizes :: "u32 smap smap"
  mod_member_offsets :: "u32 smap smap"
  mod_path :: "string smap"

definition empty_dwarf :: dwarf_data where
  "empty_dwarf = \<lparr>mod_func2vf = [], mod_func2pc = [], mod_type_sizes = [], mod_member_offsets = [],
     mod_path = []\<rparr>"

definition get_type_size :: "dwarf_data \<Rightarrow> string \<Rightarrow> string \<Rightarrow> int" where
  "get_type_size d module type =
     (case look2 (mod_type_sizes d) (get_basename module) type of
        None \<Rightarrow> - 1
      | Some s \<Rightarrow> sint s)"

definition member_offset_key :: "string \<Rightarrow> string list \<Rightarrow> string" where
  "member_offset_key type path = type @ ''::'' @ str_join ''.'' path"

definition get_member_offset :: "dwarf_data \<Rightarrow> string \<Rightarrow> string \<Rightarrow> string list \<Rightarrow> int" where
  "get_member_offset d module type path =
     (case look2 (mod_member_offsets d) (get_basename module) (member_offset_key type path) of
        None \<Rightarrow> - 1
      | Some off \<Rightarrow> sint off)"

section \<open>Export\<close>

definition field_json :: "Field \<Rightarrow> json" where
  "field_json f = JObj [(''offset'', JNum (f_offset f)), (''pointer'', JBool (f_pointer f))]"

definition var_json :: "UVarField \<Rightarrow> json" where
  "var_json vf = JObj
     [(''location'', JObj [(''reg'', JNum (vl_reg (uv_varloc vf))),
                         (''offset'', JNum (vl_offset (uv_varloc vf))),
                         (''stack'', JBool (vl_stack (uv_varloc vf)))]),
      (''fields'', JArr (map field_json (uv_fields vf)))]"

definition func_json :: "UVarField list \<Rightarrow> json" where
  "func_json vfs = JObj [(''var_fields'', JArr (map var_json vfs))]"

definition obj_of :: "('a \<Rightarrow> json) \<Rightarrow> 'a smap \<Rightarrow> json" where
  "obj_of f m = JObj (fold (\<lambda>(k, v). jset k (f v)) m [])"

definition module_json :: "host \<Rightarrow> dwarf_data \<Rightarrow> string \<Rightarrow> json" where
  "module_json h d module =
     (let bid = (case map_of (mod_path d) module of
                   Some p \<Rightarrow> get_elf_build_id h p | None \<Rightarrow> []);
          o1 = (if bid \<noteq> [] then [(''build_id'', JStr bid)] else []);
          o2 = jset ''func2pc'' (obj_of (\<lambda>a. JNum (uint a)) (smap_at (mod_func2pc d) module)) o1;
          o3 = jset ''type_sizes'' (obj_of (\<lambda>s. JNum (uint s)) (smap_at (mod_type_sizes d) module)) o2;
          o4 = jset ''member_offsets'' (obj_of (\<lambda>s. JNum (uint s)) (smap_at (mod_member_offsets d) module)) o3
      in JObj (jset ''func2vf'' (obj_of func_json (smap_at (mod_func2vf d) module)) o4))"

definition module_names :: "dwarf_data \<Rightarrow> string list" where
  "module_names d = sort (remdups
     (map fst (mod_func2pc d) @ map fst (mod_func2vf d) @ map fst (mod_type_sizes d) @
      map fst (mod_member_offsets d)))"

definition export_value :: "host \<Rightarrow> string \<Rightarrow> dwarf_data \<Rightarrow> json" where
  "export_value h version d =
     (let j1 = (if version \<noteq> [] then jset ''version'' (JStr version) [] else []);
          arch = get_host_arch h;
          j2 = (if arch \<noteq> [] then jset ''arch'' (JStr arch) j1 else j1)
      in JObj (fold (\<lambda>m. jset m (module_json h d m)) (module_names d) j2))"

text \<open>
  \<open>export_to_json\<close> also leaves the data with a (possibly empty) function table for every module,
  since it reads \<open>mod_func2vf[module]\<close>. The first result is what is written when the file opens.
\<close>

definition export_to_json ::
  "(json \<Rightarrow> string) \<Rightarrow> host \<Rightarrow> string \<Rightarrow> dwarf_data \<Rightarrow> string \<times> dwarf_data" where
  "export_to_json dump h version d =
     (dump (export_value h version d),
      d\<lparr>mod_func2vf := fold (\<lambda>m acc. smap_put m (smap_at acc m) acc) (module_names d) (mod_func2vf d)\<rparr>)"

section \<open>Import\<close>

text \<open>A loop that may throw: the state changes made before the exception stay.\<close>

fun try_fold :: "('a \<Rightarrow> 's \<Rightarrow> bool \<times> 's) \<Rightarrow> 'a list \<Rightarrow> 's \<Rightarrow> bool \<times> 's" where
  "try_fold f [] s = (True, s)"
| "try_fold f (x # xs) s = (case f x s of (ok, s') \<Rightarrow> if ok then try_fold f xs s' else (False, s'))"

fun all_some :: "('a \<Rightarrow> 'b option) \<Rightarrow> 'a list \<Rightarrow> 'b list option" where
  "all_some f [] = Some []"
| "all_some f (x # xs) =
     (case f x of None \<Rightarrow> None | Some y \<Rightarrow> map_option ((#) y) (all_some f xs))"

definition field_of_json :: "json \<Rightarrow> Field option" where
  "field_of_json j =
     (case Option.bind (jget j ''offset'') j_int of None \<Rightarrow> None | Some off \<Rightarrow>
      case Option.bind (jget j ''pointer'') j_bool of None \<Rightarrow> None | Some p \<Rightarrow>
      Some \<lparr>f_offset = off, f_pointer = p\<rparr>)"

definition var_of_json :: "json \<Rightarrow> UVarField option" where
  "var_of_json j =
     (case jget j ''location'' of None \<Rightarrow> None | Some loc \<Rightarrow>
      case Option.bind (jget loc ''reg'') j_int of None \<Rightarrow> None | Some r \<Rightarrow>
      case Option.bind (jget loc ''offset'') j_int of None \<Rightarrow> None | Some off \<Rightarrow>
      case Option.bind (jget loc ''stack'') j_bool of None \<Rightarrow> None | Some st \<Rightarrow>
      case jget j ''fields'' of None \<Rightarrow> None | Some fs \<Rightarrow>
      map_option (\<lambda>fields. \<lparr>uv_varloc = \<lparr>vl_reg = r, vl_offset = off, vl_stack = st\<rparr>, uv_fields = fields\<rparr>)
        (all_some field_of_json (j_elems fs)))"

definition func_of_json :: "json \<Rightarrow> UVarField list option" where
  "func_of_json j =
     (case jget j ''var_fields'' of None \<Rightarrow> None | Some vs \<Rightarrow> all_some var_of_json (j_elems vs))"

text \<open>One \<open>contains(section)\<close> block of a module: each entry is converted and stored.\<close>

definition import_section ::
  "(json \<Rightarrow> 'a option) \<Rightarrow> string \<Rightarrow> json option \<Rightarrow> 'a smap smap \<Rightarrow> bool \<times> 'a smap smap" where
  "import_section conv key sec mm =
     (case sec of
        None \<Rightarrow> (True, mm)
      | Some obj \<Rightarrow> try_fold (\<lambda>(n, j) m. case conv j of
            None \<Rightarrow> (False, m) | Some v \<Rightarrow> (True, put2 key n v m)) (j_items obj) mm)"

definition import_module :: "string \<times> json \<Rightarrow> dwarf_data \<Rightarrow> bool \<times> dwarf_data" where
  "import_module mj d =
     (let data = snd mj; key = get_basename (fst mj) in
      if \<not> is_object data then (True, d)
      else if jget data ''func2pc'' = None \<and> jget data ''func2vf'' = None then (True, d)
      else
        case import_section j_u64 key (jget data ''func2pc'') (mod_func2pc d) of (ok1, pc) \<Rightarrow>
        let d1 = d\<lparr>mod_func2pc := pc\<rparr> in if \<not> ok1 then (False, d1) else
        case import_section j_u32 key (jget data ''type_sizes'') (mod_type_sizes d1) of (ok2, ts) \<Rightarrow>
        let d2 = d1\<lparr>mod_type_sizes := ts\<rparr> in if \<not> ok2 then (False, d2) else
        case import_section j_u32 key (jget data ''member_offsets'') (mod_member_offsets d2) of (ok3, mo) \<Rightarrow>
        let d3 = d2\<lparr>mod_member_offsets := mo\<rparr> in if \<not> ok3 then (False, d3) else
        case import_section func_of_json key (jget data ''func2vf'') (mod_func2vf d3) of (ok4, vf) \<Rightarrow>
        (ok4, d3\<lparr>mod_func2vf := vf\<rparr>))"

text \<open>The version gate: \<open>Some False\<close> refuses, \<open>None\<close> is an exception.\<close>

definition version_gate :: "json \<Rightarrow> string \<Rightarrow> bool option" where
  "version_gate j expected =
     (if expected = [] then Some True
      else case jget j ''version'' of
        None \<Rightarrow> Some False
      | Some v \<Rightarrow> map_option (\<lambda>s. s = expected) (j_str v))"

definition import_value :: "json \<Rightarrow> string \<Rightarrow> dwarf_data \<Rightarrow> bool \<times> dwarf_data" where
  "import_value j expected d =
     (if version_gate j expected \<noteq> Some True then (False, d)
      else try_fold import_module (j_items j)
             (d\<lparr>mod_func2pc := [], mod_func2vf := [], mod_type_sizes := []\<rparr>))"

text \<open>The file's contents, when it opens, parsed by the library.\<close>

definition import_from_json ::
  "(string \<Rightarrow> json option) \<Rightarrow> string option \<Rightarrow> string \<Rightarrow> dwarf_data \<Rightarrow> bool \<times> dwarf_data" where
  "import_from_json parse contents expected d =
     (case contents of
        None \<Rightarrow> (False, d)
      | Some text \<Rightarrow> (case parse text of None \<Rightarrow> (False, d) | Some j \<Rightarrow> import_value j expected d))"

definition get_version_from_json :: "(string \<Rightarrow> json option) \<Rightarrow> string option \<Rightarrow> string" where
  "get_version_from_json parse contents =
     (case Option.bind contents parse of
        None \<Rightarrow> []
      | Some j \<Rightarrow> (case Option.bind (jget j ''version'') j_str of Some v \<Rightarrow> v | None \<Rightarrow> []))"

section \<open>The compiled-in tables\<close>

record embedded_module =
  em_name :: string
  em_build_id :: string
  em_type_sizes :: "(string \<times> u32) list"
  em_member_offsets :: "(string \<times> u32) list"
  em_func2pc :: "(string \<times> u64) list"
  em_func2vf :: "(string \<times> UVarField list) list"

record embedded_version =
  ev_version :: "string option"
  ev_arch :: string
  ev_modules :: "embedded_module list"

text \<open>The generated header: the osdtrace and the radostrace table.\<close>

record embedded_tables =
  EMBEDDED_OSDTRACE_VERSIONS :: "embedded_version list"
  EMBEDDED_RADOSTRACE_VERSIONS :: "embedded_version list"

definition embedded_table :: "embedded_tables \<Rightarrow> string \<Rightarrow> embedded_version list option" where
  "embedded_table emb trace_type =
     (if trace_type = ''osdtrace'' then Some (EMBEDDED_OSDTRACE_VERSIONS emb)
      else if trace_type = ''radostrace'' then Some (EMBEDDED_RADOSTRACE_VERSIONS emb)
      else None)"

definition have_ids :: "embedded_version \<Rightarrow> (string \<times> string) list" where
  "have_ids v = map (\<lambda>m. (em_name m, em_build_id m)) (filter (\<lambda>m. em_build_id m \<noteq> []) (ev_modules v))"

definition embedded_matches :: "(string \<times> string) list \<Rightarrow> embedded_version \<Rightarrow> bool" where
  "embedded_matches want v \<longleftrightarrow> ev_modules v \<noteq> [] \<and> (\<forall>w\<in>set want. w \<in> set (have_ids v))"

definition find_embedded_match ::
  "embedded_tables \<Rightarrow> (string \<times> string) list \<Rightarrow> string \<Rightarrow> embedded_version option" where
  "find_embedded_match emb modules trace_type =
     (case embedded_table emb trace_type of
        None \<Rightarrow> None
      | Some versions \<Rightarrow>
          if (\<exists>m\<in>set modules. snd m = []) \<or> modules = [] then None
          else find (embedded_matches modules) versions)"

definition load_embedded_module :: "embedded_module \<Rightarrow> dwarf_data \<Rightarrow> dwarf_data" where
  "load_embedded_module m d =
     (let n = em_name m in
      d\<lparr>mod_type_sizes := fold (\<lambda>(k, v). put2 n k v) (em_type_sizes m) (mod_type_sizes d),
        mod_member_offsets := fold (\<lambda>(k, v). put2 n k v) (em_member_offsets m) (mod_member_offsets d),
        mod_func2pc := fold (\<lambda>(k, v). put2 n k v) (em_func2pc m) (mod_func2pc d),
        mod_func2vf := fold (\<lambda>(k, v). put2 n k v) (em_func2vf m) (mod_func2vf d)\<rparr>)"

definition import_from_embedded ::
  "embedded_tables \<Rightarrow> (string \<times> string) list \<Rightarrow> string \<Rightarrow> dwarf_data
     \<Rightarrow> (dwarf_data \<times> string option) option" where
  "import_from_embedded emb modules trace_type d =
     (case find_embedded_match emb modules trace_type of
        None \<Rightarrow> None
      | Some v \<Rightarrow>
          Some (fold load_embedded_module (ev_modules v)
                  (d\<lparr>mod_func2pc := [], mod_func2vf := [], mod_type_sizes := [],
                     mod_member_offsets := []\<rparr>),
                ev_version v))"

text \<open>The verdict, with the version of the match.\<close>

definition is_embedded_traceable ::
  "embedded_tables \<Rightarrow> (string \<times> string) list \<Rightarrow> string \<Rightarrow> bool \<times> string option" where
  "is_embedded_traceable emb modules trace_type =
     (case find_embedded_match emb modules trace_type of
        None \<Rightarrow> (False, None)
      | Some v \<Rightarrow> (True, ev_version v))"

text \<open>The rows of \<open>--list-embedded\<close>: version, architecture, module and build-id, unpadded.\<close>

definition nonempty_or :: "string \<Rightarrow> string \<Rightarrow> string" where
  "nonempty_or s e = (if s \<noteq> [] then s else e)"

definition version_rows :: "embedded_version \<Rightarrow> (string \<times> string \<times> string \<times> string) list" where
  "version_rows v =
     (let ver = nonempty_or (case ev_version v of Some s \<Rightarrow> s | None \<Rightarrow> []) ''(unknown)'';
          arch = nonempty_or (ev_arch v) ''-''
      in if ev_modules v = [] then [(ver, arch, ''-'', ''-'')]
         else map (\<lambda>(i, m). (if i = 0 then ver else [], if i = 0 then arch else [], em_name m,
                            nonempty_or (em_build_id m) ''(none)''))
                (zip [0..<length (ev_modules v)] (ev_modules v)))"

definition list_embedded_versions ::
  "embedded_tables \<Rightarrow> string \<Rightarrow> (string \<times> string \<times> string \<times> string) list option" where
  "list_embedded_versions emb trace_type =
     map_option (\<lambda>vs. concat (map version_rows vs)) (embedded_table emb trace_type)"

end
