(* ===== verification/Dwarf_Data_Properties.thy ===== *)
theory Dwarf_Data_Properties
  imports Dwarf_Data
begin

text \<open>
  Storing and loading the DWARF data: what is exported is imported again, the compiled-in tables
  are chosen by build-id and loaded completely, and what a lookup of a size or an offset finds.
\<close>

section \<open>JSON objects built by assignment\<close>

lemma map_of_jset [simp]: "map_of (jset k v m) = (map_of m)(k \<mapsto> v)"
  by (induction k v m rule: jset.induct) (auto simp: fun_eq_iff)

lemma jset_new: "k \<notin> fst ` set m \<Longrightarrow> jset k v m = m @ [(k, v)]"
  by (induction m) auto

lemma fold_jset_new:
  assumes "distinct (map fst m)" and "fst ` set m \<inter> fst ` set acc = {}"
  shows "fold (\<lambda>(k, v). jset k (f v)) m acc = acc @ map (\<lambda>(k, v). (k, f v)) m"
  using assms
proof (induction m arbitrary: acc)
  case Nil
  then show ?case by simp
next
  case (Cons kv m)
  obtain k v where kv: "kv = (k, v)" by (cases kv)
  have new: "jset k (f v) acc = acc @ [(k, f v)]" using Cons.prems(2) kv by (intro jset_new) auto
  have "fold (\<lambda>(k, v). jset k (f v)) m (acc @ [(k, f v)])
      = (acc @ [(k, f v)]) @ map (\<lambda>(k, v). (k, f v)) m"
    using Cons.prems kv by (intro Cons.IH) (auto simp: image_iff)
  then show ?case by (simp add: kv new)
qed

lemma obj_of_eq: "distinct (map fst m) \<Longrightarrow> obj_of f m = JObj (map (\<lambda>(k, v). (k, f v)) m)"
  by (simp add: obj_of_def fold_jset_new)

section \<open>Loops that do not throw\<close>

lemma try_fold_ok:
  assumes "\<And>x s. x \<in> set xs \<Longrightarrow> f x s = (True, g x s)"
  shows "try_fold f xs s = (True, fold g xs s)"
  using assms by (induction xs arbitrary: s) auto

lemma all_some_map: "(\<And>x. x \<in> set xs \<Longrightarrow> f (g x) = Some x) \<Longrightarrow> all_some f (map g xs) = Some xs"
  by (induction xs) auto

lemma fold_cong_map: "fold f (map g xs) s = fold (\<lambda>x. f (g x)) xs s"
  by (induction xs arbitrary: s) auto

lemma import_section_obj:
  assumes "distinct (map fst m)" and "\<And>k v. (k, v) \<in> set m \<Longrightarrow> conv (f v) = Some v"
  shows "import_section conv key (Some (obj_of f m)) mm = (True, fold (\<lambda>(n, v). put2 key n v) m mm)"
proof -
  let ?step = "\<lambda>(n, j) m. case conv j of None \<Rightarrow> (False, m) | Some v \<Rightarrow> (True, put2 key n v m)"
  have "try_fold ?step (map (\<lambda>(k, v). (k, f v)) m) mm =
      (True, fold (\<lambda>(n, j). put2 key n (the (conv j))) (map (\<lambda>(k, v). (k, f v)) m) mm)"
    by (rule try_fold_ok) (auto simp: assms(2))
  also have "fold (\<lambda>(n, j). put2 key n (the (conv j))) (map (\<lambda>(k, v). (k, f v)) m) mm
      = fold (\<lambda>(n, v). put2 key n v) m mm"
    unfolding fold_cong_map
    by (rule fold_cong) (auto simp: assms(2) split: prod.splits)
  finally show ?thesis by (simp add: import_section_def obj_of_eq [OF assms(1)])
qed

section \<open>Round trip of the leaves\<close>

definition field_ok :: "Field \<Rightarrow> bool" where
  "field_ok f = c_int_range (f_offset f)"

definition var_ok :: "UVarField \<Rightarrow> bool" where
  "var_ok v \<longleftrightarrow> c_int_range (vl_reg (uv_varloc v)) \<and> c_int_range (vl_offset (uv_varloc v)) \<and>
     (\<forall>f\<in>set (uv_fields v). field_ok f)"

lemma field_round: "field_ok f \<Longrightarrow> field_of_json (field_json f) = Some f"
  by (simp add: field_ok_def field_of_json_def field_json_def to_c_int_id)

lemma var_round: "var_ok v \<Longrightarrow> var_of_json (var_json v) = Some v"
  by (simp add: var_ok_def var_of_json_def var_json_def to_c_int_id all_some_map field_round)

lemma func_round: "\<forall>v\<in>set vs. var_ok v \<Longrightarrow> func_of_json (func_json vs) = Some vs"
  by (simp add: func_of_json_def func_json_def all_some_map var_round)

lemma u32_round: "j_u32 (JNum (uint w)) = Some w"
  by simp

lemma u64_round: "j_u64 (JNum (uint w)) = Some w"
  by simp

section \<open>Copying a table module by module\<close>

definition copy_module :: "'a smap smap \<Rightarrow> string \<Rightarrow> 'a smap smap \<Rightarrow> 'a smap smap" where
  "copy_module T m acc = fold (\<lambda>(n, v). put2 m n v) (smap_at T m) acc"

lemma look2_copy_module:
  assumes "distinct (map fst (smap_at T m))"
  shows "look2 (copy_module T m acc) a b =
    (if a = m then (case look2 T m b of Some v \<Rightarrow> Some v | None \<Rightarrow> look2 acc m b) else look2 acc a b)"
  using look2_fold_put2 [OF assms, of m "\<lambda>v. v" acc a b] by (simp add: copy_module_def look2_def)

lemma look2_copy_modules:
  assumes "\<forall>m. distinct (map fst (smap_at T m))" and "distinct ms"
  shows "look2 (fold (copy_module T) ms acc) a b =
    (if a \<in> set ms then (case look2 T a b of Some v \<Rightarrow> Some v | None \<Rightarrow> look2 acc a b) else look2 acc a b)"
  using assms(2)
proof (induction ms arbitrary: acc)
  case Nil
  then show ?case by simp
next
  case (Cons m ms)
  then show ?case using assms(1) by (auto simp: look2_copy_module split: option.splits)
qed

lemma look2_copy_all:
  assumes "\<forall>m. distinct (map fst (smap_at T m))" and "distinct ms" and "fst ` set T \<subseteq> set ms"
  shows "look2 (fold (copy_module T) ms []) = look2 T"
proof (intro ext)
  fix a b
  have "look2 T a b = None" if "a \<notin> set ms"
  proof -
    have "map_of T a = None" using that assms(3) by (auto simp: map_of_eq_None_iff)
    then show ?thesis by (simp add: look2_def smap_at_def)
  qed
  then show "look2 (fold (copy_module T) ms []) a b = look2 T a b"
    using look2_copy_modules [OF assms(1,2), of "[]" a b] by (auto split: option.splits)
qed

section \<open>Export and import\<close>

definition table_ok :: "'a smap smap \<Rightarrow> bool" where
  "table_ok T \<longleftrightarrow> (\<forall>m. distinct (map fst (smap_at T m)))"

text \<open>
  The data a parser builds: keys are unique at both levels, modules are file names that are not
  one of the two metadata keys, and the locations fit a C \<open>int\<close>.
\<close>

definition dwarf_ok :: "dwarf_data \<Rightarrow> bool" where
  "dwarf_ok d \<longleftrightarrow> table_ok (mod_func2pc d) \<and> table_ok (mod_func2vf d) \<and> table_ok (mod_type_sizes d) \<and>
     table_ok (mod_member_offsets d) \<and>
     (\<forall>m\<in>set (module_names d). CHR ''/'' \<notin> set m \<and> m \<noteq> ''version'' \<and> m \<noteq> ''arch'') \<and>
     (\<forall>m k vs. (k, vs) \<in> set (smap_at (mod_func2vf d) m) \<longrightarrow> (\<forall>v\<in>set vs. var_ok v))"

definition same_data :: "dwarf_data \<Rightarrow> dwarf_data \<Rightarrow> bool" where
  "same_data d d' \<longleftrightarrow> look2 (mod_func2pc d) = look2 (mod_func2pc d') \<and>
     look2 (mod_func2vf d) = look2 (mod_func2vf d') \<and>
     look2 (mod_type_sizes d) = look2 (mod_type_sizes d') \<and>
     look2 (mod_member_offsets d) = look2 (mod_member_offsets d')"

definition copy_all :: "dwarf_data \<Rightarrow> string \<Rightarrow> dwarf_data \<Rightarrow> dwarf_data" where
  "copy_all d m s = s\<lparr>mod_func2pc := copy_module (mod_func2pc d) m (mod_func2pc s),
     mod_type_sizes := copy_module (mod_type_sizes d) m (mod_type_sizes s),
     mod_member_offsets := copy_module (mod_member_offsets d) m (mod_member_offsets s),
     mod_func2vf := copy_module (mod_func2vf d) m (mod_func2vf s)\<rparr>"

lemma import_module_export:
  assumes "dwarf_ok d" and "CHR ''/'' \<notin> set m"
  shows "import_module (m, module_json h d m) s = (True, copy_all d m s)"
proof -
  have t: "distinct (map fst (smap_at (mod_func2pc d) m))" "distinct (map fst (smap_at (mod_func2vf d) m))"
    "distinct (map fst (smap_at (mod_type_sizes d) m))"
    "distinct (map fst (smap_at (mod_member_offsets d) m))"
    using assms(1) by (auto simp: dwarf_ok_def table_ok_def)
  have vf: "func_of_json (func_json vs) = Some vs" if "(k, vs) \<in> set (smap_at (mod_func2vf d) m)" for k vs
    using assms(1) that by (intro func_round) (auto simp: dwarf_ok_def)
  note secs = import_section_obj [OF t(1), of j_u64 "\<lambda>a. JNum (uint a)"]
    import_section_obj [OF t(3), of j_u32 "\<lambda>a. JNum (uint a)"]
    import_section_obj [OF t(4), of j_u32 "\<lambda>a. JNum (uint a)"]
    import_section_obj [OF t(2), of func_of_json func_json, OF vf]
  show ?thesis
    using assms(2)
    by (simp add: import_module_def module_json_def Let_def secs copy_all_def copy_module_def)
qed

lemma fold_copy_all:
  "mod_func2pc (fold (copy_all d) ms s) = fold (copy_module (mod_func2pc d)) ms (mod_func2pc s)"
  "mod_func2vf (fold (copy_all d) ms s) = fold (copy_module (mod_func2vf d)) ms (mod_func2vf s)"
  "mod_type_sizes (fold (copy_all d) ms s) = fold (copy_module (mod_type_sizes d)) ms (mod_type_sizes s)"
  "mod_member_offsets (fold (copy_all d) ms s) =
     fold (copy_module (mod_member_offsets d)) ms (mod_member_offsets s)"
  by (induction ms arbitrary: s) (simp_all add: copy_all_def)

definition meta_entries :: "host \<Rightarrow> string \<Rightarrow> (string \<times> json) list" where
  "meta_entries h version =
     (if version \<noteq> [] then [(''version'', JStr version)] else []) @
     (if get_host_arch h \<noteq> [] then [(''arch'', JStr (get_host_arch h))] else [])"

lemma export_value_eq:
  assumes "dwarf_ok d"
  shows "export_value h version d =
    JObj (meta_entries h version @ map (\<lambda>m. (m, module_json h d m)) (module_names d))"
proof -
  have meta: "(if get_host_arch h \<noteq> []
      then jset ''arch'' (JStr (get_host_arch h)) (if version \<noteq> [] then jset ''version'' (JStr version) [] else [])
      else (if version \<noteq> [] then jset ''version'' (JStr version) [] else [])) = meta_entries h version"
    by (simp add: meta_entries_def)
  have "fold (\<lambda>m. jset m (module_json h d m)) ms acc = acc @ map (\<lambda>m. (m, module_json h d m)) ms"
    if "distinct ms" "set ms \<inter> fst ` set acc = {}" for ms acc
    using fold_jset_new [of "map (\<lambda>m. (m, m)) ms" acc "module_json h d"] that
    by (simp add: fold_cong_map comp_def image_image)
  moreover have "set (module_names d) \<inter> fst ` set (meta_entries h version) = {}"
    using assms by (auto simp: dwarf_ok_def meta_entries_def)
  moreover have "distinct (module_names d)" by (simp add: module_names_def)
  ultimately show ?thesis
    unfolding export_value_def Let_def by (simp only: meta)
qed

lemma import_export_eq:
  assumes "dwarf_ok d" and "expected = [] \<or> expected = version"
  shows "import_value (export_value h version d) expected d0 =
    (True, fold (copy_all d) (module_names d) (d0\<lparr>mod_func2pc := [], mod_func2vf := [], mod_type_sizes := []\<rparr>))"
proof -
  let ?j = "export_value h version d"
  let ?ms = "module_names d"
  have names: "\<forall>m\<in>set ?ms. CHR ''/'' \<notin> set m \<and> m \<noteq> ''version'' \<and> m \<noteq> ''arch''"
    using assms(1) by (simp add: dwarf_ok_def)
  have gate: "version_gate ?j expected = Some True"
    using assms(2) by (auto simp: version_gate_def export_value_eq [OF assms(1)] meta_entries_def)
  have skip: "try_fold import_module (meta_entries h version @ xs) s = try_fold import_module xs s" for xs s
    by (simp add: meta_entries_def import_module_def)
  have "try_fold import_module (map (\<lambda>m. (m, module_json h d m)) ?ms) s = (True, fold (copy_all d) ?ms s)" for s
  proof -
    have "try_fold import_module (map (\<lambda>m. (m, module_json h d m)) ?ms) s =
        (True, fold (\<lambda>mj. copy_all d (fst mj)) (map (\<lambda>m. (m, module_json h d m)) ?ms) s)"
      by (rule try_fold_ok) (use names import_module_export [OF assms(1)] in auto)
    then show ?thesis by (simp add: fold_cong_map)
  qed
  then show ?thesis by (simp add: import_value_def gate) (simp add: export_value_eq [OF assms(1)] skip)
qed

lemma import_export_value:
  assumes "dwarf_ok d" and "expected = [] \<or> expected = version" and "mod_member_offsets d0 = []"
  shows "fst (import_value (export_value h version d) expected d0) \<and>
    same_data (snd (import_value (export_value h version d) expected d0)) d"
proof -
  let ?ms = "module_names d"
  have dist: "distinct ?ms" by (simp add: module_names_def)
  have t: "table_ok (mod_func2pc d)" "table_ok (mod_func2vf d)" "table_ok (mod_type_sizes d)"
    "table_ok (mod_member_offsets d)"
    using assms(1) by (simp_all add: dwarf_ok_def)
  have keys: "fst ` set (mod_func2pc d) \<subseteq> set ?ms" "fst ` set (mod_func2vf d) \<subseteq> set ?ms"
    "fst ` set (mod_type_sizes d) \<subseteq> set ?ms" "fst ` set (mod_member_offsets d) \<subseteq> set ?ms"
    by (auto simp: module_names_def)
  show ?thesis
    unfolding import_export_eq [OF assms(1,2)] same_data_def
    using t assms(3) dist keys by (simp add: fold_copy_all look2_copy_all table_ok_def)
qed

text \<open>C21: what export writes, import reads back: with a text form the JSON library can parse again,
  importing an exported file into a parser without member offsets succeeds, when no version or
  the exported version is expected, and every function address, variable location, type size
  and member offset is found again, and nothing else.\<close>

theorem export_import_roundtrip:
  assumes "dwarf_ok d" and "expected = [] \<or> expected = version" and "mod_member_offsets d0 = []"
    and "parse (dump (export_value h version d)) = Some (export_value h version d)"
  shows "let r = import_from_json parse (Some (fst (export_to_json dump h version d))) expected d0
    in fst r \<and> same_data (snd r) d"
  using import_export_value [OF assms(1-3), of h] assms(4)
  by (simp add: import_from_json_def export_to_json_def Let_def)

definition demo_dwarf :: dwarf_data where
  "demo_dwarf = \<lparr>mod_func2vf = [(''ceph-osd'', [(''OSD::enqueue_op'',
        [\<lparr>uv_varloc = \<lparr>vl_reg = 5, vl_offset = - 8, vl_stack = True\<rparr>,
          uv_fields = [\<lparr>f_offset = 0, f_pointer = False\<rparr>, \<lparr>f_offset = 16, f_pointer = True\<rparr>]\<rparr>])])],
     mod_func2pc = [(''ceph-osd'', [(''OSD::enqueue_op'', 4096)])],
     mod_type_sizes = [(''ceph-osd'', [(''OSDOp'', 104)])],
     mod_member_offsets = [(''ceph-osd'', [(''OSDOp::indata._carriage'', 96)])], mod_path = []\<rparr>"

lemma demo_dwarf_ok: "dwarf_ok demo_dwarf"
  by (auto simp: dwarf_ok_def demo_dwarf_def table_ok_def smap_at_def module_names_def var_ok_def
      field_ok_def c_int_range_def split: option.splits if_splits)

lemma export_import_roundtrip_witness:
  "same_data (snd (import_from_json (\<lambda>_. Some (export_value demo_host ''19.2.0'' demo_dwarf))
     (Some (fst (export_to_json (\<lambda>_. ''text'') demo_host ''19.2.0'' demo_dwarf))) ''19.2.0'' empty_dwarf)) demo_dwarf"
  using export_import_roundtrip [OF demo_dwarf_ok, of "''19.2.0''" "''19.2.0''" empty_dwarf
      "\<lambda>_. Some (export_value demo_host ''19.2.0'' demo_dwarf)" "\<lambda>_. ''text''" demo_host]
  by (simp add: empty_dwarf_def Let_def)

text \<open>A file exported for another version, or without a version, is refused when a version is
  expected, and the parser keeps the data it had.\<close>

lemma import_refuses_other_version:
  assumes "expected \<noteq> []" and "jget j ''version'' \<noteq> Some (JStr expected)"
  shows "import_value j expected d = (False, d)"
proof -
  have "version_gate j expected \<noteq> Some True"
  proof (cases "jget j ''version''")
    case None
    with assms(1) show ?thesis by (simp add: version_gate_def)
  next
    case (Some v)
    with assms show ?thesis by (cases v) (auto simp: version_gate_def)
  qed
  then show ?thesis by (simp add: import_value_def)
qed

text \<open>Unlike the other three tables, the member offsets are not cleared by an import: after a
  successful import of a file without modules the old offsets are still found.\<close>

lemma import_keeps_member_offsets:
  "import_value (JObj []) [] d =
     (True, d\<lparr>mod_func2pc := [], mod_func2vf := [], mod_type_sizes := []\<rparr>) \<and>
   get_member_offset (snd (import_value (JObj []) [] d)) m t p = get_member_offset d m t p"
  by (simp add: import_value_def version_gate_def get_member_offset_def)

section \<open>The compiled-in tables\<close>

lemma find_Some_first: "find P xs = Some x \<Longrightarrow> x \<in> set xs \<and> P x"
  by (induction xs) (auto split: if_splits)

lemma find_None_none: "find P xs = None \<Longrightarrow> x \<in> set xs \<Longrightarrow> \<not> P x"
  by (induction xs) (auto split: if_splits)

text \<open>The caller's modules are all in the entry, each with the same non-empty build-id.\<close>

definition covers :: "embedded_version \<Rightarrow> (string \<times> string) list \<Rightarrow> bool" where
  "covers v modules \<longleftrightarrow>
     (\<forall>(n, b)\<in>set modules. b \<noteq> [] \<and> (\<exists>m\<in>set (ev_modules v). em_name m = n \<and> em_build_id m = b))"

lemma matches_covers:
  "modules \<noteq> [] \<Longrightarrow> \<forall>m\<in>set modules. snd m \<noteq> [] \<Longrightarrow> embedded_matches modules v \<longleftrightarrow> covers v modules"
  by (cases modules) (fastforce simp: embedded_matches_def covers_def have_ids_def)+

text \<open>C22: the compiled-in entry chosen for a binary covers every module asked for with the same,
  non-empty build-id, and when none is chosen for a non-empty request no entry of the table
  does; a request with an unknown build-id never matches.\<close>

theorem embedded_match_by_build_id:
  "case find_embedded_match emb modules trace_type of
     Some v \<Rightarrow> (\<exists>vs. embedded_table emb trace_type = Some vs \<and> v \<in> set vs) \<and> modules \<noteq> [] \<and> covers v modules
   | None \<Rightarrow> (\<forall>vs. embedded_table emb trace_type = Some vs \<and> modules \<noteq> [] \<longrightarrow>
       (\<forall>v\<in>set vs. \<not> covers v modules))"
proof (cases "embedded_table emb trace_type")
  case None
  then show ?thesis by (simp add: find_embedded_match_def)
next
  case (Some vs)
  show ?thesis
  proof (cases "(\<exists>m\<in>set modules. snd m = []) \<or> modules = []")
    case True
    then have "find_embedded_match emb modules trace_type = None"
      using Some by (simp add: find_embedded_match_def)
    moreover have "modules \<noteq> [] \<Longrightarrow> \<not> covers v modules" for v
      using True by (fastforce simp: covers_def)
    ultimately show ?thesis by auto
  next
    case False
    then have m: "embedded_matches modules v \<longleftrightarrow> covers v modules" for v
      by (intro matches_covers) auto
    have f: "find_embedded_match emb modules trace_type = find (embedded_matches modules) vs"
      using Some False by (simp add: find_embedded_match_def)
    show ?thesis
      using Some False find_Some_first [of "embedded_matches modules" vs]
        find_None_none [of "embedded_matches modules" vs]
      by (auto simp: f m split: option.splits)
  qed
qed

definition demo_emb :: embedded_tables where
  "demo_emb = \<lparr>EMBEDDED_OSDTRACE_VERSIONS = [\<lparr>ev_version = Some ''19.2.0'', ev_arch = ''amd64'',
       ev_modules = [\<lparr>em_name = ''ceph-osd'', em_build_id = ''ab'', em_type_sizes = [(''OSDOp'', 104)],
         em_member_offsets = [], em_func2pc = [(''OSD::enqueue_op'', 4096)], em_func2vf = []\<rparr>]\<rparr>],
     EMBEDDED_RADOSTRACE_VERSIONS = []\<rparr>"

lemma embedded_match_by_build_id_witness:
  "\<not> covers (hd (EMBEDDED_OSDTRACE_VERSIONS demo_emb)) [(''ceph-osd'', ''cd'')]"
proof -
  have "find_embedded_match demo_emb [(''ceph-osd'', ''cd'')] ''osdtrace'' = None" by code_simp
  then show ?thesis
    using embedded_match_by_build_id [where emb = demo_emb and modules = "[(''ceph-osd'', ''cd'')]"
        and trace_type = "''osdtrace''"]
    by (simp add: embedded_table_def demo_emb_def)
qed

text \<open>Loading a list of entries into one table of the module \<open>n\<close>.\<close>

lemma look2_load:
  "distinct (map fst xs) \<Longrightarrow> look2 (fold (\<lambda>(k, v). put2 n k v) xs m) a b =
    (if a = n then (case map_of xs b of Some v \<Rightarrow> Some v | None \<Rightarrow> look2 m n b) else look2 m a b)"
  using look2_fold_put2 [of xs n "\<lambda>v. v" m a b] by simp

definition module_ok :: "embedded_module \<Rightarrow> bool" where
  "module_ok m \<longleftrightarrow> distinct (map fst (em_func2pc m)) \<and> distinct (map fst (em_func2vf m)) \<and>
     distinct (map fst (em_type_sizes m)) \<and> distinct (map fst (em_member_offsets m))"

definition loaded :: "dwarf_data \<Rightarrow> embedded_module \<Rightarrow> bool" where
  "loaded d m \<longleftrightarrow> look2 (mod_func2pc d) (em_name m) = map_of (em_func2pc m) \<and>
     look2 (mod_func2vf d) (em_name m) = map_of (em_func2vf m) \<and>
     look2 (mod_type_sizes d) (em_name m) = map_of (em_type_sizes m) \<and>
     look2 (mod_member_offsets d) (em_name m) = map_of (em_member_offsets m)"

definition no_module :: "dwarf_data \<Rightarrow> string \<Rightarrow> bool" where
  "no_module d a \<longleftrightarrow> (\<forall>b. look2 (mod_func2pc d) a b = None \<and> look2 (mod_func2vf d) a b = None \<and>
     look2 (mod_type_sizes d) a b = None \<and> look2 (mod_member_offsets d) a b = None)"

lemma load_one:
  assumes "module_ok m"
  shows "no_module d (em_name m) \<Longrightarrow> loaded (load_embedded_module m d) m"
    and "a \<noteq> em_name m \<Longrightarrow> no_module (load_embedded_module m d) a = no_module d a"
    and "em_name x \<noteq> em_name m \<Longrightarrow> loaded (load_embedded_module m d) x = loaded d x"
  using assms
  by (auto simp: load_embedded_module_def Let_def module_ok_def loaded_def no_module_def look2_load
      fun_eq_iff split: option.splits)

lemma load_all:
  assumes "\<forall>m\<in>set ms. module_ok m \<and> no_module d (em_name m)" and "distinct (map em_name ms)"
  shows "(\<forall>m\<in>set ms. loaded (fold load_embedded_module ms d) m) \<and>
    (\<forall>x. em_name x \<notin> em_name ` set ms \<longrightarrow> loaded (fold load_embedded_module ms d) x = loaded d x)"
  using assms
proof (induction ms arbitrary: d)
  case Nil
  then show ?case by simp
next
  case (Cons m ms)
  have "module_ok m" using Cons.prems(1) by simp
  note one = load_one [OF this]
  have ok: "\<forall>x\<in>set ms. module_ok x \<and> no_module (load_embedded_module m d) (em_name x)"
  proof
    fix x assume x: "x \<in> set ms"
    then have "em_name x \<noteq> em_name m" using Cons.prems(2) by (auto simp: image_iff)
    with x Cons.prems(1) one(2) show "module_ok x \<and> no_module (load_embedded_module m d) (em_name x)"
      by simp
  qed
  have dist: "distinct (map em_name ms)" using Cons.prems(2) by simp
  note IH = Cons.IH [OF ok dist]
  have "loaded (load_embedded_module m d) m" using Cons.prems(1) one(1) by simp
  then show ?case using IH Cons.prems(2) one(3) by auto
qed

text \<open>C23: loading the chosen compiled-in entry makes every function address, location, type size and
  member offset of each of its modules found under the module's name, whatever the parser held
  before, and reports the entry's version.\<close>

theorem embedded_import_complete:
  assumes "find_embedded_match emb modules trace_type = Some v"
    and "\<forall>m\<in>set (ev_modules v). module_ok m" and "distinct (map em_name (ev_modules v))"
  shows "\<exists>d'. import_from_embedded emb modules trace_type d = Some (d', ev_version v) \<and>
    (\<forall>m\<in>set (ev_modules v). loaded d' m) \<and> is_embedded_traceable emb modules trace_type = (True, ev_version v)"
proof -
  let ?d0 = "d\<lparr>mod_func2pc := [], mod_func2vf := [], mod_type_sizes := [], mod_member_offsets := []\<rparr>"
  have "\<forall>m\<in>set (ev_modules v). loaded (fold load_embedded_module (ev_modules v) ?d0) m"
    by (rule load_all [THEN conjunct1]) (use assms(2,3) in \<open>auto simp: no_module_def\<close>)
  then show ?thesis
    using assms(1) by (simp add: import_from_embedded_def is_embedded_traceable_def)
qed

lemma embedded_import_complete_witness:
  "\<exists>d'. import_from_embedded demo_emb [(''ceph-osd'', ''ab'')] ''osdtrace'' demo_dwarf = Some (d', Some ''19.2.0'') \<and>
     look2 (mod_func2pc d') ''ceph-osd'' ''OSD::enqueue_op'' = Some 4096"
proof -
  let ?v = "hd (EMBEDDED_OSDTRACE_VERSIONS demo_emb)"
  have "find_embedded_match demo_emb [(''ceph-osd'', ''ab'')] ''osdtrace'' = Some ?v" by code_simp
  moreover have "\<forall>m\<in>set (ev_modules ?v). module_ok m" "distinct (map em_name (ev_modules ?v))"
    by (simp_all add: demo_emb_def module_ok_def)
  ultimately show ?thesis
    using embedded_import_complete [of demo_emb "[(''ceph-osd'', ''ab'')]" "''osdtrace''" ?v demo_dwarf]
    by (auto simp: demo_emb_def loaded_def)
qed

end
