(* ===== verification/Dwarf_Model.thy ===== *)
theory Dwarf_Model
  imports Dwarf_Data "HOL-Library.AList"
begin

text \<open>
  Debug information as \<open>dwarf_parser.cc\<close> reads it through libdw: DIEs and attributes are opaque
  handles, what libdw answers about them is a record of functions. On top of it, the types:
  typedef and qualifier wrappers, the cache of named types of each compilation unit, sizes and
  member offsets.

  A loop of the source that need not end (a chain of typedefs, a queue of base classes) is a
  partial function into \<open>option\<close>; there \<open>None\<close> means that it does not return, and a failure of the
  code is a value below it.
\<close>

section \<open>libdw\<close>

type_synonym die = int
type_synonym attr = int

datatype dw_tag =
    DW_TAG_formal_parameter | DW_TAG_variable | DW_TAG_subprogram
  | DW_TAG_typedef | DW_TAG_const_type | DW_TAG_volatile_type | DW_TAG_restrict_type
  | DW_TAG_pointer_type | DW_TAG_reference_type | DW_TAG_rvalue_reference_type | DW_TAG_array_type
  | DW_TAG_structure_type | DW_TAG_union_type | DW_TAG_class_type | DW_TAG_enumeration_type
  | DW_TAG_base_type | DW_TAG_unspecified_type | DW_TAG_member | DW_TAG_inheritance
  | DW_TAG_compile_unit | DW_TAG_type_unit | DW_TAG_partial_unit | DW_TAG_namespace
  | DW_TAG_imported_unit | DW_TAG_other nat

datatype dw_at =
    DW_AT_location | DW_AT_type | DW_AT_encoding | DW_AT_data_member_location | DW_AT_data_bit_offset
  | DW_AT_declaration | DW_AT_frame_base | DW_AT_signature | DW_AT_abstract_origin | DW_AT_specification

text \<open>
  One operation of a location expression, with its operands as libdw delivers them. The operations
  \<open>DW_OP_breg0\<close> to \<open>DW_OP_breg31\<close> and \<open>DW_OP_reg0\<close> to \<open>DW_OP_reg31\<close> carry their register.
\<close>

datatype dw_op =
    DW_OP_breg "5 word" u64 | DW_OP_bregx u64 u64 | DW_OP_fbreg u64 | DW_OP_call_frame_cfa
  | DW_OP_reg "5 word" | DW_OP_plus_uconst u64 | DW_OP_other nat

text \<open>
  \<open>d_children\<close> are the DIEs that \<open>dwarf_child\<close> and \<open>dwarf_siblingof\<close> enumerate (none when
  \<open>dwarf_child\<close> fails); \<open>d_attr\<close> is \<open>dwarf_attr\<close>, \<open>d_attr_integrate\<close> also follows abstract origins
  and specifications; \<open>d_loc\<close> the single location of \<open>dwarf_getlocation_addr\<close> at an address.
\<close>

record libdw =
  d_tag :: "die \<Rightarrow> dw_tag"
  d_name :: "die \<Rightarrow> string option"
  d_children :: "die \<Rightarrow> die list"
  d_attr :: "die \<Rightarrow> dw_at \<Rightarrow> attr option"
  d_attr_integrate :: "die \<Rightarrow> dw_at \<Rightarrow> attr option"
  d_sec_offset :: "attr \<Rightarrow> bool"                     \<comment> \<open>\<open>dwarf_whatform == DW_FORM_sec_offset\<close>\<close>
  d_formudata :: "attr \<Rightarrow> u64 option"
  d_formref_die :: "attr \<Rightarrow> die option"
  d_loc :: "attr \<Rightarrow> u64 \<Rightarrow> dw_op list option"
  d_aggregate_size :: "die \<Rightarrow> u64 option"
  d_entrypc :: "die \<Rightarrow> u64 option"
  d_ranges :: "die \<Rightarrow> (u64 \<times> u64) option"            \<comment> \<open>base and start of the first range\<close>
  d_entry_breakpoints :: "die \<Rightarrow> u64 list"
  d_getscopevar :: "die \<Rightarrow> string \<Rightarrow> die option"
  d_getscopes_die :: "die \<Rightarrow> die list"
  d_func_inline :: "die \<Rightarrow> bool"

section \<open>Types\<close>

definition type_wrapper :: "dw_tag \<Rightarrow> bool" where
  "type_wrapper t \<longleftrightarrow> t \<in> {DW_TAG_typedef, DW_TAG_const_type, DW_TAG_volatile_type, DW_TAG_restrict_type}"

definition aggregate_tag :: "dw_tag \<Rightarrow> bool" where
  "aggregate_tag t \<longleftrightarrow> t \<in> {DW_TAG_structure_type, DW_TAG_union_type, DW_TAG_class_type}"

text \<open>
  The DIE an attribute refers to. A type reference through a signature leads to a type unit,
  whose first child is the type. (\<open>dwarf_formref_die\<close> of a missing attribute is null.)
\<close>

definition dwarf_attr_die :: "libdw \<Rightarrow> die \<Rightarrow> dw_at \<Rightarrow> die option" where
  "dwarf_attr_die dw d at =
     (case Option.bind (d_attr_integrate dw d at) (d_formref_die dw) of
        None \<Rightarrow> None
      | Some r \<Rightarrow>
          if at \<noteq> DW_AT_type then Some r
          else
            case (case d_attr dw r DW_AT_signature of None \<Rightarrow> Some r | Some s \<Rightarrow> d_formref_die dw s) of
              None \<Rightarrow> None
            | Some r1 \<Rightarrow>
                if d_tag dw r1 = DW_TAG_type_unit
                then (case d_children dw r1 of [] \<Rightarrow> Some r1 | c # cs \<Rightarrow> Some c) else Some r1)"

text \<open>The referent of a type attribute; \<open>None\<close> leaves the caller's type DIE as it was.\<close>

definition dwarf_die_type :: "libdw \<Rightarrow> die \<Rightarrow> die option" where
  "dwarf_die_type dw d = Option.bind (d_attr_integrate dw d DW_AT_type) (d_formref_die dw)"

partial_function (option) strip_type_wrappers :: "libdw \<Rightarrow> die \<Rightarrow> die option" where
  "strip_type_wrappers dw d =
     (if type_wrapper (d_tag dw d) then
        (case dwarf_attr_die dw d DW_AT_type of
           None \<Rightarrow> Some d
         | Some r \<Rightarrow> strip_type_wrappers dw r)
      else Some d)"

declare strip_type_wrappers.simps [code]

section \<open>The cache of named types\<close>

text \<open>
  Modules, their units and each unit's types by name, the three nested \<open>unordered_map\<close>s. The
  order in which such a map is iterated is a parameter of the lookups.
\<close>

type_synonym cu_type_cache = "(string \<times> die) list"
type_synonym mod_cu_type_cache = "(die \<times> cu_type_cache) list"
type_synonym type_cache = "(nat \<times> mod_cu_type_cache) list"

record iteration_order =
  io_units :: "mod_cu_type_cache \<Rightarrow> mod_cu_type_cache"
  io_modules :: "type_cache \<Rightarrow> type_cache"

definition cache_type_prefix :: "dw_tag \<Rightarrow> string" where
  "cache_type_prefix t =
     (if t = DW_TAG_enumeration_type then ''enum ''
      else if t = DW_TAG_structure_type \<or> t = DW_TAG_class_type then ''struct ''
      else if t = DW_TAG_union_type then ''union ''
      else [])"

definition named_type_tag :: "dw_tag \<Rightarrow> bool" where
  "named_type_tag t \<longleftrightarrow> t \<in> {DW_TAG_base_type, DW_TAG_enumeration_type, DW_TAG_structure_type,
     DW_TAG_class_type, DW_TAG_typedef, DW_TAG_union_type}"

definition cache_type :: "libdw \<Rightarrow> die \<Rightarrow> cu_type_cache \<Rightarrow> cu_type_cache" where
  "cache_type dw d v =
     (if named_type_tag (d_tag dw d) then
        (case d_name dw d of
           None \<Rightarrow> v
         | Some name \<Rightarrow>
             if d_attr dw d DW_AT_declaration \<noteq> None then v
             else
               let type_name = cache_type_prefix (d_tag dw d) @ name in
               if map_of v type_name = None then (type_name, d) # v else v)
      else v)"

definition iterate_types_in_cu :: "libdw \<Rightarrow> die \<Rightarrow> mod_cu_type_cache \<Rightarrow> mod_cu_type_cache" where
  "iterate_types_in_cu dw cu mcu =
     (if d_tag dw cu = DW_TAG_partial_unit then mcu
      else
        let v = (case map_of mcu cu of Some v \<Rightarrow> v | None \<Rightarrow> []) in
        AList.update cu (fold (cache_type dw) (d_children dw cu) v) mcu)"

text \<open>A module: its name, and its units unless it has no debug information.\<close>

record dw_module =
  dm_id :: nat
  dm_path :: string
  dm_units :: "(die list) option"
  dm_type_units :: "die list"
  dm_funcs :: "die \<Rightarrow> die list"                     \<comment> \<open>\<open>dwarf_getfuncs\<close> of a unit\<close>
  dm_cfi_debug :: "(u64 \<Rightarrow> dw_op list option) option"
  dm_cfi_eh :: "(u64 \<Rightarrow> dw_op list option) option"
  dm_cfi_debug_bias :: u64

definition traverse_module :: "libdw \<Rightarrow> dw_module \<Rightarrow> die list \<Rightarrow> type_cache \<Rightarrow> type_cache" where
  "traverse_module dw md units cache =
     (let mcu = (case map_of cache (dm_id md) of Some m \<Rightarrow> m | None \<Rightarrow> []);
          m1 = fold (\<lambda>d m. if d_tag dw d = DW_TAG_compile_unit then iterate_types_in_cu dw d m else m) units mcu;
          m2 = fold (\<lambda>d m. if d_tag dw d = DW_TAG_type_unit then iterate_types_in_cu dw d m else m)
                 (dm_type_units md) m1
      in AList.update (dm_id md) m2 cache)"

definition type_candidates :: "string \<Rightarrow> string list" where
  "type_candidates name = [name, ''struct '' @ name, ''union '' @ name, ''enum '' @ name]"

fun first_some :: "('a \<Rightarrow> 'b option) \<Rightarrow> 'a list \<Rightarrow> 'b option" where
  "first_some f [] = None"
| "first_some f (x # xs) = (case f x of Some y \<Rightarrow> Some y | None \<Rightarrow> first_some f xs)"

definition type_in_units :: "iteration_order \<Rightarrow> string list \<Rightarrow> mod_cu_type_cache \<Rightarrow> die option" where
  "type_in_units io candidates cus =
     first_some (\<lambda>(cu, v). first_some (map_of v) candidates) (io_units io cus)"

definition resolve_typedecl :: "libdw \<Rightarrow> iteration_order \<Rightarrow> type_cache \<Rightarrow> die \<Rightarrow> die option" where
  "resolve_typedecl dw io cache d =
     (case d_name dw d of
        None \<Rightarrow> None
      | Some name \<Rightarrow>
          first_some (\<lambda>(m, cus). type_in_units io [cache_type_prefix (d_tag dw d) @ name] cus)
            (io_modules io cache))"

definition resolve_type_name :: "iteration_order \<Rightarrow> type_cache \<Rightarrow> string \<Rightarrow> die option" where
  "resolve_type_name io cache name =
     first_some (\<lambda>(m, cus). type_in_units io (type_candidates name) cus) (io_modules io cache)"

definition find_cached_type ::
  "libdw \<Rightarrow> iteration_order \<Rightarrow> type_cache \<Rightarrow> nat \<Rightarrow> string \<Rightarrow> die option option" where
  "find_cached_type dw io cache module name =
     (case Option.bind (map_of cache module) (type_in_units io (type_candidates name)) of
        None \<Rightarrow> Some None
      | Some t \<Rightarrow> map_option Some (strip_type_wrappers dw t))"

text \<open>The size as the code's \<open>int\<close>, \<open>-1\<close> when it is not known.\<close>

definition resolve_type_size ::
  "libdw \<Rightarrow> iteration_order \<Rightarrow> type_cache \<Rightarrow> nat \<Rightarrow> string \<Rightarrow> int option" where
  "resolve_type_size dw io cache module name =
     Option.bind (find_cached_type dw io cache module name) (\<lambda>t. Some
       (case Option.bind t (d_aggregate_size dw) of
          None \<Rightarrow> - 1
        | Some sz \<Rightarrow> if 0xFFFFFFFF < sz then - 1 else to_c_int (uint sz)))"

section \<open>Member offsets\<close>

definition member_byte_offset :: "libdw \<Rightarrow> die \<Rightarrow> u64 option" where
  "member_byte_offset dw d =
     (if d_attr_integrate dw d DW_AT_data_bit_offset \<noteq> None then None
      else case d_attr_integrate dw d DW_AT_data_member_location of
        None \<Rightarrow> Some 0
      | Some a \<Rightarrow> d_formudata dw a)"

text \<open>
  The children of one type on the queue: either the search ends here (with the member's offset and
  type, or with nothing for a bitfield or a member without a type), or the types behind its base
  classes and anonymous members join the queue.
\<close>

fun scan_members ::
  "libdw \<Rightarrow> string \<Rightarrow> u64 \<Rightarrow> die list \<Rightarrow> (die \<times> u64) list
     \<Rightarrow> ((u64 \<times> die) option + (die \<times> u64) list) option" where
  "scan_members dw member base [] acc = Some (Inr acc)"
| "scan_members dw member base (c # cs) acc =
     (if d_tag dw c = DW_TAG_inheritance then
        (case (member_byte_offset dw c, dwarf_attr_die dw c DW_AT_type) of
           (Some off, Some b) \<Rightarrow>
             Option.bind (strip_type_wrappers dw b)
               (\<lambda>t. scan_members dw member base cs (acc @ [(t, base + off)]))
         | _ \<Rightarrow> scan_members dw member base cs acc)
      else if d_tag dw c \<noteq> DW_TAG_member then scan_members dw member base cs acc
      else
        case d_name dw c of
          None \<Rightarrow>
            (case (member_byte_offset dw c, dwarf_attr_die dw c DW_AT_type) of
               (Some off, Some b) \<Rightarrow>
                 Option.bind (strip_type_wrappers dw b)
                   (\<lambda>t. scan_members dw member base cs
                          (if aggregate_tag (d_tag dw t) then acc @ [(t, base + off)] else acc))
             | _ \<Rightarrow> scan_members dw member base cs acc)
        | Some name \<Rightarrow>
            if name \<noteq> member then scan_members dw member base cs acc
            else
              (case (member_byte_offset dw c, dwarf_attr_die dw c DW_AT_type) of
                 (Some off, Some t) \<Rightarrow>
                   Option.bind (strip_type_wrappers dw t) (\<lambda>t'. Some (Inl (Some (base + off, t'))))
               | _ \<Rightarrow> Some (Inl None)))"

partial_function (option) member_bfs ::
  "libdw \<Rightarrow> string \<Rightarrow> (die \<times> u64) list \<Rightarrow> (u64 \<times> die) option option" where
  "member_bfs dw member q =
     (case q of
        [] \<Rightarrow> Some None
      | cur # rest \<Rightarrow>
          Option.bind (scan_members dw member (snd cur) (d_children dw (fst cur)) [])
            (\<lambda>r. case r of
                   Inl found \<Rightarrow> Some found
                 | Inr pushed \<Rightarrow> member_bfs dw member (rest @ pushed)))"

declare member_bfs.simps [code]

definition find_member_offset_in :: "libdw \<Rightarrow> die \<Rightarrow> string \<Rightarrow> (u64 \<times> die) option option" where
  "find_member_offset_in dw parent member = member_bfs dw member [(parent, 0)]"

fun sum_offsets :: "libdw \<Rightarrow> die \<Rightarrow> string list \<Rightarrow> u64 \<Rightarrow> u64 option option" where
  "sum_offsets dw cur [] total_off = Some (Some total_off)"
| "sum_offsets dw cur (member # path) total_off =
     Option.bind (find_member_offset_in dw cur member)
       (\<lambda>r. case r of
              None \<Rightarrow> Some None
            | Some (off, t) \<Rightarrow> sum_offsets dw t path (total_off + off))"

definition resolve_member_offset ::
  "libdw \<Rightarrow> iteration_order \<Rightarrow> type_cache \<Rightarrow> nat \<Rightarrow> string \<Rightarrow> string list \<Rightarrow> int option" where
  "resolve_member_offset dw io cache module type_name path =
     (if path = [] then Some (- 1)
      else
        Option.bind (find_cached_type dw io cache module type_name)
          (\<lambda>t. case t of
                 None \<Rightarrow> Some (- 1)
               | Some cur \<Rightarrow>
                   Option.bind (sum_offsets dw cur path 0)
                     (\<lambda>r. Some (case r of
                        None \<Rightarrow> - 1
                      | Some tot \<Rightarrow> if 0xFFFFFFFF < tot then - 1 else to_c_int (uint tot)))))"

end
