(* ===== verification/Dwarf_Location.thy ===== *)
theory Dwarf_Location
  imports Dwarf_Model
begin

text \<open>
  Where a probed function's parameters are (\<open>dwarf_parser.cc\<close>): location expressions, the
  calling convention as a fallback, entry addresses, and the translation of a member path into
  the fields the BPF walk follows.
\<close>

section \<open>Location expressions\<close>

text \<open>The unwind tables of a module: the CFA rule at an address, if there is one.\<close>

record cfi_tables =
  cfi_debug :: "(u64 \<Rightarrow> dw_op list option) option"
  cfi_eh :: "(u64 \<Rightarrow> dw_op list option) option"

definition cfa_ops :: "cfi_tables \<Rightarrow> u64 \<Rightarrow> dw_op list option" where
  "cfa_ops cfi pc =
     (case Option.bind (cfi_debug cfi) (\<lambda>f. f pc) of
        Some ops \<Rightarrow> Some ops
      | None \<Rightarrow> Option.bind (cfi_eh cfi) (\<lambda>f. f pc))"

text \<open>
  Only the first operation of an expression is read; one without a case leaves the location as it
  was. Below the outer \<open>option\<close> (which is \<open>None\<close> for a frame base that refers to itself),
  \<open>None\<close> is the code's \<open>false\<close>.
\<close>

definition set_reg :: "int \<Rightarrow> VarLocation \<Rightarrow> VarLocation" where
  "set_reg r loc = loc\<lparr>vl_reg := r\<rparr>"

definition set_breg :: "int \<Rightarrow> u64 \<Rightarrow> VarLocation \<Rightarrow> VarLocation" where
  "set_breg r off loc = loc\<lparr>vl_reg := r, vl_offset := to_c_int (uint off)\<rparr>"

definition on_stack :: "u64 \<Rightarrow> VarLocation \<Rightarrow> VarLocation" where
  "on_stack off loc = loc\<lparr>vl_offset := to_c_int (vl_offset loc + uint off), vl_stack := True\<rparr>"

partial_function (option) translate_expr ::
  "libdw \<Rightarrow> cfi_tables \<Rightarrow> attr option \<Rightarrow> dw_op list \<Rightarrow> u64 \<Rightarrow> VarLocation \<Rightarrow> VarLocation option option" where
  "translate_expr dw cfi fb expr pc loc =
     (case expr of
        [] \<Rightarrow> None
      | op # ops \<Rightarrow>
          (case op of
             DW_OP_bregx r off \<Rightarrow> Some (Some (set_breg (to_c_int (uint r)) off loc))
           | DW_OP_breg r off \<Rightarrow> Some (Some (set_breg (uint r) off loc))
           | DW_OP_fbreg off \<Rightarrow>
               (case Option.bind fb (\<lambda>a. d_loc dw a pc) of
                  None \<Rightarrow> Some None
                | Some fb_expr \<Rightarrow>
                    if fb_expr = [] then Some None
                    else Option.bind (translate_expr dw cfi fb fb_expr pc loc)
                           (\<lambda>r. Some (map_option (on_stack off) r)))
           | DW_OP_call_frame_cfa \<Rightarrow>
               (case cfa_ops cfi pc of
                  None \<Rightarrow> Some None
                | Some cfa \<Rightarrow> translate_expr dw cfi fb cfa pc loc)
           | DW_OP_reg r \<Rightarrow> Some (Some (set_reg (uint r) loc))
           | DW_OP_plus_uconst off \<Rightarrow> Some (Some (loc\<lparr>vl_offset := to_c_int (uint off)\<rparr>))
           | DW_OP_other n \<Rightarrow> Some (Some loc)))"

declare translate_expr.simps [code]

definition find_func_frame_base :: "libdw \<Rightarrow> die \<Rightarrow> attr option" where
  "find_func_frame_base dw func = d_attr_integrate dw func DW_AT_frame_base"

section \<open>Parameters by the calling convention\<close>

datatype AbiClass = ABI_INTEGER | ABI_MEMORY | ABI_UNHANDLED

partial_function (option) peel_type :: "libdw \<Rightarrow> die \<Rightarrow> die option option" where
  "peel_type dw t =
     (if type_wrapper (d_tag dw t) then
        (case Option.bind (d_attr_integrate dw t DW_AT_type) (d_formref_die dw) of
           None \<Rightarrow> Some None
         | Some r \<Rightarrow> peel_type dw r)
      else Some (Some t))"

declare peel_type.simps [code]

text \<open>The encodings \<open>DW_ATE_float\<close> and \<open>DW_ATE_complex_float\<close> of the DWARF standard.\<close>

definition float_encoding :: "u64 \<Rightarrow> bool" where
  "float_encoding enc \<longleftrightarrow> enc = 4 \<or> enc = 3"

definition classify_type :: "libdw \<Rightarrow> die \<Rightarrow> AbiClass \<times> u64" where
  "classify_type dw t =
     (if d_tag dw t \<in> {DW_TAG_pointer_type, DW_TAG_reference_type, DW_TAG_rvalue_reference_type,
                       DW_TAG_enumeration_type} then (ABI_INTEGER, 8)
      else if d_tag dw t = DW_TAG_base_type then
        (let enc = (case Option.bind (d_attr_integrate dw t DW_AT_encoding) (d_formudata dw) of
                      Some e \<Rightarrow> e | None \<Rightarrow> 0) in
         if float_encoding enc then (ABI_UNHANDLED, 0)
         else (case d_aggregate_size dw t of
                 None \<Rightarrow> (ABI_UNHANDLED, 0)
               | Some sz \<Rightarrow> if 8 < sz then (ABI_UNHANDLED, 0) else (ABI_INTEGER, sz)))
      else if aggregate_tag (d_tag dw t) \<or> d_tag dw t = DW_TAG_array_type then
        (case d_aggregate_size dw t of
           None \<Rightarrow> (ABI_UNHANDLED, 0)
         | Some sz \<Rightarrow> if 16 < sz then (ABI_MEMORY, sz) else (ABI_UNHANDLED, 0))
      else (ABI_UNHANDLED, 0))"

definition classify_param :: "libdw \<Rightarrow> die \<Rightarrow> (AbiClass \<times> u64) option" where
  "classify_param dw param =
     (case Option.bind (d_attr_integrate dw param DW_AT_type) (d_formref_die dw) of
        None \<Rightarrow> Some (ABI_UNHANDLED, 0)
      | Some t0 \<Rightarrow>
          Option.bind (peel_type dw t0)
            (\<lambda>r. Some (case r of None \<Rightarrow> (ABI_UNHANDLED, 0) | Some t \<Rightarrow> classify_type dw t)))"

definition abi_stack_location ::
  "libdw \<Rightarrow> cfi_tables \<Rightarrow> die \<Rightarrow> u64 \<Rightarrow> u64 \<Rightarrow> VarLocation option option" where
  "abi_stack_location dw cfi func pc cfa_off =
     (case find_func_frame_base dw func of
        None \<Rightarrow> Some None
      | Some fb \<Rightarrow>
          (case d_loc dw fb pc of
             None \<Rightarrow> Some None
           | Some fb_expr \<Rightarrow>
               if fb_expr = [] then Some None
               else Option.bind (translate_expr dw cfi (Some fb) fb_expr pc VarLocation_init)
                      (\<lambda>r. Some (map_option (on_stack cfa_off) r))))"

text \<open>RDI, RSI, RDX, RCX, R8 and R9 as DWARF register numbers.\<close>

definition kIntArgRegs :: "int list" where
  "kIntArgRegs = [5, 4, 1, 2, 8, 9]"

definition round_up8 :: "u64 \<Rightarrow> u64" where
  "round_up8 sz = (sz + 7) AND NOT 7"

datatype abi_slot = InRegister int | AtCfa u64

fun abi_slot_of :: "libdw \<Rightarrow> die \<Rightarrow> die list \<Rightarrow> nat \<Rightarrow> u64 \<Rightarrow> abi_slot option option" where
  "abi_slot_of dw target [] int_regs_used stack_off = Some None"
| "abi_slot_of dw target (c # cs) int_regs_used stack_off =
     (if d_tag dw c \<noteq> DW_TAG_formal_parameter then abi_slot_of dw target cs int_regs_used stack_off
      else
        Option.bind (classify_param dw c) (\<lambda>(cls, sz).
          if cls = ABI_UNHANDLED then Some None
          else if cls = ABI_INTEGER then
            (if int_regs_used < 6 then
               (if c = target then Some (Some (InRegister (kIntArgRegs ! int_regs_used)))
                else abi_slot_of dw target cs (int_regs_used + 1) stack_off)
             else
               (if c = target then Some (Some (AtCfa stack_off))
                else abi_slot_of dw target cs int_regs_used (stack_off + 8)))
          else
            (if c = target then Some (Some (AtCfa stack_off))
             else abi_slot_of dw target cs int_regs_used (stack_off + round_up8 sz))))"

text \<open>The x86-64 build; any other declines.\<close>

definition abi_param_location ::
  "libdw \<Rightarrow> cfi_tables \<Rightarrow> bool \<Rightarrow> die \<Rightarrow> die \<Rightarrow> u64 \<Rightarrow> VarLocation option option" where
  "abi_param_location dw cfi x86_64 func target pc =
     (if \<not> x86_64 then Some None
      else
        Option.bind (abi_slot_of dw target (d_children dw func) 0 0)
          (\<lambda>s. case s of
                 None \<Rightarrow> Some None
               | Some (InRegister r) \<Rightarrow> Some (Some \<lparr>vl_reg = r, vl_offset = 0, vl_stack = False\<rparr>)
               | Some (AtCfa off) \<Rightarrow> abi_stack_location dw cfi func pc off))"

definition find_param :: "libdw \<Rightarrow> die \<Rightarrow> string \<Rightarrow> die option" where
  "find_param dw func symbol = d_getscopevar dw func symbol"

text \<open>The parameter's DIE and location.\<close>

definition translate_param_location ::
  "libdw \<Rightarrow> cfi_tables \<Rightarrow> bool \<Rightarrow> die \<Rightarrow> string \<Rightarrow> u64 \<Rightarrow> (die \<times> VarLocation) option option" where
  "translate_param_location dw cfi x86_64 func symbol pc =
     (case find_param dw func symbol of
        None \<Rightarrow> Some None
      | Some vardie \<Rightarrow>
          (case d_attr_integrate dw vardie DW_AT_location of
             None \<Rightarrow>
               Option.bind (abi_param_location dw cfi x86_64 func vardie pc)
                 (\<lambda>r. Some (map_option (Pair vardie) r))
           | Some loc_attr \<Rightarrow>
               (case d_loc dw loc_attr pc of
                  None \<Rightarrow> Some None
                | Some expr \<Rightarrow>
                    if expr = [] then Some None
                    else Option.bind
                           (translate_expr dw cfi (find_func_frame_base dw func) expr pc VarLocation_init)
                           (\<lambda>r. Some (map_option (Pair vardie) r)))))"

section \<open>Entry addresses\<close>

definition range_entry :: "libdw \<Rightarrow> die \<Rightarrow> u64 option" where
  "range_entry dw func =
     (case d_ranges dw func of
        None \<Rightarrow> None
      | Some (base, start) \<Rightarrow>
          let addr = (if base = 0 then start else base) in if addr = 0 then None else Some addr)"

definition func_entrypc :: "libdw \<Rightarrow> die \<Rightarrow> u64 option" where
  "func_entrypc dw func =
     (case d_entrypc dw func of
        None \<Rightarrow> range_entry dw func
      | Some addr \<Rightarrow> if addr \<noteq> 0 then Some addr else range_entry dw func)"

text \<open>
  Whether a variable or parameter below these DIEs has a location list. The recursion goes down
  the tree of DIEs.
\<close>

definition has_sec_offset :: "libdw \<Rightarrow> die \<Rightarrow> bool" where
  "has_sec_offset dw d =
     (case d_attr_integrate dw d DW_AT_location of None \<Rightarrow> False | Some a \<Rightarrow> d_sec_offset dw a)"

partial_function (option) loclist_among :: "libdw \<Rightarrow> die list \<Rightarrow> bool option" where
  "loclist_among dw ds =
     (case ds of
        [] \<Rightarrow> Some False
      | d # rest \<Rightarrow>
          if d_tag dw d = DW_TAG_formal_parameter \<or> d_tag dw d = DW_TAG_variable
          then (if has_sec_offset dw d then Some True else loclist_among dw rest)
          else
            Option.bind (if d_children dw d = [] then Some False else loclist_among dw (d_children dw d))
              (\<lambda>found. if found then Some True else loclist_among dw rest))"

declare loclist_among.simps [code]

definition die_has_loclist :: "libdw \<Rightarrow> die \<Rightarrow> bool option" where
  "die_has_loclist dw d = loclist_among dw (d_children dw d)"

definition find_prologue :: "libdw \<Rightarrow> die \<Rightarrow> die \<Rightarrow> u64 option option" where
  "find_prologue dw cur_cu func =
     (case func_entrypc dw func of
        None \<Rightarrow> Some None
      | Some entrypc \<Rightarrow>
          Option.bind (die_has_loclist dw cur_cu)
            (\<lambda>l. Some (if l then Some entrypc
                       else case d_entry_breakpoints dw func of [] \<Rightarrow> None | b # bs \<Rightarrow> Some b)))"

end
