(* ===== verification/Dwarf_Parser.thy ===== *)
theory Dwarf_Parser
  imports Dwarf_Location "HOL-Library.Product_Lexorder"
begin

text \<open>
  The analysis of binaries (\<open>dwarf_parser.cc\<close>): the translation of a probe's member paths, the
  callback for each function, and the two passes of \<open>parse\<close> that fill the data store.

  In \<open>handle_function\<close> and above, \<open>None\<close> means that the analysis does not return: an assertion
  fails, a null name is used as a string, an uninitialised type is read, or a loop does not end.
\<close>

section \<open>Member paths\<close>

text \<open>
  \<open>find_class_member\<close>: the queue holds the type and the base classes met so far. A type without
  children ends the search. The member must have an explicit location.
\<close>

fun scan_class :: "libdw \<Rightarrow> string \<Rightarrow> die list \<Rightarrow> die list \<Rightarrow> die + die list" where
  "scan_class dw member [] acc = Inr acc"
| "scan_class dw member (c # cs) acc =
     (if d_tag dw c = DW_TAG_inheritance then
        scan_class dw member cs
          (case dwarf_attr_die dw c DW_AT_type of Some b \<Rightarrow> acc @ [b] | None \<Rightarrow> acc)
      else if d_tag dw c = DW_TAG_member \<and> d_name dw c = Some member then Inl c
      else scan_class dw member cs acc)"

partial_function (option) class_bfs :: "libdw \<Rightarrow> string \<Rightarrow> die list \<Rightarrow> die option option" where
  "class_bfs dw member q =
     (case q of
        [] \<Rightarrow> Some None
      | t # rest \<Rightarrow>
          if d_children dw t = [] then Some None
          else (case scan_class dw member (d_children dw t) [] of
                  Inl c \<Rightarrow> Some (Some c)
                | Inr pushed \<Rightarrow> class_bfs dw member (rest @ pushed)))"

declare class_bfs.simps [code]

text \<open>The member's DIE and its location attribute.\<close>

definition find_class_member :: "libdw \<Rightarrow> die \<Rightarrow> string \<Rightarrow> (die \<times> attr) option option" where
  "find_class_member dw t member =
     Option.bind (class_bfs dw member [t])
       (\<lambda>r. Some (case r of
              None \<Rightarrow> None
            | Some c \<Rightarrow> map_option (Pair c) (d_attr_integrate dw c DW_AT_data_member_location)))"

definition pointer_tag :: "dw_tag \<Rightarrow> bool" where
  "pointer_tag t \<longleftrightarrow> t \<in> {DW_TAG_pointer_type, DW_TAG_reference_type, DW_TAG_rvalue_reference_type}"

text \<open>The wrapper loop before a cast; a wrapper without a referent is looked at again and again.\<close>

partial_function (option) peel_for_cast :: "libdw \<Rightarrow> die \<Rightarrow> die option" where
  "peel_for_cast dw t =
     (if type_wrapper (d_tag dw t)
      then peel_for_cast dw (case dwarf_die_type dw t of Some r \<Rightarrow> r | None \<Rightarrow> t)
      else Some t)"

declare peel_for_cast.simps [code]

definition cast_target :: "string \<Rightarrow> string option" where
  "cast_target f = (if starts_with ''cast:'' f then Some (drop 5 f) else None)"

text \<open>The offset of a member in the type at hand, with the member's own type.\<close>

definition member_step ::
  "libdw \<Rightarrow> iteration_order \<Rightarrow> type_cache \<Rightarrow> cfi_tables \<Rightarrow> u64 \<Rightarrow> die \<Rightarrow> string
     \<Rightarrow> (int \<times> die) option option" where
  "member_step dw io cache cfi pc t name =
     (case (if d_attr dw t DW_AT_declaration \<noteq> None then resolve_typedecl dw io cache t else Some t) of
        None \<Rightarrow> Some None
      | Some t1 \<Rightarrow>
          Option.bind (find_class_member dw t1 name) (\<lambda>r. case r of
            None \<Rightarrow> Some None
          | Some (c, a) \<Rightarrow>
              (case d_loc dw a pc of
                 None \<Rightarrow> Some None
               | Some expr \<Rightarrow>
                   if expr = [] then Some None
                   else
                     Option.bind (translate_expr dw cfi None expr pc VarLocation_init)
                       (\<lambda>l. Some (map_option
                          (\<lambda>loc. (vl_offset loc, case dwarf_die_type dw c of Some mt \<Rightarrow> mt | None \<Rightarrow> t1)) l)))))"

text \<open>
  The loop over the path: \<open>ptr\<close> is the dereference that the next field carries. A wrapper whose
  referent is missing leaves the type as it is, and the loop does not end.
\<close>

partial_function (option) translate_path ::
  "libdw \<Rightarrow> iteration_order \<Rightarrow> type_cache \<Rightarrow> cfi_tables \<Rightarrow> u64 \<Rightarrow> die \<Rightarrow> string list \<Rightarrow> bool
     \<Rightarrow> Field list \<Rightarrow> Field list option option" where
  "translate_path dw io cache cfi pc t path ptr res =
     (case path of
        [] \<Rightarrow> Some (Some res)
      | f # fs \<Rightarrow>
          (case cast_target f of
             Some name \<Rightarrow>
               Option.bind (peel_for_cast dw t) (\<lambda>t1.
                 if \<not> pointer_tag (d_tag dw t1) then Some None
                 else (case resolve_type_name io cache name of
                         None \<Rightarrow> Some None
                       | Some ct \<Rightarrow> translate_path dw io cache cfi pc ct fs True res))
           | None \<Rightarrow>
               if type_wrapper (d_tag dw t) then
                 translate_path dw io cache cfi pc (case dwarf_die_type dw t of Some r \<Rightarrow> r | None \<Rightarrow> t) path ptr res
               else if d_tag dw t = DW_TAG_pointer_type \<and> d_attr_integrate dw t DW_AT_type = None then Some None
               else if pointer_tag (d_tag dw t) then
                 translate_path dw io cache cfi pc (case dwarf_die_type dw t of Some r \<Rightarrow> r | None \<Rightarrow> t) path True res
               else if aggregate_tag (d_tag dw t) then
                 Option.bind (member_step dw io cache cfi pc t f) (\<lambda>r. case r of
                   None \<Rightarrow> Some None
                 | Some (off, t1) \<Rightarrow>
                     translate_path dw io cache cfi pc t1 fs False
                       (res @ [\<lparr>f_offset = off, f_pointer = ptr\<rparr>]))
               else Some None))"

declare translate_path.simps [code]

text \<open>The first name of a path is the variable; it takes the first, empty field.\<close>

definition translate_fields ::
  "libdw \<Rightarrow> iteration_order \<Rightarrow> type_cache \<Rightarrow> cfi_tables \<Rightarrow> u64 \<Rightarrow> die \<Rightarrow> string list
     \<Rightarrow> Field list option option" where
  "translate_fields dw io cache cfi pc t path =
     translate_path dw io cache cfi pc t (drop 1 path) False [\<lparr>f_offset = 0, f_pointer = False\<rparr>]"

section \<open>Which functions\<close>

type_synonym probe_table = "(string \<times> string list list) list"

definition after_last :: "char \<Rightarrow> string \<Rightarrow> string" where
  "after_last c s = (case find_last_of c s of None \<Rightarrow> s | Some i \<Rightarrow> drop (i + 1) s)"

definition filter_func :: "probe_table \<Rightarrow> string \<Rightarrow> bool" where
  "filter_func probes funcname \<longleftrightarrow> list_ex (\<lambda>(f, paths). funcname = after_last (CHR '':'') f) probes"

definition filter_cu :: "string list \<Rightarrow> string \<Rightarrow> bool" where
  "filter_cu units unitname \<longleftrightarrow> after_last (CHR ''/'') unitname \<in> set units"

definition special_inlined_function_scope :: "string \<Rightarrow> string" where
  "special_inlined_function_scope funcname =
     (if funcname = ''log_latency'' \<or> funcname = ''log_latency_fn'' then ''BlueStore'' else [])"

text \<open>
  The DIE of a concrete function leads through its abstract origin and its specification to the
  scope it is declared in; a class or structure there qualifies the name.
\<close>

definition attr_target :: "libdw \<Rightarrow> dw_at \<Rightarrow> die \<Rightarrow> die" where
  "attr_target dw at d =
     (if d_attr dw d at = None then d
      else case Option.bind (d_attr_integrate dw d at) (d_formref_die dw) of Some r \<Rightarrow> r | None \<Rightarrow> d)"

definition func_spec :: "libdw \<Rightarrow> die \<Rightarrow> die" where
  "func_spec dw d = attr_target dw DW_AT_specification (attr_target dw DW_AT_abstract_origin d)"

definition qualified_name :: "libdw \<Rightarrow> die \<Rightarrow> string \<Rightarrow> string option" where
  "qualified_name dw d funcname =
     (case d_getscopes_die dw (func_spec dw d) of
        s0 # s1 # ss \<Rightarrow>
          (if d_tag dw s1 = DW_TAG_class_type \<or> d_tag dw s1 = DW_TAG_structure_type
           then map_option (\<lambda>sc. if sc = [] then funcname else sc @ ''::'' @ funcname) (d_name dw s1)
           else
             let sc = special_inlined_function_scope funcname in
             Some (if sc = [] then funcname else sc @ ''::'' @ funcname))
      | _ \<Rightarrow> Some funcname)"

section \<open>The parser\<close>

record parser_config =
  pc_dw :: libdw
  pc_io :: iteration_order
  pc_x86_64 :: bool
  pc_probes :: probe_table
  pc_probe_units :: "string list"
  pc_type_sizes :: "string list"                 \<comment> \<open>\<open>requested_type_sizes\<close>\<close>
  pc_member_offsets :: "(string \<times> string list) list"

record parser_state =
  ps_data :: dwarf_data
  ps_cache :: type_cache

text \<open>A new parser, and the requests made before \<open>parse\<close>: two ordered sets.\<close>

definition new_DwarfParser ::
  "libdw \<Rightarrow> iteration_order \<Rightarrow> bool \<Rightarrow> probe_table \<Rightarrow> string list \<Rightarrow> parser_config" where
  "new_DwarfParser dw io x86_64 ps pus =
     \<lparr>pc_dw = dw, pc_io = io, pc_x86_64 = x86_64, pc_probes = ps, pc_probe_units = pus,
      pc_type_sizes = [], pc_member_offsets = []\<rparr>"

definition request_type_size :: "string \<Rightarrow> parser_config \<Rightarrow> parser_config" where
  "request_type_size name pc = pc\<lparr>pc_type_sizes := insort_insert name (pc_type_sizes pc)\<rparr>"

definition request_member_offset :: "string \<Rightarrow> string list \<Rightarrow> parser_config \<Rightarrow> parser_config" where
  "request_member_offset type path pc =
     pc\<lparr>pc_member_offsets := insort_insert (type, path) (pc_member_offsets pc)\<rparr>"

lemma requests_keep [simp]:
  "pc_dw (request_type_size n pc) = pc_dw pc" "pc_dw (request_member_offset t p pc) = pc_dw pc"
  "pc_io (request_type_size n pc) = pc_io pc" "pc_io (request_member_offset t p pc) = pc_io pc"
  "pc_x86_64 (request_type_size n pc) = pc_x86_64 pc" "pc_x86_64 (request_member_offset t p pc) = pc_x86_64 pc"
  "pc_probes (request_type_size n pc) = pc_probes pc" "pc_probes (request_member_offset t p pc) = pc_probes pc"
  by (simp_all add: request_type_size_def request_member_offset_def)

lemma new_DwarfParser_simps [simp]:
  "pc_dw (new_DwarfParser dw io x86_64 ps pus) = dw" "pc_io (new_DwarfParser dw io x86_64 ps pus) = io"
  "pc_x86_64 (new_DwarfParser dw io x86_64 ps pus) = x86_64" "pc_probes (new_DwarfParser dw io x86_64 ps pus) = ps"
  by (simp_all add: new_DwarfParser_def)

text \<open>One variable of a probe; the assertions on both translations.\<close>

definition probe_var ::
  "parser_config \<Rightarrow> type_cache \<Rightarrow> cfi_tables \<Rightarrow> die \<Rightarrow> u64 \<Rightarrow> string list \<Rightarrow> UVarField option" where
  "probe_var pc cache cfi func addr path =
     (case path of
        [] \<Rightarrow> None
      | varname # members \<Rightarrow>
          (case translate_param_location (pc_dw pc) cfi (pc_x86_64 pc) func varname addr of
             Some (Some (vardie, varloc)) \<Rightarrow>
               (case dwarf_die_type (pc_dw pc) vardie of
                  None \<Rightarrow> None
                | Some t \<Rightarrow>
                    (case translate_fields (pc_dw pc) (pc_io pc) cache cfi addr t path of
                       Some (Some fl) \<Rightarrow> Some \<lparr>uv_varloc = varloc, uv_fields = fl\<rparr>
                     | _ \<Rightarrow> None))
           | _ \<Rightarrow> None))"

definition record_function :: "string \<Rightarrow> string \<Rightarrow> u64 \<Rightarrow> UVarField list \<Rightarrow> dwarf_data \<Rightarrow> dwarf_data" where
  "record_function modname fullname addr vfs d =
     d\<lparr>mod_func2pc := put2 modname fullname addr (mod_func2pc d),
       mod_func2vf := put2 modname fullname vfs (mod_func2vf d)\<rparr>"

definition handle_function ::
  "parser_config \<Rightarrow> string \<Rightarrow> die \<Rightarrow> cfi_tables \<Rightarrow> die \<Rightarrow> parser_state \<Rightarrow> parser_state option" where
  "handle_function pc modname cur_cu cfi d s =
     (let dw = pc_dw pc in
      case d_name dw d of
        None \<Rightarrow> None
      | Some funcname \<Rightarrow>
          if \<not> filter_func (pc_probes pc) funcname then Some s
          else
            Option.bind (qualified_name dw d funcname) (\<lambda>fullname.
              case map_of (pc_probes pc) fullname of
                None \<Rightarrow> Some s
              | Some paths \<Rightarrow>
                  if d_func_inline dw d then Some s
                  else
                    Option.bind (find_prologue dw cur_cu d) (\<lambda>r. case r of
                      None \<Rightarrow> Some s
                    | Some addr \<Rightarrow>
                        map_option
                          (\<lambda>vfs. s\<lparr>ps_data := record_function modname fullname addr vfs (ps_data s)\<rparr>)
                          (all_some (probe_var pc (ps_cache s) cfi d addr) paths))))"

text \<open>Folding a step that may not return.\<close>

fun fold_option :: "('a \<Rightarrow> 's \<Rightarrow> 's option) \<Rightarrow> 'a list \<Rightarrow> 's \<Rightarrow> 's option" where
  "fold_option f [] s = Some s"
| "fold_option f (x # xs) s = Option.bind (f x s) (fold_option f xs)"

definition handle_unit ::
  "parser_config \<Rightarrow> dw_module \<Rightarrow> die \<Rightarrow> parser_state \<Rightarrow> parser_state option" where
  "handle_unit pc md cu s =
     (let cfi = \<lparr>cfi_debug = dm_cfi_debug md, cfi_eh = dm_cfi_eh md\<rparr>;
          cu_name = (case d_name (pc_dw pc) cu of Some n \<Rightarrow> n | None \<Rightarrow> ''<unknown>'')
      in
      if dm_cfi_debug md \<noteq> None \<and> dm_cfi_debug_bias md \<noteq> 0 then None
      else if filter_cu (pc_probe_units pc) cu_name \<or> cu_name = ''<artificial>''
      then fold_option (handle_function pc (get_basename (dm_path md)) cu cfi) (dm_funcs md cu) s
      else Some s)"

text \<open>The two callbacks; the flag tells whether the remaining modules of the session are visited.\<close>

definition handle_module ::
  "parser_config \<Rightarrow> dw_module \<Rightarrow> parser_state \<Rightarrow> (bool \<times> parser_state) option" where
  "handle_module pc md s =
     (case dm_units md of
        None \<Rightarrow> Some (False, s)
      | Some units \<Rightarrow> map_option (Pair True) (fold_option (handle_unit pc md) units s))"

definition record_size :: "parser_config \<Rightarrow> dw_module \<Rightarrow> string \<Rightarrow> parser_state \<Rightarrow> parser_state option" where
  "record_size pc md name s =
     map_option
       (\<lambda>sz. if 0 < sz
              then s\<lparr>ps_data := (ps_data s)\<lparr>mod_type_sizes :=
                     put2 (get_basename (dm_path md)) name (of_int sz) (mod_type_sizes (ps_data s))\<rparr>\<rparr>
              else s)
       (resolve_type_size (pc_dw pc) (pc_io pc) (ps_cache s) (dm_id md) name)"

definition record_offset ::
  "parser_config \<Rightarrow> dw_module \<Rightarrow> string \<times> string list \<Rightarrow> parser_state \<Rightarrow> parser_state option" where
  "record_offset pc md req s =
     map_option
       (\<lambda>off. if 0 \<le> off
               then s\<lparr>ps_data := (ps_data s)\<lparr>mod_member_offsets :=
                      put2 (get_basename (dm_path md)) (member_offset_key (fst req) (snd req)) (of_int off)
                        (mod_member_offsets (ps_data s))\<rparr>\<rparr>
               else s)
       (resolve_member_offset (pc_dw pc) (pc_io pc) (ps_cache s) (dm_id md) (fst req) (snd req))"

definition preprocess_module ::
  "parser_config \<Rightarrow> dw_module \<Rightarrow> parser_state \<Rightarrow> (bool \<times> parser_state) option" where
  "preprocess_module pc md s =
     (case dm_units md of
        None \<Rightarrow> Some (False, s)
      | Some units \<Rightarrow>
          let s1 = s\<lparr>ps_cache := traverse_module (pc_dw pc) md units (ps_cache s)\<rparr> in
          map_option (Pair True)
            (Option.bind (fold_option (record_size pc md) (pc_type_sizes pc) s1)
              (fold_option (record_offset pc md) (pc_member_offsets pc))))"

fun getmodules ::
  "(dw_module \<Rightarrow> parser_state \<Rightarrow> (bool \<times> parser_state) option) \<Rightarrow> dw_module list \<Rightarrow> parser_state
     \<Rightarrow> parser_state option" where
  "getmodules cb [] s = Some s"
| "getmodules cb (md # mds) s =
     Option.bind (cb md s) (\<lambda>(go_on, s1). if go_on then getmodules cb mds s1 else Some s1)"

text \<open>A session per added file: its modules. All types are collected before any function.\<close>

definition parse :: "parser_config \<Rightarrow> dw_module list list \<Rightarrow> parser_state \<Rightarrow> parser_state option" where
  "parse pc dwfls s =
     Option.bind (fold_option (getmodules (preprocess_module pc)) dwfls s)
       (fold_option (getmodules (handle_module pc)) dwfls)"

definition add_module ::
  "(string \<Rightarrow> dw_module list) \<Rightarrow> string \<Rightarrow> dw_module list list \<times> dwarf_data \<Rightarrow> dw_module list list \<times> dwarf_data" where
  "add_module open_dwfl path = (\<lambda>(dwfls, d).
     (dwfls @ [open_dwfl path], d\<lparr>mod_path := smap_put (get_basename path) path (mod_path d)\<rparr>))"

text \<open>What the tools do: add the files, then analyse them.\<close>

definition analyse_modules ::
  "parser_config \<Rightarrow> (string \<Rightarrow> dw_module list) \<Rightarrow> string list \<Rightarrow> dwarf_data \<Rightarrow> dwarf_data option" where
  "analyse_modules pc open_dwfl paths d =
     (case fold (add_module open_dwfl) paths ([], d) of
        (dwfls, d1) \<Rightarrow> map_option ps_data (parse pc dwfls \<lparr>ps_data = d1, ps_cache = []\<rparr>))"

end
