(* ===== verification/Dwarf_Types.thy ===== *)
theory Dwarf_Types
  imports Dwarf_Parser "HOL-Library.Multiset"
begin

text \<open>
  Types and member offsets: under the laws of well-formed type information, the loops over typedefs
  and base classes end, and the breadth-first search reports the offset the layout gives.
\<close>

section \<open>Well-formed type information\<close>

text \<open>
  What C and C++ guarantee of their types: a typedef or qualifier is of another type, and a type does
  not contain itself as a base class or as an anonymous member. Each type has a depth that decreases.
\<close>

locale type_info =
  fixes dw :: libdw and depth :: "die \<Rightarrow> nat"
  assumes wrapper_depth:
      "\<lbrakk>type_wrapper (d_tag dw d); dwarf_attr_die dw d DW_AT_type = Some r\<rbrakk> \<Longrightarrow> depth r < depth d"
    and part_depth:
      "\<lbrakk>c \<in> set (d_children dw d); d_tag dw c = DW_TAG_inheritance \<or> d_tag dw c = DW_TAG_member \<and> d_name dw c = None;
        dwarf_attr_die dw c DW_AT_type = Some b\<rbrakk> \<Longrightarrow> depth b < depth d"

text \<open>The type below the wrappers, and a wrapper only when nothing is below it.\<close>

definition real_type :: "libdw \<Rightarrow> die \<Rightarrow> die" where
  "real_type dw d = (case strip_type_wrappers dw d of Some t \<Rightarrow> t | None \<Rightarrow> d)"

context type_info
begin

lemma strip_ends:
  "\<exists>t. strip_type_wrappers dw d = Some t \<and> depth t \<le> depth d \<and>
     (type_wrapper (d_tag dw t) \<longrightarrow> dwarf_attr_die dw t DW_AT_type = None)"
proof (induction "depth d" arbitrary: d rule: less_induct)
  case less
  show ?case
  proof (cases "type_wrapper (d_tag dw d) \<and> dwarf_attr_die dw d DW_AT_type \<noteq> None")
    case True
    then obtain r where r: "dwarf_attr_die dw d DW_AT_type = Some r" by blast
    with True have lt: "depth r < depth d" using wrapper_depth by blast
    from less.hyps [OF lt] lt True r show ?thesis
      by (subst strip_type_wrappers.simps) auto
  next
    case False
    then show ?thesis by (subst strip_type_wrappers.simps) (auto split: option.split)
  qed
qed

lemma strip_real: "strip_type_wrappers dw d = Some (real_type dw d)"
  using strip_ends [of d] by (auto simp: real_type_def)

lemma depth_real: "depth (real_type dw d) \<le> depth d"
  using strip_ends [of d] by (auto simp: real_type_def)

lemma real_type_unwrapped:
  "type_wrapper (d_tag dw (real_type dw d)) \<Longrightarrow> dwarf_attr_die dw (real_type dw d) DW_AT_type = None"
  using strip_ends [of d] by (auto simp: real_type_def)

end

section \<open>The layout of a type\<close>

text \<open>
  The types whose members count as members of \<open>t\<close>, with their offsets: its base classes and its
  anonymous structures and unions.
\<close>

definition part :: "libdw \<Rightarrow> die \<Rightarrow> (die \<times> u64) option" where
  "part dw c =
     (case (member_byte_offset dw c, dwarf_attr_die dw c DW_AT_type) of
        (Some off, Some b) \<Rightarrow>
          if d_tag dw c = DW_TAG_inheritance \<or>
             d_tag dw c = DW_TAG_member \<and> d_name dw c = None \<and> aggregate_tag (d_tag dw (real_type dw b))
          then Some (real_type dw b, off) else None
      | _ \<Rightarrow> None)"

definition parts :: "libdw \<Rightarrow> die \<Rightarrow> (die \<times> u64) list" where
  "parts dw t = List.map_filter (part dw) (d_children dw t)"

text \<open>The member of that name declared in \<open>t\<close> itself, and its offset and type there.\<close>

definition is_member :: "libdw \<Rightarrow> string \<Rightarrow> die \<Rightarrow> bool" where
  "is_member dw m c \<longleftrightarrow> d_tag dw c = DW_TAG_member \<and> d_name dw c = Some m"

definition own_member :: "libdw \<Rightarrow> die \<Rightarrow> string \<Rightarrow> die option" where
  "own_member dw t m = find (is_member dw m) (d_children dw t)"

definition member_place :: "libdw \<Rightarrow> die \<Rightarrow> (u64 \<times> die) option" where
  "member_place dw c =
     (case (member_byte_offset dw c, dwarf_attr_die dw c DW_AT_type) of
        (Some off, Some t) \<Rightarrow> Some (off, real_type dw t)
      | _ \<Rightarrow> None)"

inductive part_of :: "libdw \<Rightarrow> die \<Rightarrow> u64 \<Rightarrow> die \<Rightarrow> bool" for dw where
  itself: "part_of dw t 0 t"
| below: "\<lbrakk>(u, off) \<in> set (parts dw t); part_of dw u off' w\<rbrakk> \<Longrightarrow> part_of dw t (off + off') w"

text \<open>
  \<open>r\<close> is the offset and type of a member of that name declared in \<open>p\<close>'s type or in a part of it (or
  \<open>None\<close>, when that member has no byte offset or no type); and no part declares such a member.
\<close>

definition places :: "libdw \<Rightarrow> string \<Rightarrow> die \<times> u64 \<Rightarrow> (u64 \<times> die) option \<Rightarrow> bool" where
  "places dw m p r \<longleftrightarrow> (\<exists>u off c. part_of dw (fst p) off u \<and> own_member dw u m = Some c \<and>
     r = map_option (\<lambda>(o', t). (snd p + off + o', t)) (member_place dw c))"

definition absent :: "libdw \<Rightarrow> string \<Rightarrow> die \<Rightarrow> bool" where
  "absent dw m t \<longleftrightarrow> (\<forall>u off. part_of dw t off u \<longrightarrow> own_member dw u m = None)"

text \<open>The members along a path, each in the type of the one before.\<close>

inductive path_place :: "libdw \<Rightarrow> die \<Rightarrow> string list \<Rightarrow> u64 \<Rightarrow> die \<Rightarrow> bool" for dw where
  arrived: "path_place dw t [] 0 t"
| member: "\<lbrakk>places dw m (t, 0) (Some (off, u)); path_place dw u path off' w\<rbrakk>
    \<Longrightarrow> path_place dw t (m # path) (off + off') w"

context type_info
begin

lemma scan_members_spec:
  "scan_members dw m base cs acc = Some
     (case find (is_member dw m) cs of
        Some c \<Rightarrow> Inl (map_option (\<lambda>(off, t). (base + off, t)) (member_place dw c))
      | None \<Rightarrow> Inr (acc @ map (\<lambda>(t, off). (t, base + off)) (List.map_filter (part dw) cs)))"
proof (induction cs arbitrary: acc)
  case Nil
  then show ?case by (simp add: List.map_filter_simps)
next
  case (Cons c cs)
  show ?case
    by (cases "member_byte_offset dw c"; cases "dwarf_attr_die dw c DW_AT_type"; cases "d_name dw c")
      (auto simp: List.map_filter_simps part_def member_place_def is_member_def Cons.IH strip_real
        split: option.split)
qed

text \<open>One turn of the queue leaves smaller types on it.\<close>

lemma part_smaller: "(u, off) \<in> set (parts dw t) \<Longrightarrow> depth u < depth t"
  using part_depth depth_real
  by (fastforce simp: parts_def List.map_filter_def part_def split: option.splits if_splits
      intro: le_less_trans)

definition queue_depth :: "(die \<times> u64) list \<Rightarrow> nat multiset" where
  "queue_depth q = mset (map (\<lambda>(t, off). depth t) q)"

lemma turn_smaller:
  "(queue_depth (rest @ map (\<lambda>(u, off). (u, base + off)) (parts dw t)), queue_depth ((t, base) # rest))
     \<in> mult1 less_than"
proof -
  have "\<forall>n. n \<in># queue_depth (map (\<lambda>(u, off). (u, base + off)) (parts dw t)) \<longrightarrow> (n, depth t) \<in> less_than"
    using part_smaller by (fastforce simp: queue_depth_def)
  moreover have "queue_depth ((t, base) # rest) = add_mset (depth t) (queue_depth rest)"
    "queue_depth (rest @ xs) = queue_depth rest + queue_depth xs" for xs
    by (simp_all add: queue_depth_def)
  ultimately show ?thesis unfolding mult1_def by blast
qed

lemma absent_iff:
  "absent dw m t \<longleftrightarrow> own_member dw t m = None \<and> (\<forall>(u, off)\<in>set (parts dw t). absent dw m u)"
proof -
  have "part_of dw t off w \<longleftrightarrow> w = t \<and> off = 0 \<or>
      (\<exists>u o1 o2. (u, o1) \<in> set (parts dw t) \<and> part_of dw u o2 w \<and> off = o1 + o2)" for off w
    by (subst part_of.simps) auto
  then show ?thesis unfolding absent_def by (simp (no_asm_simp)) blast
qed

lemma places_below:
  "(u, off) \<in> set (parts dw t) \<Longrightarrow> places dw m (u, base + off) r \<Longrightarrow> places dw m (t, base) r"
  by (fastforce simp: places_def intro: part_of.below simp: add.assoc)

lemma member_bfs_spec:
  "\<exists>r. member_bfs dw m q = Some r \<and> ((\<exists>p\<in>set q. places dw m p r) \<or> r = None \<and> (\<forall>p\<in>set q. absent dw m (fst p)))"
proof (induction "queue_depth q" arbitrary: q rule: wf_induct_rule [OF wf_mult1 [OF wf_less_than]])
  case (1 q)
  show ?case
  proof (cases q)
    case Nil
    then show ?thesis by (subst member_bfs.simps) simp
  next
    case (Cons p rest)
    obtain t base where p: "p = (t, base)" by force
    show ?thesis
    proof (cases "own_member dw t m")
      case (Some c)
      then have "member_bfs dw m q = Some (map_option (\<lambda>(off, t). (base + off, t)) (member_place dw c))"
        by (subst member_bfs.simps) (simp add: Cons p scan_members_spec own_member_def)
      moreover have "places dw m p (map_option (\<lambda>(off, t). (base + off, t)) (member_place dw c))"
        unfolding places_def p using Some part_of.itself [of dw t] by fastforce
      ultimately show ?thesis using Cons by auto
    next
      case None
      define q' where "q' = rest @ map (\<lambda>(u, off). (u, base + off)) (parts dw t)"
      have step: "member_bfs dw m q = member_bfs dw m q'"
        using None
        by (subst member_bfs.simps) (simp add: Cons p scan_members_spec own_member_def q'_def parts_def)
      have "(queue_depth q', queue_depth q) \<in> mult1 less_than"
        unfolding q'_def Cons p by (rule turn_smaller)
      from 1 [OF this] obtain r where r: "member_bfs dw m q' = Some r"
        "(\<exists>p\<in>set q'. places dw m p r) \<or> r = None \<and> (\<forall>p\<in>set q'. absent dw m (fst p))" by blast
      have "(\<exists>p\<in>set q. places dw m p r) \<or> r = None \<and> (\<forall>p\<in>set q. absent dw m (fst p))"
        using r(2)
      proof
        assume "\<exists>p\<in>set q'. places dw m p r"
        then show ?thesis using places_below by (auto simp: q'_def Cons p)
      next
        assume none: "r = None \<and> (\<forall>p\<in>set q'. absent dw m (fst p))"
        then have "\<forall>p\<in>set (parts dw t). absent dw m (fst p)" "\<forall>p\<in>set rest. absent dw m (fst p)"
          by (simp_all add: q'_def case_prod_beta ball_Un)
        moreover from this(1) have "absent dw m t"
          using \<open>own_member dw t m = None\<close> by (subst absent_iff) auto
        ultimately show ?thesis using none by (simp add: Cons p)
      qed
      with step r(1) show ?thesis by auto
    qed
  qed
qed

lemma find_member_ends:
  "\<exists>r. find_member_offset_in dw t m = Some r \<and> (places dw m (t, 0) r \<or> r = None \<and> absent dw m t)"
  using member_bfs_spec [of m "[(t, 0)]"] by (simp add: find_member_offset_in_def)

lemma find_own_member:
  "own_member dw t m = Some c \<Longrightarrow> find_member_offset_in dw t m = Some (member_place dw c)"
  unfolding find_member_offset_in_def
  by (subst member_bfs.simps) (simp add: scan_members_spec own_member_def option.map_ident case_prod_unfold)

lemma sum_offsets_ends:
  "\<exists>r. sum_offsets dw t path off = Some r \<and>
     (\<forall>s. r = Some s \<longrightarrow> (\<exists>o' u. path_place dw t path o' u \<and> s = off + o'))"
proof (induction path arbitrary: t off)
  case Nil
  then show ?case using path_place.arrived [of dw t] by fastforce
next
  case (Cons m path)
  obtain r where r: "find_member_offset_in dw t m = Some r" "places dw m (t, 0) r \<or> r = None"
    using find_member_ends [of t m] by blast
  show ?case
  proof (cases r)
    case None
    with r(1) show ?thesis by simp
  next
    case (Some ou)
    obtain o1 u where ou: "r = Some (o1, u)" using Some by (cases ou) auto
    with r have place: "places dw m (t, 0) (Some (o1, u))" by simp
    from Cons [of u "off + o1"] obtain r' where r': "sum_offsets dw u path (off + o1) = Some r'"
      "\<forall>s. r' = Some s \<longrightarrow> (\<exists>o' w. path_place dw u path o' w \<and> s = off + o1 + o')" by blast
    have "\<exists>o' w. path_place dw t (m # path) o' w \<and> s = off + o'" if "r' = Some s" for s
      using r'(2) that path_place.member [OF place] by (metis add.assoc)
    with r(1) ou r'(1) show ?thesis by auto
  qed
qed

end

end
