(* ===== verification/Dwarf_Paths.thy ===== *)
theory Dwarf_Paths
  imports Dwarf_Types Bpf_Runtime
begin

text \<open>
  Member paths: when the translation of a path ends, and what the fields it produces mean to the
  member walk of the BPF side.
\<close>

section \<open>Laws\<close>

text \<open>
  On top of the type laws: references in the type information resolve, a typedef or qualifier names
  a type, chains of pointers, references and wrappers are finite, and a frame's CFA rule is not
  again the CFA or relative to the frame base, as the DWARF standard requires.
\<close>

definition plain_cfa :: "dw_op list \<Rightarrow> bool" where
  "plain_cfa ops \<longleftrightarrow> (case ops of [] \<Rightarrow> False
     | op # rest \<Rightarrow> op \<noteq> DW_OP_call_frame_cfa \<and> (\<forall>n. op \<noteq> DW_OP_fbreg n))"

locale path_info = type_info +
  fixes cfi :: cfi_tables
  assumes referent_depth:
      "\<lbrakk>type_wrapper (d_tag dw d) \<or> pointer_tag (d_tag dw d); dwarf_die_type dw d = Some r\<rbrakk> \<Longrightarrow> depth r < depth d"
    and wrapper_referent: "type_wrapper (d_tag dw d) \<Longrightarrow> dwarf_die_type dw d \<noteq> None"
    and pointer_referent:
      "\<lbrakk>pointer_tag (d_tag dw d); d_tag dw d \<noteq> DW_TAG_pointer_type \<or> d_attr_integrate dw d DW_AT_type \<noteq> None\<rbrakk>
        \<Longrightarrow> dwarf_die_type dw d \<noteq> None"
    and cfa_plain: "cfa_ops cfi pc = Some ops \<Longrightarrow> plain_cfa ops"
begin

lemma translate_plain: "plain_cfa ops \<Longrightarrow> \<exists>loc'. translate_expr dw cfi fb ops pc loc = Some (Some loc')"
  by (subst translate_expr.simps) (auto simp: plain_cfa_def split: list.splits dw_op.split)

lemma translate_no_base:
  "ops \<noteq> [] \<Longrightarrow> \<exists>r. translate_expr dw cfi None ops pc loc = Some r"
  using translate_plain cfa_plain
  by (subst translate_expr.simps)
    (auto split: list.splits dw_op.split option.split; metis)

lemma translate_with_base:
  assumes "d_loc dw fb pc = Some fb_ops" and "\<forall>n. hd fb_ops \<noteq> DW_OP_fbreg n" and "ops \<noteq> []"
  shows "\<exists>r. translate_expr dw cfi (Some fb) ops pc loc = Some r"
proof -
  have base: "\<exists>r. translate_expr dw cfi (Some fb) xs pc loc = Some r" if "xs \<noteq> []" "\<forall>n. hd xs \<noteq> DW_OP_fbreg n" for xs
    using that translate_plain cfa_plain
    by (subst translate_expr.simps) (auto split: list.splits dw_op.split option.split; metis)
  show ?thesis
  proof (cases "\<exists>n. hd ops = DW_OP_fbreg n")
    case True
    then obtain n rest where ops: "ops = DW_OP_fbreg n # rest" using assms(3) by (cases ops) auto
    show ?thesis
    proof (cases "fb_ops = []")
      case True
      then show ?thesis using assms(1) by (subst translate_expr.simps) (simp add: ops)
    next
      case False
      with base assms(2) obtain r where "translate_expr dw cfi (Some fb) fb_ops pc loc = Some r" by blast
      then show ?thesis using assms(1) False by (subst translate_expr.simps) (simp add: ops)
    qed
  next
    case False
    then show ?thesis using base assms(3) by blast
  qed
qed

lemma scan_class_smaller:
  assumes "scan_class dw m cs acc = Inr pushed" and "set cs \<subseteq> set (d_children dw t)"
    and "\<forall>u\<in>set acc. depth u < depth t"
  shows "\<forall>u\<in>set pushed. depth u < depth t"
  using assms
proof (induction cs arbitrary: acc)
  case Nil
  then show ?case by simp
next
  case (Cons c cs)
  have part: "depth b < depth t" if "d_tag dw c = DW_TAG_inheritance" "dwarf_attr_die dw c DW_AT_type = Some b" for b
    using part_depth [of c t] that Cons.prems(2) by simp
  have "\<exists>acc'. scan_class dw m cs acc' = Inr pushed \<and> (\<forall>u\<in>set acc'. depth u < depth t)"
  proof (cases "d_tag dw c = DW_TAG_inheritance")
    case True
    with Cons.prems part show ?thesis
      by (cases "dwarf_attr_die dw c DW_AT_type") (auto intro!: exI)
  next
    case False
    with Cons.prems show ?thesis by (auto split: if_splits)
  qed
  with Cons.IH Cons.prems(2) show ?case by auto
qed

lemma class_bfs_ends: "\<exists>r. class_bfs dw m q = Some r"
proof (induction "mset (map depth q)" arbitrary: q rule: wf_induct_rule [OF wf_mult1 [OF wf_less_than]])
  case (1 q)
  show ?case
  proof (cases q)
    case Nil
    then show ?thesis by (subst class_bfs.simps) simp
  next
    case (Cons t rest)
    show ?thesis
    proof (cases "scan_class dw m (d_children dw t) []")
      case (Inl c)
      then show ?thesis by (subst class_bfs.simps) (simp add: Cons)
    next
      case (Inr pushed)
      have "\<forall>n. n \<in># mset (map depth pushed) \<longrightarrow> (n, depth t) \<in> less_than"
        using scan_class_smaller [OF Inr] by auto
      moreover have "mset (map depth q) = add_mset (depth t) (mset (map depth rest))"
        "mset (map depth (rest @ pushed)) = mset (map depth rest) + mset (map depth pushed)"
        by (simp_all add: Cons)
      ultimately have "(mset (map depth (rest @ pushed)), mset (map depth q)) \<in> mult1 less_than"
        unfolding mult1_def by blast
      from 1 [OF this] Inr show ?thesis by (subst class_bfs.simps) (simp add: Cons)
    qed
  qed
qed

lemma member_step_ends: "\<exists>r. member_step dw io cache cfi pc t f = Some r"
proof -
  have find: "\<exists>r. find_class_member dw t1 f = Some r" for t1
    using class_bfs_ends [of f "[t1]"] by (auto simp: find_class_member_def)
  have one: "\<exists>r. Option.bind (find_class_member dw t1 f) (\<lambda>r. case r of
            None \<Rightarrow> Some None
          | Some (c, a) \<Rightarrow>
              (case d_loc dw a pc of
                 None \<Rightarrow> Some None
               | Some expr \<Rightarrow>
                   if expr = [] then Some None
                   else
                     Option.bind (translate_expr dw cfi None expr pc VarLocation_init)
                       (\<lambda>l. Some (map_option
                          (\<lambda>loc. (vl_offset loc, case dwarf_die_type dw c of Some mt \<Rightarrow> mt | None \<Rightarrow> t1)) l)))) = Some r" for t1
  proof -
    obtain r where r: "find_class_member dw t1 f = Some r" using find by blast
    show ?thesis
    proof (cases r)
      case None
      with r show ?thesis by simp
    next
      case (Some ca)
      obtain c a where ca: "ca = (c, a)" by force
      show ?thesis
      proof (cases "d_loc dw a pc")
        case None
        with r Some ca show ?thesis by simp
      next
        case (Some expr)
        with translate_no_base [of expr pc VarLocation_init] r \<open>r = Some ca\<close> ca show ?thesis by auto
      qed
    qed
  qed
  show ?thesis unfolding member_step_def using one by (auto split: option.split)
qed

lemma peel_for_cast_ends: "\<exists>r. peel_for_cast dw t = Some r"
proof (induction "depth t" arbitrary: t rule: less_induct)
  case less
  show ?case
  proof (cases "type_wrapper (d_tag dw t)")
    case True
    then obtain r where r: "dwarf_die_type dw t = Some r" using wrapper_referent by blast
    with True have "depth r < depth t" using referent_depth by blast
    from less [OF this] True r show ?thesis by (subst peel_for_cast.simps) simp
  next
    case False
    then show ?thesis by (subst peel_for_cast.simps) simp
  qed
qed

lemma translate_path_ends: "\<exists>r. translate_path dw io cache cfi pc t path ptr res = Some r"
proof (induction path arbitrary: t ptr res)
  case Nil
  then show ?case by (subst translate_path.simps) simp
next
  case (Cons f fs)
  show ?case
  proof (induction "depth t" arbitrary: t ptr rule: less_induct)
    case less
    note unfold = translate_path.simps [of dw io cache cfi pc t "f # fs"]
    show ?case
    proof (cases "cast_target f")
      case (Some name)
      obtain t1 where "peel_for_cast dw t = Some t1" using peel_for_cast_ends by blast
      with Some Cons.IH show ?thesis unfolding unfold by (auto split: option.split)
    next
      case None
      consider (wrapped) "type_wrapper (d_tag dw t)"
        | (void) "d_tag dw t = DW_TAG_pointer_type" "d_attr_integrate dw t DW_AT_type = None"
        | (pointer) "\<not> type_wrapper (d_tag dw t)" "pointer_tag (d_tag dw t)"
            "d_tag dw t \<noteq> DW_TAG_pointer_type \<or> d_attr_integrate dw t DW_AT_type \<noteq> None"
        | (other) "\<not> type_wrapper (d_tag dw t)" "\<not> pointer_tag (d_tag dw t)" by blast
      then show ?thesis
      proof cases
        case wrapped
        then obtain r where r: "dwarf_die_type dw t = Some r" using wrapper_referent by blast
        with wrapped have "depth r < depth t" using referent_depth by blast
        from less [OF this] None wrapped r show ?thesis unfolding unfold by simp
      next
        case void
        then show ?thesis using None unfolding unfold by (simp add: type_wrapper_def)
      next
        case pointer
        then obtain r where r: "dwarf_die_type dw t = Some r" using pointer_referent by blast
        with pointer have "depth r < depth t" using referent_depth by blast
        from less [OF this] None pointer r show ?thesis unfolding unfold by auto
      next
        case other
        then have "d_tag dw t \<noteq> DW_TAG_pointer_type" by (auto simp: pointer_tag_def)
        moreover obtain r where "member_step dw io cache cfi pc t f = Some r" using member_step_ends by blast
        ultimately show ?thesis using None other Cons.IH unfolding unfold by (auto split: option.split)
      qed
    qed
  qed
qed

end

section \<open>How many fields\<close>

text \<open>Each name of a path that is not a cast gives one field.\<close>

definition field_names :: "string list \<Rightarrow> string list" where
  "field_names path = filter (\<lambda>f. cast_target f = None) path"

lemma translate_path_length:
  assumes "translate_path dw io cache cfi pc t path ptr res = Some (Some out)"
  shows "length out = length res + length (field_names path)"
proof -
  let ?P = "\<lambda>dw io cache cfi pc t path ptr res r. \<forall>out. r = Some out \<longrightarrow>
    length out = length res + length (field_names path)"
  have "?P dw io cache cfi pc t path ptr res (Some out)"
    by (rule translate_path.raw_induct [where P = ?P, OF _ assms])
      (auto simp: field_names_def bind_eq_Some_conv
        split: list.split_asm option.split_asm if_split_asm prod.split_asm)
  then show ?thesis by simp
qed

lemma translate_fields_length:
  "translate_fields dw io cache cfi pc t path = Some (Some fl) \<Longrightarrow>
    length fl = 1 + length (field_names (drop 1 path))"
  by (auto simp: translate_fields_def dest: translate_path_length)

section \<open>A loop that does not end\<close>

text \<open>A path through a qualifier without a type (\<open>const void\<close>) is looked at forever.\<close>

lemma untyped_wrapper_loops:
  assumes "type_wrapper (d_tag dw t)" and "dwarf_die_type dw t = None" and "cast_target f = None"
  shows "translate_path dw io cache cfi pc t (f # fs) ptr res = None"
proof (rule ccontr)
  assume "\<not> ?thesis"
  then obtain y where y: "translate_path dw io cache cfi pc t (f # fs) ptr res = Some y" by blast
  let ?P = "\<lambda>dw' io' cache' cfi' pc' t' path' ptr' res' y. \<not> (dw' = dw \<and> t' = t \<and> path' = f # fs)"
  have "?P dw io cache cfi pc t (f # fs) ptr res y"
    by (rule translate_path.raw_induct [where P = ?P, OF _ y]) (use assms in \<open>fastforce split: list.splits\<close>)
  then show False by simp
qed

section \<open>What the fields mean\<close>

text \<open>
  The object a member path denotes, starting at an object of type \<open>t\<close> at address \<open>a\<close>: wrappers
  change nothing, a pointer or reference is followed, a member adds its offset, and a cast follows
  the pointer at hand to an object of the type it names.
\<close>

inductive denotes ::
  "libdw \<Rightarrow> iteration_order \<Rightarrow> type_cache \<Rightarrow> cfi_tables \<Rightarrow> u64 \<Rightarrow> user_mem \<Rightarrow> die \<Rightarrow> u64 \<Rightarrow> string list \<Rightarrow> u64 \<Rightarrow> bool"
  for dw io cache cfi pc um where
  here: "denotes dw io cache cfi pc um t a [] a"
| through: "\<lbrakk>cast_target f = None; type_wrapper (d_tag dw t); dwarf_die_type dw t = Some r;
     denotes dw io cache cfi pc um r a (f # fs) b\<rbrakk> \<Longrightarrow> denotes dw io cache cfi pc um t a (f # fs) b"
| follow: "\<lbrakk>cast_target f = None; pointer_tag (d_tag dw t); dwarf_die_type dw t = Some r;
     denotes dw io cache cfi pc um r (u64_of (read_user um a 8)) (f # fs) b\<rbrakk>
     \<Longrightarrow> denotes dw io cache cfi pc um t a (f # fs) b"
| select: "\<lbrakk>cast_target f = None; aggregate_tag (d_tag dw t);
     member_step dw io cache cfi pc t f = Some (Some (off, u));
     denotes dw io cache cfi pc um u (a + of_int off) fs b\<rbrakk> \<Longrightarrow> denotes dw io cache cfi pc um t a (f # fs) b"
| reinterpret: "\<lbrakk>cast_target f = Some name; peel_for_cast dw t = Some p; pointer_tag (d_tag dw p);
     resolve_type_name io cache name = Some ct;
     denotes dw io cache cfi pc um ct (u64_of (read_user um a 8)) fs b\<rbrakk>
     \<Longrightarrow> denotes dw io cache cfi pc um t a (f # fs) b"

text \<open>
  A field carries at most one dereference, so the code is right for pointers to objects, not for
  pointers or references to pointers.
\<close>

inductive pointerish :: "libdw \<Rightarrow> die \<Rightarrow> bool" for dw where
  pointer: "pointer_tag (d_tag dw t) \<Longrightarrow> pointerish dw t"
| wrapper: "\<lbrakk>type_wrapper (d_tag dw t); dwarf_die_type dw t = Some r; pointerish dw r\<rbrakk> \<Longrightarrow> pointerish dw t"

inductive_cases pointerishE: "pointerish dw t"

text \<open>What a pointer type points to.\<close>

inductive pointee :: "libdw \<Rightarrow> die \<Rightarrow> die \<Rightarrow> bool" for dw where
  pointer: "\<lbrakk>pointer_tag (d_tag dw t); dwarf_die_type dw t = Some r\<rbrakk> \<Longrightarrow> pointee dw t r"
| wrapper: "\<lbrakk>type_wrapper (d_tag dw t); dwarf_die_type dw t = Some u; pointee dw u r\<rbrakk> \<Longrightarrow> pointee dw t r"

definition single_level :: "libdw \<Rightarrow> bool" where
  "single_level dw \<longleftrightarrow>
     (\<forall>t r. pointer_tag (d_tag dw t) \<and> dwarf_die_type dw t = Some r \<longrightarrow> \<not> pointerish dw r)"

text \<open>The types that the casts of a path name are objects, too.\<close>

definition casts_to_objects :: "libdw \<Rightarrow> iteration_order \<Rightarrow> type_cache \<Rightarrow> string list \<Rightarrow> bool" where
  "casts_to_objects dw io cache path \<longleftrightarrow>
     (\<forall>f\<in>set path. \<forall>name ct. cast_target f = Some name \<and> resolve_type_name io cache name = Some ct
        \<longrightarrow> \<not> pointerish dw ct)"

lemma casts_to_objects_Cons [simp]:
  "casts_to_objects dw io cache (f # fs) \<longleftrightarrow>
     (\<forall>name ct. cast_target f = Some name \<and> resolve_type_name io cache name = Some ct
        \<longrightarrow> \<not> pointerish dw ct) \<and> casts_to_objects dw io cache fs"
  by (simp add: casts_to_objects_def)

lemma no_casts: "\<forall>f\<in>set path. cast_target f = None \<Longrightarrow> casts_to_objects dw io cache path"
  by (simp add: casts_to_objects_def)

definition ends_in_member :: "string list \<Rightarrow> bool" where
  "ends_in_member path \<longleftrightarrow> path \<noteq> [] \<longrightarrow> cast_target (last path) = None"

context path_info
begin

text \<open>The walk from \<open>a\<close>; with \<open>ptr\<close>, from the address the first field's dereference has given.\<close>

definition walk_at :: "user_mem \<Rightarrow> bool \<Rightarrow> Field list \<Rightarrow> u64 \<Rightarrow> u64" where
  "walk_at um ptr fl a =
     (if ptr then walk_fields um (tl fl) (a + of_int (f_offset (hd fl))) else walk_fields um fl a)"

lemma walk_pending:
  "\<lbrakk>fl \<noteq> []; f_pointer (hd fl)\<rbrakk> \<Longrightarrow> walk_at um False fl a = walk_at um True fl (u64_of (read_user um a 8))"
  by (cases fl) (simp_all add: walk_at_def field_step_def)

lemma walk_select:
  "walk_at um ptr (\<lparr>f_offset = off, f_pointer = ptr\<rparr> # fl) a = walk_at um False fl (a + of_int off)"
  by (simp add: walk_at_def field_step_def)

lemma peeled_pointer: "\<lbrakk>peel_for_cast dw t = Some p; pointer_tag (d_tag dw p)\<rbrakk> \<Longrightarrow> pointerish dw t"
proof (induction "depth t" arbitrary: t rule: less_induct)
  case less
  show ?case
  proof (cases "type_wrapper (d_tag dw t)")
    case True
    then obtain r where r: "dwarf_die_type dw t = Some r" using wrapper_referent by blast
    with True have "depth r < depth t" using referent_depth by blast
    moreover from less.prems(1) True r have "peel_for_cast dw r = Some p"
      by (subst (asm) peel_for_cast.simps) simp
    ultimately show ?thesis using less.hyps less.prems(2) pointerish.wrapper [OF True r] by blast
  next
    case False
    with less.prems(1) have "p = t" by (subst (asm) peel_for_cast.simps) simp
    with less.prems(2) show ?thesis by (auto intro: pointerish.pointer)
  qed
qed

text \<open>The fields \<open>fl\<close> lead to what a path denotes, from a type \<open>t\<close> and a pending dereference \<open>ptr\<close>.\<close>

definition path_means ::
  "iteration_order \<Rightarrow> type_cache \<Rightarrow> u64 \<Rightarrow> die \<Rightarrow> bool \<Rightarrow> string list \<Rightarrow> Field list \<Rightarrow> bool" where
  "path_means io cache pc t ptr path fl \<longleftrightarrow> (ptr \<longrightarrow> fl \<noteq> [] \<and> f_pointer (hd fl)) \<and>
     (\<forall>um a. denotes dw io cache cfi pc um t a path (walk_at um ptr fl a))"

lemma means_here: "path_means io cache pc t False [] []"
  by (simp add: path_means_def walk_at_def denotes.here)

lemma means_cast:
  "\<lbrakk>cast_target f = Some name; peel_for_cast dw t = Some p; pointer_tag (d_tag dw p);
    resolve_type_name io cache name = Some ct; path_means io cache pc ct True fs fl\<rbrakk>
    \<Longrightarrow> path_means io cache pc t False (f # fs) fl"
  by (simp add: path_means_def walk_pending denotes.reinterpret)

lemma means_wrapper:
  "\<lbrakk>cast_target f = None; type_wrapper (d_tag dw t); dwarf_die_type dw t = Some r;
    path_means io cache pc r ptr (f # fs) fl\<rbrakk> \<Longrightarrow> path_means io cache pc t ptr (f # fs) fl"
  by (simp add: path_means_def denotes.through)

lemma means_pointer:
  "\<lbrakk>cast_target f = None; pointer_tag (d_tag dw t); dwarf_die_type dw t = Some r;
    path_means io cache pc r True (f # fs) fl\<rbrakk> \<Longrightarrow> path_means io cache pc t False (f # fs) fl"
  by (simp add: path_means_def walk_pending denotes.follow)

lemma means_member:
  "\<lbrakk>cast_target f = None; aggregate_tag (d_tag dw t); member_step dw io cache cfi pc t f = Some (Some (off, u));
    path_means io cache pc u False fs fl\<rbrakk>
    \<Longrightarrow> path_means io cache pc t ptr (f # fs) (\<lparr>f_offset = off, f_pointer = ptr\<rparr> # fl)"
  by (simp add: path_means_def walk_select denotes.select)

text \<open>The four ways in which the translation of a path goes on.\<close>

lemma translate_path_ConsE:
  assumes "translate_path dw io cache cfi pc t (f # fs) ptr res = Some (Some out)"
  obtains (cast) name p ct where "cast_target f = Some name" "peel_for_cast dw t = Some p"
      "pointer_tag (d_tag dw p)" "resolve_type_name io cache name = Some ct"
      "translate_path dw io cache cfi pc ct fs True res = Some (Some out)"
  | (wrapper) r where "cast_target f = None" "type_wrapper (d_tag dw t)" "dwarf_die_type dw t = Some r"
      "depth r < depth t" "translate_path dw io cache cfi pc r (f # fs) ptr res = Some (Some out)"
  | (pointer) r where "cast_target f = None" "pointer_tag (d_tag dw t)" "dwarf_die_type dw t = Some r"
      "depth r < depth t" "translate_path dw io cache cfi pc r (f # fs) True res = Some (Some out)"
  | (member) off u where "cast_target f = None" "aggregate_tag (d_tag dw t)"
      "member_step dw io cache cfi pc t f = Some (Some (off, u))"
      "translate_path dw io cache cfi pc u fs False (res @ [\<lparr>f_offset = off, f_pointer = ptr\<rparr>]) = Some (Some out)"
proof -
  note run = assms [unfolded translate_path.simps [of dw io cache cfi pc t "f # fs"]]
  show ?thesis
  proof (cases "cast_target f")
    case (Some name)
    obtain p where "peel_for_cast dw t = Some p" using peel_for_cast_ends by blast
    with run Some show ?thesis by (auto split: if_splits option.splits intro!: cast)
  next
    case None
    consider "type_wrapper (d_tag dw t)" | "\<not> type_wrapper (d_tag dw t)" "pointer_tag (d_tag dw t)"
      | "\<not> type_wrapper (d_tag dw t)" "\<not> pointer_tag (d_tag dw t)" by blast
    then show ?thesis
    proof cases
      case 1
      then obtain r where r: "dwarf_die_type dw t = Some r" using wrapper_referent by blast
      with 1 run None show ?thesis using referent_depth [OF _ r] by (intro wrapper [of r]) simp_all
    next
      case 2
      with run None obtain r where r: "dwarf_die_type dw t = Some r"
        using pointer_referent by (auto split: if_splits)
      with 2 run None show ?thesis using referent_depth [OF _ r] by (intro pointer [of r]) (auto split: if_splits)
    next
      case 3
      then have "d_tag dw t \<noteq> DW_TAG_pointer_type" by (auto simp: pointer_tag_def)
      with 3 run None show ?thesis
        by (auto simp: bind_eq_Some_conv split: if_split_asm option.split_asm prod.split_asm intro!: member)
    qed
  qed
qed

lemma translate_path_means:
  assumes "translate_path dw io cache cfi pc t path ptr res = Some (Some out)"
    and "single_level dw" and "ends_in_member path" and "ptr \<longrightarrow> path \<noteq> [] \<and> \<not> pointerish dw t"
    and "casts_to_objects dw io cache path"
  shows "\<exists>fl. out = res @ fl \<and> path_means io cache pc t ptr path fl"
  using assms(1,3,4,5)
proof (induction path arbitrary: t ptr res)
  case Nil
  then have "out = res" by (subst (asm) translate_path.simps) simp
  then show ?case using Nil(3) by (simp add: means_here)
next
  case (Cons f fs)
  have ends: "cast_target f = None \<or> fs \<noteq> []" "ends_in_member fs"
    using Cons.prems(2) by (auto simp: ends_in_member_def split: if_splits)
  from Cons.prems show ?case
  proof (induction "depth t" arbitrary: t ptr rule: less_induct)
    case less
    from less.prems(1) show ?case
    proof (cases rule: translate_path_ConsE)
      case (cast name p ct)
      have "\<not> ptr" using less.prems(3) peeled_pointer [OF cast(2,3)] by blast
      moreover have "\<not> pointerish dw ct" using less.prems(4) cast(1,4) by simp
      with Cons.IH [OF cast(5) ends(2)] ends(1) cast(1) less.prems(4)
      obtain fl where "out = res @ fl" "path_means io cache pc ct True fs fl" by auto
      ultimately show ?thesis using means_cast [OF cast(1-4)] by auto
    next
      case (wrapper r)
      have "ptr \<longrightarrow> f # fs \<noteq> [] \<and> \<not> pointerish dw r"
        using less.prems(3) pointerish.wrapper [OF wrapper(2,3)] by blast
      from less.hyps [OF wrapper(4,5) less.prems(2) this less.prems(4)] show ?thesis
        using means_wrapper [OF wrapper(1-3)] by blast
    next
      case (pointer r)
      have "\<not> ptr" using less.prems(3) pointer(2) by (auto intro: pointerish.pointer)
      moreover have "True \<longrightarrow> f # fs \<noteq> [] \<and> \<not> pointerish dw r"
        using assms(2) pointer(2,3) by (auto simp: single_level_def)
      from less.hyps [OF pointer(4,5) less.prems(2) this less.prems(4)]
      obtain fl where "out = res @ fl" "path_means io cache pc r True (f # fs) fl" by blast
      ultimately show ?thesis using means_pointer [OF pointer(1-3)] by auto
    next
      case (member off u)
      from Cons.IH [OF member(4) ends(2)] less.prems(4)
      obtain fl where "out = res @ \<lparr>f_offset = off, f_pointer = ptr\<rparr> # fl" "path_means io cache pc u False fs fl" by auto
      then show ?thesis using means_member [OF member(1-3)] by blast
    qed
  qed
qed

text \<open>A pointer in a register: the translation goes on at what it points to, a dereference pending.\<close>

lemma translate_from_pointer:
  assumes "pointerish dw t" and "cast_target f = None"
    and "translate_path dw io cache cfi pc t (f # fs) False res = Some (Some out)"
  shows "\<exists>r. pointee dw t r \<and> translate_path dw io cache cfi pc r (f # fs) True res = Some (Some out)"
  using assms(1,3)
proof (induction t rule: pointerish.induct)
  case (pointer t)
  note run = pointer(2) [unfolded translate_path.simps [of dw io cache cfi pc t "f # fs"]]
  from pointer(1) have "\<not> type_wrapper (d_tag dw t)" by (auto simp: pointer_tag_def type_wrapper_def)
  moreover from this obtain r where "dwarf_die_type dw t = Some r"
    using run assms(2) pointer(1) pointer_referent by (auto split: if_split_asm)
  ultimately show ?case
    using run assms(2) pointer(1) by (auto split: if_split_asm intro: pointee.pointer)
next
  case (wrapper t r)
  note run = wrapper(5) [unfolded translate_path.simps [of dw io cache cfi pc t "f # fs"]]
  with wrapper(1,2,4) assms(2) show ?case by (auto intro: pointee.wrapper)
qed

lemma pointee_single: "\<lbrakk>pointee dw t r; single_level dw\<rbrakk> \<Longrightarrow> \<not> pointerish dw r"
  by (induction rule: pointee.induct) (auto simp: single_level_def)

text \<open>Classifying a parameter ends.\<close>

lemma peel_type_ends: "\<exists>r. peel_type dw t = Some r"
proof (induction "depth t" arbitrary: t rule: less_induct)
  case less
  show ?case
  proof (cases "type_wrapper (d_tag dw t)")
    case True
    then obtain r where r: "dwarf_die_type dw t = Some r" using wrapper_referent by blast
    with True have "depth r < depth t" using referent_depth by blast
    from less [OF this] True r show ?thesis by (subst peel_type.simps) (simp add: dwarf_die_type_def)
  next
    case False
    then show ?thesis by (subst peel_type.simps) simp
  qed
qed

lemma classify_ends: "\<exists>r. classify_param dw c = Some r"
proof (cases "dwarf_die_type dw c")
  case None
  then show ?thesis by (simp add: classify_param_def dwarf_die_type_def)
next
  case (Some t)
  with peel_type_ends [of t] show ?thesis by (auto simp: classify_param_def dwarf_die_type_def)
qed

end

end
