(* ===== verification/Dwarf_Table.thy ===== *)
theory Dwarf_Table
  imports Dwarf_Types
begin

text \<open>
  Debug information given by a table of DIEs, on which the properties of the analysis are applied:
  what libdw answers is read off the table. The laws on types are an executable check of it.
\<close>

datatype at_value = AConst u64 | ARef die | AExpr "dw_op list" | AFlag

record die_row =
  dr_tag :: dw_tag
  dr_name :: "string option"
  dr_children :: "die list"
  dr_attrs :: "(dw_at \<times> at_value) list"
  dr_size :: "u64 option"
  dr_pc :: "u64 option"
  dr_scopes :: "die list"

type_synonym die_table = "die \<Rightarrow> die_row"

definition plain_row :: "dw_tag \<Rightarrow> string option \<Rightarrow> die list \<Rightarrow> (dw_at \<times> at_value) list \<Rightarrow> die_row" where
  "plain_row tag nm cs as = \<lparr>dr_tag = tag, dr_name = nm, dr_children = cs, dr_attrs = as, dr_size = None,
     dr_pc = None, dr_scopes = []\<rparr>"

definition no_row :: die_row where
  "no_row = plain_row (DW_TAG_other 0) None [] []"

text \<open>An attribute's handle names its DIE and its kind.\<close>

definition at_index :: "dw_at \<Rightarrow> int" where
  "at_index at =
     (case at of DW_AT_location \<Rightarrow> 0 | DW_AT_type \<Rightarrow> 1 | DW_AT_encoding \<Rightarrow> 2 | DW_AT_data_member_location \<Rightarrow> 3
      | DW_AT_data_bit_offset \<Rightarrow> 4 | DW_AT_declaration \<Rightarrow> 5 | DW_AT_frame_base \<Rightarrow> 6 | DW_AT_signature \<Rightarrow> 7
      | DW_AT_abstract_origin \<Rightarrow> 8 | DW_AT_specification \<Rightarrow> 9)"

definition at_list :: "dw_at list" where
  "at_list = [DW_AT_location, DW_AT_type, DW_AT_encoding, DW_AT_data_member_location, DW_AT_data_bit_offset,
     DW_AT_declaration, DW_AT_frame_base, DW_AT_signature, DW_AT_abstract_origin, DW_AT_specification]"

definition table_attr :: "die_table \<Rightarrow> die \<Rightarrow> dw_at \<Rightarrow> attr option" where
  "table_attr tab d at =
     (if map_of (dr_attrs (tab d)) at = None then None else Some (10 * d + at_index at))"

definition attr_value :: "die_table \<Rightarrow> attr \<Rightarrow> at_value option" where
  "attr_value tab a = map_of (dr_attrs (tab (a div 10))) (at_list ! nat (a mod 10))"

definition table_udata :: "die_table \<Rightarrow> attr \<Rightarrow> u64 option" where
  "table_udata tab a = (case attr_value tab a of Some (AConst n) \<Rightarrow> Some n | _ \<Rightarrow> None)"

definition table_ref :: "die_table \<Rightarrow> attr \<Rightarrow> die option" where
  "table_ref tab a = (case attr_value tab a of Some (ARef d) \<Rightarrow> Some d | _ \<Rightarrow> None)"

text \<open>A constant member location counts as the expression that adds it, as in libdw.\<close>

definition table_loc :: "die_table \<Rightarrow> attr \<Rightarrow> u64 \<Rightarrow> dw_op list option" where
  "table_loc tab a pc =
     (case attr_value tab a of
        Some (AExpr ops) \<Rightarrow> Some ops
      | Some (AConst n) \<Rightarrow> Some [DW_OP_plus_uconst n]
      | _ \<Rightarrow> None)"

definition table_param :: "die_table \<Rightarrow> die \<Rightarrow> string \<Rightarrow> die option" where
  "table_param tab func s =
     find (\<lambda>c. dr_tag (tab c) = DW_TAG_formal_parameter \<and> dr_name (tab c) = Some s)
       (dr_children (tab func))"

text \<open>The other answers, each a function of its own, so that evaluation keeps the record small.\<close>

definition table_tag :: "die_table \<Rightarrow> die \<Rightarrow> dw_tag" where
  "table_tag tab d = dr_tag (tab d)"

definition table_name :: "die_table \<Rightarrow> die \<Rightarrow> string option" where
  "table_name tab d = dr_name (tab d)"

definition table_children :: "die_table \<Rightarrow> die \<Rightarrow> die list" where
  "table_children tab d = dr_children (tab d)"

definition table_size :: "die_table \<Rightarrow> die \<Rightarrow> u64 option" where
  "table_size tab d = dr_size (tab d)"

definition table_pc :: "die_table \<Rightarrow> die \<Rightarrow> u64 option" where
  "table_pc tab d = dr_pc (tab d)"

definition table_breakpoints :: "die_table \<Rightarrow> die \<Rightarrow> u64 list" where
  "table_breakpoints tab d = (case dr_pc (tab d) of Some a \<Rightarrow> [a + 4] | None \<Rightarrow> [])"

definition table_scopes :: "die_table \<Rightarrow> die \<Rightarrow> die list" where
  "table_scopes tab d = d # dr_scopes (tab d)"

definition table_dw :: "die_table \<Rightarrow> libdw" where
  "table_dw tab =
     \<lparr>d_tag = table_tag tab, d_name = table_name tab, d_children = table_children tab,
      d_attr = table_attr tab, d_attr_integrate = table_attr tab,
      d_sec_offset = (\<lambda>a. False), d_formudata = table_udata tab, d_formref_die = table_ref tab,
      d_loc = table_loc tab, d_aggregate_size = table_size tab, d_entrypc = table_pc tab, d_ranges = (\<lambda>d. None),
      d_entry_breakpoints = table_breakpoints tab, d_getscopevar = table_param tab,
      d_getscopes_die = table_scopes tab, d_func_inline = (\<lambda>d. False)\<rparr>"

definition in_order :: iteration_order where
  "in_order = \<lparr>io_units = (\<lambda>m. m), io_modules = (\<lambda>m. m)\<rparr>"

text \<open>The laws, row by row.\<close>

definition row_layered :: "die_table \<Rightarrow> (die \<Rightarrow> nat) \<Rightarrow> die \<Rightarrow> bool" where
  "row_layered tab depth d =
     (let dw = table_dw tab;
          below = (\<lambda>x r. case dwarf_attr_die dw x DW_AT_type of None \<Rightarrow> True | Some b \<Rightarrow> depth b < depth r)
      in (type_wrapper (d_tag dw d) \<longrightarrow> below d d) \<and>
         list_all (\<lambda>c. (d_tag dw c = DW_TAG_inheritance \<or> d_tag dw c = DW_TAG_member \<and> d_name dw c = None)
                        \<longrightarrow> below c d) (d_children dw d))"

text \<open>A check of the DIEs that the table describes.\<close>

definition table_dies :: "die_table \<Rightarrow> die list \<Rightarrow> bool" where
  "table_dies tab ds \<longleftrightarrow> (\<forall>d. d \<notin> set ds \<longrightarrow> tab d = no_row)"

lemma all_rows:
  assumes "table_dies tab ds" and "list_all P ds" and "\<And>d. tab d = no_row \<Longrightarrow> P d"
  shows "P d"
  using assms by (cases "d \<in> set ds") (auto simp: table_dies_def list_all_iff)

lemma table_type_info:
  assumes "table_dies tab ds" and "list_all (row_layered tab depth) ds"
  shows "type_info (table_dw tab) depth"
proof
  have all: "row_layered tab depth d" for d
    by (rule all_rows [OF assms])
      (simp add: row_layered_def table_dw_def table_tag_def table_children_def no_row_def plain_row_def type_wrapper_def)
  show "depth r < depth d"
    if "type_wrapper (d_tag (table_dw tab) d)" "dwarf_attr_die (table_dw tab) d DW_AT_type = Some r" for d r
    using all [of d] that by (simp add: row_layered_def Let_def)
  show "depth b < depth d"
    if "c \<in> set (d_children (table_dw tab) d)"
      "d_tag (table_dw tab) c = DW_TAG_inheritance \<or>
         d_tag (table_dw tab) c = DW_TAG_member \<and> d_name (table_dw tab) c = None"
      "dwarf_attr_die (table_dw tab) c DW_AT_type = Some b" for c d b
    using all [of d] that by (fastforce simp: row_layered_def Let_def list_all_iff)
qed

end
