(* ===== verification/Dwarf_Cache.thy ===== *)
theory Dwarf_Cache
  imports Dwarf_Paths Dwarf_Table
begin

text \<open>
  The cache of named types that the first pass of the analysis builds: what it holds is what the
  lookups of the second pass, for a declaration or a cast, may rely on.
\<close>

text \<open>An entry is a complete type under its own name, qualified by its kind.\<close>

definition type_key :: "libdw \<Rightarrow> die \<Rightarrow> string option" where
  "type_key dw t = map_option ((@) (cache_type_prefix (d_tag dw t))) (d_name dw t)"

definition entry_ok :: "libdw \<Rightarrow> string \<times> die \<Rightarrow> bool" where
  "entry_ok dw = (\<lambda>(key, t). named_type_tag (d_tag dw t) \<and> type_key dw t = Some key \<and>
     d_attr dw t DW_AT_declaration = None)"

definition unit_ok :: "libdw \<Rightarrow> cu_type_cache \<Rightarrow> bool" where
  "unit_ok dw v \<longleftrightarrow> (\<forall>e\<in>set v. entry_ok dw e)"

definition units_ok :: "libdw \<Rightarrow> mod_cu_type_cache \<Rightarrow> bool" where
  "units_ok dw cus \<longleftrightarrow> (\<forall>x\<in>set cus. unit_ok dw (snd x))"

definition cache_ok :: "libdw \<Rightarrow> type_cache \<Rightarrow> bool" where
  "cache_ok dw cache \<longleftrightarrow> (\<forall>x\<in>set cache. units_ok dw (snd x))"

lemma cache_type_ok: "unit_ok dw v \<Longrightarrow> unit_ok dw (cache_type dw d v)"
  by (auto simp: cache_type_def unit_ok_def entry_ok_def type_key_def Let_def split: option.split)

lemma cache_types_ok: "unit_ok dw v \<Longrightarrow> unit_ok dw (fold (cache_type dw) ds v)"
  by (induction ds arbitrary: v) (simp_all add: cache_type_ok)

lemma update_keeps: "\<lbrakk>\<forall>x\<in>set xs. P (snd x); P v\<rbrakk> \<Longrightarrow> \<forall>x\<in>set (AList.update k v xs). P (snd x)"
  by (induction xs) auto

lemma lookup_keeps:
  assumes "\<forall>x\<in>set xs. P (snd x)" and "P d"
  shows "P (case map_of xs k of Some v \<Rightarrow> v | None \<Rightarrow> d)"
proof (cases "map_of xs k")
  case (Some v)
  with assms(1) map_of_SomeD [OF Some] show ?thesis by fastforce
qed (use assms(2) in simp)

lemma empty_ok: "unit_ok dw []" "units_ok dw []" "cache_ok dw []"
  by (simp_all add: unit_ok_def units_ok_def cache_ok_def)

lemma iterate_types_ok: "units_ok dw mcu \<Longrightarrow> units_ok dw (iterate_types_in_cu dw cu mcu)"
  unfolding iterate_types_in_cu_def units_ok_def Let_def
  by (split if_split, intro conjI impI, assumption, rule update_keeps [where P = "unit_ok dw"], assumption,
    rule cache_types_ok, rule lookup_keeps [where P = "unit_ok dw"], assumption, rule empty_ok)

lemma fold_units_ok:
  "units_ok dw mcu \<Longrightarrow> units_ok dw (fold (\<lambda>d m. if d_tag dw d = tag then iterate_types_in_cu dw d m else m) ds mcu)"
  by (induction ds arbitrary: mcu) (simp_all add: iterate_types_ok)

lemma traverse_module_ok: "cache_ok dw cache \<Longrightarrow> cache_ok dw (traverse_module dw md units cache)"
  unfolding traverse_module_def cache_ok_def Let_def
  by (rule update_keeps [where P = "units_ok dw"], assumption, (rule fold_units_ok)+,
    rule lookup_keeps [where P = "units_ok dw"], assumption, rule empty_ok)

text \<open>Folding a step that may not return keeps what the step keeps.\<close>

lemma fold_option_keeps:
  "\<lbrakk>fold_option g xs s = Some s'; P s; \<And>x s s'. \<lbrakk>g x s = Some s'; x \<in> set xs; P s\<rbrakk> \<Longrightarrow> P s'\<rbrakk> \<Longrightarrow> P s'"
  by (induction xs arbitrary: s) (fastforce simp: bind_eq_Some_conv)+

lemma getmodules_keeps:
  "\<lbrakk>getmodules cb mds s = Some s'; P s; \<And>md s b s'. \<lbrakk>cb md s = Some (b, s'); md \<in> set mds; P s\<rbrakk> \<Longrightarrow> P s'\<rbrakk>
    \<Longrightarrow> P s'"
proof (induction cb mds s rule: getmodules.induct)
  case (2 cb md mds s)
  then obtain b s1 where run: "cb md s = Some (b, s1)" "(if b then getmodules cb mds s1 else Some s1) = Some s'"
    by (auto simp: bind_eq_Some_conv)
  with "2.prems" have "P s1" by auto
  with 2 run show ?case by (cases b) auto
qed simp

text \<open>The first pass only adds to the cache through \<open>traverse_module\<close>.\<close>

lemma preprocess_module_keeps:
  assumes "preprocess_module pc md s = Some (b, s')" and "P s"
    and "\<And>units. P (s\<lparr>ps_cache := traverse_module (pc_dw pc) md units (ps_cache s)\<rparr>)"
    and "\<And>n s s'. \<lbrakk>record_size pc md n s = Some s'; P s\<rbrakk> \<Longrightarrow> P s'"
    and "\<And>req s s'. \<lbrakk>record_offset pc md req s = Some s'; P s\<rbrakk> \<Longrightarrow> P s'"
  shows "P s'"
proof (cases "dm_units md")
  case (Some units)
  let ?s1 = "s\<lparr>ps_cache := traverse_module (pc_dw pc) md units (ps_cache s)\<rparr>"
  from assms(1) Some obtain s2 where "fold_option (record_size pc md) (pc_type_sizes pc) ?s1 = Some s2"
    and s': "fold_option (record_offset pc md) (pc_member_offsets pc) s2 = Some s'"
    by (auto simp: preprocess_module_def Let_def bind_eq_Some_conv)
  from this(1) have "P s2" by (rule fold_option_keeps) (use assms(3,4) in blast)+
  with s' show ?thesis by (rule fold_option_keeps) (use assms(5) in blast)
qed (use assms(1,2) in \<open>simp add: preprocess_module_def\<close>)

lemma record_requests_cache:
  "record_size pc md n s = Some s' \<Longrightarrow> ps_cache s' = ps_cache s"
  "record_offset pc md req s = Some s' \<Longrightarrow> ps_cache s' = ps_cache s"
  by (auto simp: record_size_def record_offset_def)

lemma preprocess_module_cache:
  "\<lbrakk>preprocess_module pc md s = Some (b, s'); cache_ok (pc_dw pc) (ps_cache s)\<rbrakk>
    \<Longrightarrow> cache_ok (pc_dw pc) (ps_cache s')"
  by (rule preprocess_module_keeps [where P = "\<lambda>s. cache_ok (pc_dw pc) (ps_cache s)"])
    (auto simp: traverse_module_ok dest: record_requests_cache)

lemma first_pass_cache:
  assumes "fold_option (getmodules (preprocess_module pc)) dwfls s = Some s'"
    and "cache_ok (pc_dw pc) (ps_cache s)"
  shows "cache_ok (pc_dw pc) (ps_cache s')"
  using assms
  by (rule fold_option_keeps [where P = "\<lambda>s. cache_ok (pc_dw pc) (ps_cache s)"])
    (erule (1) getmodules_keeps, erule (1) preprocess_module_cache)

section \<open>Lookups\<close>

text \<open>The order of iteration only permutes.\<close>

definition permutes :: "iteration_order \<Rightarrow> bool" where
  "permutes io \<longleftrightarrow> (\<forall>m. mset (io_units io m) = mset m) \<and> (\<forall>c. mset (io_modules io c) = mset c)"

lemma in_order_permutes: "permutes in_order"
  by (simp add: permutes_def in_order_def)

lemma permutes_sets:
  "permutes io \<Longrightarrow> set (io_units io m) = set m" "permutes io \<Longrightarrow> set (io_modules io c) = set c"
  by (metis permutes_def set_mset_mset)+

lemma first_some_found: "first_some f xs = Some y \<Longrightarrow> \<exists>x\<in>set xs. f x = Some y"
  by (induction xs) (auto split: option.splits)

lemma type_in_units_ok:
  assumes "permutes io" and "units_ok dw cus" and "type_in_units io cands cus = Some t"
  shows "\<exists>key\<in>set cands. entry_ok dw (key, t)"
proof -
  from first_some_found [OF assms(3) [unfolded type_in_units_def]] obtain cu v where
    "(cu, v) \<in> set cus" and found: "first_some (map_of v) cands = Some t"
    using permutes_sets(1) [OF assms(1)] by auto
  moreover from first_some_found [OF found] obtain key where "key \<in> set cands" "map_of v key = Some t" by blast
  ultimately show ?thesis using assms(2) map_of_SomeD by (fastforce simp: units_ok_def unit_ok_def)
qed

lemma resolved_entry:
  assumes "permutes io" and "cache_ok dw cache"
    and "first_some (\<lambda>(m, cus). type_in_units io cands cus) (io_modules io cache) = Some t"
  shows "\<exists>key\<in>set cands. entry_ok dw (key, t)"
proof -
  from first_some_found [OF assms(3)] obtain m cus where "(m, cus) \<in> set cache" "type_in_units io cands cus = Some t"
    using permutes_sets(2) [OF assms(1)] by auto
  then show ?thesis using type_in_units_ok [OF assms(1)] assms(2) by (auto simp: cache_ok_def)
qed

section \<open>Casts\<close>

text \<open>A cast names an object unless it names a typedef of a pointer.\<close>

definition plain_casts :: "libdw \<Rightarrow> string list \<Rightarrow> bool" where
  "plain_casts dw path \<longleftrightarrow>
     (\<forall>f\<in>set path. \<forall>name t. cast_target f = Some name \<and> d_tag dw t = DW_TAG_typedef \<and>
        d_name dw t \<in> Some ` set (type_candidates name) \<longrightarrow> \<not> pointerish dw t)"

lemma not_pointerish: "\<lbrakk>\<not> pointer_tag (d_tag dw t); \<not> type_wrapper (d_tag dw t)\<rbrakk> \<Longrightarrow> \<not> pointerish dw t"
  by (blast elim: pointerishE)

lemma cached_casts:
  assumes "permutes io" and "cache_ok dw cache" and "plain_casts dw path"
  shows "casts_to_objects dw io cache path"
proof -
  have "\<not> pointerish dw t" if f: "f \<in> set path" "cast_target f = Some name" "resolve_type_name io cache name = Some t"
    for f name t
  proof -
    from resolved_entry [OF assms(1,2) f(3) [unfolded resolve_type_name_def]] obtain key where
      key: "key \<in> set (type_candidates name)" "entry_ok dw (key, t)" by blast
    show ?thesis
    proof (cases "d_tag dw t = DW_TAG_typedef")
      case True
      with key have "d_name dw t \<in> Some ` set (type_candidates name)"
        by (auto simp: entry_ok_def type_key_def cache_type_prefix_def)
      with assms(3) f(1,2) True show ?thesis by (auto simp: plain_casts_def)
    next
      case False
      with key(2) show ?thesis
        by (intro not_pointerish) (auto simp: entry_ok_def named_type_tag_def pointer_tag_def type_wrapper_def)
    qed
  qed
  then show ?thesis by (auto simp: casts_to_objects_def)
qed

end
