(* ===== verification/Dwarf_Calling.thy ===== *)
theory Dwarf_Calling
  imports Dwarf_Paths
begin

text \<open>
  The calling convention: where an argument is, as a function of the classes of the arguments
  before it, and the code's loop over the parameters as an implementation of that.
\<close>

definition int_args :: "(AbiClass \<times> u64) list \<Rightarrow> nat" where
  "int_args args = length (filter (\<lambda>a. fst a = ABI_INTEGER) args)"

text \<open>Stack bytes: aggregates in memory rounded up to eight, and eight for each integer after the sixth.\<close>

definition stack_bytes :: "(AbiClass \<times> u64) list \<Rightarrow> u64" where
  "stack_bytes args =
     sum_list (map (\<lambda>a. round_up8 (snd a)) (filter (\<lambda>a. fst a = ABI_MEMORY) args))
       + 8 * of_nat (int_args args - 6)"

definition convention_slot :: "(AbiClass \<times> u64) list \<Rightarrow> AbiClass \<Rightarrow> abi_slot" where
  "convention_slot before cls =
     (if cls = ABI_INTEGER \<and> int_args before < 6 then InRegister (kIntArgRegs ! int_args before)
      else AtCfa (stack_bytes before))"

definition formals :: "libdw \<Rightarrow> die \<Rightarrow> die list" where
  "formals dw func = filter (\<lambda>c. d_tag dw c = DW_TAG_formal_parameter) (d_children dw func)"

definition arg_class :: "libdw \<Rightarrow> die \<Rightarrow> AbiClass \<times> u64" where
  "arg_class dw c = (case classify_param dw c of Some a \<Rightarrow> a | None \<Rightarrow> (ABI_UNHANDLED, 0))"

lemma abi_slot_formals:
  "abi_slot_of dw target cs n off =
     abi_slot_of dw target (filter (\<lambda>c. d_tag dw c = DW_TAG_formal_parameter) cs) n off"
proof (induction cs arbitrary: n off)
  case (Cons c cs)
  show ?case
    by (cases "classify_param dw c") (auto simp: Cons.IH split: prod.split)
qed simp

lemma int_args_Cons: "int_args (a # as) = (if fst a = ABI_INTEGER then 1 else 0) + int_args as"
  by (simp add: int_args_def)

text \<open>One more argument: how many registers and stack bytes are used then.\<close>

lemma after_argument:
  "min 6 (int_args (before @ [(ABI_INTEGER, sz)])) =
     (if int_args before < 6 then int_args before + 1 else 6)"
  "stack_bytes (before @ [(ABI_INTEGER, sz)]) =
     (if int_args before < 6 then stack_bytes before else stack_bytes before + 8)"
  "int_args (before @ [(ABI_MEMORY, sz)]) = int_args before"
  "stack_bytes (before @ [(ABI_MEMORY, sz)]) = stack_bytes before + round_up8 sz"
  by (simp_all add: int_args_def stack_bytes_def Suc_diff_le not_less algebra_simps)

text \<open>The loop, started after the arguments \<open>before\<close>.\<close>

definition slot_after :: "libdw \<Rightarrow> die \<Rightarrow> (AbiClass \<times> u64) list \<Rightarrow> die list \<Rightarrow> abi_slot option" where
  "slot_after dw target before cs =
     (let pre = map (arg_class dw) (takeWhile (\<lambda>c. c \<noteq> target) cs) in
      if ABI_UNHANDLED \<in> fst ` set (pre @ [arg_class dw target]) then None
      else Some (convention_slot (before @ pre) (fst (arg_class dw target))))"

lemma slot_after_other:
  "\<lbrakk>c \<noteq> target; arg_class dw c = (cl, sz)\<rbrakk> \<Longrightarrow> slot_after dw target before (c # cs) =
    (if cl = ABI_UNHANDLED then None else slot_after dw target (before @ [(cl, sz)]) cs)"
  by (auto simp: slot_after_def Let_def)

lemma slot_after_target:
  "arg_class dw c = (cl, sz) \<Longrightarrow> slot_after dw c before (c # cs) =
    (if cl = ABI_UNHANDLED then None else Some (convention_slot before cl))"
  by (simp add: slot_after_def)

lemma abi_slot_spec:
  assumes "\<forall>c\<in>set cs. d_tag dw c = DW_TAG_formal_parameter \<and> classify_param dw c = Some (arg_class dw c)"
    and "target \<in> set cs"
  shows "abi_slot_of dw target cs (min 6 (int_args before)) (stack_bytes before) = Some (slot_after dw target before cs)"
  using assms
proof (induction cs arbitrary: before)
  case Nil
  then show ?case by simp
next
  case (Cons c cs)
  obtain cl sz where a: "arg_class dw c = (cl, sz)" by force
  have c: "d_tag dw c = DW_TAG_formal_parameter" "classify_param dw c = Some (cl, sz)"
    using Cons.prems(1) a by auto
  show ?case
  proof (cases "c = target")
    case True
    with c a show ?thesis by (cases cl) (auto simp: slot_after_target convention_slot_def)
  next
    case False
    with Cons have IH: "abi_slot_of dw target cs (min 6 (int_args (before @ [(cl, sz)]))) (stack_bytes (before @ [(cl, sz)])) =
      Some (slot_after dw target (before @ [(cl, sz)]) cs)" by simp
    with False c a show ?thesis
      by (cases cl) (auto simp: after_argument slot_after_other split: if_split_asm)
  qed
qed

context path_info
begin

lemma arg_class_known: "classify_param dw c = Some (arg_class dw c)"
  using classify_ends [of c] by (auto simp: arg_class_def)

end

end
