(* ===== verification/Dwarf_Properties.thy ===== *)
theory Dwarf_Properties
  imports Dwarf_Cache Dwarf_Calling
begin

text \<open>
  The properties of the DWARF analysis, applied to a table of debug information that meets the
  laws.
\<close>

section \<open>Laws of a table\<close>

definition row_referents :: "die_table \<Rightarrow> (die \<Rightarrow> nat) \<Rightarrow> die \<Rightarrow> bool" where
  "row_referents tab depth d =
     (let dw = table_dw tab; tag = d_tag dw d in
      (type_wrapper tag \<or> pointer_tag tag \<longrightarrow>
         (case dwarf_die_type dw d of Some r \<Rightarrow> depth r < depth d | None \<Rightarrow> tag = DW_TAG_pointer_type)) \<and>
      (tag = DW_TAG_pointer_type \<and> d_attr_integrate dw d DW_AT_type \<noteq> None \<longrightarrow> dwarf_die_type dw d \<noteq> None))"

definition row_single :: "die_table \<Rightarrow> die \<Rightarrow> bool" where
  "row_single tab d =
     (let dw = table_dw tab in
      pointer_tag (d_tag dw d) \<longrightarrow>
        (case dwarf_die_type dw d of
           None \<Rightarrow> True
         | Some r \<Rightarrow> \<not> pointer_tag (d_tag dw r) \<and> \<not> type_wrapper (d_tag dw r)))"

text \<open>A table whose rows pass the checks: it gives well-formed type information.\<close>

locale debug_table =
  fixes tab :: die_table and ds :: "die list" and depth :: "die \<Rightarrow> nat" and cfi :: cfi_tables
  assumes rows_listed: "table_dies tab ds"
    and rows_layered: "list_all (row_layered tab depth) ds"
    and rows_referents: "list_all (row_referents tab depth) ds"
    and frames_plain: "cfa_ops cfi pc = Some ops \<Longrightarrow> plain_cfa ops"
begin

lemma row_checked: "row_referents tab depth d"
  by (rule all_rows [OF rows_listed rows_referents])
    (simp add: row_referents_def table_dw_def table_tag_def table_children_def no_row_def plain_row_def type_wrapper_def pointer_tag_def)

lemma single_if_rows:
  assumes "list_all (row_single tab) ds"
  shows "single_level (table_dw tab)"
proof -
  have "row_single tab d" for d
    by (rule all_rows [OF rows_listed assms])
      (simp add: row_single_def table_dw_def table_tag_def table_children_def no_row_def plain_row_def pointer_tag_def)
  then have "\<not> pointerish (table_dw tab) r"
    if "pointer_tag (d_tag (table_dw tab) t)" "dwarf_die_type (table_dw tab) t = Some r" for t r
    using that by (subst pointerish.simps) (fastforce simp: row_single_def Let_def)
  then show ?thesis by (auto simp: single_level_def)
qed

end

sublocale debug_table \<subseteq> path_info "table_dw tab" depth cfi
proof (intro path_info.intro path_info_axioms.intro)
  show "type_info (table_dw tab) depth" by (rule table_type_info [OF rows_listed rows_layered])
  show "depth r < depth d"
    if "type_wrapper (d_tag (table_dw tab) d) \<or> pointer_tag (d_tag (table_dw tab) d)"
      "dwarf_die_type (table_dw tab) d = Some r" for d r
    using row_checked [of d] that by (auto simp: row_referents_def Let_def)
  show "dwarf_die_type (table_dw tab) d \<noteq> None" if "type_wrapper (d_tag (table_dw tab) d)" for d
    using row_checked [of d] that by (auto simp: row_referents_def Let_def type_wrapper_def split: option.splits)
  show "dwarf_die_type (table_dw tab) d \<noteq> None"
    if "pointer_tag (d_tag (table_dw tab) d)"
      "d_tag (table_dw tab) d \<noteq> DW_TAG_pointer_type \<or> d_attr_integrate (table_dw tab) d DW_AT_type \<noteq> None" for d
    using row_checked [of d] that by (auto simp: row_referents_def Let_def split: option.splits)
qed (rule frames_plain)

section \<open>An example\<close>

text \<open>
  A class like Ceph's \<open>OSDOp\<close>: it has a base class at offset 16 with a member \<open>indata\<close> at 8, and
  a first member \<open>op\<close> of a qualified structure type, with an anonymous union at 8. A method (40) of
  \<open>Objecter\<close> takes \<open>this\<close>, a pointer \<open>op\<close> whose location is relative to the frame base, and by value
  a request id of 24 bytes and a number. \<open>Op\<close> has a pointer to a connection.
\<close>

definition demo_dies :: "die list" where
  "demo_dies = [1, 2, 3, 5, 6, 7, 8, 9, 10, 11, 12, 13, 14, 20, 40, 41, 42, 49, 39, 43, 44, 45, 46, 47, 48, 50, 51, 52, 54]"

definition demo_table :: die_table where
  "demo_table d =
    (if d = 1 then plain_row DW_TAG_class_type (Some ''OSDOp'') [2, 3] []
     else if d = 2 then plain_row DW_TAG_inheritance None [] [(DW_AT_type, ARef 10), (DW_AT_data_member_location, AConst 16)]
     else if d = 3 then plain_row DW_TAG_member (Some ''op'') [] [(DW_AT_type, ARef 5)]
     else if d = 5 then plain_row DW_TAG_const_type None [] [(DW_AT_type, ARef 6)]
     else if d = 6 then plain_row DW_TAG_structure_type (Some ''ceph_osd_op'') [7, 8] []
     else if d = 7 then plain_row DW_TAG_member (Some ''flags'') [] [(DW_AT_type, ARef 20), (DW_AT_data_member_location, AConst 4)]
     else if d = 8 then plain_row DW_TAG_member None [] [(DW_AT_type, ARef 9), (DW_AT_data_member_location, AConst 8)]
     else if d = 9 then plain_row DW_TAG_union_type None [11] []
     else if d = 10 then plain_row DW_TAG_structure_type (Some ''Base'') [14] []
     else if d = 11 then plain_row DW_TAG_member (Some ''extent'') [] [(DW_AT_type, ARef 12)]
     else if d = 12 then plain_row DW_TAG_structure_type None [13] []
     else if d = 13 then plain_row DW_TAG_member (Some ''len'') [] [(DW_AT_type, ARef 20), (DW_AT_data_member_location, AConst 8)]
     else if d = 14 then plain_row DW_TAG_member (Some ''indata'') [] [(DW_AT_type, ARef 20), (DW_AT_data_member_location, AConst 8)]
     else if d = 20 then (plain_row DW_TAG_base_type (Some ''long'') [] [])\<lparr>dr_size := Some 8\<rparr>
     else if d = 40 then (plain_row DW_TAG_subprogram (Some ''_send_op'') [41, 42, 49, 39] [(DW_AT_frame_base, AExpr [DW_OP_call_frame_cfa])]) \<lparr>dr_pc := Some 4096\<rparr>
     else if d = 41 then plain_row DW_TAG_formal_parameter (Some ''this'') [] [(DW_AT_type, ARef 43)]
     else if d = 42 then plain_row DW_TAG_formal_parameter (Some ''op'') [] [(DW_AT_type, ARef 45), (DW_AT_location, AExpr [DW_OP_fbreg (- 32)])]
     else if d = 49 then plain_row DW_TAG_formal_parameter (Some ''reqid'') [] [(DW_AT_type, ARef 54)]
     else if d = 39 then plain_row DW_TAG_formal_parameter (Some ''num'') [] [(DW_AT_type, ARef 20)]
     else if d = 43 then plain_row DW_TAG_pointer_type None [] [(DW_AT_type, ARef 44)]
     else if d = 44 then plain_row DW_TAG_class_type (Some ''Objecter'') [] []
     else if d = 45 then plain_row DW_TAG_pointer_type None [] [(DW_AT_type, ARef 46)]
     else if d = 46 then plain_row DW_TAG_structure_type (Some ''Op'') [47, 48] []
     else if d = 47 then plain_row DW_TAG_member (Some ''tid'') [] [(DW_AT_type, ARef 20), (DW_AT_data_member_location, AConst 8)]
     else if d = 48 then plain_row DW_TAG_member (Some ''con'') [] [(DW_AT_type, ARef 50), (DW_AT_data_member_location, AConst 16)]
     else if d = 50 then plain_row DW_TAG_pointer_type None [] [(DW_AT_type, ARef 51)]
     else if d = 51 then plain_row DW_TAG_structure_type (Some ''Connection'') [52] []
     else if d = 52 then plain_row DW_TAG_member (Some ''peer'') [] [(DW_AT_type, ARef 20), (DW_AT_data_member_location, AConst 4)]
     else if d = 54 then (plain_row DW_TAG_structure_type (Some ''reqid_t'') [] [])\<lparr>dr_size := Some 24\<rparr>
     else no_row)"

lemma demo_dies: "table_dies demo_table demo_dies"
  by (simp add: table_dies_def demo_table_def demo_dies_def)

definition demo_depth :: "die \<Rightarrow> nat" where
  "demo_depth d = (if d = 1 \<or> d = 5 then 2 else if d \<in> {6, 43, 45, 50} then 1 else 0)"

definition demo_cfi :: cfi_tables where
  "demo_cfi = \<lparr>cfi_debug = None, cfi_eh = Some (\<lambda>pc. Some [DW_OP_breg 7 8])\<rparr>"

interpretation demo_types: debug_table demo_table demo_dies demo_depth demo_cfi
proof
  show "table_dies demo_table demo_dies" by (rule demo_dies)
  show "list_all (row_layered demo_table demo_depth) demo_dies" by code_simp
  show "list_all (row_referents demo_table demo_depth) demo_dies" by code_simp
qed (auto simp: cfa_ops_def demo_cfi_def plain_cfa_def)

lemma demo_single_level: "single_level (table_dw demo_table)"
  by (rule demo_types.single_if_rows) code_simp

lemma demo_offsets:
  "find_member_offset_in (table_dw demo_table) 1 ''indata'' = Some (Some (24, 20))"
  "find_member_offset_in (table_dw demo_table) 6 ''extent'' = Some (Some (8, 12))"
  by code_simp+

section \<open>Member offsets\<close>



section \<open>Member paths\<close>



text \<open>
  The fields recorded for a member path mean what the path means. For a variable on the stack, the
  BPF member walk over them ends at the member that the path denotes when started at the variable;
  for a pointer in a register, at the member it denotes when started at what the pointer points
  to. Each pointer and reference on the way is followed, each member adds its offset, whatever
  memory holds; pointers to pointers are excluded.
\<close>

lemma fields_denote:
  assumes "path_info dw depth cfi" and "single_level dw" and "casts_to_objects dw io cache fs"
    and "ends_in_member (f # fs)" and "cast_target f = None"
    and "translate_fields dw io cache cfi pc t (v # f # fs) = Some (Some fl)" and "val \<noteq> 0"
  shows "(vl_stack loc \<longrightarrow>
      denotes dw io cache cfi pc um t (val + of_int (vl_offset loc)) (f # fs) (path_addr um val loc fl)) \<and>
    (\<not> vl_stack loc \<and> pointerish dw t \<longrightarrow>
      (\<exists>r. pointee dw t r \<and> denotes dw io cache cfi pc um r val (f # fs) (path_addr um val loc fl)))"
proof -
  note law = assms(1)
  have casts: "casts_to_objects dw io cache (f # fs)" using assms(3,5) by simp
  from assms(6) have run: "translate_path dw io cache cfi pc t (f # fs) False [\<lparr>f_offset = 0, f_pointer = False\<rparr>] =
      Some (Some fl)" by (simp add: translate_fields_def)
  have walk: "path_addr um val loc (\<lparr>f_offset = 0, f_pointer = False\<rparr> # f1 # fl') =
      walk_fields um fl' (root_addr um loc f1 val + of_int (f_offset f1))" for f1 fl'
    using assms(7) by (simp add: path_addr_def)
  have "\<exists>f1 fl'. fl = \<lparr>f_offset = 0, f_pointer = False\<rparr> # f1 # fl'"
  proof -
    from path_info.translate_path_means [OF law run assms(2,4) _ casts] obtain xs where
      xs: "fl = \<lparr>f_offset = 0, f_pointer = False\<rparr> # xs" by auto
    moreover have "length fl = 2 + length (field_names fs)"
      using translate_fields_length [OF assms(6)] assms(5) by (simp add: field_names_def)
    ultimately show ?thesis by (cases xs) auto
  qed
  then obtain f1 fl' where fl: "fl = \<lparr>f_offset = 0, f_pointer = False\<rparr> # f1 # fl'" by blast
  have "denotes dw io cache cfi pc um t (val + of_int (vl_offset loc)) (f # fs) (path_addr um val loc fl)"
    if "vl_stack loc"
    using path_info.translate_path_means [OF law run assms(2,4) _ casts] that fl walk
    by (auto simp: path_info.path_means_def [OF law] path_info.walk_at_def [OF law] field_step_def root_addr_def Let_def split: if_splits)
  moreover have "\<exists>r. pointee dw t r \<and> denotes dw io cache cfi pc um r val (f # fs) (path_addr um val loc fl)"
    if reg: "\<not> vl_stack loc" and ptr: "pointerish dw t"
  proof -
    obtain r where r: "pointee dw t r" "translate_path dw io cache cfi pc r (f # fs) True
        [\<lparr>f_offset = 0, f_pointer = False\<rparr>] = Some (Some fl)"
      using path_info.translate_from_pointer [OF law ptr assms(5) run] by blast
    have "\<not> pointerish dw r" by (rule path_info.pointee_single [OF law r(1) assms(2)])
    with path_info.translate_path_means [OF law r(2) assms(2,4) _ casts] have
      "denotes dw io cache cfi pc um r val (f # fs) (walk_fields um fl' (val + of_int (f_offset f1)))"
      by (auto simp: fl path_info.path_means_def [OF law] path_info.walk_at_def [OF law])
    with r(1) walk reg show ?thesis by (auto simp: fl root_addr_def)
  qed
  ultimately show ?thesis by blast
qed

section \<open>Declarations\<close>

text \<open>C19: after the first pass over the added modules, a type that is only declared where a path meets
  it is resolved, if at all, to a complete named type: one that is not a declaration itself, with
  the same name and of the same kind (structures and classes count as one), whatever order the
  hash maps are iterated in.\<close>

theorem declarations_resolve_to_definitions:
  assumes "fold_option (getmodules (preprocess_module pc)) dwfls \<lparr>ps_data = d, ps_cache = []\<rparr> = Some s"
    and "permutes (pc_io pc)"
    and "resolve_typedecl (pc_dw pc) (pc_io pc) (ps_cache s) decl = Some t"
  shows "named_type_tag (d_tag (pc_dw pc) t) \<and> d_attr (pc_dw pc) t DW_AT_declaration = None \<and>
    type_key (pc_dw pc) t = type_key (pc_dw pc) decl \<and> d_name (pc_dw pc) decl \<noteq> None"
proof -
  have ok: "cache_ok (pc_dw pc) (ps_cache s)" using first_pass_cache [OF assms(1)] by (simp add: empty_ok)
  from assms(3) obtain name where name: "d_name (pc_dw pc) decl = Some name"
    and "first_some (\<lambda>(m, cus). type_in_units (pc_io pc) [cache_type_prefix (d_tag (pc_dw pc) decl) @ name] cus)
      (io_modules (pc_io pc) (ps_cache s)) = Some t"
    by (auto simp: resolve_typedecl_def split: option.split_asm)
  from resolved_entry [OF assms(2) ok this(2)] name show ?thesis by (auto simp: entry_ok_def type_key_def)
qed

text \<open>A unit that declares a class \<open>Message\<close> before it defines it.\<close>

definition decl_dies :: "die list" where
  "decl_dies = [1, 2, 3, 4]"

definition decl_table :: die_table where
  "decl_table d =
    (if d = 1 then plain_row DW_TAG_compile_unit (Some ''OSD.cc'') [2, 3] []
     else if d = 2 then plain_row DW_TAG_structure_type (Some ''Message'') [] [(DW_AT_declaration, AFlag)]
     else if d = 3 then plain_row DW_TAG_class_type (Some ''Message'') [4] []
     else if d = 4 then plain_row DW_TAG_member (Some ''data'') [] []
     else no_row)"

lemma decl_dies: "table_dies decl_table decl_dies"
  by (simp add: table_dies_def decl_table_def decl_dies_def)

definition decl_parser :: parser_config where
  "decl_parser = new_DwarfParser (table_dw decl_table) in_order True [] []"

definition decl_module :: dw_module where
  "decl_module = \<lparr>dm_id = 0, dm_path = ''ceph-osd'', dm_units = Some [1], dm_type_units = [],
     dm_funcs = (\<lambda>cu. []), dm_cfi_debug = None, dm_cfi_eh = None, dm_cfi_debug_bias = 0\<rparr>"

lemma decl_pass:
  "fold_option (getmodules (preprocess_module decl_parser)) [[decl_module]] \<lparr>ps_data = empty_dwarf, ps_cache = []\<rparr> =
     Some \<lparr>ps_data = empty_dwarf, ps_cache = [(0, [(1, [(''struct Message'', 3)])])]\<rparr>"
  by code_simp

lemma declarations_resolve_to_definitions_witness:
  "named_type_tag (d_tag (table_dw decl_table) 3) \<and> d_attr (table_dw decl_table) 3 DW_AT_declaration = None \<and>
   type_key (table_dw decl_table) 3 = type_key (table_dw decl_table) 2"
proof -
  have "resolve_typedecl (pc_dw decl_parser) (pc_io decl_parser) [(0, [(1, [(''struct Message'', 3)])])] 2 = Some 3"
    by code_simp
  moreover have "pc_dw decl_parser = table_dw decl_table" "permutes (pc_io decl_parser)"
    by (simp_all add: decl_parser_def permutes_def in_order_def)
  ultimately show ?thesis
    using declarations_resolve_to_definitions [OF decl_pass, of 2 3] by simp
qed

section \<open>Locations\<close>

text \<open>C18: a parameter whose location is relative to the frame base, in a function whose frame base
  is the CFA and whose CFA rule at that address is a register plus an offset, is found on the
  stack at that register, with both offsets added; the unwind table of the debug information is
  asked first, the one for exceptions only when it has no rule.\<close>

theorem frame_base_parameter:
  assumes "d_getscopevar dw func symbol = Some v" and "d_attr_integrate dw v DW_AT_location = Some a"
    and "d_loc dw a pc = Some (DW_OP_fbreg n # rest)" and "d_attr_integrate dw func DW_AT_frame_base = Some fb"
    and "d_loc dw fb pc = Some (DW_OP_call_frame_cfa # rest')"
    and "Option.bind (cfi_debug cfi) (\<lambda>f. f pc) = cfa1" and "Option.bind (cfi_eh cfi) (\<lambda>f. f pc) = cfa2"
    and "(if cfa1 = None then cfa2 else cfa1) = Some (DW_OP_breg r off # rest'')"
  shows "translate_param_location dw cfi x86_64 func symbol pc =
    Some (Some (v, \<lparr>vl_reg = uint r, vl_offset = to_c_int (to_c_int (uint off) + uint n), vl_stack = True\<rparr>))"
proof -
  have "cfa_ops cfi pc = Some (DW_OP_breg r off # rest'')"
    using assms(6-8) by (auto simp: cfa_ops_def split: if_splits option.splits)
  then have "translate_expr dw cfi (Some fb) (DW_OP_call_frame_cfa # rest') pc loc =
      Some (Some (set_breg (uint r) off loc))" for loc
    by (simp add: translate_expr.simps [of _ _ _ "_ # _"])
  then have "translate_expr dw cfi (Some fb) (DW_OP_fbreg n # rest) pc loc =
      Some (Some (on_stack n (set_breg (uint r) off loc)))" for loc
    using assms(5) by (subst translate_expr.simps) simp
  with assms(1-4) show ?thesis
    by (simp add: translate_param_location_def find_param_def find_func_frame_base_def on_stack_def set_breg_def
        VarLocation_init_def)
qed

lemma frame_base_parameter_witness:
  "translate_param_location (table_dw demo_table) demo_cfi True 40 ''op'' 4096 =
     Some (Some (42, \<lparr>vl_reg = 7, vl_offset = - 24, vl_stack = True\<rparr>))"
proof -
  have "d_getscopevar (table_dw demo_table) 40 ''op'' = Some 42"
    "d_attr_integrate (table_dw demo_table) 42 DW_AT_location = Some 420"
    "d_loc (table_dw demo_table) 420 4096 = Some [DW_OP_fbreg (- 32)]"
    "d_attr_integrate (table_dw demo_table) 40 DW_AT_frame_base = Some 406"
    "d_loc (table_dw demo_table) 406 4096 = Some [DW_OP_call_frame_cfa]" by code_simp+
  moreover have "Option.bind (cfi_debug demo_cfi) (\<lambda>f. f 4096) = None"
    "Option.bind (cfi_eh demo_cfi) (\<lambda>f. f 4096) = Some [DW_OP_breg 7 8]" by (simp_all add: demo_cfi_def)
  moreover have "to_c_int (to_c_int (uint (8 :: u64)) + uint (- 32 :: u64)) = - 24" by code_simp
  ultimately show ?thesis
    using frame_base_parameter [of "table_dw demo_table" 40 "''op''" 42 420 4096 "- 32" "[]" 406 "[]" demo_cfi
        None "Some [DW_OP_breg 7 8]" 7 8 "[]" True] by simp
qed

section \<open>The calling convention\<close>



end
