(* ===== verification/Dwarf_Recorded.thy ===== *)
theory Dwarf_Recorded
  imports Dwarf_Paths Dwarf_Cache
begin

text \<open>
  What the analysis records: an entry only for a probed function, with one variable per path of
  the probe and one field per name of the path, an address for each, and no function twice.
  Every step keeps this, so the data of an analysed binary fits the tables of the probes.
\<close>

definition module_cfi :: "dw_module \<Rightarrow> cfi_tables" where
  "module_cfi md = \<lparr>cfi_debug = dm_cfi_debug md, cfi_eh = dm_cfi_eh md\<rparr>"

definition from_path ::
  "parser_config \<Rightarrow> dw_module set \<Rightarrow> string list \<Rightarrow> UVarField \<Rightarrow> bool" where
  "from_path pc mds path vf \<longleftrightarrow>
     (\<exists>md\<in>mds. \<exists>cache func addr. cache_ok (pc_dw pc) cache \<and>
        probe_var pc cache (module_cfi md) func addr path = Some vf)"

text \<open>The four tables: sorted by name in each module, and a module is one of the analysed.\<close>

definition table_in :: "string set \<Rightarrow> 'a smap smap \<Rightarrow> bool" where
  "table_in names T \<longleftrightarrow> (\<forall>m. smap_ok (smap_at T m)) \<and> fst ` set T \<subseteq> names"

lemma table_in_put2: "\<lbrakk>table_in names T; m \<in> names\<rbrakk> \<Longrightarrow> table_in names (put2 m k v T)"
  by (simp add: table_in_def put2_def smap_ok_put)

lemma table_in_Nil [simp]: "table_in names []"
  by (simp add: table_in_def)

definition basenames :: "dw_module set \<Rightarrow> string set" where
  "basenames mds = (\<lambda>md. get_basename (dm_path md)) ` mds"

lemma in_basenames: "md \<in> mds \<Longrightarrow> get_basename (dm_path md) \<in> basenames mds"
  by (simp add: basenames_def)

definition recorded_ok :: "parser_config \<Rightarrow> dw_module set \<Rightarrow> dwarf_data \<Rightarrow> bool" where
  "recorded_ok pc mds d \<longleftrightarrow>
     table_in (basenames mds) (mod_func2pc d) \<and> table_in (basenames mds) (mod_func2vf d) \<and>
     table_in (basenames mds) (mod_type_sizes d) \<and> table_in (basenames mds) (mod_member_offsets d) \<and>
     (\<forall>m f. (look2 (mod_func2pc d) m f = None \<longleftrightarrow> look2 (mod_func2vf d) m f = None) \<and>
       (\<forall>vfs. look2 (mod_func2vf d) m f = Some vfs \<longrightarrow>
          (\<exists>paths. map_of (pc_probes pc) f = Some paths \<and> list_all2 (from_path pc mds) paths vfs)))"

text \<open>The steps of \<open>probe_var\<close> when it succeeds.\<close>

lemma probe_var_parts:
  assumes "probe_var pc cache cfi func addr path = Some vf"
  obtains v members vardie t where "path = v # members"
    "translate_param_location (pc_dw pc) cfi (pc_x86_64 pc) func v addr = Some (Some (vardie, uv_varloc vf))"
    "dwarf_die_type (pc_dw pc) vardie = Some t"
    "translate_fields (pc_dw pc) (pc_io pc) cache cfi addr t path = Some (Some (uv_fields vf))"
  using assms by (auto simp: probe_var_def split: list.split_asm option.split_asm)

lemma from_path_length: "from_path pc mds path vf \<Longrightarrow> length (uv_fields vf) = 1 + length (field_names (drop 1 path))"
  by (auto simp: from_path_def elim!: probe_var_parts dest: translate_fields_length)

lemma all_some_list_all2: "all_some g xs = Some ys \<Longrightarrow> (\<And>x y. g x = Some y \<Longrightarrow> P x y) \<Longrightarrow> list_all2 P xs ys"
proof (induction xs arbitrary: ys)
  case (Cons x xs)
  then show ?case by (auto split: option.splits)
qed simp

lemma record_function_ok:
  "\<lbrakk>recorded_ok pc mds d; m \<in> basenames mds; map_of (pc_probes pc) f = Some paths;
    list_all2 (from_path pc mds) paths vfs\<rbrakk>
    \<Longrightarrow> recorded_ok pc mds (record_function m f addr vfs d)"
  by (simp add: recorded_ok_def record_function_def table_in_put2)

text \<open>A function either leaves the state alone, or is a probed one and recorded with its variables.\<close>

lemma handle_function_cases:
  assumes "handle_function pc m cu cfi d s = Some s'"
  obtains "s' = s"
  | fullname paths addr vfs where "map_of (pc_probes pc) fullname = Some paths"
      "all_some (probe_var pc (ps_cache s) cfi d addr) paths = Some vfs"
      "s' = s\<lparr>ps_data := record_function m fullname addr vfs (ps_data s)\<rparr>"
proof (cases "d_name (pc_dw pc) d")
  case None
  with assms show ?thesis by (simp add: handle_function_def)
next
  case (Some funcname)
  note fn = Some
  show ?thesis
  proof (cases "filter_func (pc_probes pc) funcname")
    case False
    with assms fn that(1) show ?thesis by (simp add: handle_function_def)
  next
    case True
    with assms fn obtain fullname where q: "qualified_name (pc_dw pc) d funcname = Some fullname"
      by (cases "qualified_name (pc_dw pc) d funcname") (simp_all add: handle_function_def)
    show ?thesis
    proof (cases "map_of (pc_probes pc) fullname")
      case None
      with assms fn True q that(1) show ?thesis by (simp add: handle_function_def)
    next
      case (Some paths)
      have run: "(if d_func_inline (pc_dw pc) d then Some s
          else Option.bind (find_prologue (pc_dw pc) cu d) (\<lambda>r. case r of
            None \<Rightarrow> Some s
          | Some addr \<Rightarrow>
              map_option (\<lambda>vfs. s\<lparr>ps_data := record_function m fullname addr vfs (ps_data s)\<rparr>)
                (all_some (probe_var pc (ps_cache s) cfi d addr) paths))) = Some s'"
        using assms by (simp add: handle_function_def Let_def fn True q Some)
      then obtain r where r: "d_func_inline (pc_dw pc) d \<or> find_prologue (pc_dw pc) cu d = Some r"
        by (cases "find_prologue (pc_dw pc) cu d") (auto split: if_split_asm)
      show ?thesis
      proof (cases "d_func_inline (pc_dw pc) d \<or> r = None")
        case True
        with r have "d_func_inline (pc_dw pc) d \<or> find_prologue (pc_dw pc) cu d = Some None" by auto
        with run have "s' = s" by (auto split: if_split_asm)
        then show ?thesis by (rule that(1))
      next
        case False
        with r obtain addr where "find_prologue (pc_dw pc) cu d = Some (Some addr)" by auto
        with run False that(2) [OF Some] show ?thesis by auto
      qed
    qed
  qed
qed

definition state_ok :: "parser_config \<Rightarrow> dw_module set \<Rightarrow> parser_state \<Rightarrow> bool" where
  "state_ok pc mds s \<longleftrightarrow> recorded_ok pc mds (ps_data s) \<and> cache_ok (pc_dw pc) (ps_cache s)"

lemma handle_function_ok:
  assumes "handle_function pc (get_basename (dm_path md)) cu (module_cfi md) d s = Some s'"
    and "state_ok pc mds s" and "md \<in> mds"
  shows "state_ok pc mds s'"
  using assms(1)
proof (rule handle_function_cases)
  fix fullname paths addr vfs
  assume paths: "map_of (pc_probes pc) fullname = Some paths"
    and vfs: "all_some (probe_var pc (ps_cache s) (module_cfi md) d addr) paths = Some vfs"
    and s': "s' = s\<lparr>ps_data := record_function (get_basename (dm_path md)) fullname addr vfs (ps_data s)\<rparr>"
  have "list_all2 (from_path pc mds) paths vfs"
    by (rule all_some_list_all2 [OF vfs]) (use assms(2,3) in \<open>auto simp: from_path_def state_ok_def\<close>)
  moreover note in_basenames [OF assms(3)]
  ultimately show ?thesis using record_function_ok [OF _ _ paths] assms(2) s' by (simp add: state_ok_def)
qed (use assms(2) in simp)

lemma handle_unit_ok:
  "\<lbrakk>handle_unit pc md cu s = Some s'; state_ok pc mds s; md \<in> mds\<rbrakk> \<Longrightarrow> state_ok pc mds s'"
  by (auto simp: handle_unit_def Let_def simp flip: module_cfi_def split: if_split_asm
      elim!: fold_option_keeps [where P = "state_ok pc mds"] handle_function_ok)

lemma handle_module_ok:
  "\<lbrakk>handle_module pc md s = Some (b, s'); state_ok pc mds s; md \<in> mds\<rbrakk> \<Longrightarrow> state_ok pc mds s'"
  by (auto simp: handle_module_def split: option.split_asm
      elim!: fold_option_keeps [where P = "state_ok pc mds"] handle_unit_ok)

lemma recorded_ok_path: "recorded_ok pc mds (d\<lparr>mod_path := c\<rparr>) = recorded_ok pc mds d"
  by (simp add: recorded_ok_def)

lemma record_requests_ok:
  "\<lbrakk>record_size pc md n s = Some s'; state_ok pc mds s; md \<in> mds\<rbrakk> \<Longrightarrow> state_ok pc mds s'"
  "\<lbrakk>record_offset pc md req s = Some s'; state_ok pc mds s; md \<in> mds\<rbrakk> \<Longrightarrow> state_ok pc mds s'"
  by (auto simp: record_size_def record_offset_def recorded_ok_def state_ok_def table_in_put2 in_basenames
      split: if_split_asm)

lemma preprocess_module_ok:
  assumes "preprocess_module pc md s = Some (b, s')" and "state_ok pc mds s" and "md \<in> mds"
  shows "state_ok pc mds s'"
proof -
  from assms(2) have "state_ok pc mds (s\<lparr>ps_cache := traverse_module (pc_dw pc) md units (ps_cache s)\<rparr>)" for units
    by (simp add: state_ok_def traverse_module_ok)
  then show ?thesis
    by (rule preprocess_module_keeps [where P = "state_ok pc mds", OF assms(1,2)])
      (erule (1) record_requests_ok, rule assms(3))+
qed

lemma parse_ok:
  assumes "parse pc dwfls s = Some s'" and "state_ok pc mds s"
    and "\<forall>l\<in>set dwfls. set l \<subseteq> mds"
  shows "state_ok pc mds s'"
proof -
  from assms(1) obtain s1 where
    pre: "fold_option (getmodules (preprocess_module pc)) dwfls s = Some s1" and
    hdl: "fold_option (getmodules (handle_module pc)) dwfls s1 = Some s'"
    by (auto simp: parse_def bind_eq_Some_conv)
  from pre assms(2) have "state_ok pc mds s1"
    by (rule fold_option_keeps) (erule (1) getmodules_keeps, erule (1) preprocess_module_ok, use assms(3) in auto)
  with hdl show ?thesis
    by (rule fold_option_keeps) (erule (1) getmodules_keeps, erule (1) handle_module_ok, use assms(3) in auto)
qed

lemma add_modules_ok:
  "recorded_ok pc mds (snd (fold (add_module g) paths (dwfls, d))) = recorded_ok pc mds d"
  "fst (fold (add_module g) paths (dwfls, d)) = dwfls @ map g paths"
  by (induction paths arbitrary: dwfls d) (simp_all add: add_module_def recorded_ok_path)

lemma analyse_modules_ok:
  assumes "analyse_modules pc g paths d = Some d'" and "recorded_ok pc mds d"
    and "\<forall>path\<in>set paths. set (g path) \<subseteq> mds"
  shows "recorded_ok pc mds d'"
proof -
  obtain dwfls d1 where added: "fold (add_module g) paths ([], d) = (dwfls, d1)" by force
  with add_modules_ok(1) [of pc mds g paths "[]" d] add_modules_ok(2) [of g paths "[]" d] assms(2) have
    "state_ok pc mds \<lparr>ps_data = d1, ps_cache = []\<rparr>" and opened: "dwfls = map g paths"
    by (auto simp: state_ok_def empty_ok)
  moreover from assms(1) added obtain s' where
    "parse pc dwfls \<lparr>ps_data = d1, ps_cache = []\<rparr> = Some s'" and "d' = ps_data s'"
    by (auto simp: analyse_modules_def)
  ultimately show ?thesis using parse_ok [of pc dwfls _ s' mds] assms(3) by (auto simp: state_ok_def)
qed

lemma recorded_ok_empty: "recorded_ok pc mds empty_dwarf"
  by (simp add: recorded_ok_def empty_dwarf_def)

lemma recorded_entry:
  assumes "recorded_ok pc mds d" and "look2 (mod_func2vf d) m f = Some vfs"
  obtains paths where "map_of (pc_probes pc) f = Some paths" "list_all2 (from_path pc mds) paths vfs"
  using assms unfolding recorded_ok_def by blast

end
