(* ===== verification/Osd_Tables.thy ===== *)
theory Osd_Tables
  imports Osd_Probes Dwarf_Data
begin

text \<open>
  The tables that tie osdtrace's two halves together (\<open>src/osdtrace.cc\<close>): the first variable id
  of each traced function, the BPF program of each, the DWARF paths of its variables and the
  probes attached per mode; and the loading of the variable table into the BPF map.
\<close>

definition probe_units :: "string list" where
  "probe_units = [''OpRequest.cc'', ''OSD.cc'', ''BlueStore.cc'', ''PrimaryLogPG.cc'',
     ''ReplicatedBackend.cc'', ''ECBackend.cc'']"

definition func_id :: "(string \<times> int) list" where
  "func_id = [
     (''OSD::enqueue_op'', 0),
     (''OSD::dequeue_op'', 10),
     (''PrimaryLogPG::execute_ctx'', 20),
     (''ReplicatedBackend::submit_transaction'', 30),
     (''BlueStore::queue_transactions'', 40),
     (''BlueStore::_do_write'', 50),
     (''BlueStore::_wctx_finish'', 60),
     (''BlueStore::_txc_state_proc'', 70),
     (''BlueStore::_txc_apply_kv'', 80),
     (''PrimaryLogPG::log_op_stats'', 90),
     (''ReplicatedBackend::generate_subop'', 100),
     (''ReplicatedBackend::do_repop_reply'', 110),
     (''OpRequest::mark_flag_point_string'', 120),
     (''BlueStore::log_latency'', 130),
     (''log_subop_stats'', 140),
     (''ECBackend::submit_transaction'', 150),
     (''BlueStore::_txc_calc_cost'', 160),
     (''ReplicatedBackend::repop_commit'', 170),
     (''OpRequest::mark_flag_point'', 180),
     (''BlueStore::log_latency_fn'', 190),
     (''BlueStore::_txc_add_transaction'', 200)]"

definition func_progid :: "(string \<times> int) list" where
  "func_progid = [
     (''OSD::enqueue_op'', 0),
     (''OSD::dequeue_op'', 1),
     (''PrimaryLogPG::execute_ctx'', 2),
     (''ReplicatedBackend::submit_transaction'', 3),
     (''BlueStore::queue_transactions'', 4),
     (''BlueStore::_do_write'', 5),
     (''BlueStore::_wctx_finish'', 6),
     (''BlueStore::_txc_state_proc'', 7),
     (''PrimaryLogPG::log_op_stats'', 8),
     (''PrimaryLogPG::log_op_stats_v2'', 9),
     (''ReplicatedBackend::generate_subop'', 10),
     (''ReplicatedBackend::do_repop_reply'', 11),
     (''OpRequest::mark_flag_point_string'', 12),
     (''BlueStore::log_latency'', 13),
     (''log_subop_stats'', 14),
     (''ECBackend::submit_transaction'', 15),
     (''BlueStore::_txc_calc_cost'', 16),
     (''ReplicatedBackend::repop_commit'', 17),
     (''OpRequest::mark_flag_point'', 18),
     (''BlueStore::log_latency_fn'', 19),
     (''BlueStore::_txc_add_transaction'', 20)]"

definition osd_probes :: "(string \<times> string list list) list" where
  "osd_probes = [
     (''OSD::enqueue_op'',
      [[''op'', ''px'', ''request'', ''header'', ''type''],
       [''op'', ''px'', ''reqid'', ''name'', ''_num''],
       [''op'', ''px'', ''reqid'', ''tid''],
       [''op'', ''px'', ''request'', ''recv_stamp''],
       [''op'', ''px'', ''request'', ''throttle_stamp''],
       [''op'', ''px'', ''request'', ''recv_complete_stamp''],
       [''op'', ''px'', ''request'', ''dispatch_stamp'']]),
     (''OSD::dequeue_op'',
      [[''op'', ''px'', ''request'', ''header'', ''type''],
       [''op'', ''px'', ''reqid'', ''name'', ''_num''],
       [''op'', ''px'', ''reqid'', ''tid''],
       [''pg'', ''px'', ''pg_id'', ''pgid'', ''m_pool''],
       [''pg'', ''px'', ''pg_id'', ''pgid'', ''m_seed'']]),
     (''PrimaryLogPG::execute_ctx'',
      [[''ctx'', ''reqid'', ''name'', ''_num''],
       [''ctx'', ''reqid'', ''tid''],
       [''ctx'', ''new_obs'', ''oi'', ''soid'', ''oid'', ''name'', ''_M_string_length''],
       [''ctx'', ''new_obs'', ''oi'', ''soid'', ''oid'', ''name'', ''_M_dataplus'', ''_M_p''],
       [''ctx'', ''ops'', ''_M_impl'', ''_M_start''],
       [''ctx'', ''ops'', ''_M_impl'', ''_M_finish'']]),
     (''ReplicatedBackend::submit_transaction'',
      [[''reqid'', ''name'', ''_num''], [''reqid'', ''tid'']]),
     (''BlueStore::queue_transactions'', []),
     (''BlueStore::_do_write'', []),
     (''BlueStore::_wctx_finish'',
      [[''txc'', ''osr'', ''px'', ''sequencer_id''], [''txc'', ''start'', ''__d'', ''__r'']]),
     (''BlueStore::_txc_calc_cost'',
      [[''txc'', ''osr'', ''px'', ''sequencer_id''], [''txc'', ''start'', ''__d'', ''__r'']]),
     (''BlueStore::_txc_state_proc'',
      [[''txc'', ''osr'', ''px'', ''sequencer_id''],
       [''txc'', ''start'', ''__d'', ''__r''],
       [''txc'', ''state''],
       [''txc'', ''ioc'', ''num_pending'']]),
     (''BlueStore::_txc_apply_kv'', [[''txc'', ''state'']]),
     (''PrimaryLogPG::log_op_stats'',
      [[''op'', ''reqid'', ''name'', ''_num''],
       [''op'', ''reqid'', ''tid''],
       [''inb''],
       [''outb''],
       [''op'', ''request'', ''recv_stamp''],
       [''op'', ''request'', ''header'', ''type'']]),
     (''ReplicatedBackend::generate_subop'',
      [[''reqid'', ''name'', ''_num''], [''reqid'', ''tid''], [''peer'', ''osd'']]),
     (''ReplicatedBackend::do_repop_reply'',
      [[''op'', ''px'', ''reqid'', ''name'', ''_num''],
       [''op'', ''px'', ''reqid'', ''tid''],
       [''op'', ''px'', ''request'', ''header'', ''src'', ''num'']]),
     (''OpRequest::mark_flag_point_string'',
      [[''flag''],
       [''this'', ''reqid'', ''name'', ''_num''],
       [''this'', ''reqid'', ''tid''],
       [''s'', ''_M_string_length''],
       [''s'', ''_M_dataplus'', ''_M_p'']]),
     (''BlueStore::log_latency'', [[''idx''], [''l'', ''__r'']]),
     (''BlueStore::log_latency_fn'', [[''idx''], [''l'', ''__r'']]),
     (''log_subop_stats'',
      [[''op'', ''px'', ''reqid'', ''name'', ''_num''],
       [''op'', ''px'', ''reqid'', ''tid''],
       [''op'', ''px'', ''request'', ''data'', ''_len'']]),
     (''ECBackend::submit_transaction'',
      [[''reqid'', ''name'', ''_num''], [''reqid'', ''tid'']]),
     (''ReplicatedBackend::repop_commit'',
      [[''rm'', ''_M_ptr'', ''op'', ''px'', ''reqid'', ''name'', ''_num''],
       [''rm'', ''_M_ptr'', ''op'', ''px'', ''reqid'', ''tid''],
       [''rm'', ''_M_ptr'', ''op'', ''px'', ''request'', ''data'', ''_len''],
       [''rm'', ''_M_ptr'', ''op'', ''px'', ''request'', ''cast:MOSDRepOp'', ''poid'', ''oid'',
        ''name'', ''_M_string_length''],
       [''rm'', ''_M_ptr'', ''op'', ''px'', ''request'', ''cast:MOSDRepOp'', ''poid'', ''oid'',
        ''name'', ''_M_dataplus'', ''_M_p'']]),
     (''OpRequest::mark_flag_point'',
      [[''flag''], [''this'', ''reqid'', ''name'', ''_num''], [''this'', ''reqid'', ''tid'']]),
     (''BlueStore::_txc_add_transaction'',
      [[''t'', ''data'', ''ops''], [''t'', ''op_bl'', ''_carriage''], [''t'', ''op_bl'', ''_num'']])]"

section \<open>The attach list\<close>

record AttachEntry =
  ae_func :: string
  ae_mode :: int
  ae_exact :: bool
  ae_v :: int

definition attach_entry :: "string \<Rightarrow> int \<Rightarrow> bool \<Rightarrow> int \<Rightarrow> AttachEntry" where
  "attach_entry f m e v = \<lparr>ae_func = f, ae_mode = m, ae_exact = e, ae_v = v\<rparr>"

text \<open>Modes: 1 is \<open>OP_SINGLE_PROBE\<close>, 2 \<open>OP_FULL_PROBE\<close>, 4 \<open>BLUESTORE_PROBE\<close>.\<close>

definition ATTACH_LIST :: "AttachEntry list" where
  "ATTACH_LIST = [
     attach_entry ''PrimaryLogPG::log_op_stats'' 1 True 2,
     attach_entry ''OSD::dequeue_op'' 2 False 0,
     attach_entry ''PrimaryLogPG::execute_ctx'' 2 False 0,
     attach_entry ''ReplicatedBackend::submit_transaction'' 2 False 0,
     attach_entry ''ECBackend::submit_transaction'' 2 False 0,
     attach_entry ''OpRequest::mark_flag_point_string'' 2 False 0,
     attach_entry ''OpRequest::mark_flag_point'' 2 False 0,
     attach_entry ''ReplicatedBackend::generate_subop'' 2 False 0,
     attach_entry ''ReplicatedBackend::do_repop_reply'' 2 False 0,
     attach_entry ''BlueStore::queue_transactions'' 2 False 0,
     attach_entry ''BlueStore::_txc_calc_cost'' 2 False 0,
     attach_entry ''BlueStore::_txc_state_proc'' 2 False 0,
     attach_entry ''BlueStore::_txc_add_transaction'' 2 False 0,
     attach_entry ''PrimaryLogPG::log_op_stats'' 2 False 0,
     attach_entry ''ReplicatedBackend::repop_commit'' 2 False 0,
     attach_entry ''OSD::enqueue_op'' 2 False 0,
     attach_entry ''BlueStore::log_latency'' 4 False 0,
     attach_entry ''BlueStore::log_latency_fn'' 4 False 0]"

definition entry_enabled :: "int \<Rightarrow> AttachEntry \<Rightarrow> bool" where
  "entry_enabled probe_mode e =
     (if ae_exact e then probe_mode = ae_mode e else probe_mode AND ae_mode e \<noteq> 0)"

text \<open>\<open>func_progid[funcname]\<close>, with the version suffix; an unknown name reads as 0.\<close>

definition map_index :: "(string \<times> int) list \<Rightarrow> string \<Rightarrow> int" where
  "map_index t f = (case map_of t f of Some i \<Rightarrow> i | None \<Rightarrow> 0)"

definition prog_name :: "string \<Rightarrow> int \<Rightarrow> string" where
  "prog_name funcname v = (if 0 < v then funcname @ ''_v'' @ show_int v else funcname)"

section \<open>Filling the variable map\<close>

text \<open>
  One \<open>VarField_Kernel\<close>: the C structure has ten field slots and is not initialised, so the
  slots beyond the copied fields hold whatever the stack held (\<open>junk\<close>).
\<close>

definition kernel_varfield :: "(nat \<Rightarrow> Field) \<Rightarrow> UVarField \<Rightarrow> VarField" where
  "kernel_varfield junk vf =
     \<lparr>vf_varloc = uv_varloc vf,
      vf_fields = uv_fields vf @ map junk [length (uv_fields vf)..<10],
      vf_size = int (length (uv_fields vf))\<rparr>"

fun fill_vars :: "(nat \<Rightarrow> Field) \<Rightarrow> int \<Rightarrow> UVarField list \<Rightarrow> hprobes \<Rightarrow> hprobes" where
  "fill_vars junk key_idx [] hp = hp"
| "fill_vars junk key_idx (vf # vfs) hp =
     fill_vars junk (key_idx + 1) vfs (hp(key_idx \<mapsto> kernel_varfield junk vf))"

definition fill_map_hprobes :: "(nat \<Rightarrow> Field) \<Rightarrow> string \<Rightarrow> dwarf_data \<Rightarrow> hprobes \<Rightarrow> hprobes" where
  "fill_map_hprobes junk path d hp =
     fold (\<lambda>(funcname, vfs). fill_vars junk (map_index func_id funcname) vfs)
       (smap_at (mod_func2vf d) (get_basename path)) hp"

section \<open>What the tables guarantee\<close>

lemma fill_vars_at:
  "fill_vars junk k vfs hp i =
     (if k \<le> i \<and> i < k + int (length vfs) then Some (kernel_varfield junk (vfs ! nat (i - k))) else hp i)"
proof (induction junk k vfs hp rule: fill_vars.induct)
  case (1 junk k hp)
  then show ?case by auto
next
  case (2 junk k vf vfs hp)
  have "nat (i - k) = Suc (nat (i - (k + 1)))" if "k < i" using that by simp
  then show ?case by (auto simp: "2.IH")
qed

lemma func_id_spaced:
  "list_all (\<lambda>(f, a). list_all (\<lambda>(g, b). f = g \<or> a + 10 \<le> b \<or> b + 10 \<le> a) func_id) func_id"
  by code_simp

lemma func_id_apart:
  assumes "map_of func_id f = Some a" and "map_of func_id g = Some b" and "f \<noteq> g"
  shows "a + 10 \<le> b \<or> b + 10 \<le> a"
  using func_id_spaced map_of_SomeD [OF assms(1)] map_of_SomeD [OF assms(2)] assms(3)
  by (fastforce simp: list_all_iff)

lemma fill_fold:
  assumes "distinct (map fst fs)" and "(f, vfs) \<in> set fs" and "i < length vfs"
    and "\<forall>(g, ws)\<in>set fs. map_of func_id g \<noteq> None \<and> length ws \<le> 10"
  shows "fold (\<lambda>(g, ws). fill_vars junk (map_index func_id g) ws) fs hp (map_index func_id f + int i)
    = Some (kernel_varfield junk (vfs ! i))"
  using assms
proof (induction fs arbitrary: hp)
  case Nil
  then show ?case by simp
next
  case (Cons gw fs)
  obtain g ws where gw: "gw = (g, ws)" by (cases gw)
  let ?k = "map_index func_id f + int i"
  have keep: "fold (\<lambda>(g, ws). fill_vars junk (map_index func_id g) ws) xs h ?k = h ?k"
    if "f \<notin> fst ` set xs" "set xs \<subseteq> set (gw # fs)" for xs h
    using that
  proof (induction xs arbitrary: h)
    case Nil
    then show ?case by simp
  next
    case (Cons x xs)
    obtain g' ws' where x: "x = (g', ws')" by (cases x)
    from Cons.prems x have ne: "g' \<noteq> f" and mem: "(g', ws') \<in> set (gw # fs)" by auto
    have "\<forall>(g, ws)\<in>set (gw # fs). map_of func_id g \<noteq> None \<and> length ws \<le> 10"
      using \<open>\<forall>(g, ws)\<in>set (gw # fs). map_of func_id g \<noteq> None \<and> length ws \<le> 10\<close> .
    with mem obtain a where a: "map_of func_id g' = Some a" and l: "length ws' \<le> 10" by fastforce
    obtain b where b: "map_of func_id f = Some b" and lf: "length vfs \<le> 10"
      using \<open>(f, vfs) \<in> set (gw # fs)\<close>
        \<open>\<forall>(g, ws)\<in>set (gw # fs). map_of func_id g \<noteq> None \<and> length ws \<le> 10\<close> by fastforce
    have "fill_vars junk (map_index func_id g') ws' h ?k = h ?k"
      using func_id_apart [OF a b ne] l lf \<open>i < length vfs\<close>
      by (auto simp: fill_vars_at map_index_def a b)
    with Cons x show ?case by simp
  qed
  show ?case
  proof (cases "g = f")
    case True
    with Cons.prems(1,2) gw have ws: "ws = vfs" and f: "f \<notin> fst ` set fs"
      by (auto simp: image_iff)
    have "fill_vars junk (map_index func_id f) vfs hp ?k = Some (kernel_varfield junk (vfs ! i))"
      using Cons.prems(3) by (simp add: fill_vars_at)
    with keep [OF f, of "fill_vars junk (map_index func_id f) vfs hp"] ws True gw show ?thesis
      by auto
  next
    case False
    with Cons gw show ?thesis by auto
  qed
qed

lemma fill_map_at:
  assumes "distinct (map fst (smap_at (mod_func2vf d) (get_basename path)))"
    and "(f, vfs) \<in> set (smap_at (mod_func2vf d) (get_basename path))" and "i < length vfs"
    and "\<forall>(g, ws)\<in>set (smap_at (mod_func2vf d) (get_basename path)).
      map_of func_id g \<noteq> None \<and> length ws \<le> 10"
  shows "fill_map_hprobes junk path d hp (map_index func_id f + int i) = Some (kernel_varfield junk (vfs ! i))"
  unfolding fill_map_hprobes_def by (rule fill_fold [OF assms])

lemma kernel_varfield_addr:
  assumes "2 \<le> length (uv_fields vf)" and "length (uv_fields vf) \<le> 10"
  shows "fetch_var_member_addr um v (kernel_varfield junk vf) =
    path_addr um v (uv_varloc vf) (uv_fields vf)"
  using fetch_is_path_addr [of "kernel_varfield junk vf" um v] assms
  by (simp add: kernel_varfield_def)

text \<open>A probe variable reads the bytes at the end of its DWARF path: after the table of a binary
  has been loaded into the BPF map, reading variable \<open>i\<close> of a function follows exactly the
  fields recorded for it, from the recorded register or stack slot, whatever the uninitialised
  slots of the kernel structure held.\<close>

lemma probe_variable_follows_path:
  assumes "distinct (map fst (smap_at (mod_func2vf d) (get_basename path)))"
    and "(f, vfs) \<in> set (smap_at (mod_func2vf d) (get_basename path))" and "i < length vfs"
    and "\<forall>(g, ws)\<in>set (smap_at (mod_func2vf d) (get_basename path)).
      map_of func_id g \<noteq> None \<and> length ws \<le> 10"
    and "2 \<le> length (uv_fields (vfs ! i))" and "length (uv_fields (vfs ! i)) \<le> 10"
  shows "read_hprobe_varfield e (fill_map_hprobes junk path d hp) (map_index func_id f + int i) n =
    Some (read_user (e_mem e)
      (path_addr (e_mem e) (fetch_register (e_regs e) (vl_reg (uv_varloc (vfs ! i))))
         (uv_varloc (vfs ! i)) (uv_fields (vfs ! i))) n)"
  using fill_map_at [OF assms(1-4)] kernel_varfield_addr [OF assms(5,6)]
  by (simp add: read_hprobe_varfield_def kernel_varfield_def)

definition table_dwarf :: dwarf_data where
  "table_dwarf = empty_dwarf\<lparr>mod_func2vf := [(''ceph-osd'', [(''OSD::dequeue_op'',
     [\<lparr>uv_varloc = \<lparr>vl_reg = 5, vl_offset = 0, vl_stack = False\<rparr>,
       uv_fields = [\<lparr>f_offset = 0, f_pointer = False\<rparr>, \<lparr>f_offset = 16, f_pointer = False\<rparr>]\<rparr>])])]\<rparr>"

definition table_env :: kenv where
  "table_env = \<lparr>e_regs = \<lparr>r_ax = 0, r_dx = 0, r_cx = 0, r_bx = 0, r_si = 0, r_di = 4096, r_bp = 0,
     r_sp = 0, r_8 = 0, r_9 = 0, r_10 = 0, r_11 = 0, r_12 = 0, r_13 = 0, r_14 = 0, r_15 = 0\<rparr>,
     e_pid_tgid = 0, e_ktime = (\<lambda>_. 0), e_mem = byte_mem ucast, e_rb_ok = True, e_cpu = 0\<rparr>"

text \<open>The programs in the order of the skeleton, which is their order in the BPF source.\<close>

definition skel_progs :: "osd_probe list" where
  "skel_progs = [EnqueueOp, DequeueOp, ExecuteCtx, SubmitTransaction, QueueTransactions, DoWrite,
     WctxFinish, TxcStateProc, LogOpStats, LogOpStatsV2, GenerateSubop, DoRepopReply,
     MarkFlagPointString, LogLatency, LogSubopStats, EcSubmitTransaction, TxcCalcCost, RepopCommit,
     MarkFlagPoint, LogLatencyFn, TxcAddTransaction]"

text \<open>The program each row of the attach list is meant to run.\<close>

definition attach_progs :: "osd_probe list" where
  "attach_progs = [LogOpStatsV2, DequeueOp, ExecuteCtx, SubmitTransaction, EcSubmitTransaction,
     MarkFlagPointString, MarkFlagPoint, GenerateSubop, DoRepopReply, QueueTransactions, TxcCalcCost,
     TxcStateProc, TxcAddTransaction, LogOpStats, RepopCommit, EnqueueOp, LogLatency, LogLatencyFn]"

text \<open>The number of fields a path needs: a cast element adds no field.\<close>

definition path_fields :: "string list \<Rightarrow> nat" where
  "path_fields p = length (filter (\<lambda>s. \<not> starts_with ''cast:'' s) p)"

text \<open>The tables fit together: every row of the attach list names a known program, the one
  meant for its function; its function has a variable id range and a list of DWARF paths; every
  function's paths fit its range of ten ids and the ten field slots of the kernel structure; and
  no two functions share a program or overlap in their ids.\<close>

lemma attach_tables_consistent:
  "map (\<lambda>e. skel_progs ! nat (map_index func_progid (prog_name (ae_func e) (ae_v e)))) ATTACH_LIST = attach_progs \<and>
   list_all (\<lambda>e. map_of func_progid (prog_name (ae_func e) (ae_v e)) \<noteq> None \<and>
     map_of func_id (ae_func e) \<noteq> None \<and> map_of osd_probes (ae_func e) \<noteq> None) ATTACH_LIST \<and>
   list_all (\<lambda>(f, paths). map_of func_id f \<noteq> None \<and> length paths \<le> 10 \<and>
     list_all (\<lambda>p. path_fields p \<le> 10) paths) osd_probes \<and>
   distinct (map fst osd_probes) \<and> distinct (map snd func_progid) \<and>
   list_all (\<lambda>(f, a). list_all (\<lambda>(g, b). f = g \<or> a + 10 \<le> b \<or> b + 10 \<le> a) func_id) func_id"
  by code_simp

end
