(* ===== verification/Osd_Control.thy ===== *)
theory Osd_Control
  imports Osd_Report Osd_Tables Dwarf_Parser
begin

text \<open>
  The control path of osdtrace (\<open>src/osdtrace.cc\<close>): command line, discovery of OSD processes,
  choice of what to trace, loading of the DWARF data, and the tracer's main loop. What
  \<open>getopt_long\<close>, libbpf and libdw return are parameters; messages on standard
  error are the constructors of \<open>osd_error\<close>. \<open>std::set<int>\<close> is a sorted list without
  repetition.
\<close>

definition set_insert :: "int \<Rightarrow> int list \<Rightarrow> int list" where
  "set_insert x s = (if x \<in> set s then s else insort x s)"

section \<open>Command line\<close>

record osd_args =
  a_probe_mode :: int
  a_threshold :: u64
  a_timeout :: int
  a_import_json :: "string option"
  a_export_json :: "string option"
  a_skip_version_check :: bool
  a_list_only :: bool
  a_list_embedded :: bool
  a_trace_all :: bool
  a_process_ids :: "int list"
  a_osd_ids :: "int list"

definition osd_args_init :: osd_args where
  "osd_args_init = \<lparr>a_probe_mode = OP_FULL_PROBE, a_threshold = 0, a_timeout = - 1,
     a_import_json = None, a_export_json = None, a_skip_version_check = False, a_list_only = False,
     a_list_embedded = False, a_trace_all = False, a_process_ids = [], a_osd_ids = []\<rparr>"

text \<open>What \<open>getopt_long\<close> delivers: a long option by name or a short one, with its argument.\<close>

datatype osd_opt = LongOpt string string | ShortOpt char string | MissingArg

text \<open>\<open>Exited\<close> is a call of \<open>exit\<close>, \<open>Aborted\<close> an exception no one catches.\<close>

datatype 'a parsed = Parsed 'a | ParseFailed | Exited int | Aborted

text \<open>The two list options: tokens between commas, the values checked by \<open>ok\<close>.\<close>

fun parse_int_tokens :: "(int \<Rightarrow> bool) \<Rightarrow> string list \<Rightarrow> int list \<Rightarrow> int list option" where
  "parse_int_tokens ok [] acc = Some acc"
| "parse_int_tokens ok (t # ts) acc =
     (case stoi t of
        None \<Rightarrow> None
      | Some n \<Rightarrow> if ok n then parse_int_tokens ok ts (set_insert n acc) else None)"

definition osd_opt_step :: "osd_opt \<Rightarrow> osd_args \<Rightarrow> osd_args parsed" where
  "osd_opt_step opt a =
     (case opt of
        LongOpt name arg \<Rightarrow>
          if name = ''skip-version-check'' then Parsed (a\<lparr>a_skip_version_check := True\<rparr>)
          else if name = ''list'' then Parsed (a\<lparr>a_list_only := True\<rparr>)
          else if name = ''list-embedded'' then Parsed (a\<lparr>a_list_embedded := True\<rparr>)
          else if name = ''id'' then
            (case parse_int_tokens (\<lambda>n. 0 \<le> n) (getline_split (CHR '','') arg) (a_osd_ids a) of
               None \<Rightarrow> ParseFailed
             | Some ids \<Rightarrow> Parsed (a\<lparr>a_osd_ids := ids\<rparr>))
          else Parsed a
      | ShortOpt c arg \<Rightarrow>
          if c = CHR ''V'' then Exited 0
          else if c = CHR ''a'' then Parsed (a\<lparr>a_trace_all := True\<rparr>)
          else if c = CHR ''s'' then
            Parsed (a\<lparr>a_probe_mode := (a_probe_mode a AND NOT OP_FULL_PROBE) OR OP_SINGLE_PROBE\<rparr>)
          else if c = CHR ''l'' then
            (case stoi arg of None \<Rightarrow> Aborted | Some n \<Rightarrow> Parsed (a\<lparr>a_threshold := of_int n\<rparr>))
          else if c = CHR ''b'' then Parsed (a\<lparr>a_probe_mode := a_probe_mode a OR BLUESTORE_PROBE\<rparr>)
          else if c = CHR ''j'' then Parsed (a\<lparr>a_export_json := Some arg\<rparr>)
          else if c = CHR ''i'' then Parsed (a\<lparr>a_import_json := Some arg\<rparr>)
          else if c = CHR ''t'' then
            (case stoi arg of
               None \<Rightarrow> Exited 1
             | Some n \<Rightarrow> if n \<le> 0 then Exited 1 else Parsed (a\<lparr>a_timeout := n\<rparr>))
          else if c = CHR ''p'' then
            (case parse_int_tokens (\<lambda>_. True) (getline_split (CHR '','') arg) (a_process_ids a) of
               None \<Rightarrow> ParseFailed
             | Some ids \<Rightarrow> Parsed (a\<lparr>a_process_ids := ids\<rparr>))
          else if c = CHR ''?'' \<or> c = CHR ''h'' then Exited 0
          else Parsed a
      | MissingArg \<Rightarrow> ParseFailed)"

fun parse_args :: "osd_opt list \<Rightarrow> osd_args \<Rightarrow> osd_args parsed" where
  "parse_args [] a = Parsed a"
| "parse_args (opt # opts) a =
     (case osd_opt_step opt a of
        Parsed a' \<Rightarrow> parse_args opts a'
      | ParseFailed \<Rightarrow> ParseFailed
      | Exited n \<Rightarrow> Exited n
      | Aborted \<Rightarrow> Aborted)"

section \<open>Discovery\<close>

record OsdProcessInfo =
  p_pid :: int
  p_osd_id :: int
  p_exe_path :: string
  p_is_container :: bool
  p_traceable :: string
  p_version :: string
  p_build_id :: string

definition get_mnt_ns :: "host \<Rightarrow> int \<Rightarrow> string" where
  "get_mnt_ns h pid = (case readlink_n h (proc_file pid ''/ns/mnt'') 255 of Some t \<Rightarrow> t | None \<Rightarrow> [])"

definition discover_one :: "host \<Rightarrow> osd_ui \<Rightarrow> string \<Rightarrow> string \<times> bool \<Rightarrow> OsdProcessInfo list" where
  "discover_one h ui self_ns d =
     (if \<not> is_pid_entry d then []
      else case stoi (fst d) of None \<Rightarrow> [] | Some pid \<Rightarrow>
        let exe0 = get_exe_path_for_pid h pid;
            exe_path = (if exe0 \<noteq> [] then exe0
                        else case h_tokens h (proc_file pid ''/cmdline'') of
                               Some (t # _) \<Rightarrow> t | _ \<Rightarrow> [])
        in
        if exe_path \<noteq> [] \<and> get_basename exe_path = ''ceph-osd'' then
          let proc_ns = get_mnt_ns h pid in
          [\<lparr>p_pid = pid, p_osd_id = osd_pid_to_id h ui (of_int pid), p_exe_path = exe_path,
            p_is_container = (self_ns \<noteq> [] \<and> proc_ns \<noteq> [] \<and> self_ns \<noteq> proc_ns),
            p_traceable = [], p_version = [], p_build_id = []\<rparr>]
        else [])"

definition discover_ceph_osd_processes :: "host \<Rightarrow> osd_ui \<Rightarrow> OsdProcessInfo list" where
  "discover_ceph_osd_processes h ui =
     (case h_proc h of
        None \<Rightarrow> []
      | Some ds \<Rightarrow>
          let self_ns = get_mnt_ns h (h_self h) in
          sort_key p_osd_id (sort_key p_pid (concat (map (discover_one h ui self_ns) ds))))"

definition annotate_one :: "host \<Rightarrow> embedded_tables \<Rightarrow> OsdProcessInfo \<Rightarrow> OsdProcessInfo" where
  "annotate_one h emb p0 =
     (let build_id = get_elf_build_id h (proc_file (p_pid p0) ''/root'' @ p_exe_path p0);
          p = p0\<lparr>p_version := ''unknown'', p_build_id := build_id\<rparr>
      in
      if build_id = [] then p\<lparr>p_traceable := ''unknown''\<rparr>
      else
        case is_embedded_traceable emb [(get_basename (p_exe_path p), build_id)] ''osdtrace'' of
          (ok, version) \<Rightarrow>
          let matched = (case version of Some v \<Rightarrow> v | None \<Rightarrow> []);
              p1 = p\<lparr>p_traceable := (if ok then ''yes'' else ''no'')\<rparr>
          in
          if ok then (if matched \<noteq> [] then p1\<lparr>p_version := matched\<rparr> else p1)
          else if \<not> p_is_container p1 \<and> check_executable_deleted h (p_pid p1) ''ceph-osd'' = Some False
          then
            (let pkg = get_package_version h (p_exe_path p1) in
             if pkg \<noteq> [] \<and> pkg \<noteq> ''unknown'' then p1\<lparr>p_version := pkg\<rparr> else p1)
          else p1)"

definition annotate_traceability ::
  "host \<Rightarrow> embedded_tables \<Rightarrow> OsdProcessInfo list \<Rightarrow> OsdProcessInfo list" where
  "annotate_traceability h emb ps = map (annotate_one h emb) ps"

text \<open>\<open>%-Nd\<close> and \<open>%-Ns\<close>.\<close>

definition pad :: "nat \<Rightarrow> string \<Rightarrow> string" where
  "pad n s = s @ replicate (n - length s) (CHR '' '')"

definition osd_id_str :: "OsdProcessInfo \<Rightarrow> string" where
  "osd_id_str p = (if p_osd_id p = - 1 then ''unknown'' else show_int (p_osd_id p))"

definition print_discovered_osds :: "OsdProcessInfo list \<Rightarrow> bool \<Rightarrow> string list" where
  "print_discovered_osds ps show_traceable =
     (if show_traceable
      then [''  '' @ pad 10 ''PID'' @ '' '' @ pad 10 ''OSD ID'' @ '' '' @ pad 12 ''Container'' @ '' ''
              @ pad 11 ''Traceable'' @ '' '' @ pad 24 ''Ceph Version'',
            ''  '' @ replicate 71 (CHR ''-'')]
      else [''  '' @ pad 10 ''PID'' @ '' '' @ pad 10 ''OSD ID'' @ '' '' @ pad 12 ''Container'' @ '' ''
              @ pad 50 ''Executable Path'',
            ''  '' @ replicate 80 (CHR ''-'')]) @
     map (\<lambda>p.
       ''  '' @ pad 10 (show_int (p_pid p)) @ '' '' @ pad 10 (osd_id_str p) @ '' '' @
       pad 12 (if p_is_container p then ''yes'' else ''no'') @ '' '' @
       (if show_traceable
        then pad 11 (nonempty_or (p_traceable p) ''unknown'') @ '' '' @
             pad 24 (nonempty_or (p_version p) ''unknown'')
        else pad 50 (p_exe_path p))) ps"

text \<open>The table part of \<open>--list\<close>; the explanatory paragraphs after it are left out.\<close>

definition run_list :: "host \<Rightarrow> embedded_tables \<Rightarrow> osd_ui \<Rightarrow> string list" where
  "run_list h emb ui =
     (let processes = discover_ceph_osd_processes h ui in
      if processes = [] then [''No active ceph-osd processes detected on the host.'']
      else
        [''Detected '' @ show_nat (length processes) @ '' active ceph-osd process(es) on the host:''] @
        print_discovered_osds (annotate_traceability h emb processes) True)"

section \<open>Choosing what to trace\<close>

datatype osd_error =
    AllWithSelection | AllWithJson | NoProcesses | NoneTraceable | SeveralBuilds
  | IdWithPid | IdNotFound int | IdAmbiguous int "int list"
  | NoSuchProcess int | NoExe int | NotCephOsd int string | OtherExe int string string
  | NoHostBinary "OsdProcessInfo list"

record TraceTarget =
  t_pids :: "int list"
  t_osd_path :: string

definition is_traceable :: "OsdProcessInfo \<Rightarrow> bool" where
  "is_traceable p \<longleftrightarrow> p_traceable p = ''yes'' \<and> p_build_id p \<noteq> []"

text \<open>\<open>-a\<close>: the process ids to add, or why not.\<close>

definition select_all_traceable_osds ::
  "host \<Rightarrow> embedded_tables \<Rightarrow> osd_ui \<Rightarrow> osd_args \<Rightarrow> osd_error + int list" where
  "select_all_traceable_osds h emb ui a =
     (if a_process_ids a \<noteq> [] \<or> a_osd_ids a \<noteq> [] then Inl AllWithSelection
      else if a_export_json a \<noteq> None \<or> a_import_json a \<noteq> None then Inl AllWithJson
      else
        let processes = discover_ceph_osd_processes h ui in
        if processes = [] then Inl NoProcesses
        else
          let traceable = filter is_traceable (annotate_traceability h emb processes) in
          if traceable = [] then Inl NoneTraceable
          else if \<exists>p\<in>set traceable. p_build_id p \<noteq> p_build_id (hd traceable) then Inl SeveralBuilds
          else Inr (fold (\<lambda>p. set_insert (p_pid p)) traceable (a_process_ids a)))"

text \<open>\<open>--id\<close>: each wanted id must name exactly one running process.\<close>

fun resolve_ids :: "OsdProcessInfo list \<Rightarrow> int list \<Rightarrow> int list \<Rightarrow> osd_error + int list" where
  "resolve_ids processes [] pids = Inr pids"
| "resolve_ids processes (want # ws) pids =
     (case map p_pid (filter (\<lambda>p. p_osd_id p = want) processes) of
        [] \<Rightarrow> Inl (IdNotFound want)
      | [m] \<Rightarrow> resolve_ids processes ws (set_insert m pids)
      | matches \<Rightarrow> Inl (IdAmbiguous want matches))"

definition resolve_requested_osd_ids ::
  "host \<Rightarrow> osd_ui \<Rightarrow> int list \<Rightarrow> int list \<Rightarrow> osd_error + int list" where
  "resolve_requested_osd_ids h ui process_ids osd_ids =
     (if process_ids \<noteq> [] then Inl IdWithPid
      else resolve_ids (discover_ceph_osd_processes h ui) osd_ids process_ids)"

fun same_executable :: "host \<Rightarrow> string \<Rightarrow> int list \<Rightarrow> osd_error option" where
  "same_executable h path [] = None"
| "same_executable h path (pid # pids) =
     (let pid_exe = get_exe_path_for_pid h pid in
      if pid_exe = [] then Some (NoExe pid)
      else if pid_exe \<noteq> path then Some (OtherExe pid path pid_exe)
      else same_executable h path pids)"

definition target_of_pids :: "host \<Rightarrow> int list \<Rightarrow> osd_error + TraceTarget" where
  "target_of_pids h pids =
     (case find (\<lambda>pid. \<not> h_exists h (''/proc/'' @ show_int pid)) pids of
        Some pid \<Rightarrow> Inl (NoSuchProcess pid)
      | None \<Rightarrow>
          let first_pid = hd pids; path = get_exe_path_for_pid h first_pid in
          if path = [] then Inl (NoExe first_pid)
          else if \<not> str_contains ''ceph-osd'' path then Inl (NotCephOsd first_pid path)
          else case same_executable h path (tl pids) of
            Some err \<Rightarrow> Inl err
          | None \<Rightarrow> Inr \<lparr>t_pids = pids, t_osd_path = path\<rparr>)"

definition target_of_selection :: "host \<Rightarrow> osd_ui \<Rightarrow> int list \<Rightarrow> osd_error + TraceTarget" where
  "target_of_selection h ui pids =
     (if pids \<noteq> [] then target_of_pids h pids
      else
        let path = find_executable_path h ''ceph-osd'' in
        if path = [] then Inl (NoHostBinary (discover_ceph_osd_processes h ui))
        else Inr \<lparr>t_pids = [], t_osd_path = path\<rparr>)"

definition resolve_trace_targets ::
  "host \<Rightarrow> embedded_tables \<Rightarrow> osd_ui \<Rightarrow> osd_args \<Rightarrow> osd_error + TraceTarget" where
  "resolve_trace_targets h emb ui a =
     (case (if a_trace_all a then select_all_traceable_osds h emb ui a else Inr (a_process_ids a)) of
        Inl err \<Rightarrow> Inl err
      | Inr pids1 \<Rightarrow>
          (case (if a_osd_ids a \<noteq> [] then resolve_requested_osd_ids h ui pids1 (a_osd_ids a)
                 else Inr pids1) of
             Inl err \<Rightarrow> Inl err
           | Inr pids \<Rightarrow> target_of_selection h ui pids))"

section \<open>Loading the DWARF data\<close>

datatype load_error = DeletedExecutables | UnknownVersion | ImportFailed | LoadAborted

text \<open>
  Outside the sources: the JSON library's parser and printer, the contents of the import file, and
  libdw with the modules it finds in a file. An analysis that does not return aborts the load.
\<close>

record dwarf_services =
  ds_parse :: "string \<Rightarrow> json option"
  ds_dump :: "json \<Rightarrow> string"
  ds_contents :: "string \<Rightarrow> string option"
  ds_libdw :: libdw
  ds_order :: iteration_order
  ds_open_dwfl :: "string \<Rightarrow> dw_module list"
  ds_x86_64 :: bool

definition parser_for :: "dwarf_services \<Rightarrow> probe_table \<Rightarrow> string list \<Rightarrow> parser_config" where
  "parser_for ds = new_DwarfParser (ds_libdw ds) (ds_order ds) (ds_x86_64 ds)"

definition osd_parser :: "dwarf_services \<Rightarrow> parser_config" where
  "osd_parser ds =
     request_member_offset ''OSDOp'' [''op'', ''cls'', ''method_len'']
       (request_member_offset ''OSDOp'' [''op'', ''cls'', ''class_len'']
         (request_member_offset ''OSDOp'' [''indata'', ''_carriage'']
           (request_type_size ''OSDOp'' (parser_for ds osd_probes probe_units))))"

definition osd_analyse :: "dwarf_services \<Rightarrow> string \<Rightarrow> dwarf_data \<Rightarrow> dwarf_data option" where
  "osd_analyse ds path = analyse_modules (osd_parser ds) (ds_open_dwfl ds) [path]"

definition build_id_path :: "TraceTarget \<Rightarrow> string" where
  "build_id_path target =
     (if t_pids target \<noteq> [] then proc_file (hd (t_pids target)) ''/root'' @ t_osd_path target
      else t_osd_path target)"

definition load_dwarf_data ::
  "host \<Rightarrow> dwarf_services \<Rightarrow> embedded_tables \<Rightarrow> osd_args \<Rightarrow> TraceTarget \<Rightarrow> dwarf_data
     \<Rightarrow> load_error + dwarf_data" where
  "load_dwarf_data h ds emb a target d =
     (case (if a_export_json a = None then check_executable_deleted h (- 1) ''ceph-osd'' else Some False) of
        None \<Rightarrow> Inl LoadAborted
      | Some True \<Rightarrow> Inl DeletedExecutables
      | Some False \<Rightarrow>
          (case a_import_json a of
             Some file \<Rightarrow>
               let version = (if a_skip_version_check a then [] else get_package_version h (t_osd_path target)) in
               if \<not> a_skip_version_check a \<and> version = ''unknown'' then Inl UnknownVersion
               else
                 (case import_from_json (ds_parse ds) (ds_contents ds file) version d of
                    (True, d') \<Rightarrow> Inr d'
                  | (False, _) \<Rightarrow> Inl ImportFailed)
           | None \<Rightarrow>
               let bid = get_elf_build_id h (build_id_path target) in
               (case (if a_export_json a = None \<and> bid \<noteq> []
                      then import_from_embedded emb [(get_basename (t_osd_path target), bid)] ''osdtrace'' d
                      else None) of
                  Some (d', _) \<Rightarrow> Inr d'
                | None \<Rightarrow>
                    (case osd_analyse ds (t_osd_path target) d of
                       Some d' \<Rightarrow> Inr d' | None \<Rightarrow> Inl LoadAborted))))"

definition do_export_json :: "host \<Rightarrow> dwarf_services \<Rightarrow> TraceTarget \<Rightarrow> dwarf_data \<Rightarrow> string \<times> dwarf_data" where
  "do_export_json h ds target d = export_to_json (ds_dump ds) h (get_package_version h (t_osd_path target)) d"

section \<open>Attaching the probes\<close>

record attachment =
  at_prog :: int
  at_pid :: int
  at_path :: string
  at_addr :: u64

text \<open>libbpf's verdict on one attachment.\<close>

type_synonym attach_fn = "attachment \<Rightarrow> bool"

definition attach_probe ::
  "attach_fn \<Rightarrow> dwarf_data \<Rightarrow> string \<Rightarrow> string \<Rightarrow> int \<Rightarrow> int \<Rightarrow> attachment option" where
  "attach_probe att dp path funcname v process_id =
     (let func_addr = (case look2 (mod_func2pc dp) (get_basename path) funcname of
                         Some x \<Rightarrow> x | None \<Rightarrow> 0);
          at = \<lparr>at_prog = map_index func_progid (prog_name funcname v), at_pid = process_id,
                at_path = (if process_id = - 1 then path
                           else ''/proc/'' @ show_int process_id @ ''/root/'' @ path),
                at_addr = func_addr\<rparr>
      in if func_addr = 0 then None else if att at then Some at else None)"

text \<open>The loop over the processes stops at the first failure; what was attached stays attached.\<close>

fun attach_each :: "(int \<Rightarrow> attachment option) \<Rightarrow> int list \<Rightarrow> bool \<times> attachment list" where
  "attach_each f [] = (True, [])"
| "attach_each f (pid # pids) =
     (case f pid of
        None \<Rightarrow> (False, [])
      | Some at \<Rightarrow> (case attach_each f pids of (ok, ats) \<Rightarrow> (ok, at # ats)))"

definition attach_probes ::
  "attach_fn \<Rightarrow> dwarf_data \<Rightarrow> string \<Rightarrow> int list \<Rightarrow> string \<Rightarrow> int \<Rightarrow> bool \<times> attachment list" where
  "attach_probes att dp path process_ids funcname v =
     attach_each (attach_probe att dp path funcname v)
       (if process_ids = [] then [- 1] else process_ids)"

definition attach_list ::
  "attach_fn \<Rightarrow> dwarf_data \<Rightarrow> TraceTarget \<Rightarrow> int \<Rightarrow> nat \<times> attachment list" where
  "attach_list att dp target mode =
     (let rs = map (\<lambda>e. attach_probes att dp (t_osd_path target) (t_pids target) (ae_func e) (ae_v e))
                 (filter (entry_enabled mode) ATTACH_LIST)
      in (length (filter fst rs), concat (map snd rs)))"

section \<open>The tracer\<close>

datatype tracer_error = OpenFailed | NoOSDOpSize | LoadFailed int | NothingAttached | RingFailed

text \<open>One turn of the consume loop: the timeout flag its test sees, and what the drain delivers.\<close>

record drain =
  i_timed_out :: bool
  i_ret :: int
  i_events :: "osd_event list"

record bpf_services =
  b_open :: bool
  b_load :: "osd_rodata \<Rightarrow> int"
  b_attach :: attach_fn
  b_ring :: bool
  b_junk :: "nat \<Rightarrow> Field"
  b_clock_load :: "timespec \<times> timespec"       \<comment> \<open>real time and boot time before loading\<close>
  b_clock_run :: "timespec \<times> timespec"        \<comment> \<open>and after attaching\<close>

definition tracer_rodata :: "dwarf_data \<Rightarrow> string \<Rightarrow> int \<Rightarrow> u64 \<Rightarrow> u64 \<Rightarrow> osd_rodata" where
  "tracer_rodata dp path osd_op_size bootstamp threshold =
     (let carriage_off = get_member_offset dp path ''OSDOp'' [''indata'', ''_carriage''];
          cls_off = get_member_offset dp path ''OSDOp'' [''op'', ''cls'', ''class_len''];
          method_off = get_member_offset dp path ''OSDOp'' [''op'', ''cls'', ''method_len''];
          all_known = (0 \<le> carriage_off \<and> 0 \<le> cls_off \<and> 0 \<le> method_off)
      in \<lparr>CEPH_OSD_OP_SIZE = of_int osd_op_size,
          CEPH_OSD_OP_BUFFER_CARRIAGE_OFFSET = (if all_known then of_int carriage_off else 0),
          CEPH_OSD_OP_CLS_CLASS_OFFSET = (if all_known then of_int cls_off else 0),
          CEPH_OSD_OP_CLS_METHOD_OFFSET = (if all_known then of_int method_off else 0),
          LATENCY_THRESHOLD_NS = (if 0 < threshold then threshold * 1000000 else 0),
          BOOTSTAMP_NS = bootstamp\<rparr>)"

record tracer_state =
  ts_rodata :: osd_rodata
  ts_hprobes :: hprobes
  ts_attached :: "attachment list"
  ts_settings :: osd_settings

definition setup_tracer ::
  "bpf_services \<Rightarrow> osd_args \<Rightarrow> dwarf_data \<Rightarrow> TraceTarget \<Rightarrow> tracer_error + tracer_state" where
  "setup_tracer b a dp target =
     (if \<not> b_open b then Inl OpenFailed
      else
        let path = t_osd_path target; osd_op_size = get_type_size dp path ''OSDOp'' in
        if osd_op_size \<le> 0 then Inl NoOSDOpSize
        else
          let boot = (case b_clock_load b of (real, bt) \<Rightarrow> get_bootstamp real bt);
              ro = tracer_rodata dp path osd_op_size boot (a_threshold a)
          in
          if b_load b ro \<noteq> 0 then Inl (LoadFailed (b_load b ro))
          else
            case attach_list (b_attach b) dp target (a_probe_mode a) of (n, ats) \<Rightarrow>
            if n = 0 then Inl NothingAttached
            else if \<not> b_ring b then Inl RingFailed
            else Inr \<lparr>ts_rodata = ro, ts_hprobes = fill_map_hprobes (b_junk b) path dp Map.empty,
                     ts_attached = ats,
                     ts_settings = \<lparr>g_probe_mode = a_probe_mode a,
                       g_bootstamp = (case b_clock_run b of (real, bt) \<Rightarrow> get_bootstamp real bt),
                       g_threshold = a_threshold a\<rparr>\<rparr>)"

text \<open>
  The consume loop. A turn is cut off before its drain when the timeout has fired (its events are
  then the final drain); a negative result ends the loop. An exhausted list of turns stands for a
  tracer that is still running.
\<close>

datatype loop_end = StillRunning | TimedOut | ConsumeFailed int

fun consume_loop ::
  "host \<Rightarrow> osd_settings \<Rightarrow> int \<Rightarrow> drain list \<Rightarrow> osd_ui \<Rightarrow> loop_end \<times> osd_ui" where
  "consume_loop h g timeout [] ui = (StillRunning, ui)"
| "consume_loop h g timeout (i # is) ui =
     (let ui' = fold (handle_event h g) (i_events i) ui in
      if i_timed_out i \<and> timeout \<noteq> - 1 then (TimedOut, ui')
      else if i_ret i < 0 then (ConsumeFailed (i_ret i), ui')
      else consume_loop h g timeout is ui')"

text \<open>What \<open>main\<close> does after the arguments are known.\<close>

datatype osd_outcome =
    ListedEmbedded "(string \<times> string \<times> string \<times> string) list"
  | Listed "string list"
  | TargetError osd_error
  | LoadError load_error
  | ExportedJson string
  | TracerError tracer_error
  | Traced loop_end osd_ui

definition osdtrace_main ::
  "host \<Rightarrow> dwarf_services \<Rightarrow> bpf_services \<Rightarrow> embedded_tables \<Rightarrow> drain list \<Rightarrow> osd_ui \<Rightarrow> osd_args
     \<Rightarrow> osd_outcome" where
  "osdtrace_main h ds b emb drains ui a =
     (if a_list_embedded a
      then ListedEmbedded (case list_embedded_versions emb ''osdtrace'' of Some rows \<Rightarrow> rows | None \<Rightarrow> [])
      else if a_list_only a then Listed (run_list h emb ui)
      else case resolve_trace_targets h emb ui a of
        Inl err \<Rightarrow> TargetError err
      | Inr target \<Rightarrow>
          (case load_dwarf_data h ds emb a target empty_dwarf of
             Inl err \<Rightarrow> LoadError err
           | Inr d \<Rightarrow>
               if a_export_json a \<noteq> None then ExportedJson (fst (do_export_json h ds target d))
               else
                 (case setup_tracer b a d target of
                    Inl err \<Rightarrow> TracerError err
                  | Inr ts \<Rightarrow>
                      (case consume_loop h (ts_settings ts) (a_timeout a) drains ui of
                         (e, ui') \<Rightarrow> Traced e ui'))))"

end
