(* ===== verification/Analysis_Properties.thy ===== *)
theory Analysis_Properties
  imports Dwarf_Recorded Dwarf_Properties Osd_Control
begin

text \<open>
  From the analysis of a binary to the probes of osdtrace: what the DWARF analysis records for the
  tables is what the BPF programs read.
\<close>

section \<open>The tables\<close>

text \<open>Every traced function of osdtrace has an id, and its variables fit ids and field slots.\<close>

lemma osd_probes_fit:
  "list_all (\<lambda>(f, paths). map_of func_id f \<noteq> None \<and> length paths \<le> 10 \<and>
     list_all (\<lambda>p. length (field_names (drop 1 p)) \<le> 9) paths) osd_probes"
  by code_simp

lemma osd_probe_fits:
  assumes "map_of osd_probes f = Some paths"
  shows "map_of func_id f \<noteq> None" and "length paths \<le> 10"
    and "p \<in> set paths \<Longrightarrow> length (field_names (drop 1 p)) \<le> 9"
  using osd_probes_fit map_of_SomeD [OF assms] by (auto simp: list_all_iff)

text \<open>What a recorded variable means: its fields lead to the object its path denotes.\<close>

lemma from_path_denotes:
  assumes "from_path pc mds (v # m # ms) vf" and "\<forall>md\<in>mds. path_info (pc_dw pc) depth (module_cfi md)"
    and "single_level (pc_dw pc)" and "plain_casts (pc_dw pc) ms" and "permutes (pc_io pc)"
    and "cast_target m = None" and "ends_in_member (m # ms)" and "reg \<noteq> 0"
  shows "\<exists>md cache func addr vardie t.
    md \<in> mds \<and>
    translate_param_location (pc_dw pc) (module_cfi md) (pc_x86_64 pc) func v addr = Some (Some (vardie, uv_varloc vf)) \<and>
    dwarf_die_type (pc_dw pc) vardie = Some t \<and>
    (vl_stack (uv_varloc vf) \<longrightarrow>
      denotes (pc_dw pc) (pc_io pc) cache (module_cfi md) addr um t (reg + of_int (vl_offset (uv_varloc vf))) (m # ms)
        (path_addr um reg (uv_varloc vf) (uv_fields vf))) \<and>
    (\<not> vl_stack (uv_varloc vf) \<and> pointerish (pc_dw pc) t \<longrightarrow>
      (\<exists>r. pointee (pc_dw pc) t r \<and>
        denotes (pc_dw pc) (pc_io pc) cache (module_cfi md) addr um r reg (m # ms)
          (path_addr um reg (uv_varloc vf) (uv_fields vf))))"
proof -
  from assms(1) obtain md cache func addr where md: "md \<in> mds" and cache: "cache_ok (pc_dw pc) cache"
    and "probe_var pc cache (module_cfi md) func addr (v # m # ms) = Some vf"
    unfolding from_path_def by blast
  from this(3) obtain vardie t where var:
    "translate_param_location (pc_dw pc) (module_cfi md) (pc_x86_64 pc) func v addr = Some (Some (vardie, uv_varloc vf))"
    "dwarf_die_type (pc_dw pc) vardie = Some t" and
    fl: "translate_fields (pc_dw pc) (pc_io pc) cache (module_cfi md) addr t (v # m # ms) = Some (Some (uv_fields vf))"
    by (elim probe_var_parts) auto
  have law: "path_info (pc_dw pc) depth (module_cfi md)" using md assms(2) by blast
  have "casts_to_objects (pc_dw pc) (pc_io pc) cache ms" by (rule cached_casts [OF assms(5) cache assms(4)])
  from fields_denote [OF law assms(3) this assms(7,6) fl assms(8)] md var show ?thesis by blast
qed

text \<open>A cast stands neither first nor last in the member part of a path.\<close>

lemma osd_probes_casts:
  "list_all (\<lambda>(f, paths). list_all (\<lambda>p. case p of
      v # m # ms \<Rightarrow> cast_target m = None \<and> cast_target (last (m # ms)) = None | _ \<Rightarrow> True) paths) osd_probes"
  by code_simp

lemma osd_probe_casts:
  assumes "map_of osd_probes f = Some paths" and "v # m # ms \<in> set paths"
  shows "cast_target m = None" and "ends_in_member (m # ms)"
  using osd_probes_casts map_of_SomeD [OF assms(1)] assms(2)
  by (fastforce simp: list_all_iff ends_in_member_def)+

lemma recorded_of_analysis:
  assumes "analyse_modules pc g paths empty_dwarf = Some d"
  shows "recorded_ok pc (\<Union>path\<in>set paths. set (g path)) d"
  by (rule analyse_modules_ok [OF assms recorded_ok_empty]) auto

section \<open>osdtrace\<close>

lemma osd_parser_simps [simp]:
  "pc_dw (osd_parser ds) = ds_libdw ds" "pc_io (osd_parser ds) = ds_order ds"
  "pc_x86_64 (osd_parser ds) = ds_x86_64 ds" "pc_probes (osd_parser ds) = osd_probes"
  by (simp_all add: osd_parser_def parser_for_def)

lemma osd_recorded:
  "osd_analyse ds path empty_dwarf = Some d \<Longrightarrow>
    recorded_ok (osd_parser ds) (set (ds_open_dwfl ds path)) d"
  unfolding osd_analyse_def by (drule recorded_of_analysis) simp

lemma analysed_entries_fit:
  assumes "osd_analyse ds path empty_dwarf = Some d"
  shows "distinct (map fst (smap_at (mod_func2vf d) m))"
    and "\<forall>(g, ws)\<in>set (smap_at (mod_func2vf d) m). map_of func_id g \<noteq> None \<and> length ws \<le> 10"
proof -
  note ok = osd_recorded [OF assms]
  from ok have "smap_ok (smap_at (mod_func2vf d) m)" by (simp add: recorded_ok_def table_in_def)
  then show dist: "distinct (map fst (smap_at (mod_func2vf d) m))" by (simp add: smap_ok_def)
  have "map_of func_id g \<noteq> None \<and> length ws \<le> 10" if "(g, ws) \<in> set (smap_at (mod_func2vf d) m)" for g ws
  proof -
    from that dist have "look2 (mod_func2vf d) m g = Some ws" by (simp add: look2_def)
    with ok obtain paths where paths: "map_of osd_probes g = Some paths" and "length ws = length paths"
      by (rule recorded_entry) (auto dest: list_all2_lengthD)
    then show ?thesis using osd_probe_fits(1,2) [OF paths] by simp
  qed
  then show "\<forall>(g, ws)\<in>set (smap_at (mod_func2vf d) m). map_of func_id g \<noteq> None \<and> length ws \<le> 10" by auto
qed

text \<open>The variable of each path comes from the translation of that path.\<close>

lemma analysed_variable:
  assumes "osd_analyse ds path empty_dwarf = Some d"
    and "look2 (mod_func2vf d) m f = Some vfs" and "map_of osd_probes f = Some paths"
    and "i < length paths"
  shows "length vfs = length paths"
    and "from_path (osd_parser ds) (set (ds_open_dwfl ds path)) (paths ! i) (vfs ! i)"
    and "length (uv_fields (vfs ! i)) \<le> 10"
proof -
  from osd_recorded [OF assms(1)] assms(2) obtain ps where "map_of osd_probes f = Some ps"
    and "list_all2 (from_path (osd_parser ds) (set (ds_open_dwfl ds path))) ps vfs"
    by (rule recorded_entry) simp
  then have all: "list_all2 (from_path (osd_parser ds) (set (ds_open_dwfl ds path))) paths vfs"
    using assms(3) by simp
  then show "length vfs = length paths" by (simp add: list_all2_lengthD)
  from all assms(4) show from_path: "from_path (osd_parser ds) (set (ds_open_dwfl ds path)) (paths ! i) (vfs ! i)"
    by (simp add: list_all2_nthD)
  then show "length (uv_fields (vfs ! i)) \<le> 10"
    using osd_probe_fits(3) [OF assms(3), of "paths ! i"] assms(4) by (simp add: from_path_length)
qed

lemma read_analysed:
  assumes "osd_analyse ds path empty_dwarf = Some d"
    and "look2 (mod_func2vf d) (get_basename path) f = Some vfs" and "map_of osd_probes f = Some paths"
    and "i < length paths" and "field_names (drop 1 (paths ! i)) \<noteq> []"
  shows "read_hprobe_varfield e (fill_map_hprobes junk path d hp) (map_index func_id f + int i) n =
      Some (read_user (e_mem e)
        (path_addr (e_mem e) (fetch_register (e_regs e) (vl_reg (uv_varloc (vfs ! i))))
           (uv_varloc (vfs ! i)) (uv_fields (vfs ! i))) n)"
proof -
  note var = analysed_variable [OF assms(1-4)]
  have i: "i < length vfs" using var(1) assms(4) by simp
  have "2 \<le> length (uv_fields (vfs ! i))"
    using from_path_length [OF var(2)] assms(5) by (simp add: Suc_le_eq)
  note varfield = kernel_varfield_addr [OF this var(3)]
  have "(f, vfs) \<in> set (smap_at (mod_func2vf d) (get_basename path))"
    using assms(2) by (auto simp: look2_def dest: map_of_SomeD)
  note entry = fill_map_at [OF analysed_entries_fit(1) [OF assms(1)] this i analysed_entries_fit(2) [OF assms(1)]]
  show ?thesis using entry varfield by (simp add: read_hprobe_varfield_def kernel_varfield_def)
qed

section \<open>An example\<close>

text \<open>
  A ceph-osd whose \<open>log_subop_stats\<close> (1) takes a reference to an \<open>OpRequestRef\<close> in \<open>rsi\<close>; the
  reference's target (3) holds a pointer \<open>px\<close> to an \<open>OpRequest\<close> (6).
\<close>

definition member_row :: "string \<Rightarrow> die \<Rightarrow> u64 \<Rightarrow> die_row" where
  "member_row name t off =
     plain_row DW_TAG_member (Some name) [] [(DW_AT_type, ARef t), (DW_AT_data_member_location, AConst off)]"

definition subop_dies :: "die list" where
  "subop_dies = [50, 1, 2, 21, 3, 4, 5, 6, 7, 9, 8, 11, 13, 12, 14, 10, 15, 16, 17, 18, 20]"

definition subop_table :: die_table where
  "subop_table d =
    (if d = 50 then plain_row DW_TAG_compile_unit (Some ''src/osd/OSD.cc'') [1, 3, 6, 8, 12, 15, 17] []
     else if d = 1 then (plain_row DW_TAG_subprogram (Some ''log_subop_stats'') [2] [])\<lparr>dr_pc := Some 4096\<rparr>
     else if d = 2 then plain_row DW_TAG_formal_parameter (Some ''op'') [] [(DW_AT_type, ARef 21), (DW_AT_location, AExpr [DW_OP_reg 4])]
     else if d = 21 then plain_row DW_TAG_reference_type None [] [(DW_AT_type, ARef 3)]
     else if d = 3 then plain_row DW_TAG_class_type (Some ''intrusive_ptr'') [4] []
     else if d = 4 then member_row ''px'' 5 0
     else if d = 5 then plain_row DW_TAG_pointer_type None [] [(DW_AT_type, ARef 6)]
     else if d = 6 then plain_row DW_TAG_structure_type (Some ''OpRequest'') [7, 9] []
     else if d = 7 then member_row ''reqid'' 8 16
     else if d = 9 then member_row ''request'' 10 8
     else if d = 8 then plain_row DW_TAG_structure_type (Some ''osd_reqid_t'') [11, 13] []
     else if d = 11 then member_row ''name'' 12 0
     else if d = 13 then member_row ''tid'' 20 8
     else if d = 12 then plain_row DW_TAG_structure_type (Some ''entity_name_t'') [14] []
     else if d = 14 then member_row ''_num'' 20 8
     else if d = 10 then plain_row DW_TAG_pointer_type None [] [(DW_AT_type, ARef 15)]
     else if d = 15 then plain_row DW_TAG_class_type (Some ''Message'') [16] []
     else if d = 16 then member_row ''data'' 17 40
     else if d = 17 then plain_row DW_TAG_class_type (Some ''list'') [18] []
     else if d = 18 then member_row ''_len'' 20 24
     else if d = 20 then (plain_row DW_TAG_base_type (Some ''long'') [] [])\<lparr>dr_size := Some 8\<rparr>
     else no_row)"

lemma subop_dies: "table_dies subop_table subop_dies"
  by (simp add: table_dies_def subop_table_def subop_dies_def)

definition subop_depth :: "die \<Rightarrow> nat" where
  "subop_depth d = (if d = 5 \<or> d = 10 \<or> d = 21 then 1 else 0)"

definition subop_module :: dw_module where
  "subop_module = \<lparr>dm_id = 0, dm_path = ''/usr/bin/ceph-osd'', dm_units = Some [50], dm_type_units = [],
     dm_funcs = (\<lambda>cu. [1]), dm_cfi_debug = None, dm_cfi_eh = None, dm_cfi_debug_bias = 0\<rparr>"

definition subop_services :: dwarf_services where
  "subop_services = \<lparr>ds_parse = (\<lambda>s. None), ds_dump = (\<lambda>j. []), ds_contents = (\<lambda>s. None),
     ds_libdw = table_dw subop_table, ds_order = in_order, ds_open_dwfl = (\<lambda>p. [subop_module]),
     ds_x86_64 = True\<rparr>"

definition subop_vfs :: "UVarField list" where
  "subop_vfs =
     (let var = \<lambda>fl. \<lparr>uv_varloc = \<lparr>vl_reg = 4, vl_offset = 0, vl_stack = False\<rparr>, uv_fields = fl\<rparr>;
          at = \<lambda>off ptr. \<lparr>f_offset = off, f_pointer = ptr\<rparr>
      in [var [at 0 False, at 0 True, at 16 True, at 0 False, at 8 False],
          var [at 0 False, at 0 True, at 16 True, at 8 False],
          var [at 0 False, at 0 True, at 8 True, at 40 True, at 24 False]])"

definition subop_data :: dwarf_data where
  "subop_data = the (osd_analyse subop_services ''/usr/bin/ceph-osd'' empty_dwarf)"

lemma subop_analysed:
  "osd_analyse subop_services ''/usr/bin/ceph-osd'' empty_dwarf = Some subop_data"
  and subop_recorded: "look2 (mod_func2vf subop_data) ''ceph-osd'' ''log_subop_stats'' = Some subop_vfs"
proof -
  have "map_option (\<lambda>d. look2 (mod_func2vf d) ''ceph-osd'' ''log_subop_stats'')
      (osd_analyse subop_services ''/usr/bin/ceph-osd'' empty_dwarf) = Some (Some subop_vfs)" by code_simp
  then show "osd_analyse subop_services ''/usr/bin/ceph-osd'' empty_dwarf = Some subop_data"
    "look2 (mod_func2vf subop_data) ''ceph-osd'' ''log_subop_stats'' = Some subop_vfs"
    by (auto simp: subop_data_def)
qed

lemma subop_paths:
  "map_of osd_probes ''log_subop_stats'' =
     Some [[''op'', ''px'', ''reqid'', ''name'', ''_num''], [''op'', ''px'', ''reqid'', ''tid''],
       [''op'', ''px'', ''request'', ''data'', ''_len'']]"
  by code_simp

definition subop_env :: kenv where
  "subop_env = \<lparr>e_regs = \<lparr>r_ax = 0, r_dx = 0, r_cx = 0, r_bx = 0, r_si = 8192, r_di = 4096, r_bp = 0,
     r_sp = 0, r_8 = 0, r_9 = 0, r_10 = 0, r_11 = 0, r_12 = 0, r_13 = 0, r_14 = 0, r_15 = 0\<rparr>,
     e_pid_tgid = 0, e_ktime = (\<lambda>_. 0), e_mem = byte_mem ucast, e_rb_ok = True, e_cpu = 0\<rparr>"

interpretation subop_types: debug_table subop_table subop_dies subop_depth "module_cfi subop_module"
proof
  show "table_dies subop_table subop_dies" by (rule subop_dies)
  show "list_all (row_layered subop_table subop_depth) subop_dies" by code_simp
  show "list_all (row_referents subop_table subop_depth) subop_dies" by code_simp
qed (simp add: cfa_ops_def module_cfi_def subop_module_def)

lemma subop_single_level: "single_level (table_dw subop_table)"
  by (rule subop_types.single_if_rows) code_simp

section \<open>From the binary to the probe\<close>




lemma subop_param: "dr_tag (subop_table x) = DW_TAG_formal_parameter \<Longrightarrow> x = 2"
  by (simp add: subop_table_def plain_row_def member_row_def no_row_def split: if_splits)

lemma subop_pointer:
  assumes "translate_param_location (table_dw subop_table) cfi x86_64 func name addr = Some (Some (v, l))"
    and "dwarf_die_type (table_dw subop_table) v = Some t"
  shows "pointerish (table_dw subop_table) t"
proof -
  from assms(1) have "table_param subop_table func name = Some v"
    by (auto simp: translate_param_location_def find_param_def table_dw_def bind_eq_Some_conv Let_def
        split: option.split_asm if_split_asm prod.split_asm)
  then have "v = 2" by (auto simp: table_param_def find_Some_iff intro: subop_param)
  moreover have "dwarf_die_type (table_dw subop_table) 2 = Some 21" "d_tag (table_dw subop_table) 21 = DW_TAG_reference_type"
    by code_simp+
  ultimately show ?thesis using assms(2) by (auto simp: pointer_tag_def intro: pointerish.pointer)
qed


end
