(* ===== verification/Analysis_Export.thy ===== *)
theory Analysis_Export
  imports Analysis_Properties Dwarf_Data_Properties
begin

text \<open>
  From one analysis to the next run: what an analysis records can be exported to the DWARF JSON
  file and imported from it, and the imported data loads the same probes. The data has what the
  round trip asks for: offsets and registers that fit a C \<open>int\<close>, sorted tables, and file names as
  modules.
\<close>

section \<open>What is recorded fits the file\<close>

definition loc_fits :: "VarLocation \<Rightarrow> bool" where
  "loc_fits l \<longleftrightarrow> c_int_range (vl_reg l) \<and> c_int_range (vl_offset l)"

lemma small_register: "c_int_range (uint (r :: 5 word))"
proof -
  have "0 \<le> uint r \<and> uint r < 32" using uint_bounded [of r] by simp
  then show ?thesis unfolding c_int_range_def by linarith
qed

lemma loc_fits_init [simp]: "loc_fits VarLocation_init"
  by (simp add: loc_fits_def VarLocation_init_def c_int_range_def)

lemma loc_fits_set:
  "loc_fits l \<Longrightarrow> loc_fits (set_reg (uint (r :: 5 word)) l)" "loc_fits (set_breg (uint (r :: 5 word)) off l)"
  "loc_fits (set_breg (to_c_int x) off l)" "loc_fits l \<Longrightarrow> loc_fits (on_stack off l)"
  "loc_fits l \<Longrightarrow> loc_fits (l\<lparr>vl_offset := to_c_int x\<rparr>)"
  by (simp_all add: loc_fits_def set_reg_def set_breg_def on_stack_def to_c_int_range small_register)

lemma translate_expr_fits:
  assumes "translate_expr dw cfi fb ops pc loc = Some (Some l)" and "loc_fits loc"
  shows "loc_fits l"
proof -
  let ?P = "\<lambda>dw cfi fb expr pc loc y. loc_fits loc \<longrightarrow> (\<forall>l. y = Some l \<longrightarrow> loc_fits l)"
  have "?P dw cfi fb ops pc loc (Some l)"
    by (rule translate_expr.raw_induct [where P = ?P, OF _ assms(1)])
      (auto simp: loc_fits_set bind_eq_Some_conv
        split: list.split_asm dw_op.split_asm option.split_asm if_split_asm)
  with assms(2) show ?thesis by simp
qed

lemma abi_slot_register:
  "abi_slot_of dw target cs n off = Some (Some (InRegister r)) \<Longrightarrow> r \<in> set kIntArgRegs"
proof (induction cs arbitrary: n off)
  case (Cons c cs)
  have "n < 6 \<Longrightarrow> kIntArgRegs ! n \<in> set kIntArgRegs" by (rule nth_mem) (simp add: kIntArgRegs_def)
  with Cons show ?case by (auto simp: bind_eq_Some_conv split: if_split_asm)
qed simp

lemma abi_stack_fits: "abi_stack_location dw cfi func pc off = Some (Some l) \<Longrightarrow> loc_fits l"
  by (auto simp: abi_stack_location_def bind_eq_Some_conv intro!: loc_fits_set elim!: translate_expr_fits
      split: if_split_asm option.split_asm)

lemma abi_param_fits:
  assumes "abi_param_location dw cfi x86_64 func target pc = Some (Some l)"
  shows "loc_fits l"
proof -
  from assms obtain s where s: "abi_slot_of dw target (d_children dw func) 0 0 = Some (Some s)"
    and l: "(case s of InRegister r \<Rightarrow> Some (Some \<lparr>vl_reg = r, vl_offset = 0, vl_stack = False\<rparr>)
      | AtCfa off \<Rightarrow> abi_stack_location dw cfi func pc off) = Some (Some l)"
    by (auto simp: abi_param_location_def bind_eq_Some_conv split: if_split_asm option.split_asm)
  show ?thesis
  proof (cases s)
    case (InRegister r)
    have "\<forall>r\<in>set kIntArgRegs. c_int_range r" by (simp add: kIntArgRegs_def c_int_range_def)
    with abi_slot_register s l InRegister show ?thesis by (auto simp: loc_fits_def c_int_range_def)
  next
    case (AtCfa off)
    with l show ?thesis by (simp add: abi_stack_fits)
  qed
qed

lemma param_location_fits:
  assumes "translate_param_location dw cfi x86_64 func symbol pc = Some (Some (v, l))"
  shows "loc_fits l"
  using assms
  by (auto simp: translate_param_location_def bind_eq_Some_conv dest: abi_param_fits translate_expr_fits
      split: option.split_asm if_split_asm)

lemma member_step_fits:
  assumes "member_step dw io cache cfi pc t f = Some (Some (off, t1))"
  shows "c_int_range off"
proof -
  let ?t = "if d_attr dw t DW_AT_declaration \<noteq> None then resolve_typedecl dw io cache t else Some t"
  from assms obtain t2 where t2: "?t = Some t2" by (cases ?t) (simp_all add: member_step_def)
  with assms obtain r where r: "find_class_member dw t2 f = Some r"
    by (cases "find_class_member dw t2 f") (simp_all add: member_step_def)
  with assms t2 obtain c a where ca: "r = Some (c, a)" by (cases r) (auto simp: member_step_def)
  with assms t2 r obtain expr where expr: "d_loc dw a pc = Some expr"
    by (cases "d_loc dw a pc") (simp_all add: member_step_def)
  with assms t2 r ca have "\<exists>l. translate_expr dw cfi None expr pc VarLocation_init = Some (Some l) \<and> vl_offset l = off"
    by (cases "expr = []"; cases "translate_expr dw cfi None expr pc VarLocation_init") (auto simp: member_step_def)
  then show ?thesis using translate_expr_fits [OF _ loc_fits_init] by (auto simp: loc_fits_def)
qed

lemma translate_fields_fit:
  assumes "translate_fields dw io cache cfi pc t path = Some (Some fl)"
  shows "\<forall>f\<in>set fl. field_ok f"
proof -
  let ?P = "\<lambda>dw io cache cfi pc t path ptr res r.
    list_all field_ok res \<longrightarrow> (\<forall>fl. r = Some fl \<longrightarrow> list_all field_ok fl)"
  have step: "field_ok \<lparr>f_offset = off, f_pointer = ptr\<rparr> \<longleftrightarrow> c_int_range off" for off ptr
    by (simp add: field_ok_def)
  have "?P dw io cache cfi pc t (drop 1 path) False [\<lparr>f_offset = 0, f_pointer = False\<rparr>] (Some fl)"
    by (rule translate_path.raw_induct [where P = ?P, OF _ assms [unfolded translate_fields_def]])
      (auto simp: bind_eq_Some_conv step
        split: list.split_asm option.split_asm if_split_asm prod.split_asm,
       (drule member_step_fits, fastforce simp: step)+)
  then show ?thesis by (simp add: step c_int_range_def list_all_iff)
qed

lemma probe_var_fits: "probe_var pc cache cfi func addr path = Some vf \<Longrightarrow> var_ok vf"
  by (elim probe_var_parts, drule param_location_fits, drule translate_fields_fit)
    (simp add: var_ok_def loc_fits_def)

lemma recorded_fits:
  assumes "recorded_ok pc mds d" and "look2 (mod_func2vf d) m f = Some vfs" and "v \<in> set vfs"
  shows "var_ok v"
proof -
  from recorded_entry [OF assms(1,2)] obtain paths where "list_all2 (from_path pc mds) paths vfs" .
  with assms(3) obtain path where "from_path pc mds path v" by (auto simp: list_all2_conv_all_nth in_set_conv_nth)
  then show ?thesis by (auto simp: from_path_def probe_var_fits)
qed

text \<open>A module whose file name is not one of the two keys of the JSON header.\<close>

definition no_header_key :: "dw_module \<Rightarrow> bool" where
  "no_header_key md \<longleftrightarrow> get_basename (dm_path md) \<notin> {''version'', ''arch''}"

lemma table_in_ok: "table_in names T \<Longrightarrow> table_ok T"
  by (simp add: table_in_def table_ok_def smap_ok_def)

lemma recorded_exports:
  assumes "recorded_ok pc mds d" and "\<forall>md\<in>mds. no_header_key md"
  shows "dwarf_ok d"
proof -
  from assms(1) have tables: "table_in (basenames mds) (mod_func2pc d)" "table_in (basenames mds) (mod_func2vf d)"
    "table_in (basenames mds) (mod_type_sizes d)" "table_in (basenames mds) (mod_member_offsets d)"
    unfolding recorded_ok_def by blast+
  then have "set (module_names d) \<subseteq> basenames mds" by (auto simp: module_names_def table_in_def)
  then have "\<forall>m\<in>set (module_names d). CHR ''/'' \<notin> set m \<and> m \<noteq> ''version'' \<and> m \<noteq> ''arch''"
    using assms(2) by (fastforce simp: basenames_def get_basename_no_slash no_header_key_def)
  moreover have "\<forall>m k vs. (k, vs) \<in> set (smap_at (mod_func2vf d) m) \<longrightarrow> (\<forall>v\<in>set vs. var_ok v)"
  proof (intro allI impI ballI)
    fix m k vs v
    assume "(k, vs) \<in> set (smap_at (mod_func2vf d) m)" and v: "v \<in> set vs"
    then have "look2 (mod_func2vf d) m k = Some vs"
      using tables(2) by (simp add: look2_def table_in_def smap_ok_def)
    then show "var_ok v" using v by (rule recorded_fits [OF assms(1)])
  qed
  ultimately show ?thesis using tables by (simp add: dwarf_ok_def table_in_ok)
qed

section \<open>The imported tables\<close>

lemma sorted_maps_equal:
  assumes "smap_ok xs" and "smap_ok ys" and "map_of xs = map_of ys"
  shows "xs = ys"
proof (rule map_sorted_distinct_set_unique [where f = fst])
  show same: "set xs = set ys" using assms by (simp add: smap_ok_def flip: map_of_inject_set)
  show "inj_on fst (set xs \<union> set ys)" using assms(1) by (simp add: smap_ok_def distinct_map flip: same)
qed (use assms in \<open>simp_all add: smap_ok_def\<close>)

lemma copy_module_ok: "\<forall>m. smap_ok (smap_at acc m) \<Longrightarrow> \<forall>m. smap_ok (smap_at (copy_module T n acc) m)"
  unfolding copy_module_def by (rule fold_invariant [where Q = "\<lambda>_. True"]) (auto simp: put2_def smap_ok_put)

lemma copy_modules_ok:
  "\<forall>m. smap_ok (smap_at acc m) \<Longrightarrow> \<forall>m. smap_ok (smap_at (fold (copy_module T) ms acc) m)"
  by (rule fold_invariant [where Q = "\<lambda>_. True"]) (simp_all add: copy_module_ok)

lemma same_probes:
  assumes "look2 T = look2 T'" and "\<forall>m. smap_ok (smap_at T m)" and "\<forall>m. smap_ok (smap_at T' m)"
  shows "smap_at T = smap_at T'"
proof
  fix m
  have "map_of (smap_at T m) = map_of (smap_at T' m)"
    using fun_cong [OF assms(1), of m] by (simp add: look2_def [abs_def])
  then show "smap_at T m = smap_at T' m" using assms(2,3) by (intro sorted_maps_equal) simp_all
qed

text \<open>What an import of an exported file gives loads the same variables.\<close>

lemma imported_data:
  assumes "recorded_ok pc mds d" and "\<forall>md\<in>mds. no_header_key md"
    and "expected = [] \<or> expected = version" and "mod_member_offsets d0 = []"
  shows "\<exists>d'. import_value (export_value h version d) expected d0 = (True, d') \<and> same_data d' d \<and>
    fill_map_hprobes junk path d' hp = fill_map_hprobes junk path d hp"
proof -
  note exports = recorded_exports [OF assms(1,2)]
  let ?d' = "fold (copy_all d) (module_names d) (d0\<lparr>mod_func2pc := [], mod_func2vf := [], mod_type_sizes := []\<rparr>)"
  have imp: "import_value (export_value h version d) expected d0 = (True, ?d')"
    by (rule import_export_eq [OF exports assms(3)])
  with import_export_value [OF exports assms(3,4), of h] have same: "same_data ?d' d" by simp
  have "\<forall>m. smap_ok (smap_at (mod_func2vf ?d') m)" by (simp add: fold_copy_all copy_modules_ok)
  moreover have "\<forall>m. smap_ok (smap_at (mod_func2vf d) m)" using assms(1) by (simp add: recorded_ok_def table_in_def)
  ultimately have "smap_at (mod_func2vf ?d') = smap_at (mod_func2vf d)"
    using same by (intro same_probes) (simp_all add: same_data_def)
  then have "fill_map_hprobes junk path ?d' hp = fill_map_hprobes junk path d hp"
    by (simp add: fill_map_hprobes_def)
  with imp same show ?thesis by blast
qed

section \<open>From one run to the next\<close>

text \<open>C20: what the analysis of a ceph-osd records can be kept in a file: exported as JSON and imported
  by a later run that expects its version or none, it is read without an error, every lookup gives
  what it gave, and the variable map that is filled from it is the same, so the probes of a later
  run read what those of the analysing run read. The library's text form must parse back, and no
  module may be called like one of the two keys of the file's header.\<close>

theorem analysis_reloads:
  assumes "osd_analyse ds bin empty_dwarf = Some d"
    and "\<forall>md\<in>set (ds_open_dwfl ds bin). no_header_key md"
    and "expected = [] \<or> expected = version"
    and "ds_parse ds (ds_dump ds (export_value h version d)) = Some (export_value h version d)"
  shows "\<exists>d'. import_from_json (ds_parse ds) (Some (fst (export_to_json (ds_dump ds) h version d))) expected
        empty_dwarf = (True, d') \<and> same_data d' d \<and>
      fill_map_hprobes junk path d' hp = fill_map_hprobes junk path d hp"
  using imported_data [OF osd_recorded [OF assms(1)] assms(2,3), of empty_dwarf h junk path hp] assms(4)
  by (simp add: import_from_json_def export_to_json_def empty_dwarf_def)

text \<open>The analysis does not depend on the JSON library.\<close>

lemma analyse_any_text:
  "osd_analyse (ds\<lparr>ds_parse := p, ds_dump := q\<rparr>) bin d = osd_analyse ds bin d"
  by (simp add: osd_analyse_def osd_parser_def parser_for_def)

definition subop_files :: dwarf_services where
  "subop_files = subop_services\<lparr>ds_parse := \<lambda>s. Some (export_value demo_host ''19.2.0'' subop_data),
     ds_dump := \<lambda>j. ''text''\<rparr>"

lemma analysis_reloads_witness:
  "\<exists>d'. import_from_json (ds_parse subop_files)
        (Some (fst (export_to_json (ds_dump subop_files) demo_host ''19.2.0'' subop_data))) ''19.2.0'' empty_dwarf = (True, d') \<and>
      same_data d' subop_data \<and>
      fill_map_hprobes (\<lambda>_. \<lparr>f_offset = 7, f_pointer = True\<rparr>) ''/usr/bin/ceph-osd'' d' Map.empty =
        fill_map_hprobes (\<lambda>_. \<lparr>f_offset = 7, f_pointer = True\<rparr>) ''/usr/bin/ceph-osd'' subop_data Map.empty"
proof -
  have run: "osd_analyse subop_files ''/usr/bin/ceph-osd'' empty_dwarf = Some subop_data"
    using subop_analysed by (simp add: subop_files_def analyse_any_text)
  have "get_basename ''/usr/bin/ceph-osd'' = ''ceph-osd''" by code_simp
  then have names: "\<forall>md\<in>set (ds_open_dwfl subop_files ''/usr/bin/ceph-osd''). no_header_key md"
    by (simp add: subop_files_def subop_services_def no_header_key_def subop_module_def)
  have reads: "ds_parse subop_files (ds_dump subop_files (export_value demo_host ''19.2.0'' subop_data)) =
      Some (export_value demo_host ''19.2.0'' subop_data)" by (simp add: subop_files_def)
  show ?thesis by (rule analysis_reloads [OF run names _ reads]) simp
qed

end
