(* ===== verification/Rados_Probes.thy ===== *)
theory Rados_Probes
  imports Bpf_Runtime
begin

text \<open>
  \<open>src/radostrace.bpf.c\<close>: the two uprobe programs of radostrace on the state of the \<open>ops\<close> map
  and the ring buffer. The offsets userspace sets before loading are the record
  \<open>rados_rodata\<close>, with the C names behind the prefix \<open>R_\<close>. A pointer into the map that is
  written through is a store back into the map; one invocation is atomic.
\<close>

record rados_rodata =
  R_CEPH_OSD_OP_SIZE :: u32
  R_CEPH_OSD_OP_EXTENT_OFFSET_OFFSET :: u32
  R_CEPH_OSD_OP_EXTENT_LENGTH_OFFSET :: u32
  R_CEPH_OSD_OP_CLS_CLASS_OFFSET :: u32
  R_CEPH_OSD_OP_CLS_METHOD_OFFSET :: u32
  R_CEPH_OSD_OP_BUFFER_CARRIAGE_OFFSET :: u32
  R_CEPH_OSD_OP_BUFFER_RAW_OFFSET :: u32
  R_CEPH_OSD_OP_BUFFER_DATA_OFFSET :: u32
  SEND_OP_REG :: u32
  SEND_THIS_REG :: u32
  FIN_OP_REG :: u32
  FIN_THIS_REG :: u32
  OFF_TID :: int
  OFF_MONC :: int
  OFF_GLOBAL_ID :: int
  OFF_TARGET_OSD :: int
  OFF_NAME_LEN :: int
  OFF_NAME_PTR :: int
  OFF_FLAGS :: int
  OFF_POOL :: int
  OFF_SEED :: int
  OFF_ACTING_START :: int
  OFF_ACTING_FINISH :: int
  OFF_OPS_START :: int
  OFF_OPS_SIZE :: int

record rados_bpf =
  rs_ops :: "client_op_k \<Rightarrow> client_op_v option"
  rs_rb :: "client_op_v list"

record rados_cfg =
  rc_ro :: rados_rodata
  rc_upd :: "(client_op_k \<Rightarrow> client_op_v option) \<Rightarrow> client_op_k \<Rightarrow> client_op_v
               \<Rightarrow> (client_op_k \<Rightarrow> client_op_v option)"

definition rados_init :: rados_bpf where
  "rados_init = \<lparr>rs_ops = Map.empty, rs_rb = []\<rparr>"

section \<open>Helpers\<close>

definition initialize_value :: "rados_cfg \<Rightarrow> client_op_k \<Rightarrow> rados_bpf \<Rightarrow> rados_bpf" where
  "initialize_value c key s = s\<lparr>rs_ops := rc_upd c (rs_ops s) key zero_client_op_v\<rparr>"

definition put_client :: "client_op_k \<Rightarrow> client_op_v \<Rightarrow> rados_bpf \<Rightarrow> rados_bpf" where
  "put_client k v s = s\<lparr>rs_ops := (rs_ops s)(k \<mapsto> v)\<rparr>"

definition del_client :: "client_op_k \<Rightarrow> rados_bpf \<Rightarrow> rados_bpf" where
  "del_client k s = s\<lparr>rs_ops := (rs_ops s)(k := None)\<rparr>"

text \<open>\<open>READ_OP\<close>: the bytes at an offset from the op.\<close>

definition READ_OP :: "user_mem \<Rightarrow> u64 \<Rightarrow> int \<Rightarrow> nat \<Rightarrow> bytes" where
  "READ_OP um op off n = read_user um (op + of_int off) n"

definition read_cid :: "rados_rodata \<Rightarrow> kenv \<Rightarrow> u32 \<Rightarrow> u64" where
  "read_cid ro e this_reg =
     (let self = fetch_register (e_regs e) (sint this_reg);
          monc = (if self \<noteq> 0 then u64_of (read_user (e_mem e) (self + of_int (OFF_MONC ro)) 8) else 0)
      in if monc \<noteq> 0 then u64_of (read_user (e_mem e) (monc + of_int (OFF_GLOBAL_ID ro)) 8) else 0)"

text \<open>The key both probes build.\<close>

definition client_key :: "rados_rodata \<Rightarrow> kenv \<Rightarrow> u64 \<Rightarrow> u32 \<Rightarrow> client_op_k" where
  "client_key ro e op this_reg =
     \<lparr>ck_cid = read_cid ro e this_reg, ck_tid = u64_of (READ_OP (e_mem e) op (OFF_TID ro) 8)\<rparr>"

section \<open>Capturing the acting set\<close>

fun acting_loop :: "user_mem \<Rightarrow> u64 \<Rightarrow> u64 \<Rightarrow> nat list \<Rightarrow> int list \<Rightarrow> int list" where
  "acting_loop um M_start m_finish [] acting = acting"
| "acting_loop um M_start m_finish (i # rest) acting =
     (let a = acting[i := - 1] in
      if M_start < m_finish
      then acting_loop um (M_start + 4) m_finish rest (a[i := int32_of (read_user um M_start 4)])
      else a)"

section \<open>Capturing the ops\<close>

definition client_cls :: "rados_rodata \<Rightarrow> user_mem \<Rightarrow> u64 \<Rightarrow> cls_op \<Rightarrow> cls_op" where
  "client_cls ro um m_start co =
     (let cls_len0 = hd (read_user um (m_start + ucast (R_CEPH_OSD_OP_CLS_CLASS_OFFSET ro)) 1);
          method_len0 = hd (read_user um (m_start + ucast (R_CEPH_OSD_OP_CLS_METHOD_OFFSET ro)) 1);
          carriage = u64_of (read_user um (m_start + ucast (R_CEPH_OSD_OP_BUFFER_CARRIAGE_OFFSET ro)) 8);
          raw = u64_of (read_user um (carriage + ucast (R_CEPH_OSD_OP_BUFFER_RAW_OFFSET ro)) 8);
          data = u64_of (read_user um (raw + ucast (R_CEPH_OSD_OP_BUFFER_DATA_OFFSET ro)) 8);
          cls_len = cls_len0 AND 15;
          method_len = method_len0 AND 31
      in \<lparr>cls_name = overlay (read_user um data (unat cls_len)) (cls_name co),
          method_name = overlay (read_user um (data + ucast cls_len) (unat method_len)) (method_name co)\<rparr>)"

definition client_op_one :: "rados_rodata \<Rightarrow> user_mem \<Rightarrow> u64 \<Rightarrow> nat \<Rightarrow> client_op_v \<Rightarrow> client_op_v" where
  "client_op_one ro um m_start i v =
     (let opcode = u16_of (read_user um m_start 2);
          v1 = v\<lparr>cv_ops := (cv_ops v)[i := opcode]\<rparr>
      in
      if ceph_osd_op_extent (uint opcode) then
        v1\<lparr>cv_offset := u64_of (read_user um (m_start + ucast (R_CEPH_OSD_OP_EXTENT_OFFSET_OFFSET ro)) 8),
           cv_length := u64_of (read_user um (m_start + ucast (R_CEPH_OSD_OP_EXTENT_LENGTH_OFFSET ro)) 8)\<rparr>
      else if ceph_osd_op_call (uint opcode) then
        v1\<lparr>cv_cls_ops := (cv_cls_ops v1)[i := client_cls ro um m_start (cv_cls_ops v1 ! i)]\<rparr>
      else v1)"

fun client_ops_loop :: "rados_rodata \<Rightarrow> user_mem \<Rightarrow> u64 \<Rightarrow> nat list \<Rightarrow> client_op_v \<Rightarrow> client_op_v" where
  "client_ops_loop ro um m_start [] v = v"
| "client_ops_loop ro um m_start (i # rest) v =
     (if of_nat i < cv_ops_size v
      then client_ops_loop ro um (m_start + ucast (R_CEPH_OSD_OP_SIZE ro)) rest
             (client_op_one ro um m_start i v)
      else v)"

text \<open>Everything \<open>uprobe_send_op\<close> writes into the entry before its last two stores.\<close>

definition read_target :: "rados_rodata \<Rightarrow> user_mem \<Rightarrow> u64 \<Rightarrow> client_op_v \<Rightarrow> client_op_v" where
  "read_target ro um op v =
     (let name_len = u32_of (READ_OP um op (OFF_NAME_LEN ro) 4) AND 127;
          name_base = u64_of (READ_OP um op (OFF_NAME_PTR ro) 8);
          M_start = u64_of (READ_OP um op (OFF_ACTING_START ro) 8);
          m_finish = u64_of (READ_OP um op (OFF_ACTING_FINISH ro) 8)
      in v\<lparr>cv_target_osd := u32_of (READ_OP um op (OFF_TARGET_OSD ro) 4),
           cv_rw := u16_of (READ_OP um op (OFF_FLAGS ro) 2),
           cv_m_pool := u64_of (READ_OP um op (OFF_POOL ro) 8),
           cv_m_seed := u32_of (READ_OP um op (OFF_SEED ro) 4),
           cv_object_name := overlay (read_user um name_base (unat name_len)) (cv_object_name v),
           cv_acting := acting_loop um M_start m_finish [0..<MAX_ACTING] (cv_acting v)\<rparr>)"

definition read_ops :: "rados_rodata \<Rightarrow> user_mem \<Rightarrow> u64 \<Rightarrow> client_op_v \<Rightarrow> client_op_v" where
  "read_ops ro um op v =
     (let m_start = u64_of (READ_OP um op (OFF_OPS_START ro) 8);
          ops_size = u32_of (READ_OP um op (OFF_OPS_SIZE ro) 4)
      in client_ops_loop ro um m_start [0..<MAX_CLIENT_OPS]
           (v\<lparr>cv_ops_size := (if m_start = 0 then 0 else ops_size), cv_offset := 0, cv_length := 0\<rparr>))"

section \<open>The two programs\<close>

definition uprobe_send_op :: "rados_cfg \<Rightarrow> kenv \<Rightarrow> rados_bpf \<Rightarrow> rados_bpf" where
  "uprobe_send_op c e s =
     (let ro = rc_ro c; op = fetch_register (e_regs e) (sint (SEND_OP_REG ro)) in
      if op = 0 then s
      else
        let key = client_key ro e op (SEND_THIS_REG ro); s1 = initialize_value c key s in
        case rs_ops s1 key of
          None \<Rightarrow> s1
        | Some v0 \<Rightarrow>
            let v1 = v0\<lparr>cv_tid := ck_tid key, cv_cid := ck_cid key\<rparr>;
                v2 = read_ops ro (e_mem e) op (read_target ro (e_mem e) op v1)
            in put_client key (v2\<lparr>cv_sent_stamp := e_ktime e 0, cv_pid := get_pid e\<rparr>) s1)"

definition uprobe_finish_op :: "rados_cfg \<Rightarrow> kenv \<Rightarrow> rados_bpf \<Rightarrow> rados_bpf" where
  "uprobe_finish_op c e s =
     (let ro = rc_ro c; op = fetch_register (e_regs e) (sint (FIN_OP_REG ro)) in
      if op = 0 then s
      else
        let key = client_key ro e op (FIN_THIS_REG ro) in
        case rs_ops s key of
          None \<Rightarrow> s
        | Some opv \<Rightarrow>
            let opv1 = opv\<lparr>cv_finish_stamp := e_ktime e 0\<rparr>; s1 = put_client key opv1 s in
            if \<not> e_rb_ok e then del_client key s1
            else del_client key (s1\<lparr>rs_rb := rs_rb s1 @ [opv1]\<rparr>))"

datatype rados_probe = SendOp | FinishOp

fun rados_step :: "rados_cfg \<Rightarrow> rados_probe \<times> kenv \<Rightarrow> rados_bpf \<Rightarrow> rados_bpf" where
  "rados_step c (SendOp, e) s = uprobe_send_op c e s"
| "rados_step c (FinishOp, e) s = uprobe_finish_op c e s"

end
