(* ===== verification/Rados_Report.thy ===== *)
theory Rados_Report
  imports Rados_Probes Osd_Report
begin

text \<open>
  The event side of radostrace (\<open>src/radostrace.cc\<close>): the row printed for a request, the CSV
  file beside it, and the rows of the requests that never finished. The state is what the
  function's statics and the output files hold.
\<close>

section \<open>State\<close>

record field_widths =
  w_pid :: nat
  w_client :: nat
  w_tid :: nat
  w_pool :: nat
  w_pg :: nat
  w_acting :: nat
  w_wr :: nat
  w_size :: nat
  w_latency :: nat

record rados_ui =
  ru_out :: "string list"                 \<comment> \<open>lines on standard output\<close>
  ru_widths :: "field_widths option"      \<comment> \<open>\<open>None\<close> until the first event\<close>
  ru_export_csv :: bool
  ru_csv :: "string option"               \<comment> \<open>contents of the CSV file once it is open\<close>

definition rados_ui_init :: "bool \<Rightarrow> rados_ui" where
  "rados_ui_init csv = \<lparr>ru_out = [], ru_widths = None, ru_export_csv = csv, ru_csv = None\<rparr>"

section \<open>Fields\<close>

definition csv_special :: "char \<Rightarrow> bool" where
  "csv_special c \<longleftrightarrow> c = CHR '','' \<or> c = CHR 0x22 \<or> c = CHR 0x0A \<or> c = CHR 0x0D"

fun csv_double :: "string \<Rightarrow> string" where
  "csv_double [] = []"
| "csv_double (c # s) = (if c = CHR 0x22 then CHR 0x22 # c # csv_double s else c # csv_double s)"

definition csv_escape :: "string \<Rightarrow> string" where
  "csv_escape s = (if list_ex csv_special s then CHR 0x22 # csv_double s @ [CHR 0x22] else s)"

definition acting_str :: "client_op_v \<Rightarrow> string" where
  "acting_str v =
     ''['' @ str_join '','' (map show_int (takeWhile (\<lambda>a. 0 \<le> a) (take MAX_ACTING (cv_acting v)))) @ '']''"

text \<open>
  A \<open>std::stringstream\<close> that is given a null \<open>const char *\<close> goes bad and drops everything after
  it; \<open>None\<close> stands for the null pointer.
\<close>

fun stream_all :: "string option list \<Rightarrow> string" where
  "stream_all [] = []"
| "stream_all (None # xs) = []"
| "stream_all (Some s # xs) = s @ stream_all xs"

definition shown_ops :: "client_op_v \<Rightarrow> nat" where
  "shown_ops v = min (unat (cv_ops_size v)) MAX_CLIENT_OPS"

definition rados_op_item :: "client_op_v \<Rightarrow> nat \<Rightarrow> string option list" where
  "rados_op_item v i =
     (let opc = uint (cv_ops v ! i) in
      if ceph_osd_op_extent opc then [ceph_osd_op_str opc]
      else if ceph_osd_op_call opc then
        [Some (''call('' @ c_str (cls_name (cv_cls_ops v ! i)) @ ''.'' @
               c_str (method_name (cv_cls_ops v ! i)) @ '')'')]
      else [ceph_osd_op_str opc])"

definition ops_str :: "client_op_v \<Rightarrow> string" where
  "ops_str v =
     (let shown = shown_ops v in
      stream_all
        ([Some ''[''] @
         concat (map (\<lambda>i. (if 0 < i then [Some '' ''] else []) @ rados_op_item v i) [0..<shown]) @
         (if shown < unat (cv_ops_size v)
          then (if 0 < shown then [Some '' ''] else []) @
               [Some (''...+'' @ show_nat (unat (cv_ops_size v) - shown))]
          else []) @
         [Some '']'']))"

definition print_offset_length :: "client_op_v \<Rightarrow> bool" where
  "print_offset_length v \<longleftrightarrow> list_ex (\<lambda>i. ceph_osd_op_extent (uint (cv_ops v ! i))) [0..<shown_ops v]"

definition latency_us :: "client_op_v \<Rightarrow> int" where
  "latency_us v = sint ((cv_finish_stamp v - cv_sent_stamp v) div 1000)"

definition wr_str :: "client_op_v \<Rightarrow> string" where
  "wr_str v = (if cv_rw v AND CEPH_OSD_FLAG_WRITE \<noteq> 0 then ''W'' else ''R'')"

definition pg_str :: "client_op_v \<Rightarrow> string" where
  "pg_str v = show_hex (unat (cv_m_seed v))"

section \<open>The CSV file\<close>

definition csv_header :: string where
  "csv_header = ''pid,client,tid,pool,pg,acting,WR,size,latency,Complete,object,ops,offset,length'' @ [CHR 0x0A]"

text \<open>The fourteen values of a row, before escaping.\<close>

definition csv_values :: "client_op_v \<Rightarrow> bool \<Rightarrow> string list" where
  "csv_values v complete =
     [show_d32 (cv_pid v), show_lld (cv_cid v), show_lld (cv_tid v), show_lld (cv_m_pool v), pg_str v,
      acting_str v, wr_str v, show_lld (cv_length v), show_int (latency_us v),
      if complete then ''1'' else ''0'',
      c_str (cv_object_name v), ops_str v,
      if print_offset_length v then show_nat (unat (cv_offset v)) else [],
      if print_offset_length v then show_nat (unat (cv_length v)) else []]"

text \<open>Only the columns that may hold a separator are escaped.\<close>

definition csv_row :: "client_op_v \<Rightarrow> bool \<Rightarrow> string" where
  "csv_row v complete =
     (let xs = csv_values v complete in
      str_join '','' (take 5 xs @ [csv_escape (xs ! 5)] @ take 4 (drop 6 xs) @ map csv_escape (drop 10 xs))
        @ [CHR 0x0A])"

section \<open>The row on standard output\<close>

definition pad_left :: "nat \<Rightarrow> string \<Rightarrow> string" where
  "pad_left n s = replicate (n - length s) (CHR '' '') @ s"

definition first_widths :: "client_op_v \<Rightarrow> field_widths" where
  "first_widths v =
     \<lparr>w_pid = max 8 (length (show_nat (unat (cv_pid v))) + 1),
      w_client = max 8 (length (show_nat (unat (cv_cid v))) + 1),
      w_tid = max 8 (length (show_nat (unat (cv_tid v))) + 1),
      w_pool = max 6 (length (show_nat (unat (cv_m_pool v))) + 1),
      w_pg = max 4 (length (pg_str v) + 1),
      w_acting = max 15 (length (acting_str v) + 1),
      w_wr = 4,
      w_size = max 9 (length (show_nat (unat (cv_length v))) + 1),
      w_latency = max 9 (length (show_int (latency_us v)) + 1)\<rparr>"

definition rados_header :: "field_widths \<Rightarrow> string" where
  "rados_header w =
     pad_left (w_pid w) ''pid'' @ pad_left (w_client w) ''client'' @ pad_left (w_tid w) ''tid'' @
     pad_left (w_pool w) ''pool'' @ pad_left (w_pg w) ''pg'' @ '' '' @
     pad_left (w_acting w) ''acting'' @ pad_left (w_wr w) ''WR'' @ pad_left (w_size w) ''size'' @
     pad_left (w_latency w) ''latency'' @ pad_left 11 ''Complete'' @ ''     object[ops]''"

definition rados_row :: "field_widths \<Rightarrow> client_op_v \<Rightarrow> bool \<Rightarrow> string" where
  "rados_row w v complete =
     pad_left (w_pid w) (show_d32 (cv_pid v)) @ pad_left (w_client w) (show_lld (cv_cid v)) @
     pad_left (w_tid w) (show_lld (cv_tid v)) @ pad_left (w_pool w) (show_lld (cv_m_pool v)) @
     pad_left (w_pg w) (pg_str v) @ '' '' @ pad_left (w_acting w) (acting_str v) @
     pad_left (w_wr w) (wr_str v) @ pad_left (w_size w) (show_lld (cv_length v)) @
     pad_left (w_latency w) (show_int (latency_us v)) @ pad_left 11 (if complete then ''1'' else ''0'') @
     ''     '' @ c_str (cv_object_name v) @ '' '' @ ops_str v @
     (if print_offset_length v
      then ''['' @ show_lld (cv_offset v) @ '', '' @ show_lld (cv_length v) @ '']'' else [])"

text \<open>The CSV part; \<open>csv_ok\<close> says whether the file can be opened.\<close>

definition write_csv :: "bool \<Rightarrow> client_op_v \<Rightarrow> bool \<Rightarrow> rados_ui \<Rightarrow> rados_ui" where
  "write_csv csv_ok v complete ui =
     (if \<not> ru_export_csv ui then ui
      else case ru_csv ui of
        Some f \<Rightarrow> ui\<lparr>ru_csv := Some (f @ csv_row v complete)\<rparr>
      | None \<Rightarrow> if csv_ok then ui\<lparr>ru_csv := Some (csv_header @ csv_row v complete)\<rparr>
                else ui\<lparr>ru_export_csv := False\<rparr>)"

definition print_event :: "bool \<Rightarrow> client_op_v \<Rightarrow> bool \<Rightarrow> rados_ui \<Rightarrow> rados_ui" where
  "print_event csv_ok v complete ui =
     (let ui1 = write_csv csv_ok v complete ui;
          ui2 = (case ru_widths ui1 of
                   Some _ \<Rightarrow> ui1
                 | None \<Rightarrow> ui1\<lparr>ru_widths := Some (first_widths v),
                              ru_out := ru_out ui1 @ [rados_header (first_widths v)]\<rparr>)
      in case ru_widths ui2 of
           Some w \<Rightarrow> ui2\<lparr>ru_out := ru_out ui2 @ [rados_row w v complete]\<rparr>
         | None \<Rightarrow> ui2)"

definition rados_handle_event :: "bool \<Rightarrow> client_op_v \<Rightarrow> rados_ui \<Rightarrow> rados_ui" where
  "rados_handle_event csv_ok v ui = print_event csv_ok v True ui"

section \<open>Requests that did not finish\<close>

text \<open>
  \<open>entries\<close> is what the walk over the map delivers: a key and what the lookup of it returns;
  \<open>now\<close> is the boot clock, if it can be read.
\<close>

definition hung_entry :: "bool \<Rightarrow> u64 \<Rightarrow> client_op_v option \<Rightarrow> int \<times> rados_ui \<Rightarrow> int \<times> rados_ui" where
  "hung_entry csv_ok now_ns lookup st =
     (case lookup of
        None \<Rightarrow> st
      | Some op \<Rightarrow>
          if cv_sent_stamp op = 0 then st
          else (fst st + 1, print_event csv_ok (op\<lparr>cv_finish_stamp := now_ns\<rparr>) False (snd st)))"

definition report_hung_ops ::
  "bool \<Rightarrow> timespec option \<Rightarrow> (client_op_k \<times> client_op_v option) list \<Rightarrow> rados_ui \<Rightarrow> int \<times> rados_ui" where
  "report_hung_ops csv_ok now entries ui =
     (case now of
        None \<Rightarrow> (- 1, ui)
      | Some t \<Rightarrow>
          fold (hung_entry csv_ok (of_int (tv_sec t) * 1000000000 + of_int (tv_nsec t)))
            (map snd entries) (0, ui))"

end
