(* ===== verification/Rados_Control.thy ===== *)
theory Rados_Control
  imports Rados_Report Osd_Control
begin

text \<open>
  The control path of radostrace (\<open>src/radostrace.cc\<close>): its tables, the command line, the
  discovery of Ceph clients, the choice of libraries, the layout facts and the collapse of the
  probed member chains to single offsets, attaching, and the main loop. The host, libbpf and
  libdw are the parameters of osdtrace's control path.
\<close>

section \<open>Tables\<close>

definition rados_probe_units :: "string list" where
  "rados_probe_units = [''Objecter.cc'']"

definition rados_func_id :: "(string \<times> int) list" where
  "rados_func_id = [(''Objecter::_send_op'', 0), (''Objecter::_finish_op'', 20)]"

definition rados_func_progid :: "(string \<times> int) list" where
  "rados_func_progid = [(''Objecter::_send_op'', 0), (''Objecter::_finish_op'', 1)]"

definition rados_probes :: "(string \<times> string list list) list" where
  "rados_probes =
     [(''Objecter::_send_op'',
       [[''op'', ''tid''],
        [''this'', ''monc'', ''global_id''],
        [''op'', ''target'', ''osd''],
        [''op'', ''target'', ''base_oid'', ''name'', ''_M_string_length''],
        [''op'', ''target'', ''base_oid'', ''name'', ''_M_dataplus'', ''_M_p''],
        [''op'', ''target'', ''flags''],
        [''op'', ''target'', ''actual_pgid'', ''pgid'', ''m_pool''],
        [''op'', ''target'', ''actual_pgid'', ''pgid'', ''m_seed''],
        [''op'', ''target'', ''acting'', ''_M_impl'', ''_M_start''],
        [''op'', ''target'', ''acting'', ''_M_impl'', ''_M_finish''],
        [''op'', ''ops'', ''m_holder'', ''m_start''],
        [''op'', ''ops'', ''m_holder'', ''m_size'']]),
      (''Objecter::_finish_op'',
       [[''op'', ''tid''], [''this'', ''monc'', ''global_id''], [''op'', ''target'', ''osd'']])]"

section \<open>Command line\<close>

record rados_args =
  ra_timeout :: int
  ra_export_json :: "string option"
  ra_import_json :: "string option"
  ra_csv :: "string option"
  ra_process_id :: int
  ra_skip_version_check :: bool
  ra_list_clients :: bool
  ra_list_embedded :: bool

definition rados_args_init :: rados_args where
  "rados_args_init = \<lparr>ra_timeout = - 1, ra_export_json = None, ra_import_json = None, ra_csv = None,
     ra_process_id = - 1, ra_skip_version_check = False, ra_list_clients = False, ra_list_embedded = False\<rparr>"

text \<open>
  What \<open>getopt_long\<close> delivers: a long option without a short letter, or a letter with its
  argument and the word that follows it on the command line (taken as a file name when an
  optional argument is missing and it does not start with a dash).
\<close>

datatype rados_opt = RLong string | RShort char "string option" "string option"

definition optional_file :: "string \<Rightarrow> string option \<Rightarrow> string option \<Rightarrow> string" where
  "optional_file fallback arg next_word =
     (case arg of
        Some f \<Rightarrow> f
      | None \<Rightarrow> (case next_word of
                  None \<Rightarrow> fallback
                | Some w \<Rightarrow> if take 1 w = ''-'' then fallback else w))"

definition positive_arg :: "string option \<Rightarrow> int option" where
  "positive_arg arg =
     (case arg of None \<Rightarrow> None | Some s \<Rightarrow>
        (case stoi s of None \<Rightarrow> None | Some n \<Rightarrow> if n \<le> 0 then None else Some n))"

definition rados_opt_step :: "rados_opt \<Rightarrow> rados_args \<Rightarrow> rados_args parsed" where
  "rados_opt_step opt a =
     (case opt of
        RLong name \<Rightarrow>
          if name = ''skip-version-check'' then Parsed (a\<lparr>ra_skip_version_check := True\<rparr>)
          else if name = ''list'' then Parsed (a\<lparr>ra_list_clients := True\<rparr>)
          else if name = ''list-embedded'' then Parsed (a\<lparr>ra_list_embedded := True\<rparr>)
          else Parsed a
      | RShort c arg next_word \<Rightarrow>
          if c = CHR ''t'' then
            (case positive_arg arg of None \<Rightarrow> ParseFailed | Some n \<Rightarrow> Parsed (a\<lparr>ra_timeout := n\<rparr>))
          else if c = CHR ''j'' then
            Parsed (a\<lparr>ra_export_json := Some (optional_file ''radostrace_dwarf.json'' arg next_word)\<rparr>)
          else if c = CHR ''i'' then Parsed (a\<lparr>ra_import_json := arg\<rparr>)
          else if c = CHR ''o'' then
            Parsed (a\<lparr>ra_csv := Some (optional_file ''radostrace_events.csv'' arg next_word)\<rparr>)
          else if c = CHR ''p'' then
            (case positive_arg arg of None \<Rightarrow> ParseFailed | Some n \<Rightarrow> Parsed (a\<lparr>ra_process_id := n\<rparr>))
          else if c = CHR ''V'' \<or> c = CHR ''h'' then Exited 0
          else ParseFailed)"

fun rados_parse_args :: "rados_opt list \<Rightarrow> rados_args \<Rightarrow> rados_args parsed" where
  "rados_parse_args [] a = Parsed a"
| "rados_parse_args (opt # opts) a =
     (case rados_opt_step opt a of
        Parsed a' \<Rightarrow> rados_parse_args opts a'
      | ParseFailed \<Rightarrow> ParseFailed
      | Exited n \<Rightarrow> Exited n
      | Aborted \<Rightarrow> Aborted)"

section \<open>Discovery of clients\<close>

record CephClientInfo =
  cl_pid :: int
  cl_exe_path :: string
  cl_is_container :: bool
  cl_traceable :: string
  cl_version :: string

text \<open>The path on the first line of \<open>/proc/<pid>/maps\<close> that names the library after a slash.\<close>

fun client_library :: "string list \<Rightarrow> string" where
  "client_library [] = []"
| "client_library (line # lines) =
     (case char_find (CHR ''/'') line of
        None \<Rightarrow> client_library lines
      | Some slash \<Rightarrow>
          if str_contains ''libceph-common.so.2'' (drop slash line) then drop slash line
          else client_library lines)"

definition client_of :: "host \<Rightarrow> embedded_tables \<Rightarrow> string \<Rightarrow> int \<Rightarrow> string \<Rightarrow> CephClientInfo" where
  "client_of h emb self_ns pid lib_path =
     (let ns = get_mnt_ns h pid;
          info = \<lparr>cl_pid = pid, cl_exe_path = get_exe_path_for_pid h pid,
                  cl_is_container = (self_ns \<noteq> [] \<and> ns \<noteq> [] \<and> self_ns \<noteq> ns),
                  cl_traceable = ''unknown'', cl_version = ''unknown''\<rparr>;
          bid = get_elf_build_id h (proc_file pid ''/root'' @ lib_path)
      in
      if bid = [] then info
      else
        case is_embedded_traceable emb [(''libceph-common.so.2'', bid)] ''radostrace'' of
          (True, matched) \<Rightarrow>
            (let m = (case matched of Some v \<Rightarrow> v | None \<Rightarrow> []);
                 info1 = info\<lparr>cl_traceable := ''yes''\<rparr>
             in if m \<noteq> [] then info1\<lparr>cl_version := m\<rparr> else info1)
        | (False, _) \<Rightarrow>
            (let info1 = info\<lparr>cl_traceable := ''no''\<rparr>; pkg = get_package_version h lib_path in
             if \<not> cl_is_container info \<and> pkg \<noteq> [] \<and> pkg \<noteq> ''unknown''
             then info1\<lparr>cl_version := pkg\<rparr> else info1))"

definition discover_client :: "host \<Rightarrow> embedded_tables \<Rightarrow> string \<Rightarrow> string \<times> bool \<Rightarrow> CephClientInfo list" where
  "discover_client h emb self_ns d =
     (if \<not> is_pid_entry d then []
      else
        let pid = to_c_int (int (fst (scan_digits 0 (fst d)))) in
        if pid \<le> 0 then []
        else
          let lib_path = client_library
                (case h_lines h (''/proc/'' @ fst d @ ''/maps'') of Some ls \<Rightarrow> ls | None \<Rightarrow> [])
          in if lib_path = [] then [] else [client_of h emb self_ns pid lib_path])"

definition discover_ceph_clients :: "host \<Rightarrow> embedded_tables \<Rightarrow> CephClientInfo list" where
  "discover_ceph_clients h emb =
     (case h_proc h of
        None \<Rightarrow> []
      | Some ds \<Rightarrow> sort_key cl_pid (concat (map (discover_client h emb (get_mnt_ns h (h_self h))) ds)))"

text \<open>The table of \<open>--list\<close>; the explanatory paragraph after it is left out.\<close>

definition print_clients :: "CephClientInfo list \<Rightarrow> string list" where
  "print_clients clients =
     (if clients = [] then [''No client processes using libceph-common detected on the host.'']
      else
        [''Detected '' @ show_nat (length clients) @ '' client process(es) using libceph-common:'',
         ''  '' @ pad 10 ''PID'' @ '' '' @ pad 11 ''Container'' @ '' '' @ pad 11 ''Traceable'' @ '' ''
           @ pad 24 ''Ceph Version'' @ '' Executable Path'',
         ''  '' @ replicate 80 (CHR ''-'')] @
        map (\<lambda>c. ''  '' @ pad 10 (show_int (cl_pid c)) @ '' '' @
                  pad 11 (if cl_is_container c then ''yes'' else ''no'') @ '' '' @
                  pad 11 (cl_traceable c) @ '' '' @ pad 24 (cl_version c) @ '' '' @
                  nonempty_or (cl_exe_path c) ''unknown'') clients)"

section \<open>Layout facts and collapsed member chains\<close>

fun need_size :: "dwarf_data \<Rightarrow> string list \<Rightarrow> string \<Rightarrow> u32 option" where
  "need_size dp [] type = None"
| "need_size dp (m # ms) type =
     (let v = get_type_size dp m type in if 0 < v then Some (of_int v) else need_size dp ms type)"

fun need_off :: "dwarf_data \<Rightarrow> string list \<Rightarrow> string \<Rightarrow> string list \<Rightarrow> u32 option" where
  "need_off dp [] type path = None"
| "need_off dp (m # ms) type path =
     (let v = get_member_offset dp m type path in
      if 0 \<le> v then Some (of_int v) else need_off dp ms type path)"

definition rados_rodata_zero :: rados_rodata where
  "rados_rodata_zero = \<lparr>R_CEPH_OSD_OP_SIZE = 0, R_CEPH_OSD_OP_EXTENT_OFFSET_OFFSET = 0,
     R_CEPH_OSD_OP_EXTENT_LENGTH_OFFSET = 0, R_CEPH_OSD_OP_CLS_CLASS_OFFSET = 0,
     R_CEPH_OSD_OP_CLS_METHOD_OFFSET = 0, R_CEPH_OSD_OP_BUFFER_CARRIAGE_OFFSET = 0,
     R_CEPH_OSD_OP_BUFFER_RAW_OFFSET = 0, R_CEPH_OSD_OP_BUFFER_DATA_OFFSET = 0,
     SEND_OP_REG = 0, SEND_THIS_REG = 0, FIN_OP_REG = 0, FIN_THIS_REG = 0, OFF_TID = 0,
     OFF_MONC = 0, OFF_GLOBAL_ID = 0, OFF_TARGET_OSD = 0, OFF_NAME_LEN = 0, OFF_NAME_PTR = 0,
     OFF_FLAGS = 0, OFF_POOL = 0, OFF_SEED = 0, OFF_ACTING_START = 0, OFF_ACTING_FINISH = 0,
     OFF_OPS_START = 0, OFF_OPS_SIZE = 0\<rparr>"

definition rados_layout :: "dwarf_data \<Rightarrow> string list \<Rightarrow> rados_rodata option" where
  "rados_layout dp mods =
     (case all_some (\<lambda>x. x)
        [need_size dp mods ''OSDOp'',
         need_off dp mods ''OSDOp'' [''indata'', ''_carriage''],
         need_off dp mods ''OSDOp'' [''op'', ''extent'', ''offset''],
         need_off dp mods ''OSDOp'' [''op'', ''extent'', ''length''],
         need_off dp mods ''OSDOp'' [''op'', ''cls'', ''class_len''],
         need_off dp mods ''OSDOp'' [''op'', ''cls'', ''method_len'']] of
        None \<Rightarrow> None
      | Some xs \<Rightarrow> Some (rados_rodata_zero
          \<lparr>R_CEPH_OSD_OP_SIZE := xs ! 0, R_CEPH_OSD_OP_BUFFER_CARRIAGE_OFFSET := xs ! 1,
           R_CEPH_OSD_OP_EXTENT_OFFSET_OFFSET := xs ! 2, R_CEPH_OSD_OP_EXTENT_LENGTH_OFFSET := xs ! 3,
           R_CEPH_OSD_OP_CLS_CLASS_OFFSET := xs ! 4, R_CEPH_OSD_OP_CLS_METHOD_OFFSET := xs ! 5,
           R_CEPH_OSD_OP_BUFFER_RAW_OFFSET := 8, R_CEPH_OSD_OP_BUFFER_DATA_OFFSET := 32\<rparr>))"

text \<open>The variables of the first library that has both lists at the sizes the programs need.\<close>

fun rados_vars :: "dwarf_data \<Rightarrow> string list \<Rightarrow> (UVarField list \<times> UVarField list) option" where
  "rados_vars dp [] = None"
| "rados_vars dp (p # ps) =
     (case (look2 (mod_func2vf dp) (get_basename p) ''Objecter::_send_op'',
            look2 (mod_func2vf dp) (get_basename p) ''Objecter::_finish_op'') of
        (Some send_vfs, Some fin_vfs) \<Rightarrow>
          if length send_vfs = 12 \<and> 2 \<le> length fin_vfs then Some (send_vfs, fin_vfs)
          else rados_vars dp ps
      | _ \<Rightarrow> rados_vars dp ps)"

fun flat_sum :: "nat \<Rightarrow> int \<Rightarrow> Field list \<Rightarrow> int option" where
  "flat_sum i off [] = Some off"
| "flat_sum i off (f # fs) =
     (if f_pointer f \<and> 2 \<le> i then None else flat_sum (i + 1) (off + f_offset f) fs)"

definition flat_off :: "UVarField \<Rightarrow> int option" where
  "flat_off vf = (if vl_stack (uv_varloc vf) then None else flat_sum 1 0 (drop 1 (uv_fields vf)))"

text \<open>\<open>this->monc->global_id\<close>: two members with one dereference between them.\<close>

definition gid_shape :: "UVarField \<Rightarrow> bool" where
  "gid_shape gid \<longleftrightarrow> \<not> vl_stack (uv_varloc gid) \<and> length (uv_fields gid) = 3 \<and>
     f_pointer (uv_fields gid ! 2)"

definition collapse_varpaths ::
  "UVarField list \<Rightarrow> UVarField list \<Rightarrow> rados_rodata \<Rightarrow> rados_rodata option" where
  "collapse_varpaths send_vfs fin_vfs ro =
     (let gid = send_vfs ! 1; fgid = fin_vfs ! 1 in
      case all_some (\<lambda>i. flat_off (send_vfs ! i)) (0 # [2..<12]) of
        None \<Rightarrow> None
      | Some off \<Rightarrow>
          if gid_shape gid \<and>
             list_all (\<lambda>i. vl_reg (uv_varloc (send_vfs ! i)) = vl_reg (uv_varloc (send_vfs ! 0))) [2..<12] \<and>
             flat_off (fin_vfs ! 0) = Some (off ! 0) \<and> gid_shape fgid \<and>
             f_offset (uv_fields fgid ! 1) = f_offset (uv_fields gid ! 1)
          then Some (ro
            \<lparr>SEND_OP_REG := of_int (vl_reg (uv_varloc (send_vfs ! 0))),
             SEND_THIS_REG := of_int (vl_reg (uv_varloc gid)),
             FIN_OP_REG := of_int (vl_reg (uv_varloc (fin_vfs ! 0))),
             FIN_THIS_REG := of_int (vl_reg (uv_varloc fgid)),
             OFF_TID := off ! 0,
             OFF_MONC := f_offset (uv_fields gid ! 1),
             OFF_GLOBAL_ID := f_offset (uv_fields gid ! 2),
             OFF_TARGET_OSD := off ! 1, OFF_NAME_LEN := off ! 2, OFF_NAME_PTR := off ! 3,
             OFF_FLAGS := off ! 4, OFF_POOL := off ! 5, OFF_SEED := off ! 6,
             OFF_ACTING_START := off ! 7, OFF_ACTING_FINISH := off ! 8,
             OFF_OPS_START := off ! 9, OFF_OPS_SIZE := off ! 10\<rparr>)
          else None)"

section \<open>Attaching\<close>

definition rados_attach_uprobe ::
  "attach_fn \<Rightarrow> dwarf_data \<Rightarrow> string \<Rightarrow> string \<Rightarrow> int \<Rightarrow> int \<Rightarrow> attachment option" where
  "rados_attach_uprobe att dp path funcname process_id v =
     (let pid_path = (if process_id \<noteq> - 1 then ''/proc/'' @ show_int process_id @ ''/root'' @ path else path);
          func_addr = (case look2 (mod_func2pc dp) (get_basename path) funcname of Some x \<Rightarrow> x | None \<Rightarrow> 0);
          at = \<lparr>at_prog = map_index rados_func_progid (prog_name funcname v), at_pid = process_id,
                at_path = pid_path, at_addr = func_addr\<rparr>
      in if func_addr = 0 then None else if att at then Some at else None)"

text \<open>Both functions in every library; a failure is reported and does not stop the loop.\<close>

definition rados_attach_all :: "attach_fn \<Rightarrow> dwarf_data \<Rightarrow> string list \<Rightarrow> int \<Rightarrow> attachment list" where
  "rados_attach_all att dp paths process_id =
     concat (map (\<lambda>p.
       (case rados_attach_uprobe att dp p ''Objecter::_send_op'' process_id 0 of Some a \<Rightarrow> [a] | None \<Rightarrow> []) @
       (case rados_attach_uprobe att dp p ''Objecter::_finish_op'' process_id 0 of Some a \<Rightarrow> [a] | None \<Rightarrow> []))
     paths)"

section \<open>The tracer\<close>

datatype rados_error =
    RNoSuchProcess int | RNoLibrary "string list" | RDeletedLibrary | RAborted | RUnknownVersion
  | RImportFailed | ROpenFailed | RNoLayout | RNoProbeVars | RNotCollapsible | RLoadFailed int | RRingFailed

text \<open>The three libraries, or the names of the missing ones.\<close>

definition rados_libraries :: "host \<Rightarrow> int \<Rightarrow> string list + string \<times> string \<times> string" where
  "rados_libraries h process_id =
     (let rbd = find_library_path h ''librbd.so.1'' process_id;
          rados = find_library_path h ''librados.so.2'' process_id;
          common = find_library_path h ''libceph-common.so.2'' process_id;
          missing = (if rbd = [] then [''librbd.so.1''] else []) @
                    (if rados = [] then [''librados.so.2''] else []) @
                    (if common = [] then [''libceph-common.so.2''] else [])
      in if missing \<noteq> [] then Inl missing else Inr (rbd, rados, common))"

definition rados_bid_path :: "int \<Rightarrow> string \<Rightarrow> string" where
  "rados_bid_path process_id p =
     (if process_id = - 1 then p else ''/proc/'' @ show_int process_id @ ''/root'' @ p)"

definition rados_parser :: "dwarf_services \<Rightarrow> parser_config" where
  "rados_parser ds =
     request_member_offset ''OSDOp'' [''op'', ''cls'', ''method_len'']
       (request_member_offset ''OSDOp'' [''op'', ''cls'', ''class_len'']
         (request_member_offset ''OSDOp'' [''op'', ''extent'', ''length'']
           (request_member_offset ''OSDOp'' [''op'', ''extent'', ''offset'']
             (request_member_offset ''OSDOp'' [''indata'', ''_carriage'']
               (request_type_size ''OSDOp'' (parser_for ds rados_probes rados_probe_units))))))"

definition rados_analyse :: "dwarf_services \<Rightarrow> string list \<Rightarrow> dwarf_data \<Rightarrow> dwarf_data option" where
  "rados_analyse ds = analyse_modules (rados_parser ds) (ds_open_dwfl ds)"

definition rados_load_dwarf ::
  "host \<Rightarrow> dwarf_services \<Rightarrow> embedded_tables \<Rightarrow> rados_args \<Rightarrow> string \<times> string \<times> string \<Rightarrow> dwarf_data
     \<Rightarrow> rados_error + dwarf_data" where
  "rados_load_dwarf h ds emb a libs d =
     (case libs of (rbd, rados, common) \<Rightarrow>
      case (if ra_export_json a = None then check_library_deleted h (ra_process_id a) ''librados''
            else Some False) of
        None \<Rightarrow> Inl RAborted
      | Some True \<Rightarrow> Inl RDeletedLibrary
      | Some False \<Rightarrow>
          (case ra_import_json a of
             Some file \<Rightarrow>
               let version = (if ra_skip_version_check a then [] else get_package_version h rados) in
               if \<not> ra_skip_version_check a \<and> version = ''unknown'' then Inl RUnknownVersion
               else
                 (case import_from_json (ds_parse ds) (ds_contents ds file) version d of
                    (True, d') \<Rightarrow> Inr d'
                  | (False, _) \<Rightarrow> Inl RImportFailed)
           | None \<Rightarrow>
               (case (if ra_export_json a = None
                      then import_from_embedded emb
                             [(get_basename common, get_elf_build_id h (rados_bid_path (ra_process_id a) common))]
                             ''radostrace'' d
                      else None) of
                  Some (d', _) \<Rightarrow> Inr d'
                | None \<Rightarrow>
                    (case rados_analyse ds [rbd, rados, common] d of
                       Some d' \<Rightarrow> Inr d' | None \<Rightarrow> Inl RAborted))))"

record rados_services =
  rb_open :: bool
  rb_load :: "rados_rodata \<Rightarrow> int"
  rb_attach :: attach_fn
  rb_ring :: bool

definition rados_setup ::
  "rados_services \<Rightarrow> dwarf_data \<Rightarrow> string \<times> string \<times> string \<Rightarrow> int
     \<Rightarrow> rados_error + rados_rodata \<times> attachment list" where
  "rados_setup b dp libs process_id =
     (case libs of (rbd, rados, common) \<Rightarrow>
      let paths = [rados, rbd, common] in
      if \<not> rb_open b then Inl ROpenFailed
      else case rados_layout dp [common, rados, rbd] of
        None \<Rightarrow> Inl RNoLayout
      | Some ro0 \<Rightarrow>
          (case rados_vars dp paths of
             None \<Rightarrow> Inl RNoProbeVars
           | Some (send_vfs, fin_vfs) \<Rightarrow>
               (case collapse_varpaths send_vfs fin_vfs ro0 of
                  None \<Rightarrow> Inl RNotCollapsible
                | Some ro \<Rightarrow>
                    if rb_load b ro \<noteq> 0 then Inl (RLoadFailed (rb_load b ro))
                    else if \<not> rb_ring b then Inl RRingFailed
                    else Inr (ro, rados_attach_all (rb_attach b) dp paths process_id))))"

text \<open>
  One turn of the loop: the flags its test sees and what the drain delivers. When a flag ends the
  loop, that drain is the final one, and the map is walked after it.
\<close>

record rados_turn =
  rt_sigint :: bool
  rt_timed_out :: bool
  rt_ret :: int
  rt_events :: "client_op_v list"

datatype rados_end = RStillRunning | RDrainFailed int | RStopped

fun rados_consume ::
  "bool \<Rightarrow> int \<Rightarrow> timespec option \<Rightarrow> (client_op_k \<times> client_op_v option) list \<Rightarrow> rados_turn list
     \<Rightarrow> rados_ui \<Rightarrow> rados_end \<times> rados_ui" where
  "rados_consume csv_ok timeout now entries [] ui = (RStillRunning, ui)"
| "rados_consume csv_ok timeout now entries (t # ts) ui =
     (let ui' = fold (rados_handle_event csv_ok) (rt_events t) ui in
      if rt_ret t < 0 then (RDrainFailed (rt_ret t), ui')
      else if rt_sigint t \<or> (rt_timed_out t \<and> timeout \<noteq> - 1)
      then (RStopped, snd (report_hung_ops csv_ok now entries ui'))
      else rados_consume csv_ok timeout now entries ts ui')"

datatype rados_outcome =
    RListedEmbedded "(string \<times> string \<times> string \<times> string) list"
  | RListedClients "string list"
  | RFailed rados_error
  | RExportedJson string
  | RTraced rados_end rados_ui

definition radostrace_main ::
  "host \<Rightarrow> dwarf_services \<Rightarrow> rados_services \<Rightarrow> embedded_tables \<Rightarrow> bool \<Rightarrow> timespec option
     \<Rightarrow> (client_op_k \<times> client_op_v option) list \<Rightarrow> rados_turn list \<Rightarrow> rados_args \<Rightarrow> rados_outcome" where
  "radostrace_main h ds b emb csv_ok now entries turns a =
     (if ra_list_embedded a
      then RListedEmbedded (case list_embedded_versions emb ''radostrace'' of Some rows \<Rightarrow> rows | None \<Rightarrow> [])
      else if ra_list_clients a then RListedClients (print_clients (discover_ceph_clients h emb))
      else if ra_process_id a \<noteq> - 1 \<and> \<not> h_exists h (''/proc/'' @ show_int (ra_process_id a))
      then RFailed (RNoSuchProcess (ra_process_id a))
      else case rados_libraries h (ra_process_id a) of
        Inl missing \<Rightarrow> RFailed (RNoLibrary missing)
      | Inr libs \<Rightarrow>
          (case rados_load_dwarf h ds emb a libs empty_dwarf of
             Inl err \<Rightarrow> RFailed err
           | Inr d \<Rightarrow>
               if ra_import_json a = None \<and> ra_export_json a \<noteq> None
               then RExportedJson (fst (export_to_json (ds_dump ds) h (get_package_version h (fst (snd libs))) d))
               else
                 (case rados_setup b d libs (ra_process_id a) of
                    Inl err \<Rightarrow> RFailed err
                  | Inr _ \<Rightarrow>
                      (case rados_consume csv_ok (ra_timeout a) now entries turns
                              (rados_ui_init (ra_csv a \<noteq> None)) of
                         (e, ui) \<Rightarrow> RTraced e ui))))"

end
