(* ===== verification/Rados_Properties.thy ===== *)
theory Rados_Properties
  imports Rados_Probes
begin

text \<open>
  What the radostrace probes guarantee: every entry and every event is well formed in each
  reachable state, the acting set and the op list are captured as the client holds them, and a
  finished request is reported once, with the stamps of its send and its finish.
\<close>

section \<open>Well-formed entries\<close>

definition cls_terminated :: "cls_op \<Rightarrow> bool" where
  "cls_terminated co \<longleftrightarrow> length (cls_name co) = 16 \<and> cls_name co ! 15 = 0 \<and>
     length (method_name co) = 32 \<and> method_name co ! 31 = 0"

definition client_shaped :: "client_op_v \<Rightarrow> bool" where
  "client_shaped v \<longleftrightarrow> length (cv_object_name v) = 128 \<and> cv_object_name v ! 127 = 0 \<and>
     length (cv_acting v) = MAX_ACTING \<and> length (cv_ops v) = MAX_CLIENT_OPS \<and>
     length (cv_cls_ops v) = MAX_CLIENT_OPS \<and> (\<forall>co\<in>set (cv_cls_ops v). cls_terminated co)"

definition client_ok :: "u64 \<Rightarrow> client_op_k \<Rightarrow> client_op_v \<Rightarrow> bool" where
  "client_ok T k v \<longleftrightarrow> cv_cid v = ck_cid k \<and> cv_tid v = ck_tid k \<and> client_shaped v \<and>
     cv_sent_stamp v \<le> T"

definition client_event_ok :: "u64 \<Rightarrow> client_op_v \<Rightarrow> bool" where
  "client_event_ok T v \<longleftrightarrow> client_shaped v \<and> cv_sent_stamp v \<le> cv_finish_stamp v \<and> cv_finish_stamp v \<le> T"

definition rados_inv :: "u64 \<Rightarrow> rados_bpf \<Rightarrow> bool" where
  "rados_inv T s \<longleftrightarrow> (\<forall>k v. rs_ops s k = Some v \<longrightarrow> client_ok T k v) \<and> (\<forall>v\<in>set (rs_rb s). client_event_ok T v)"

lemma zero_client_shaped: "client_shaped zero_client_op_v"
  by (simp add: client_shaped_def zero_client_op_v_def cls_terminated_def zero_cls_op_def
      ceph_const_defs)

section \<open>The pieces keep the shape\<close>

lemma length_acting_loop [simp]:
  "length (acting_loop um a b is acting) = length acting"
  by (induction um a b "is" acting rule: acting_loop.induct) (simp_all add: Let_def)

lemma unat_and_bound: "unat (w AND 127 :: u32) < 128" "unat (b AND 15 :: u8) < 16"
  "unat (b AND 31 :: u8) < 32"
proof -
  have "(w AND 127 :: u32) \<le> 127" "(b AND 15 :: u8) \<le> 15" "(b AND 31 :: u8) \<le> 31"
    by (simp_all add: word_and_le1)
  then show "unat (w AND 127 :: u32) < 128" "unat (b AND 15 :: u8) < 16" "unat (b AND 31 :: u8) < 32"
    by (simp_all add: word_le_nat_alt)
qed

text \<open>A read that leaves the last byte of the array alone keeps the array terminated.\<close>

lemma read_into_array:
  assumes "user_memory um" and "length buf = N" and "n < N"
  shows "length (overlay (read_user um a n) buf) = N"
    and "overlay (read_user um a n) buf ! (N - 1) = buf ! (N - 1)"
  using assms by (simp_all add: user_memory.read_user_len nth_overlay_ge)

lemma cls_terminated_client_cls:
  assumes "user_memory um" and "cls_terminated co"
  shows "cls_terminated (client_cls ro um a co)"
proof -
  have "length (cls_name co) = 16" "length (method_name co) = 32"
    using assms(2) by (simp_all add: cls_terminated_def)
  from read_into_array [OF assms(1) this(1) unat_and_bound(2)]
    read_into_array [OF assms(1) this(2) unat_and_bound(3)] assms(2)
  show ?thesis by (simp add: cls_terminated_def client_cls_def Let_def)
qed

lemma client_op_one_shaped:
  assumes "user_memory um" and "client_shaped v" and "i < MAX_CLIENT_OPS"
  shows "client_shaped (client_op_one ro um a i v)"
proof -
  have "cls_terminated (client_cls ro um a (cv_cls_ops v ! i))"
    using assms by (intro cls_terminated_client_cls) (simp_all add: client_shaped_def)
  then show ?thesis
    using assms(2,3) set_update_subset_insert [of "cv_cls_ops v" i "client_cls ro um a (cv_cls_ops v ! i)"]
    by (auto simp: client_op_one_def Let_def client_shaped_def)
qed

lemma client_ops_loop_shaped:
  "\<lbrakk>user_memory um; client_shaped v; \<forall>i\<in>set is. i < MAX_CLIENT_OPS\<rbrakk>
    \<Longrightarrow> client_shaped (client_ops_loop ro um a is v)"
proof (induction ro um a "is" v rule: client_ops_loop.induct)
  case (2 ro um a i rest v)
  then show ?case by (simp add: client_op_one_shaped)
qed simp

lemma client_op_one_other [simp]:
  "cv_cid (client_op_one ro um a i v) = cv_cid v" "cv_tid (client_op_one ro um a i v) = cv_tid v"
  "cv_ops_size (client_op_one ro um a i v) = cv_ops_size v"
  "cv_acting (client_op_one ro um a i v) = cv_acting v"
  "cv_object_name (client_op_one ro um a i v) = cv_object_name v"
  "cv_finish_stamp (client_op_one ro um a i v) = cv_finish_stamp v"
  by (simp_all add: client_op_one_def Let_def)

lemma client_ops_loop_other [simp]:
  "cv_cid (client_ops_loop ro um a is v) = cv_cid v" "cv_tid (client_ops_loop ro um a is v) = cv_tid v"
  "cv_ops_size (client_ops_loop ro um a is v) = cv_ops_size v"
  "cv_acting (client_ops_loop ro um a is v) = cv_acting v"
  "cv_object_name (client_ops_loop ro um a is v) = cv_object_name v"
  by (induction ro um a "is" v rule: client_ops_loop.induct) simp_all

lemma read_ops_other [simp]:
  "cv_cid (read_ops ro um op v) = cv_cid v" "cv_tid (read_ops ro um op v) = cv_tid v"
  "cv_acting (read_ops ro um op v) = cv_acting v" "cv_object_name (read_ops ro um op v) = cv_object_name v"
  by (simp_all add: read_ops_def Let_def)

lemma read_target_other [simp]:
  "cv_cid (read_target ro um op v) = cv_cid v" "cv_tid (read_target ro um op v) = cv_tid v"
  by (simp_all add: read_target_def Let_def)

lemma read_target_shaped:
  assumes "user_memory um" and "client_shaped v"
  shows "client_shaped (read_target ro um op v)"
proof -
  have "length (cv_object_name v) = 128" using assms(2) by (simp add: client_shaped_def)
  from read_into_array [OF assms(1) this unat_and_bound(1)] assms(2)
  show ?thesis by (simp add: client_shaped_def read_target_def Let_def)
qed

lemma read_ops_shaped:
  assumes "user_memory um" and "client_shaped v"
  shows "client_shaped (read_ops ro um op v)"
proof -
  have "client_shaped (v\<lparr>cv_ops_size := n, cv_offset := 0, cv_length := 0\<rparr>)" for n
    using assms(2) by (simp add: client_shaped_def)
  with assms(1) show ?thesis by (auto simp: read_ops_def Let_def intro!: client_ops_loop_shaped)
qed

section \<open>The programs keep the invariant\<close>

lemma rados_inv_mono: "rados_inv T s \<Longrightarrow> T \<le> T' \<Longrightarrow> rados_inv T' s"
  unfolding rados_inv_def client_ok_def client_event_ok_def by (meson order_trans)

text \<open>The entry a send leaves, from the zeroed one.\<close>

definition sent_entry :: "rados_cfg \<Rightarrow> kenv \<Rightarrow> client_op_v" where
  "sent_entry c e =
     (let ro = rc_ro c; op = fetch_register (e_regs e) (sint (SEND_OP_REG ro));
          key = client_key ro e op (SEND_THIS_REG ro)
      in (read_ops ro (e_mem e) op (read_target ro (e_mem e) op
            (zero_client_op_v\<lparr>cv_tid := ck_tid key, cv_cid := ck_cid key\<rparr>)))
           \<lparr>cv_sent_stamp := e_ktime e 0, cv_pid := get_pid e\<rparr>)"

lemma sent_entry_shaped: "user_memory (e_mem e) \<Longrightarrow> client_shaped (sent_entry c e)"
proof -
  assume um: "user_memory (e_mem e)"
  have upd: "client_shaped (v\<lparr>cv_tid := t, cv_cid := d\<rparr>) = client_shaped v"
    "client_shaped (v\<lparr>cv_sent_stamp := ts, cv_pid := p\<rparr>) = client_shaped v" for v t d ts p
    by (simp_all add: client_shaped_def)
  show ?thesis unfolding sent_entry_def Let_def upd
    by (intro read_ops_shaped read_target_shaped um) (simp add: upd zero_client_shaped)
qed

lemma uprobe_send_op_spec:
  assumes "replacing_map (rc_upd c)" and "op = fetch_register (e_regs e) (sint (SEND_OP_REG (rc_ro c)))"
    and "key = client_key (rc_ro c) e op (SEND_THIS_REG (rc_ro c))" and "op \<noteq> 0"
  shows "uprobe_send_op c e s =
     (if rs_ops (initialize_value c key s) key = None then initialize_value c key s
      else put_client key (sent_entry c e) (initialize_value c key s))"
proof -
  have "rs_ops (initialize_value c key s) key = Some v \<Longrightarrow> v = zero_client_op_v" for v
    using replacing_map.upd_found [OF assms(1)] by (simp add: initialize_value_def)
  with assms(2-4) show ?thesis
    by (auto simp: uprobe_send_op_def sent_entry_def Let_def split: option.split)
qed

lemma initialize_value_inv:
  assumes "replacing_map (rc_upd c)" and "rados_inv T s" and "k \<noteq> key"
    and "rs_ops (initialize_value c key s) k = Some v"
  shows "client_ok T k v"
  using assms lru_map.upd_entry [OF replacing_map.axioms(1) [OF assms(1)], of "rs_ops s" key zero_client_op_v k v]
  by (auto simp: initialize_value_def rados_inv_def)

lemma send_op_inv:
  assumes inv: "rados_inv T s" and um: "user_memory (e_mem e)" and up: "replacing_map (rc_upd c)"
    and clock: "T \<le> e_ktime e 0"
  shows "rados_inv (e_ktime e 0) (uprobe_send_op c e s)"
proof -
  let ?op = "fetch_register (e_regs e) (sint (SEND_OP_REG (rc_ro c)))"
  let ?key = "client_key (rc_ro c) e ?op (SEND_THIS_REG (rc_ro c))"
  have inv': "rados_inv (e_ktime e 0) s" using inv clock by (rule rados_inv_mono)
  have entry: "client_ok (e_ktime e 0) ?key (sent_entry c e)"
    using sent_entry_shaped [OF um] by (simp add: client_ok_def) (simp add: sent_entry_def Let_def)
  have "client_ok (e_ktime e 0) k v"
    if "rs_ops (put_client ?key (sent_entry c e) (initialize_value c ?key s)) k = Some v" for k v
    using that initialize_value_inv [OF up inv', of k ?key v] entry
    by (auto simp: put_client_def split: if_splits)
  moreover have "client_ok (e_ktime e 0) k v"
    if "rs_ops (initialize_value c ?key s) ?key = None" "rs_ops (initialize_value c ?key s) k = Some v" for k v
    using that initialize_value_inv [OF up inv', of k ?key v] by (cases "k = ?key") auto
  moreover have "rs_rb (initialize_value c ?key s) = rs_rb s"
    "rs_rb (put_client ?key w (initialize_value c ?key s)) = rs_rb s" for w
    by (simp_all add: initialize_value_def put_client_def)
  ultimately show ?thesis
    using inv' uprobe_send_op_spec [OF up refl refl, of e s]
    by (cases "?op = 0") (auto simp: uprobe_send_op_def rados_inv_def)
qed

lemma finish_op_cases:
  assumes "op = fetch_register (e_regs e) (sint (FIN_OP_REG (rc_ro c)))"
    and "key = client_key (rc_ro c) e op (FIN_THIS_REG (rc_ro c))"
  shows "uprobe_finish_op c e s =
     (case (if op = 0 then None else rs_ops s key) of
        None \<Rightarrow> s
      | Some v \<Rightarrow> \<lparr>rs_ops = (rs_ops s)(key := None),
                 rs_rb = rs_rb s @ (if e_rb_ok e then [v\<lparr>cv_finish_stamp := e_ktime e 0\<rparr>] else [])\<rparr>)"
  using assms by (auto simp: uprobe_finish_op_def Let_def put_client_def del_client_def split: option.split)

lemma finish_op_inv:
  assumes inv: "rados_inv T s" and clock: "T \<le> e_ktime e 0"
  shows "rados_inv (e_ktime e 0) (uprobe_finish_op c e s)"
proof -
  have inv': "rados_inv (e_ktime e 0) s" using inv clock by (rule rados_inv_mono)
  have "client_event_ok (e_ktime e 0) (v\<lparr>cv_finish_stamp := e_ktime e 0\<rparr>)" if "client_ok (e_ktime e 0) k v" for k v
    using that by (simp add: client_ok_def client_event_ok_def client_shaped_def)
  with inv' show ?thesis
    by (auto simp: finish_op_cases [OF refl refl] rados_inv_def split: option.split if_splits)
qed

section \<open>The probes as a machine\<close>

definition rados_machine :: "rados_cfg \<Rightarrow> rados_probe \<times> kenv \<Rightarrow> rados_bpf \<times> u64 \<Rightarrow> rados_bpf \<times> u64" where
  "rados_machine c pe st = (rados_step c pe (fst st), e_ktime (snd pe) 0)"

definition rados_good :: "rados_cfg \<Rightarrow> rados_bpf \<times> u64 \<Rightarrow> rados_probe \<times> kenv \<Rightarrow> bool" where
  "rados_good c st pe \<longleftrightarrow> snd st \<le> e_ktime (snd pe) 0 \<and> user_memory (e_mem (snd pe)) \<and>
     replacing_map (rc_upd c)"

definition rados_clocked :: "rados_bpf \<times> u64 \<Rightarrow> bool" where
  "rados_clocked st = rados_inv (snd st) (fst st)"

interpretation rados: probe_machine "rados_machine c" "rados_good c" rados_clocked for c
proof
  fix st x
  assume "rados_clocked st" "rados_good c st x"
  then show "rados_clocked (rados_machine c x st)"
    by (cases "fst x"; cases x)
      (auto simp: rados_clocked_def rados_machine_def rados_good_def intro: send_op_inv finish_op_inv)
qed

section \<open>A concrete client\<close>

definition rdemo_ro :: rados_rodata where
  "rdemo_ro = \<lparr>R_CEPH_OSD_OP_SIZE = 104, R_CEPH_OSD_OP_EXTENT_OFFSET_OFFSET = 8,
     R_CEPH_OSD_OP_EXTENT_LENGTH_OFFSET = 16, R_CEPH_OSD_OP_CLS_CLASS_OFFSET = 8,
     R_CEPH_OSD_OP_CLS_METHOD_OFFSET = 9, R_CEPH_OSD_OP_BUFFER_CARRIAGE_OFFSET = 72,
     R_CEPH_OSD_OP_BUFFER_RAW_OFFSET = 8, R_CEPH_OSD_OP_BUFFER_DATA_OFFSET = 32,
     SEND_OP_REG = 4, SEND_THIS_REG = 5, FIN_OP_REG = 4, FIN_THIS_REG = 5, OFF_TID = 0,
     OFF_MONC = 0, OFF_GLOBAL_ID = 8, OFF_TARGET_OSD = 8, OFF_NAME_LEN = 16, OFF_NAME_PTR = 24,
     OFF_FLAGS = 12, OFF_POOL = 32, OFF_SEED = 40, OFF_ACTING_START = 48, OFF_ACTING_FINISH = 56,
     OFF_OPS_START = 64, OFF_OPS_SIZE = 72\<rparr>"

text \<open>
  Op at 256: tid 9, name of length 1 at 512, acting set of two OSDs at 640, one write at 768
  with offset 0 and length 16. The Objecter at 1024 points to the MonClient at 2048, whose id
  is 5.
\<close>

definition rdemo_mem :: user_mem where
  "rdemo_mem = byte_mem (\<lambda>a. case map_of [(256, 9), (264, 2), (268, 32), (272, 1), (281, 2), (288, 3),
     (304, 128), (305, 2), (312, 136), (313, 2), (321, 3), (328, 1), (512, 97), (640, 2), (644, 7),
     (768, 1), (769, 34), (784, 16), (1025, 8), (2056, 5)] a of Some b \<Rightarrow> b | None \<Rightarrow> 0)"

definition rdemo_env :: "nat \<Rightarrow> kenv" where
  "rdemo_env t = \<lparr>e_regs = \<lparr>r_ax = 0, r_dx = 0, r_cx = 0, r_bx = 0, r_si = 256, r_di = 1024, r_bp = 0,
       r_sp = 0, r_8 = 0, r_9 = 0, r_10 = 0, r_11 = 0, r_12 = 0, r_13 = 0, r_14 = 0, r_15 = 0\<rparr>,
     e_pid_tgid = 30064771081, e_ktime = (\<lambda>n. of_nat (t + n)), e_mem = rdemo_mem, e_rb_ok = True, e_cpu = 0\<rparr>"

definition rdemo_cfg :: rados_cfg where
  "rdemo_cfg = \<lparr>rc_ro = rdemo_ro, rc_upd = plain_update\<rparr>"

definition rdemo_key :: client_op_k where
  "rdemo_key = \<lparr>ck_cid = 5, ck_tid = 9\<rparr>"

definition rdemo_sent :: "nat \<Rightarrow> client_op_v" where
  "rdemo_sent t = zero_client_op_v\<lparr>cv_cid := 5, cv_tid := 9, cv_rw := 32, cv_sent_stamp := of_nat t,
     cv_target_osd := 2, cv_pid := 7, cv_object_name := 97 # replicate 127 0, cv_m_pool := 3,
     cv_acting := [2, 7, - 1] @ replicate 13 0, cv_length := 16, cv_ops := [8705, 0, 0], cv_ops_size := 1\<rparr>"

lemma rdemo_memory: "user_memory (e_mem (rdemo_env t))"
  by (simp add: rdemo_env_def rdemo_mem_def byte_mem.user_memory_axioms)

lemma rdemo_upd: "replacing_map (rc_upd rdemo_cfg)"
  by (simp add: rdemo_cfg_def plain.replacing_map_axioms)

lemma rdemo_keys:
  "fetch_register (e_regs (rdemo_env 1000)) (sint (SEND_OP_REG (rc_ro rdemo_cfg))) = 256"
  "client_key (rc_ro rdemo_cfg) (rdemo_env 1000) 256 (SEND_THIS_REG (rc_ro rdemo_cfg)) = rdemo_key"
  "fetch_register (e_regs (rdemo_env 4000)) (sint (FIN_OP_REG (rc_ro rdemo_cfg))) = 256"
  "client_key (rc_ro rdemo_cfg) (rdemo_env 4000) 256 (FIN_THIS_REG (rc_ro rdemo_cfg)) = rdemo_key"
  by code_simp+

lemma rdemo_captured: "sent_entry rdemo_cfg (rdemo_env 1000) = rdemo_sent 1000"
  by code_simp

lemma rdemo_sent_state:
  "uprobe_send_op rdemo_cfg (rdemo_env 1000) rados_init = \<lparr>rs_ops = [rdemo_key \<mapsto> rdemo_sent 1000], rs_rb = []\<rparr>"
proof -
  have "rs_ops (initialize_value rdemo_cfg rdemo_key rados_init) = [rdemo_key \<mapsto> zero_client_op_v]"
    "rs_rb (initialize_value rdemo_cfg rdemo_key rados_init) = []"
    by (simp_all add: initialize_value_def rdemo_cfg_def plain_update_def rados_init_def)
  then show ?thesis
    using uprobe_send_op_spec [OF rdemo_upd rdemo_keys(1) [symmetric] rdemo_keys(2) [symmetric], of rados_init]
    by (simp add: rdemo_captured put_client_def)
qed

lemma rdemo_finished:
  "rs_rb (uprobe_finish_op rdemo_cfg (rdemo_env 4000) (uprobe_send_op rdemo_cfg (rdemo_env 1000) rados_init))
     = [(rdemo_sent 1000)\<lparr>cv_finish_stamp := 4000\<rparr>]"
proof -
  have "e_rb_ok (rdemo_env 4000)" "e_ktime (rdemo_env 4000) 0 = 4000" by (simp_all add: rdemo_env_def)
  then show ?thesis
    by (simp add: rdemo_sent_state finish_op_cases [OF rdemo_keys(3) [symmetric] rdemo_keys(4) [symmetric]])
qed

section \<open>Reachable states\<close>

text \<open>C31: in every state the radostrace probes can reach from the empty map, in any order of
  the two probes, each entry carries its own key, its object name and class and method names
  are terminated and its arrays have their C lengths, and it was sent no later than now; each
  event in the ring buffer has that shape and its finish stamp is not before its send stamp.\<close>

theorem rados_reachable_ok:
  assumes "rados.reach c (rados_init, T0) (s, T)"
  shows "(\<forall>k v. rs_ops s k = Some v \<longrightarrow> client_ok T k v) \<and> (\<forall>v\<in>set (rs_rb s). client_event_ok T v)"
proof -
  have "rados_clocked (rados_init, T0)"
    by (simp add: rados_clocked_def rados_inv_def rados_init_def)
  with rados.reach_inv [OF assms] show ?thesis by (simp add: rados_clocked_def rados_inv_def)
qed

lemma rados_reachable_ok_witness:
  "client_event_ok 4000 ((rdemo_sent 1000)\<lparr>cv_finish_stamp := 4000\<rparr>)"
proof -
  let ?s = "uprobe_send_op rdemo_cfg (rdemo_env 1000) rados_init"
  have "rados.reach rdemo_cfg (rados_init, 0) (?s, 1000)"
    using rados.reach_step [OF rados.reach_init, of rdemo_cfg "(rados_init, 0)" "(SendOp, rdemo_env 1000)"]
      rdemo_memory rdemo_upd
    by (simp add: rados_good_def rados_machine_def) (simp add: rdemo_env_def)
  from rados.reach_step [OF this, of "(FinishOp, rdemo_env 4000)"] rdemo_memory rdemo_upd
  have "rados.reach rdemo_cfg (rados_init, 0) (uprobe_finish_op rdemo_cfg (rdemo_env 4000) ?s, 4000)"
    by (simp add: rados_good_def rados_machine_def) (simp add: rdemo_env_def)
  then show ?thesis using rados_reachable_ok rdemo_finished by fastforce
qed

section \<open>A request is reported once\<close>

text \<open>The map key a probe hit works on, if the op register is not null.\<close>

fun probe_key :: "rados_cfg \<Rightarrow> rados_probe \<times> kenv \<Rightarrow> client_op_k option" where
  "probe_key c (SendOp, e) =
     (let op = fetch_register (e_regs e) (sint (SEND_OP_REG (rc_ro c))) in
      if op = 0 then None else Some (client_key (rc_ro c) e op (SEND_THIS_REG (rc_ro c))))"
| "probe_key c (FinishOp, e) =
     (let op = fetch_register (e_regs e) (sint (FIN_OP_REG (rc_ro c))) in
      if op = 0 then None else Some (client_key (rc_ro c) e op (FIN_THIS_REG (rc_ro c))))"

lemma other_step_keeps:
  assumes "hash_map (rc_upd c)" and "probe_key c pe \<noteq> Some k"
  shows "rs_ops (rados_step c pe s) k = rs_ops s k"
proof -
  have "rc_upd c m k' v k = m k" if "k' \<noteq> k" for m k' v
    using hash_map.upd_keeps [OF assms(1)] that by metis
  with assms(2) show ?thesis
    by (cases "fst pe"; cases pe)
      (auto simp: uprobe_send_op_def uprobe_finish_op_def Let_def initialize_value_def put_client_def
        del_client_def split: option.splits if_splits)
qed

lemma other_steps_keep:
  "\<lbrakk>hash_map (rc_upd c); \<forall>pe\<in>set pes. probe_key c pe \<noteq> Some k\<rbrakk>
    \<Longrightarrow> rs_ops (fold (rados_step c) pes s) k = rs_ops s k"
  by (induction pes arbitrary: s) (simp_all add: other_step_keeps)

text \<open>C32: a request whose send was stored, followed by any probe hits on other requests and then
  by its own finish, is reported exactly then: the event is what the send captured with the
  finish time added (or nothing, when the ring buffer is full), and the entry is gone.\<close>

theorem request_reported_once:
  assumes "hash_map (rc_upd c)" and "probe_key c (SendOp, e1) = Some k"
    and "rs_ops (uprobe_send_op c e1 s) k \<noteq> None"
    and "\<forall>pe\<in>set others. probe_key c pe \<noteq> Some k" and "probe_key c (FinishOp, e2) = Some k"
    and "s2 = fold (rados_step c) others (uprobe_send_op c e1 s)"
  shows "rs_rb (uprobe_finish_op c e2 s2) =
      rs_rb s2 @ (if e_rb_ok e2 then [(sent_entry c e1)\<lparr>cv_finish_stamp := e_ktime e2 0\<rparr>] else []) \<and>
    rs_ops (uprobe_finish_op c e2 s2) k = None"
proof -
  have rep: "replacing_map (rc_upd c)" using assms(1) by (rule hash_map.axioms)
  have "rs_ops (uprobe_send_op c e1 s) k = Some (sent_entry c e1)"
    using assms(2,3) uprobe_send_op_spec [OF rep refl refl, of e1 s]
    by (auto simp: Let_def put_client_def split: if_splits)
  then have "rs_ops s2 k = Some (sent_entry c e1)"
    using other_steps_keep [OF assms(1,4)] assms(6) by simp
  with assms(5) show ?thesis
    by (auto simp: finish_op_cases [OF refl refl] Let_def split: if_splits)
qed

lemma request_reported_once_witness:
  "rs_rb (uprobe_finish_op rdemo_cfg (rdemo_env 4000) (uprobe_send_op rdemo_cfg (rdemo_env 1000) rados_init))
     = [(rdemo_sent 1000)\<lparr>cv_finish_stamp := 4000\<rparr>]"
proof -
  have "hash_map (rc_upd rdemo_cfg)" by (simp add: rdemo_cfg_def plain.hash_map_axioms)
  moreover have "probe_key rdemo_cfg (SendOp, rdemo_env 1000) = Some rdemo_key" by code_simp
  moreover have "probe_key rdemo_cfg (FinishOp, rdemo_env 4000) = Some rdemo_key" by code_simp
  moreover have "e_rb_ok (rdemo_env 4000)" "e_ktime (rdemo_env 4000) 0 = 4000" by (simp_all add: rdemo_env_def)
  ultimately show ?thesis
    using request_reported_once [of rdemo_cfg "rdemo_env 1000" rdemo_key rados_init "[]" "rdemo_env 4000"]
      rdemo_sent_state rdemo_captured by simp
qed

section \<open>What a send captures\<close>

lemma acting_loop_spec:
  assumes "length acting = m" and "unat a + 4 * n < 2 ^ 64" and "i \<le> m" and "i \<le> n"
  shows "acting_loop um (a + 4 * of_nat i) (a + 4 * of_nat n) [i..<m] acting =
     (let k = min (m - i) (n - i) in
      take i acting @ map (\<lambda>j. int32_of (read_user um (a + 4 * of_nat j) 4)) [i..<i + k]
       @ (if i + k < m then - 1 # drop (Suc (i + k)) acting else []))"
  using assms(1,3,4)
proof (induction "m - i" arbitrary: i acting)
  case 0
  then show ?case by (simp add: Let_def)
next
  case (Suc d)
  then have i: "i < m" "[i..<m] = i # [Suc i..<m]" by (simp_all add: upt_conv_Cons)
  have un: "j \<le> n \<Longrightarrow> unat (a + 4 * of_nat j) = unat a + 4 * j" for j
    using assms(2) by (simp add: unat_word_ariths unat_of_nat)
  show ?case
  proof (cases "i < n")
    case True
    let ?g = "\<lambda>j. int32_of (read_user um (a + 4 * of_nat j) 4)"
    define acting' where "acting' = (acting[i := - 1])[i := ?g i]"
    have "a + 4 * of_nat i < a + 4 * of_nat n"
      using True un [of i] un [of n] by (simp add: word_less_nat_alt)
    then have "acting_loop um (a + 4 * of_nat i) (a + 4 * of_nat n) [i..<m] acting =
        acting_loop um (a + 4 * of_nat (Suc i)) (a + 4 * of_nat n) [Suc i..<m] acting'"
      unfolding i(2) by (simp add: Let_def acting'_def algebra_simps)
    also have "\<dots> = (let k = min (m - Suc i) (n - Suc i) in
      take (Suc i) acting' @ map ?g [Suc i..<Suc i + k]
       @ (if Suc i + k < m then - 1 # drop (Suc (Suc i + k)) acting' else []))"
      using Suc.hyps(2) Suc.prems i(1) True by (intro Suc.hyps(1)) (simp_all add: acting'_def)
    also have "\<dots> = (let k = min (m - i) (n - i) in
      take i acting @ map ?g [i..<i + k]
       @ (if i + k < m then - 1 # drop (Suc (i + k)) acting else []))"
    proof -
      have k: "min (m - i) (n - i) = Suc (min (m - Suc i) (n - Suc i))" using True i(1) by simp
      have up: "[i..<i + Suc j] = i # [Suc i..<Suc i + j]" for j by (simp add: upt_conv_Cons)
      have "take (Suc i) acting' = take i acting @ [?g i]"
        using i(1) Suc.prems by (simp add: acting'_def take_Suc_conv_app_nth)
      moreover have "drop (Suc (Suc i + j)) acting' = drop (Suc (Suc i + j)) acting" for j
        by (simp add: acting'_def)
      ultimately show ?thesis unfolding k up Let_def by simp
    qed
    finally show ?thesis .
  next
    case False
    with Suc.prems(3) have n: "n = i" by simp
    have "acting[i := - 1] = take i acting @ - 1 # drop (Suc i) acting"
      using i(1) Suc.prems by (simp add: upd_conv_take_nth_drop)
    with n i(1) show ?thesis unfolding i(2) by (simp add: Let_def)
  qed
qed

text \<open>The acting set a send captures is the client's: for a vector of \<open>n\<close> ids the first
  sixteen are copied in order, and a shorter one is ended by -1.\<close>

lemma acting_captured:
  assumes "unat start + 4 * n < 2 ^ 64" and "length (cv_acting v) = MAX_ACTING"
    and "u64_of (READ_OP um op (OFF_ACTING_START ro) 8) = start"
    and "u64_of (READ_OP um op (OFF_ACTING_FINISH ro) 8) = start + 4 * of_nat n"
  shows "cv_acting (read_target ro um op v) =
     map (\<lambda>i. int32_of (read_user um (start + 4 * of_nat i) 4)) [0..<min MAX_ACTING n]
       @ (if n < MAX_ACTING then - 1 # drop (Suc n) (cv_acting v) else [])"
  using acting_loop_spec [OF assms(2,1), of 0] assms(3,4)
  by (simp add: read_target_def Let_def min_def)

section \<open>The captured ops\<close>

definition client_stride :: "rados_rodata \<Rightarrow> u64 \<Rightarrow> nat \<Rightarrow> u64" where
  "client_stride ro a i = a + of_nat i * ucast (R_CEPH_OSD_OP_SIZE ro)"

definition client_opcode :: "rados_rodata \<Rightarrow> user_mem \<Rightarrow> u64 \<Rightarrow> nat \<Rightarrow> u16" where
  "client_opcode ro um a i = u16_of (read_user um (client_stride ro a i) 2)"

lemma client_ops_loop_fold:
  "client_ops_loop ro um (client_stride ro a i) [i..<m] v =
     fold (\<lambda>j. client_op_one ro um (client_stride ro a j) j) [i..<min m (unat (cv_ops_size v))] v"
  if "m < 2 ^ 32"
proof (induction "m - i" arbitrary: i v)
  case 0
  then show ?case by simp
next
  case (Suc d)
  then have i: "i < m" "[i..<m] = i # [Suc i..<m]" by (simp_all add: upt_conv_Cons)
  have lt: "(of_nat i :: u32) < cv_ops_size v \<longleftrightarrow> i < unat (cv_ops_size v)"
    using i that by (simp add: word_less_nat_alt unat_of_nat)
  have step: "client_stride ro a i + ucast (R_CEPH_OSD_OP_SIZE ro) = client_stride ro a (Suc i)"
    by (simp add: client_stride_def algebra_simps)
  have up: "i < unat (cv_ops_size v) \<Longrightarrow> [i..<min m (unat (cv_ops_size v))] = i # [Suc i..<min m (unat (cv_ops_size v))]"
    using i by (simp add: upt_conv_Cons)
  show ?case
    using Suc.hyps(1) [of "Suc i" "client_op_one ro um (client_stride ro a i) i v"] Suc.hyps(2) lt step up
    by (cases "i < unat (cv_ops_size v)") (simp_all add: i(2))
qed

lemma client_fold_ops:
  "k \<le> length (cv_ops v) \<Longrightarrow>
   cv_ops (fold (\<lambda>j. client_op_one ro um (client_stride ro a j) j) [0..<k] v) =
     map (client_opcode ro um a) [0..<k] @ drop k (cv_ops v)"
proof (induction k)
  case (Suc k)
  have "cv_ops (client_op_one ro um (client_stride ro a k) k w) = (cv_ops w)[k := client_opcode ro um a k]" for w
    by (simp add: client_op_one_def client_opcode_def Let_def)
  with Suc show ?case by (simp add: list_update_append Cons_nth_drop_Suc [symmetric])
qed simp

text \<open>The extent a request shows is that of the last of its captured ops that has one.\<close>

definition client_has_extent :: "rados_rodata \<Rightarrow> user_mem \<Rightarrow> u64 \<Rightarrow> nat \<Rightarrow> bool" where
  "client_has_extent ro um a j \<longleftrightarrow> ceph_osd_op_extent (uint (client_opcode ro um a j))"

definition extent_at :: "rados_rodata \<Rightarrow> user_mem \<Rightarrow> u64 \<Rightarrow> nat \<Rightarrow> u64 \<times> u64" where
  "extent_at ro um a j =
     (u64_of (read_user um (client_stride ro a j + ucast (R_CEPH_OSD_OP_EXTENT_OFFSET_OFFSET ro)) 8),
      u64_of (read_user um (client_stride ro a j + ucast (R_CEPH_OSD_OP_EXTENT_LENGTH_OFFSET ro)) 8))"

definition client_extent :: "rados_rodata \<Rightarrow> user_mem \<Rightarrow> u64 \<Rightarrow> nat \<Rightarrow> u64 \<times> u64" where
  "client_extent ro um a k =
     (case rev (filter (client_has_extent ro um a) [0..<k]) of
        [] \<Rightarrow> (0, 0) | j # _ \<Rightarrow> extent_at ro um a j)"

lemma client_fold_extent:
  assumes "cv_offset v = 0" and "cv_length v = 0"
  shows "(cv_offset (fold (\<lambda>j. client_op_one ro um (client_stride ro a j) j) [0..<k] v),
     cv_length (fold (\<lambda>j. client_op_one ro um (client_stride ro a j) j) [0..<k] v)) = client_extent ro um a k"
proof (induction k)
  case 0
  then show ?case by (simp add: client_extent_def assms)
next
  case (Suc k)
  then show ?case
    by (simp add: client_extent_def client_op_one_def [of ro um "client_stride ro a k" k] Let_def
        client_opcode_def [symmetric] client_has_extent_def extent_at_def)
qed

text \<open>C33: the ops a send captures are the client's first three, in order and read with the target's
  stride; the full count is kept beside them, and the extent is that of the last captured op that
  has one.\<close>

theorem client_ops_captured:
  assumes "length (cv_ops v) = MAX_CLIENT_OPS"
    and "u64_of (READ_OP um op (OFF_OPS_START ro) 8) = a" and "a \<noteq> 0"
    and "u32_of (READ_OP um op (OFF_OPS_SIZE ro) 4) = cnt"
  shows "cv_ops_size (read_ops ro um op v) = cnt \<and>
     cv_ops (read_ops ro um op v) =
       map (client_opcode ro um a) [0..<min MAX_CLIENT_OPS (unat cnt)]
         @ drop (min MAX_CLIENT_OPS (unat cnt)) (cv_ops v) \<and>
     (cv_offset (read_ops ro um op v), cv_length (read_ops ro um op v)) =
       client_extent ro um a (min MAX_CLIENT_OPS (unat cnt))"
proof -
  define w where "w = v\<lparr>cv_ops_size := cnt, cv_offset := 0, cv_length := 0\<rparr>"
  have "read_ops ro um op v = client_ops_loop ro um (client_stride ro a 0) [0..<MAX_CLIENT_OPS] w"
    using assms(2-4) by (simp add: read_ops_def Let_def w_def client_stride_def)
  also have "\<dots> = fold (\<lambda>j. client_op_one ro um (client_stride ro a j) j) [0..<min MAX_CLIENT_OPS (unat cnt)] w"
    by (subst client_ops_loop_fold) (simp_all add: w_def MAX_CLIENT_OPS_def)
  finally have eq: "read_ops ro um op v = \<dots>" .
  have "cv_ops_size (read_ops ro um op v) = cnt"
    using assms(2-4) by (simp add: read_ops_def Let_def)
  moreover have "cv_ops (read_ops ro um op v) = map (client_opcode ro um a) [0..<min MAX_CLIENT_OPS (unat cnt)]
         @ drop (min MAX_CLIENT_OPS (unat cnt)) (cv_ops v)"
    unfolding eq using assms(1) by (subst client_fold_ops) (simp_all add: w_def)
  moreover have "(cv_offset (read_ops ro um op v), cv_length (read_ops ro um op v)) =
       client_extent ro um a (min MAX_CLIENT_OPS (unat cnt))"
    unfolding eq by (rule client_fold_extent) (simp_all add: w_def)
  ultimately show ?thesis by simp
qed

lemma client_ops_captured_witness:
  "cv_ops (read_ops rdemo_ro rdemo_mem 256 zero_client_op_v) = [8705, 0, 0] \<and>
   (cv_offset (read_ops rdemo_ro rdemo_mem 256 zero_client_op_v),
    cv_length (read_ops rdemo_ro rdemo_mem 256 zero_client_op_v)) = (0, 16)"
proof -
  have 1: "length (cv_ops zero_client_op_v) = MAX_CLIENT_OPS" by code_simp
  have 2: "u64_of (READ_OP rdemo_mem 256 (OFF_OPS_START rdemo_ro) 8) = 768" by code_simp
  have 3: "u32_of (READ_OP rdemo_mem 256 (OFF_OPS_SIZE rdemo_ro) 4) = 1" by code_simp
  have "client_has_extent rdemo_ro rdemo_mem 768 0" "extent_at rdemo_ro rdemo_mem 768 0 = (0, 16)" by code_simp+
  then have "client_extent rdemo_ro rdemo_mem 768 1 = (0, 16)" by (simp add: client_extent_def)
  moreover have "client_opcode rdemo_ro rdemo_mem 768 0 = 8705"
    "min MAX_CLIENT_OPS (unat (1 :: u32)) = 1" "drop 1 (cv_ops zero_client_op_v) = [0, 0]"
    by code_simp+
  ultimately show ?thesis using client_ops_captured [OF 1 2 _ 3] by simp
qed

end
