(* ===== verification/Rados_Control_Properties.thy ===== *)
theory Rados_Control_Properties
  imports Rados_Control Rados_Properties Dwarf_Data_Properties
begin

text \<open>
  What the load-time work of radostrace guarantees: the single offsets it hands to the BPF programs
  read the same addresses as the member walk of \<open>bpf_utils.h\<close> over the DWARF paths, and the
  probes are attached wherever a library has the symbols.
\<close>

section \<open>Collapsed chains\<close>

lemma flat_sum_walk:
  "\<lbrakk>flat_sum i off fs = Some res; 2 \<le> i\<rbrakk> \<Longrightarrow> walk_fields um fs (c + of_int off) = c + of_int res"
proof (induction i off fs rule: flat_sum.induct)
  case (2 i off f fs)
  then have "\<not> f_pointer f" "flat_sum (i + 1) (off + f_offset f) fs = Some res"
    by (auto split: if_splits)
  with 2 show ?case by (simp add: field_step_def add.assoc)
qed simp

lemma flat_off_path:
  assumes "flat_off vf = Some off" and "2 \<le> length (uv_fields vf)" and "op \<noteq> 0"
  shows "path_addr um op (uv_varloc vf) (uv_fields vf) = op + of_int off"
proof -
  obtain f0 f1 fs where fields: "uv_fields vf = f0 # f1 # fs"
    using assms(2) by (cases "uv_fields vf"; cases "tl (uv_fields vf)") auto
  from assms(1) have st: "\<not> vl_stack (uv_varloc vf)" "flat_sum 2 (f_offset f1) fs = Some off"
    by (auto simp: flat_off_def fields numeral_2_eq_2 split: if_splits)
  from flat_sum_walk [OF st(2), of um op] st(1) assms(3)
  show ?thesis by (simp add: path_addr_def fields root_addr_def)
qed

text \<open>The offsets in the order of the variable list of \<open>Objecter::_send_op\<close>; the second is the
  client id, which is not a single offset.\<close>

definition rados_off :: "rados_rodata \<Rightarrow> nat \<Rightarrow> int" where
  "rados_off ro i =
     [OFF_TID ro, OFF_MONC ro, OFF_TARGET_OSD ro, OFF_NAME_LEN ro, OFF_NAME_PTR ro, OFF_FLAGS ro, OFF_POOL ro,
      OFF_SEED ro, OFF_ACTING_START ro, OFF_ACTING_FINISH ro, OFF_OPS_START ro, OFF_OPS_SIZE ro] ! i"

lemma all_some_nth:
  "\<lbrakk>all_some f xs = Some ys; i < length xs\<rbrakk> \<Longrightarrow> f (xs ! i) = Some (ys ! i)"
proof (induction xs arbitrary: ys i)
  case (Cons x xs)
  then show ?case by (cases i) (auto split: option.splits)
qed simp

lemma all_some_length: "all_some f xs = Some ys \<Longrightarrow> length ys = length xs"
  by (induction xs arbitrary: ys) (auto split: option.splits)

lemma collapse_offsets:
  assumes "collapse_varpaths send fin ro0 = Some ro" and "i < 12" and "i \<noteq> 1"
  shows "flat_off (send ! i) = Some (rados_off ro i) \<and>
     vl_reg (uv_varloc (send ! i)) = vl_reg (uv_varloc (send ! 0))"
proof -
  obtain off where off: "all_some (\<lambda>i. flat_off (send ! i)) (0 # [2..<12]) = Some off"
    and ok: "list_all (\<lambda>i. vl_reg (uv_varloc (send ! i)) = vl_reg (uv_varloc (send ! 0))) [2..<12]"
    and ro: "rados_off ro = (!) [off ! 0, OFF_MONC ro, off ! 1, off ! 2, off ! 3, off ! 4, off ! 5, off ! 6,
        off ! 7, off ! 8, off ! 9, off ! 10]"
    using assms(1) by (auto simp: collapse_varpaths_def Let_def rados_off_def fun_eq_iff split: option.splits if_splits)
  define j where "j = (if i = 0 then 0 else i - 1)"
  have "(0 # [2..<12]) ! j = i" "j < length (0 # [2..<12])"
    using assms(2,3) by (auto simp: j_def nth_Cons')
  with all_some_nth [OF off, of j] have "flat_off (send ! i) = Some (off ! j)" by simp
  moreover have "rados_off ro i = off ! j"
  proof -
    have "list_all (\<lambda>i. i = 1 \<or> rados_off ro i = off ! (if i = 0 then 0 else i - 1)) [0..<12]"
      unfolding ro by (simp add: upt_rec eval_nat_numeral)
    with assms(2,3) show ?thesis by (auto simp: list_all_iff j_def)
  qed
  moreover have "vl_reg (uv_varloc (send ! i)) = vl_reg (uv_varloc (send ! 0))"
  proof (cases "i = 0")
    case False
    with assms(2,3) have "i \<in> set [2..<12]" unfolding set_upt atLeastLessThan_iff by arith
    with ok show ?thesis unfolding list_all_iff by blast
  qed simp
  ultimately show ?thesis by simp
qed

lemma sint_of_reg: "c_int_range r \<Longrightarrow> sint (of_int r :: u32) = r"
  by (simp add: c_int_range_def sint_sbintrunc' signed_take_bit_int_eq_self)

text \<open>The offsets radostrace computes at load time are a refinement of the member walk: when the
  chains collapse, reading a variable of the send probe at its single offset from the op register
  reads the address the walk reaches over the DWARF path, whatever memory holds, and all of them
  start from that one register; the finish probe's tid likewise.\<close>

lemma collapsed_reads_follow_paths:
  assumes "collapse_varpaths send fin ro0 = Some ro" and "i < 12" and "i \<noteq> 1"
    and "2 \<le> length (uv_fields (send ! i))" and "c_int_range (vl_reg (uv_varloc (send ! i)))"
    and "op = fetch_register regs (vl_reg (uv_varloc (send ! i)))" and "op \<noteq> 0"
  shows "READ_OP um (fetch_register regs (sint (SEND_OP_REG ro))) (rados_off ro i) n =
     read_user um (path_addr um op (uv_varloc (send ! i)) (uv_fields (send ! i))) n"
proof -
  note col = collapse_offsets [OF assms(1-3)]
  have "SEND_OP_REG ro = of_int (vl_reg (uv_varloc (send ! 0)))"
    using assms(1) by (auto simp: collapse_varpaths_def Let_def split: option.splits if_splits)
  with col assms(5,6) have "fetch_register regs (sint (SEND_OP_REG ro)) = op"
    by (simp add: sint_of_reg)
  with flat_off_path [OF conjunct1 [OF col] assms(4,7), of um] show ?thesis
    by (simp add: READ_OP_def)
qed

text \<open>The client id the send probe reads is the value at the end of the walk over
  this->monc->global_id, when neither pointer on the way is null; and the finish probe reads the
  same id from its own register.\<close>

lemma collapsed_client_id:
  assumes "collapse_varpaths send fin ro0 = Some ro" and "gid = send ! 1"
    and "c_int_range (vl_reg (uv_varloc gid))"
    and "self = fetch_register (e_regs e) (vl_reg (uv_varloc gid))" and "self \<noteq> 0"
    and "u64_of (read_user (e_mem e) (self + of_int (f_offset (uv_fields gid ! 1))) 8) \<noteq> 0"
  shows "read_cid ro e (SEND_THIS_REG ro) =
     u64_of (read_user (e_mem e) (path_addr (e_mem e) self (uv_varloc gid) (uv_fields gid)) 8)"
proof -
  have shape: "gid_shape gid" and ro: "SEND_THIS_REG ro = of_int (vl_reg (uv_varloc gid))"
    "OFF_MONC ro = f_offset (uv_fields gid ! 1)" "OFF_GLOBAL_ID ro = f_offset (uv_fields gid ! 2)"
    using assms(1,2) by (auto simp: collapse_varpaths_def Let_def split: option.splits if_splits)
  obtain f0 f1 f2 where fields: "uv_fields gid = [f0, f1, f2]" "f_pointer f2"
    using shape by (auto simp: gid_shape_def length_Suc_conv numeral_3_eq_3)
  have "path_addr (e_mem e) self (uv_varloc gid) (uv_fields gid) =
      u64_of (read_user (e_mem e) (self + of_int (f_offset f1)) 8) + of_int (f_offset f2)"
    using shape assms(5) by (simp add: path_addr_def fields root_addr_def gid_shape_def field_step_def)
  with assms(3-6) ro fields show ?thesis
    by (simp add: read_cid_def Let_def sint_of_reg)
qed

section \<open>Attaching\<close>

text \<open>C36: a library that has the symbol of a probed function gets that function's program attached
  at the symbol's address, and nothing else is attached: libbpf accepting, the attachments are
  those of the libraries and functions with a non-zero address, in order.\<close>

theorem rados_attaches_every_symbol:
  "rados_attach_all (\<lambda>_. True) dp paths pid =
     concat (map (\<lambda>p. concat (map (\<lambda>(f, prog).
       case look2 (mod_func2pc dp) (get_basename p) f of
         None \<Rightarrow> []
       | Some addr \<Rightarrow> if addr = 0 then []
           else [\<lparr>at_prog = prog, at_pid = pid, at_path = rados_bid_path pid p, at_addr = addr\<rparr>])
       rados_func_progid)) paths)"
proof -
  have progs: "map_index rados_func_progid (prog_name ''Objecter::_send_op'' 0) = 0"
    "map_index rados_func_progid (prog_name ''Objecter::_finish_op'' 0) = 1" by code_simp+
  have one: "(case rados_attach_uprobe (\<lambda>_. True) dp p f pid 0 of Some a \<Rightarrow> [a] | None \<Rightarrow> []) =
      (case look2 (mod_func2pc dp) (get_basename p) f of
         None \<Rightarrow> []
       | Some addr \<Rightarrow> if addr = 0 then []
           else [\<lparr>at_prog = map_index rados_func_progid (prog_name f 0), at_pid = pid,
                  at_path = rados_bid_path pid p, at_addr = addr\<rparr>])" for p f
    by (simp add: rados_attach_uprobe_def Let_def rados_bid_path_def split: option.split)
  have table: "rados_func_progid = [(''Objecter::_send_op'', 0), (''Objecter::_finish_op'', 1)]"
    by (rule rados_func_progid_def)
  show ?thesis unfolding rados_attach_all_def one progs by (simp add: table)
qed

end
