(* ===== verification/Rados_Analysis.thy ===== *)
theory Rados_Analysis
  imports Analysis_Properties Rados_Control_Properties
begin

text \<open>
  From the analysis of the client libraries to the probes of radostrace: the constants that the
  recorded variables collapse to read the members of the request that the paths denote.
\<close>

section \<open>The recorded variables\<close>

definition send_paths :: "string list list" where
  "send_paths = snd (rados_probes ! 0)"

definition finish_paths :: "string list list" where
  "finish_paths = snd (rados_probes ! 1)"

lemma rados_paths:
  "map_of rados_probes ''Objecter::_send_op'' = Some send_paths"
  "map_of rados_probes ''Objecter::_finish_op'' = Some finish_paths"
  "length send_paths = 12" "length finish_paths = 3"
  by code_simp+

text \<open>No path has a cast, and each has a member.\<close>

lemma send_paths_plain:
  "list_all (\<lambda>p. 2 \<le> length p \<and> list_all (\<lambda>x. cast_target x = None) (tl p)) send_paths"
  by code_simp

lemma send_path_shape:
  assumes "i < 12"
  obtains v m ms where "send_paths ! i = v # m # ms" "cast_target m = None" "ends_in_member (m # ms)" "plain_casts dw ms"
proof -
  have mem: "send_paths ! i \<in> set send_paths" using assms rados_paths(3) by simp
  have shape: "2 \<le> length (send_paths ! i) \<and> list_all (\<lambda>x. cast_target x = None) (tl (send_paths ! i))"
    using send_paths_plain mem unfolding list_all_iff by blast
  obtain v m ms where p: "send_paths ! i = v # m # ms"
    using shape by (cases "send_paths ! i"; cases "tl (send_paths ! i)") auto
  from shape have "list_all (\<lambda>x. cast_target x = None) (m # ms)" by (simp add: p)
  then have casts: "\<forall>x\<in>set (m # ms). cast_target x = None" by (simp add: list_all_iff)
  then have "ends_in_member (m # ms)" using last_in_set [of "m # ms"] unfolding ends_in_member_def by blast
  with p casts that show ?thesis by (simp add: plain_casts_def)
qed

lemma rados_parser_simps [simp]:
  "pc_dw (rados_parser ds) = ds_libdw ds" "pc_io (rados_parser ds) = ds_order ds"
  "pc_x86_64 (rados_parser ds) = ds_x86_64 ds" "pc_probes (rados_parser ds) = rados_probes"
  by (simp_all add: rados_parser_def parser_for_def)

lemma rados_vars_found:
  assumes "rados_vars d paths = Some (send, fin)"
  obtains m where "look2 (mod_func2vf d) m ''Objecter::_send_op'' = Some send"
    "look2 (mod_func2vf d) m ''Objecter::_finish_op'' = Some fin"
  using assms
proof (induction paths)
  case (Cons p ps)
  show ?case
  proof (cases "look2 (mod_func2vf d) (get_basename p) ''Objecter::_send_op''")
    case None
    with Cons show ?thesis by simp
  next
    case send: (Some vfs)
    show ?thesis
    proof (cases "look2 (mod_func2vf d) (get_basename p) ''Objecter::_finish_op''")
      case None
      with Cons send show ?thesis by simp
    next
      case (Some fvs)
      with Cons send show ?thesis by (simp split: if_split_asm)
    qed
  qed
qed simp

lemma rados_recorded_vars:
  assumes "recorded_ok (rados_parser ds) mds d" and "rados_vars d paths = Some (send, fin)"
  shows "list_all2 (from_path (rados_parser ds) mds) send_paths send"
    and "list_all2 (from_path (rados_parser ds) mds) finish_paths fin"
proof -
  from assms(2) obtain p where p: "look2 (mod_func2vf d) p ''Objecter::_send_op'' = Some send"
    "look2 (mod_func2vf d) p ''Objecter::_finish_op'' = Some fin" by (rule rados_vars_found)
  from recorded_entry [OF assms(1) p(1)] rados_paths(1)
  show "list_all2 (from_path (rados_parser ds) mds) send_paths send" by auto
  from recorded_entry [OF assms(1) p(2)] rados_paths(2)
  show "list_all2 (from_path (rados_parser ds) mds) finish_paths fin" by auto
qed

section \<open>An example\<close>

text \<open>
  A librados with the two methods of \<open>Objecter\<close> (1 and 2), which take \<open>this\<close> in \<open>rdi\<close> and a pointer
  to an \<open>Op\<close> (41) in \<open>rsi\<close>, and the types on the way to the request's fields.
\<close>

definition method_row :: "string \<Rightarrow> die list \<Rightarrow> die_row" where
  "method_row name params = (plain_row DW_TAG_subprogram (Some name) params [])\<lparr>dr_pc := Some 4096, dr_scopes := [40, 100]\<rparr>"

definition param_row :: "string \<Rightarrow> die \<Rightarrow> 5 word \<Rightarrow> die_row" where
  "param_row name t r =
     plain_row DW_TAG_formal_parameter (Some name) [] [(DW_AT_type, ARef t), (DW_AT_location, AExpr [DW_OP_reg r])]"

definition struct_row :: "string \<Rightarrow> die list \<Rightarrow> die_row" where
  "struct_row name members = plain_row DW_TAG_structure_type (Some name) members []"

definition pointer_row :: "die \<Rightarrow> die_row" where
  "pointer_row t = plain_row DW_TAG_pointer_type None [] [(DW_AT_type, ARef t)]"

definition rados_dies :: "die list" where
  "rados_dies = [100, 1, 2, 3, 4, 5, 6, 50, 51, 52, 40, 60, 42, 61, 41, 62, 63, 64, 43, 65, 66, 67, 68, 69, 44, 70, 45, 71, 72, 53, 73, 46, 74, 47, 75, 76, 48, 77, 55, 78, 79, 49, 80, 56, 81, 82, 20]"

definition rados_table :: die_table where
  "rados_table d =
    (if d = 100 then plain_row DW_TAG_compile_unit (Some ''src/osdc/Objecter.cc'') [1, 2, 40, 41, 42, 43] []
     else if d = 1 then method_row ''_send_op'' [3, 4]
     else if d = 2 then method_row ''_finish_op'' [5, 6]
     else if d = 3 then param_row ''this'' 50 5
     else if d = 4 then param_row ''op'' 51 4
     else if d = 5 then param_row ''this'' 50 5
     else if d = 6 then param_row ''op'' 51 4
     else if d = 50 then pointer_row 40
     else if d = 51 then pointer_row 41
     else if d = 52 then pointer_row 42
     else if d = 40 then plain_row DW_TAG_class_type (Some ''Objecter'') [60] []
     else if d = 60 then member_row ''monc'' 52 64
     else if d = 42 then plain_row DW_TAG_class_type (Some ''MonClient'') [61] []
     else if d = 61 then member_row ''global_id'' 20 128
     else if d = 41 then struct_row ''Op'' [62, 63, 64]
     else if d = 62 then member_row ''target'' 43 16
     else if d = 63 then member_row ''tid'' 20 8
     else if d = 64 then member_row ''ops'' 49 400
     else if d = 43 then struct_row ''op_target_t'' [67, 66, 68, 69, 65]
     else if d = 65 then member_row ''osd'' 20 300
     else if d = 66 then member_row ''base_oid'' 44 32
     else if d = 67 then member_row ''flags'' 20 0
     else if d = 68 then member_row ''actual_pgid'' 46 200
     else if d = 69 then member_row ''acting'' 48 240
     else if d = 44 then struct_row ''object_t'' [70]
     else if d = 70 then member_row ''name'' 45 0
     else if d = 45 then plain_row DW_TAG_class_type (Some ''string'') [71, 72] []
     else if d = 71 then member_row ''_M_dataplus'' 53 0
     else if d = 72 then member_row ''_M_string_length'' 20 8
     else if d = 53 then struct_row ''_Alloc_hider'' [73]
     else if d = 73 then member_row ''_M_p'' 20 0
     else if d = 46 then struct_row ''spg_t'' [74]
     else if d = 74 then member_row ''pgid'' 47 0
     else if d = 47 then struct_row ''pg_t'' [75, 76]
     else if d = 75 then member_row ''m_pool'' 20 0
     else if d = 76 then member_row ''m_seed'' 20 8
     else if d = 48 then plain_row DW_TAG_class_type (Some ''vector'') [77] []
     else if d = 77 then member_row ''_M_impl'' 55 0
     else if d = 55 then struct_row ''_Vector_impl'' [78, 79]
     else if d = 78 then member_row ''_M_start'' 20 0
     else if d = 79 then member_row ''_M_finish'' 20 8
     else if d = 49 then plain_row DW_TAG_class_type (Some ''small_vector'') [80] []
     else if d = 80 then member_row ''m_holder'' 56 0
     else if d = 56 then struct_row ''vector_alloc_holder'' [81, 82]
     else if d = 81 then member_row ''m_start'' 20 0
     else if d = 82 then member_row ''m_size'' 20 8
     else if d = 20 then (plain_row DW_TAG_base_type (Some ''long'') [] [])\<lparr>dr_size := Some 8\<rparr>
     else no_row)"

lemma rados_dies: "table_dies rados_table rados_dies"
  by (simp add: table_dies_def rados_table_def rados_dies_def)

definition rados_depth :: "die \<Rightarrow> nat" where
  "rados_depth d = (if d = 50 \<or> d = 51 \<or> d = 52 then 1 else 0)"

definition rados_module :: dw_module where
  "rados_module = \<lparr>dm_id = 0, dm_path = ''/usr/lib/librados.so.2'', dm_units = Some [100], dm_type_units = [],
     dm_funcs = (\<lambda>cu. [1, 2]), dm_cfi_debug = None, dm_cfi_eh = None, dm_cfi_debug_bias = 0\<rparr>"

definition rados_services :: dwarf_services where
  "rados_services = \<lparr>ds_parse = (\<lambda>s. None), ds_dump = (\<lambda>j. []), ds_contents = (\<lambda>s. None),
     ds_libdw = table_dw rados_table, ds_order = in_order, ds_open_dwfl = (\<lambda>p. [rados_module]),
     ds_x86_64 = True\<rparr>"

definition rados_lib :: "string list" where
  "rados_lib = [''/usr/lib/librados.so.2'']"

text \<open>What the analysis of it records: variables in a register, with their fields.\<close>

definition reg_var :: "int \<Rightarrow> (int \<times> bool) list \<Rightarrow> UVarField" where
  "reg_var r fs =
     \<lparr>uv_varloc = \<lparr>vl_reg = r, vl_offset = 0, vl_stack = False\<rparr>,
      uv_fields = map (\<lambda>(off, ptr). \<lparr>f_offset = off, f_pointer = ptr\<rparr>) ((0, False) # fs)\<rparr>"

definition rados_send :: "UVarField list" where
  "rados_send =
     [reg_var 4 [(8, True)], reg_var 5 [(64, True), (128, True)], reg_var 4 [(16, True), (300, False)],
      reg_var 4 [(16, True), (32, False), (0, False), (8, False)],
      reg_var 4 [(16, True), (32, False), (0, False), (0, False), (0, False)],
      reg_var 4 [(16, True), (0, False)],
      reg_var 4 [(16, True), (200, False), (0, False), (0, False)],
      reg_var 4 [(16, True), (200, False), (0, False), (8, False)],
      reg_var 4 [(16, True), (240, False), (0, False), (0, False)],
      reg_var 4 [(16, True), (240, False), (0, False), (8, False)],
      reg_var 4 [(400, True), (0, False), (0, False)], reg_var 4 [(400, True), (0, False), (8, False)]]"

definition rados_fin :: "UVarField list" where
  "rados_fin = [reg_var 4 [(8, True)], reg_var 5 [(64, True), (128, True)], reg_var 4 [(16, True), (300, False)]]"

definition rados_data :: dwarf_data where
  "rados_data = the (rados_analyse rados_services rados_lib empty_dwarf)"

lemma rados_analysed:
  "rados_analyse rados_services rados_lib empty_dwarf = Some rados_data"
  "rados_vars rados_data rados_lib = Some (rados_send, rados_fin)"
proof -
  have "map_option (\<lambda>d. rados_vars d rados_lib) (rados_analyse rados_services rados_lib empty_dwarf) =
      Some (Some (rados_send, rados_fin))" by code_simp
  then show "rados_analyse rados_services rados_lib empty_dwarf = Some rados_data"
    "rados_vars rados_data rados_lib = Some (rados_send, rados_fin)"
    by (auto simp: rados_data_def)
qed

definition rados_constants :: rados_rodata where
  "rados_constants = the (collapse_varpaths rados_send rados_fin rados_rodata_zero)"

lemma rados_collapsed: "collapse_varpaths rados_send rados_fin rados_rodata_zero = Some rados_constants"
proof -
  have "collapse_varpaths rados_send rados_fin rados_rodata_zero \<noteq> None" by code_simp
  then show ?thesis by (auto simp: rados_constants_def)
qed

interpretation rados_types: debug_table rados_table rados_dies rados_depth "module_cfi rados_module"
proof
  show "table_dies rados_table rados_dies" by (rule rados_dies)
  show "list_all (row_layered rados_table rados_depth) rados_dies" by code_simp
  show "list_all (row_referents rados_table rados_depth) rados_dies" by code_simp
qed (simp add: cfa_ops_def module_cfi_def rados_module_def)

lemma rados_single_level: "single_level (table_dw rados_table)"
  by (rule rados_types.single_if_rows) code_simp

section \<open>From the libraries to the probe\<close>


lemma rados_param: "dr_tag (rados_table x) = DW_TAG_formal_parameter \<Longrightarrow> x = 3 \<or> x = 4 \<or> x = 5 \<or> x = 6"
  by (simp add: rados_table_def plain_row_def member_row_def method_row_def param_row_def struct_row_def
      pointer_row_def no_row_def split: if_splits)

lemma rados_pointer:
  assumes "translate_param_location (table_dw rados_table) cfi x86_64 func name addr = Some (Some (v, l))"
    and "dwarf_die_type (table_dw rados_table) v = Some t"
  shows "pointerish (table_dw rados_table) t"
proof -
  from assms(1) have "table_param rados_table func name = Some v"
    by (auto simp: translate_param_location_def find_param_def table_dw_def bind_eq_Some_conv Let_def
        split: option.split_asm if_split_asm prod.split_asm)
  then have "v \<in> {3, 4, 5, 6}" using rados_param by (auto simp: table_param_def find_Some_iff)
  moreover have "list_all (\<lambda>v. map_option (\<lambda>t. pointer_tag (d_tag (table_dw rados_table) t))
      (dwarf_die_type (table_dw rados_table) v) = Some True) [3, 4, 5, 6]" by code_simp
  ultimately show ?thesis using assms(2) by (auto intro: pointerish.pointer)
qed


end
