(* ===== verification/Rados_Report_Properties.thy ===== *)
theory Rados_Report_Properties
  imports Rados_Report Rados_Properties
begin

text \<open>
  What the report side of radostrace guarantees: the CSV file can be read back field by field by
  a reader of the CSV format, the acting column is the client's acting set, an unfinished request
  is reported exactly when its send was recorded.
\<close>

section \<open>A reader of CSV files\<close>

text \<open>
  The reader of the CSV format: fields between commas, records ended by a line feed; a field that
  starts with a double quote runs to the next single one, a doubled one standing for itself.
\<close>

datatype csv_mode = FieldStart | Plain | Quoted | QuoteSeen

fun csv_read :: "csv_mode \<Rightarrow> string \<Rightarrow> string list \<Rightarrow> string \<Rightarrow> string list list" where
  "csv_read md acc fds [] =
     (if md = FieldStart \<and> fds = [] then [] else [rev (rev acc # fds)])"
| "csv_read FieldStart acc fds (c # s) =
     (if c = CHR 0x22 then csv_read Quoted [] fds s
      else if c = CHR '','' then csv_read FieldStart [] ([] # fds) s
      else if c = CHR 0x0A then rev ([] # fds) # csv_read FieldStart [] [] s
      else csv_read Plain [c] fds s)"
| "csv_read Plain acc fds (c # s) =
     (if c = CHR '','' then csv_read FieldStart [] (rev acc # fds) s
      else if c = CHR 0x0A then rev (rev acc # fds) # csv_read FieldStart [] [] s
      else csv_read Plain (c # acc) fds s)"
| "csv_read Quoted acc fds (c # s) =
     (if c = CHR 0x22 then csv_read QuoteSeen acc fds s else csv_read Quoted (c # acc) fds s)"
| "csv_read QuoteSeen acc fds (c # s) =
     (if c = CHR 0x22 then csv_read Quoted (c # acc) fds s
      else if c = CHR '','' then csv_read FieldStart [] (rev acc # fds) s
      else if c = CHR 0x0A then rev (rev acc # fds) # csv_read FieldStart [] [] s
      else csv_read Plain (c # acc) fds s)"

definition csv_records :: "string \<Rightarrow> string list list" where
  "csv_records s = csv_read FieldStart [] [] s"

text \<open>A field as it stands in the file, followed by its delimiter.\<close>

definition plain_field :: "string \<Rightarrow> bool" where
  "plain_field s \<longleftrightarrow> \<not> list_ex csv_special s"

lemma csv_read_plain:
  "\<lbrakk>plain_field s; d = CHR '',''\<rbrakk> \<Longrightarrow>
     csv_read Plain acc fds (s @ d # t) = csv_read FieldStart [] (rev (rev s @ acc) # fds) t"
  "\<lbrakk>plain_field s; d = CHR 0x0A\<rbrakk> \<Longrightarrow>
     csv_read Plain acc fds (s @ d # t) = rev (rev (rev s @ acc) # fds) # csv_read FieldStart [] [] t"
  by (induction s arbitrary: acc) (auto simp: plain_field_def csv_special_def)

lemma csv_read_doubled:
  "csv_read Quoted acc fds (csv_double s @ CHR 0x22 # t) = csv_read QuoteSeen (rev s @ acc) fds t"
  by (induction s arbitrary: acc) auto

lemma csv_read_field:
  assumes "f = csv_escape s \<or> f = s \<and> plain_field s"
  shows "csv_read FieldStart [] fds (f @ CHR '','' # t) = csv_read FieldStart [] (s # fds) t"
    and "csv_read FieldStart [] fds (f @ CHR 0x0A # t) = rev (s # fds) # csv_read FieldStart [] [] t"
proof -
  consider (quoted) "f = CHR 0x22 # csv_double s @ [CHR 0x22]" | (plain) "f = s" "plain_field s"
    using assms by (cases "list_ex csv_special s") (auto simp: csv_escape_def plain_field_def)
  then have "csv_read FieldStart [] fds (f @ CHR '','' # t) = csv_read FieldStart [] (s # fds) t \<and>
     csv_read FieldStart [] fds (f @ CHR 0x0A # t) = rev (s # fds) # csv_read FieldStart [] [] t"
  proof cases
    case quoted
    then show ?thesis by (simp add: csv_read_doubled)
  next
    case plain
    show ?thesis
    proof (cases s)
      case Nil
      with plain show ?thesis by simp
    next
      case (Cons c r)
      with plain(2) have "plain_field r" "\<not> csv_special c" by (simp_all add: plain_field_def)
      with plain(1) Cons csv_read_plain [of r _ "[c]" fds t] show ?thesis by (simp add: csv_special_def)
    qed
  qed
  then show "csv_read FieldStart [] fds (f @ CHR '','' # t) = csv_read FieldStart [] (s # fds) t"
    and "csv_read FieldStart [] fds (f @ CHR 0x0A # t) = rev (s # fds) # csv_read FieldStart [] [] t"
    by simp_all
qed

lemma csv_read_join:
  assumes "list_all2 (\<lambda>f s. f = csv_escape s \<or> f = s \<and> plain_field s) fs ss" and "fs \<noteq> []"
  shows "csv_read FieldStart [] fds (str_join '','' fs @ CHR 0x0A # t) =
     (rev fds @ ss) # csv_read FieldStart [] [] t"
  using assms
proof (induction "'',''" fs arbitrary: ss fds rule: str_join.induct)
  case (2 f)
  then obtain s where "ss = [s]" "f = csv_escape s \<or> f = s \<and> plain_field s"
    by (auto simp: list_all2_Cons1)
  with csv_read_field(2) [OF this(2), of fds t] show ?case by simp
next
  case (3 f g fs)
  then obtain s ss' where ss: "ss = s # ss'" "f = csv_escape s \<or> f = s \<and> plain_field s"
    "list_all2 (\<lambda>f s. f = csv_escape s \<or> f = s \<and> plain_field s) (g # fs) ss'"
    by (auto simp: list_all2_Cons1)
  from 3(1) [OF ss(3), of "s # fds"] csv_read_field(1) [OF ss(2), of fds "str_join '','' (g # fs) @ CHR 0x0A # t"]
  show ?case by (simp add: ss(1))
qed simp

section \<open>The numeric columns need no quotes\<close>

lemma digit_plain: "is_digit c \<Longrightarrow> \<not> csv_special c"
  by (auto simp: is_digit_def csv_special_def)

lemma plain_show_nat: "plain_field (show_nat n)"
  using show_nat_digits digit_plain by (auto simp: plain_field_def list_ex_iff)

lemma plain_show_int: "plain_field (show_int i)"
  using plain_show_nat by (simp add: show_int_def plain_field_def csv_special_def)

lemma plain_digit_char: "d < 16 \<Longrightarrow> \<not> csv_special (digit_char d)"
proof -
  have "list_all (\<lambda>d. \<not> csv_special (digit_char d)) [0..<16]" by code_simp
  then show "d < 16 \<Longrightarrow> \<not> csv_special (digit_char d)" by (simp add: list_all_iff)
qed

lemma plain_show_hex: "plain_field (show_hex n)"
  unfolding show_hex_def
proof (induction n rule: less_induct)
  case (less n)
  show ?case
  proof (cases "n < 16")
    case True
    then show ?thesis by (simp add: show_base.simps [of 16 n] plain_field_def plain_digit_char)
  next
    case False
    with less [of "n div 16"] show ?thesis
      by (simp add: show_base.simps [of 16 n] plain_field_def plain_digit_char)
  qed
qed

definition csv_columns :: "string list" where
  "csv_columns = [''pid'', ''client'', ''tid'', ''pool'', ''pg'', ''acting'', ''WR'', ''size'', ''latency'',
     ''Complete'', ''object'', ''ops'', ''offset'', ''length'']"

lemma csv_header_read: "csv_records (csv_header @ t) = csv_columns # csv_records t"
proof -
  have hdr: "csv_header @ t = str_join '','' csv_columns @ CHR 0x0A # t"
    by (simp add: csv_header_def csv_columns_def)
  have "list_all2 (\<lambda>f s. f = csv_escape s \<or> f = s \<and> plain_field s) csv_columns csv_columns"
    by (simp add: csv_columns_def plain_field_def csv_special_def)
  then have "csv_read FieldStart [] [] (str_join '','' csv_columns @ CHR 0x0A # t) =
      (rev [] @ csv_columns) # csv_read FieldStart [] [] t"
    by (rule csv_read_join) (simp add: csv_columns_def)
  then show ?thesis unfolding csv_records_def hdr by simp
qed

lemma csv_row_read: "csv_records (csv_row v b @ t) = csv_values v b # csv_records t"
proof -
  let ?xs = "csv_values v b"
  let ?fs = "take 5 ?xs @ [csv_escape (?xs ! 5)] @ take 4 (drop 6 ?xs) @ map csv_escape (drop 10 ?xs)"
  have "plain_field (show_d32 (cv_pid v))" "plain_field (show_lld x)" "plain_field (pg_str v)"
    "plain_field (wr_str v)" "plain_field (show_int (latency_us v))" "plain_field ''1''" "plain_field ''0''" for x
    by (simp_all add: show_d32_def show_lld_def pg_str_def wr_str_def plain_show_int plain_show_hex)
      (simp_all add: plain_field_def csv_special_def)
  then have "list_all2 (\<lambda>f s. f = csv_escape s \<or> f = s \<and> plain_field s) ?fs ?xs"
    by (simp add: csv_values_def)
  from csv_read_join [OF this, of "[]" t] show ?thesis
    by (simp add: csv_row_def csv_records_def Let_def)
qed

section \<open>The CSV file\<close>

lemma ru_csv_print [simp]:
  "ru_csv (print_event ok v b ui) = ru_csv (write_csv ok v b ui)"
  "ru_export_csv (print_event ok v b ui) = ru_export_csv (write_csv ok v b ui)"
  by (simp_all add: print_event_def Let_def split: option.split)

definition print_all :: "bool \<Rightarrow> (client_op_v \<times> bool) list \<Rightarrow> rados_ui \<Rightarrow> rados_ui" where
  "print_all ok evs ui = fold (\<lambda>(v, b). print_event ok v b) evs ui"

lemma csv_file_open:
  "\<lbrakk>ru_export_csv ui; ru_csv ui = Some f\<rbrakk> \<Longrightarrow>
     ru_csv (print_all ok evs ui) = Some (f @ concat (map (\<lambda>(v, b). csv_row v b) evs))"
proof (induction evs arbitrary: ui f)
  case (Cons ev evs)
  obtain v b where ev: "ev = (v, b)" by (cases ev)
  have "ru_export_csv (print_event ok v b ui)" "ru_csv (print_event ok v b ui) = Some (f @ csv_row v b)"
    using Cons.prems by (simp_all add: write_csv_def)
  from Cons.IH [OF this] show ?case by (simp add: ev print_all_def)
qed (simp add: print_all_def)

lemma csv_rows_read:
  "csv_records (concat (map (\<lambda>(v, b). csv_row v b) evs)) = map (\<lambda>(v, b). csv_values v b) evs"
proof (induction evs)
  case Nil
  show ?case by (simp add: csv_records_def)
next
  case (Cons ev evs)
  then show ?case by (cases ev) (simp add: csv_row_read)
qed

text \<open>C34: whatever rows are printed and whatever the object names hold (commas, quotes, line
  breaks), a reader of the CSV format gets from the file the header and then exactly the fourteen
  values of each row, in order; without an event no file is made.\<close>

theorem csv_file_reads_back:
  "map_option csv_records (ru_csv (print_all True evs (rados_ui_init True))) =
     (if evs = [] then None else Some (csv_columns # map (\<lambda>(v, b). csv_values v b) evs))"
proof (cases evs)
  case Nil
  then show ?thesis by (simp add: print_all_def rados_ui_init_def)
next
  case (Cons ev rest)
  obtain v b where ev: "ev = (v, b)" by (cases ev)
  let ?ui = "print_event True v b (rados_ui_init True)"
  have "ru_export_csv ?ui" "ru_csv ?ui = Some (csv_header @ csv_row v b)"
    by (simp_all add: write_csv_def rados_ui_init_def)
  from csv_file_open [OF this, of True rest]
  have "ru_csv (print_all True evs (rados_ui_init True)) =
      Some ((csv_header @ csv_row v b) @ concat (map (\<lambda>(v, b). csv_row v b) rest))"
    by (simp add: Cons ev print_all_def)
  then show ?thesis by (simp add: Cons ev csv_header_read csv_row_read csv_rows_read)
qed

section \<open>What a row shows\<close>

lemma takeWhile_acting:
  "\<forall>i<k. 0 \<le> g i \<Longrightarrow> takeWhile (\<lambda>a. (0 :: int) \<le> a) (map g [0..<k] @ (- 1) # t) = map g [0..<k]"
  "\<forall>i<k. 0 \<le> g i \<Longrightarrow> takeWhile (\<lambda>a. (0 :: int) \<le> a) (map g [0..<k]) = map g [0..<k]"
  by (auto simp: takeWhile_append)

text \<open>The acting column of a request is the acting set the client had when it sent it: the
  ids in order, between brackets, the first sixteen of a longer set.\<close>

lemma acting_column:
  assumes "unat start + 4 * n < 2 ^ 64" and "length (cv_acting v) = MAX_ACTING"
    and "u64_of (READ_OP um op (OFF_ACTING_START ro) 8) = start"
    and "u64_of (READ_OP um op (OFF_ACTING_FINISH ro) 8) = start + 4 * of_nat n"
    and "ids = map (\<lambda>i. int32_of (read_user um (start + 4 * of_nat i) 4)) [0..<n]"
    and "list_all (\<lambda>a. 0 \<le> a) ids"
  shows "acting_str (read_target ro um op v) = ''['' @ str_join '','' (map show_int (take MAX_ACTING ids)) @ '']''"
proof -
  let ?g = "\<lambda>i. int32_of (read_user um (start + 4 * of_nat i) 4)"
  have pos: "\<forall>i<min MAX_ACTING n. 0 \<le> ?g i" using assms(5,6) by (simp add: list_all_length)
  note captured = acting_captured [OF assms(1-4)]
  have "length (cv_acting (read_target ro um op v)) = MAX_ACTING"
    using assms(2) by (simp add: read_target_def Let_def)
  with captured takeWhile_acting [OF pos]
  have "takeWhile (\<lambda>a. 0 \<le> a) (take MAX_ACTING (cv_acting (read_target ro um op v))) =
      map ?g [0..<min MAX_ACTING n]"
    by (cases "n < MAX_ACTING") (simp_all add: min_absorb2)
  also have "\<dots> = take MAX_ACTING ids" unfolding assms(5) take_map by (cases "MAX_ACTING \<le> n") (simp_all add: take_upt min_def)
  finally show ?thesis by (simp add: acting_str_def)
qed

section \<open>Unfinished requests\<close>

text \<open>What the walk over the map reports: the entries whose send was recorded.\<close>

definition hung_ops :: "(client_op_k \<times> client_op_v option) list \<Rightarrow> client_op_v list" where
  "hung_ops entries = filter (\<lambda>op. cv_sent_stamp op \<noteq> 0) (concat (map (\<lambda>(_, r). case r of Some op \<Rightarrow> [op] | None \<Rightarrow> []) entries))"

lemma fold_hung_entry:
  "fold (hung_entry ok now) (map snd entries) (n, ui) =
     (n + int (length (hung_ops entries)),
      print_all ok (map (\<lambda>op. (op\<lparr>cv_finish_stamp := now\<rparr>, False)) (hung_ops entries)) ui)"
proof (induction entries arbitrary: n ui)
  case (Cons x entries)
  then show ?case
    by (cases x; cases "snd x") (auto simp: hung_entry_def hung_ops_def print_all_def)
qed (simp add: hung_ops_def print_all_def)


text \<open>An op whose code has no name in the table makes the row lose the rest of its op list,
  the closing bracket included: the stream that gets the null name goes bad.\<close>

lemma unknown_op_cuts_list:
  assumes "0 < unat (cv_ops_size v)" and "ceph_osd_op_str (uint (cv_ops v ! 0)) = None"
  shows "ops_str v = ''[''"
proof -
  have "\<not> ceph_osd_op_extent (uint (cv_ops v ! 0)) \<and> \<not> ceph_osd_op_call (uint (cv_ops v ! 0))"
  proof -
    have "list_all (\<lambda>x. ceph_osd_op_str x \<noteq> None) [CEPH_OSD_OP_READ, CEPH_OSD_OP_SPARSE_READ,
       CEPH_OSD_OP_SYNC_READ, CEPH_OSD_OP_WRITE, CEPH_OSD_OP_WRITEFULL, CEPH_OSD_OP_ZERO,
       CEPH_OSD_OP_APPEND, CEPH_OSD_OP_MAPEXT, CEPH_OSD_OP_CMPEXT, CEPH_OSD_OP_OMAPSETVALS,
       CEPH_OSD_OP_OMAPGETKEYS, CEPH_OSD_OP_CALL]" by code_simp
    with assms(2) show ?thesis by (auto simp: ceph_osd_op_extent_def ceph_osd_op_call_def)
  qed
  then have "rados_op_item v 0 = [None]" using assms(2) by (simp add: rados_op_item_def Let_def)
  moreover have "[0..<shown_ops v] = 0 # [1..<shown_ops v]"
    using assms(1) by (simp add: shown_ops_def MAX_CLIENT_OPS_def upt_conv_Cons)
  ultimately show ?thesis by (simp add: ops_str_def Let_def)
qed

end
