(* ===== verification/Kfs_Probes.thy ===== *)
theory Kfs_Probes
  imports Bpf_Runtime
begin

text \<open>
  \<open>src/kfstrace.bpf.c\<close>: the four kprobe programs of kfstrace on the state of their two pending
  maps and two ring buffers. Kernel memory is a parameter: \<open>core_read\<close> stands for
  \<open>bpf_core_read(&dst, n, &base->field)\<close>, whose field offset libbpf resolves against the running
  kernel, and gives \<open>None\<close> when the read fails (the kernel then clears the destination). The kernel's
  own structures are parameters as far as a program picks members out of a copy of them.
\<close>

section \<open>Kernel memory\<close>

record kmem =
  core_read :: "u64 \<Rightarrow> string \<Rightarrow> nat \<Rightarrow> bytes option"
  core_read_str :: "u64 \<Rightarrow> string \<Rightarrow> nat \<Rightarrow> bytes option"  \<comment> \<open>the bytes written, NUL included\<close>
  entity_name_num :: "bytes \<Rightarrow> u64"
  entity_name_size :: nat
  spg_pool :: "bytes \<Rightarrow> u64"
  spg_seed :: "bytes \<Rightarrow> u32"
  spg_size :: nat

record kfs_env =
  f_parm1 :: u64
  f_parm2 :: u64
  f_km :: kmem
  f_pid_tgid :: u64
  f_comm :: bytes        \<comment> \<open>\<open>bpf_get_current_comm\<close>, sixteen bytes\<close>
  f_ktime :: u64
  f_rb_ok :: bool

definition filled :: "nat \<Rightarrow> bytes option \<Rightarrow> bytes" where
  "filled n r = (case r of Some b \<Rightarrow> b | None \<Rightarrow> replicate n 0)"

section \<open>Constants and structures\<close>

definition CEPH_PG_MAX_SIZE :: nat where "CEPH_PG_MAX_SIZE = 8"
definition CEPH_OID_INLINE_LEN :: nat where "CEPH_OID_INLINE_LEN = 24"
definition CEPH_OSD_MAX_OPS :: nat where "CEPH_OSD_MAX_OPS = 3"
definition CEPH_MDS_OP_NAME_MAX :: nat where "CEPH_MDS_OP_NAME_MAX = 32"
definition CEPH_MDS_PATH_MAX :: nat where "CEPH_MDS_PATH_MAX = 64"
definition TASK_COMM_LEN :: nat where "TASK_COMM_LEN = 16"
definition CLS_NAME_LEN :: nat where "CLS_NAME_LEN = 8"
definition METHOD_NAME_LEN :: nat where "METHOD_NAME_LEN = 32"

lemmas kfs_const_defs =
  CEPH_PG_MAX_SIZE_def CEPH_OID_INLINE_LEN_def CEPH_OSD_MAX_OPS_def CEPH_MDS_OP_NAME_MAX_def
  CEPH_MDS_PATH_MAX_def TASK_COMM_LEN_def CLS_NAME_LEN_def METHOD_NAME_LEN_def

record request_key =
  rk_client_id :: u64
  rk_tid :: u64

record mds_request_key =
  mk_client_id :: u64
  mk_tid :: u64

record kernel_trace_event =
  kt_tid :: u64
  kt_client_id :: u64
  kt_start_time :: u64
  kt_end_time :: u64
  kt_latency_us :: u64
  kt_primary_osd :: u32
  kt_acting_osds :: "u32 list"
  kt_acting_size :: u32
  kt_pid :: u32
  kt_attempts :: u32
  kt_comm :: bytes
  kt_object_name :: bytes
  kt_object_name_len :: u32
  kt_is_read :: u8
  kt_is_write :: u8
  kt_pool_id :: u64
  kt_pg_id :: u32
  kt_ops :: "u16 list"
  kt_ops_size :: u8
  kt_offset :: u64
  kt_length :: u64
  kt_cls_ops :: "cls_op list"    \<comment> \<open>here \<open>char[8]\<close> and \<open>char[32]\<close>\<close>

record mds_trace_event =
  mt_tid :: u64
  mt_client_id :: u64
  mt_submit_time :: u64
  mt_unsafe_reply_time :: u64
  mt_safe_reply_time :: u64
  mt_unsafe_latency_us :: u64
  mt_safe_latency_us :: u64
  mt_op :: u32
  mt_pid :: u32
  mt_mds_rank :: u32
  mt_result :: u32
  mt_comm :: bytes
  mt_attempts :: u32
  mt_got_unsafe_reply :: u8
  mt_got_safe_reply :: u8
  mt_is_write_op :: u8
  mt_op_name :: bytes
  mt_path :: bytes

definition zero_kernel_event :: kernel_trace_event where
  "zero_kernel_event = \<lparr>kt_tid = 0, kt_client_id = 0, kt_start_time = 0, kt_end_time = 0,
     kt_latency_us = 0, kt_primary_osd = 0, kt_acting_osds = replicate 8 0, kt_acting_size = 0,
     kt_pid = 0, kt_attempts = 0, kt_comm = replicate 16 0, kt_object_name = replicate 24 0,
     kt_object_name_len = 0, kt_is_read = 0, kt_is_write = 0, kt_pool_id = 0, kt_pg_id = 0,
     kt_ops = replicate 3 0, kt_ops_size = 0, kt_offset = 0, kt_length = 0,
     kt_cls_ops = replicate 3 \<lparr>cls_name = replicate 8 0, method_name = replicate 32 0\<rparr>\<rparr>"

definition zero_mds_event :: mds_trace_event where
  "zero_mds_event = \<lparr>mt_tid = 0, mt_client_id = 0, mt_submit_time = 0, mt_unsafe_reply_time = 0,
     mt_safe_reply_time = 0, mt_unsafe_latency_us = 0, mt_safe_latency_us = 0, mt_op = 0, mt_pid = 0,
     mt_mds_rank = 0, mt_result = 0, mt_comm = replicate 16 0, mt_attempts = 0,
     mt_got_unsafe_reply = 0, mt_got_safe_reply = 0, mt_is_write_op = 0, mt_op_name = replicate 32 0,
     mt_path = replicate 64 0\<rparr>"

record kfs_bpf =
  pending_requests :: "request_key \<Rightarrow> kernel_trace_event option"
  kfs_rb :: "kernel_trace_event list"
  pending_mds_requests :: "mds_request_key \<Rightarrow> mds_trace_event option"
  kfs_mds_rb :: "mds_trace_event list"

record kfs_cfg =
  kc_upd :: "(request_key \<Rightarrow> kernel_trace_event option) \<Rightarrow> request_key \<Rightarrow> kernel_trace_event
               \<Rightarrow> (request_key \<Rightarrow> kernel_trace_event option)"
  kc_mds_upd :: "(mds_request_key \<Rightarrow> mds_trace_event option) \<Rightarrow> mds_request_key \<Rightarrow> mds_trace_event
               \<Rightarrow> (mds_request_key \<Rightarrow> mds_trace_event option)"

definition kfs_init :: kfs_bpf where
  "kfs_init = \<lparr>pending_requests = Map.empty, kfs_rb = [], pending_mds_requests = Map.empty, kfs_mds_rb = []\<rparr>"

definition put_req :: "request_key \<Rightarrow> kernel_trace_event \<Rightarrow> kfs_bpf \<Rightarrow> kfs_bpf" where
  "put_req k v s = s\<lparr>pending_requests := (pending_requests s)(k \<mapsto> v)\<rparr>"

definition put_mds :: "mds_request_key \<Rightarrow> mds_trace_event \<Rightarrow> kfs_bpf \<Rightarrow> kfs_bpf" where
  "put_mds k v s = s\<lparr>pending_mds_requests := (pending_mds_requests s)(k \<mapsto> v)\<rparr>"

definition initialize_kernel_trace_event :: "kfs_cfg \<Rightarrow> request_key \<Rightarrow> kfs_bpf \<Rightarrow> kfs_bpf" where
  "initialize_kernel_trace_event c key s =
     s\<lparr>pending_requests := kc_upd c (pending_requests s) key zero_kernel_event\<rparr>"

definition initialize_mds_trace_event :: "kfs_cfg \<Rightarrow> mds_request_key \<Rightarrow> kfs_bpf \<Rightarrow> kfs_bpf" where
  "initialize_mds_trace_event c key s =
     s\<lparr>pending_mds_requests := kc_mds_upd c (pending_mds_requests s) key zero_mds_event\<rparr>"

section \<open>Classifying ops\<close>

definition kfs_osd_op_extent :: "int \<Rightarrow> bool" where
  "kfs_osd_op_extent opc \<longleftrightarrow>
     opc \<in> {CEPH_OSD_OP_READ, CEPH_OSD_OP_SPARSE_READ, CEPH_OSD_OP_SYNC_READ, CEPH_OSD_OP_WRITE,
            CEPH_OSD_OP_WRITEFULL, CEPH_OSD_OP_ZERO, CEPH_OSD_OP_APPEND, CEPH_OSD_OP_MAPEXT}"

definition kfs_osd_op_call :: "int \<Rightarrow> bool" where
  "kfs_osd_op_call opc \<longleftrightarrow> opc = CEPH_OSD_OP_CALL"

definition ascii :: "string \<Rightarrow> bytes" where
  "ascii s = map (\<lambda>c. of_nat (of_char c)) s"

definition mds_op_names :: "(u32 \<times> string) list" where
  "mds_op_names =
     [(0x00100, ''LOOKUP''), (0x00101, ''GETATTR''), (0x00305, ''READDIR''), (0x01301, ''CREATE''),
      (0x01203, ''UNLINK''), (0x01204, ''RENAME''), (0x01220, ''MKDIR''), (0x01221, ''RMDIR''),
      (0x01108, ''SETATTR''), (0x00302, ''OPEN'')]"

definition hex_ascii :: "u8 \<Rightarrow> u8" where
  "hex_ascii digit = (if digit < 10 then 48 + digit else 65 + digit - 10)"

text \<open>The five hex digits of an unknown op, from the last place to the first.\<close>

fun hex_fill :: "nat list \<Rightarrow> u32 \<Rightarrow> bytes \<Rightarrow> bytes" where
  "hex_fill [] val name = name"
| "hex_fill (i # rest) val name =
     hex_fill rest (drop_bit 4 val) (name[i := hex_ascii (ucast (val AND 0xF))])"

definition get_mds_op_name :: "u32 \<Rightarrow> bytes" where
  "get_mds_op_name op =
     (let cleared = replicate CEPH_MDS_OP_NAME_MAX 0 in
      case map_of mds_op_names op of
        Some nm \<Rightarrow> overlay (ascii nm @ [0]) cleared
      | None \<Rightarrow> (hex_fill (rev [3..<8]) op (overlay (ascii ''OP_'') cleared))[8 := 0])"

definition is_mds_write_op :: "u32 \<Rightarrow> bool" where
  "is_mds_write_op op \<longleftrightarrow> op AND 0x001000 \<noteq> 0"

section \<open>OSD requests\<close>

text \<open>The entity number of the client behind an OSD client, 0 when a link cannot be read.\<close>

definition osdc_client_id :: "kmem \<Rightarrow> u64 \<Rightarrow> u64" where
  "osdc_client_id km osdc =
     (case core_read km osdc ''client'' 8 of None \<Rightarrow> 0 | Some cl \<Rightarrow>
        (case core_read km (u64_of cl) ''msgr.inst.name'' (entity_name_size km) of
           None \<Rightarrow> 0 | Some nm \<Rightarrow> entity_name_num km nm))"

definition ops_field :: "nat \<Rightarrow> string \<Rightarrow> string" where
  "ops_field i f = ''r_ops['' @ show_nat i @ '']'' @ CHR ''.'' # f"

text \<open>
  A class or method name: pointer and length must be readable and not null; the length is cut to
  the array less its terminator. Otherwise only the first byte is cleared.
\<close>

definition read_cls_part :: "kmem \<Rightarrow> u64 \<Rightarrow> nat \<Rightarrow> string \<Rightarrow> string \<Rightarrow> bytes \<Rightarrow> bytes" where
  "read_cls_part km req i ptr_field len_field buf =
     (case (core_read km req (ops_field i ptr_field) 8, core_read km req (ops_field i len_field) 1) of
        (Some p, Some l) \<Rightarrow>
          if u64_of p \<noteq> 0 \<and> hd l \<noteq> 0 then
            (let n = (if length buf \<le> unat (hd l) then length buf - 1 else unat (hd l)) in
             overlay (filled (n + 1) (core_read_str km (u64_of p) [] (n + 1))) buf)
          else buf[0 := 0]
      | _ \<Rightarrow> buf[0 := 0])"

definition send_op_one :: "kmem \<Rightarrow> u64 \<Rightarrow> nat \<Rightarrow> kernel_trace_event \<Rightarrow> kernel_trace_event" where
  "send_op_one km req i info =
     (case core_read km req (ops_field i ''op'') 2 of
        None \<Rightarrow> info
      | Some b \<Rightarrow>
          let op_type = u16_of b; info1 = info\<lparr>kt_ops := (kt_ops info)[i := op_type]\<rparr> in
          if kfs_osd_op_extent (uint op_type) \<and> kt_offset info1 = 0 \<and> kt_length info1 = 0 then
            info1\<lparr>kt_offset := u64_of (filled 8 (core_read km req (ops_field i ''extent.offset'') 8)),
                  kt_length := u64_of (filled 8 (core_read km req (ops_field i ''extent.length'') 8))\<rparr>
          else if kfs_osd_op_call (uint op_type) then
            info1\<lparr>kt_cls_ops := (kt_cls_ops info1)[i :=
              \<lparr>cls_name = read_cls_part km req i ''cls.class_name'' ''cls.class_len'' (cls_name (kt_cls_ops info1 ! i)),
               method_name = read_cls_part km req i ''cls.method_name'' ''cls.method_len''
                               (method_name (kt_cls_ops info1 ! i))\<rparr>]\<rparr>
          else info1)"

fun send_ops_loop :: "kmem \<Rightarrow> u64 \<Rightarrow> nat list \<Rightarrow> kernel_trace_event \<Rightarrow> kernel_trace_event" where
  "send_ops_loop km req [] info = info"
| "send_ops_loop km req (i # rest) info =
     (if i < unat (kt_ops_size info) then send_ops_loop km req rest (send_op_one km req i info) else info)"

text \<open>The target: acting set, object name, placement group and direction.\<close>

definition read_acting :: "kmem \<Rightarrow> u64 \<Rightarrow> kernel_trace_event \<Rightarrow> kernel_trace_event" where
  "read_acting km req info =
     (case core_read km req ''r_t.acting.size'' 4 of
        None \<Rightarrow> info\<lparr>kt_acting_size := 0\<rparr>
      | Some b \<Rightarrow>
          let n = min (unat (u32_of b)) CEPH_PG_MAX_SIZE;
              raw = filled (4 * n) (core_read km req ''r_t.acting.osds'' (4 * n))
          in info\<lparr>kt_acting_size := of_nat n,
                  kt_acting_osds := overlay (map (\<lambda>i. u32_of (take 4 (drop (4 * i) raw))) [0..<n])
                                      (kt_acting_osds info)\<rparr>)"

definition read_oid :: "kmem \<Rightarrow> u64 \<Rightarrow> kernel_trace_event \<Rightarrow> kernel_trace_event" where
  "read_oid km req info =
     (case core_read km req ''r_t.target_oid.name_len'' 4 of
        None \<Rightarrow> info
      | Some b \<Rightarrow>
          let n = min (unat (u32_of b)) (CEPH_OID_INLINE_LEN - 1) in
          info\<lparr>kt_object_name_len := of_nat n,
               kt_object_name := overlay
                 (filled (n + 1) (core_read_str km req ''r_t.target_oid.inline_name'' (n + 1)))
                 (kt_object_name info)\<rparr>)"

definition read_spgid :: "kmem \<Rightarrow> u64 \<Rightarrow> kernel_trace_event \<Rightarrow> kernel_trace_event" where
  "read_spgid km req info =
     (case core_read km req ''r_t.spgid'' (spg_size km) of
        None \<Rightarrow> info
      | Some b \<Rightarrow> info\<lparr>kt_pool_id := spg_pool km b, kt_pg_id := spg_seed km b\<rparr>)"

definition read_flags :: "kmem \<Rightarrow> u64 \<Rightarrow> kernel_trace_event \<Rightarrow> kernel_trace_event" where
  "read_flags km req info =
     (case core_read km req ''r_t.flags'' 4 of
        None \<Rightarrow> info
      | Some b \<Rightarrow>
          let w = (u32_of b AND ucast CEPH_OSD_FLAG_WRITE \<noteq> 0) in
          info\<lparr>kt_is_write := (if w then 1 else 0), kt_is_read := (if w then 0 else 1)\<rparr>)"

definition read_req_ops :: "kmem \<Rightarrow> u64 \<Rightarrow> kernel_trace_event \<Rightarrow> kernel_trace_event" where
  "read_req_ops km req info =
     (case core_read km req ''r_num_ops'' 4 of
        None \<Rightarrow> info
      | Some b \<Rightarrow>
          if u32_of b = 0 then info
          else send_ops_loop km req [0..<CEPH_OSD_MAX_OPS]
                 (info\<lparr>kt_ops_size := of_nat (min (unat (u32_of b)) CEPH_OSD_MAX_OPS),
                       kt_offset := 0, kt_length := 0\<rparr>))"

definition new_request :: "kfs_env \<Rightarrow> u64 \<Rightarrow> request_key \<Rightarrow> u32 \<Rightarrow> kernel_trace_event \<Rightarrow> kernel_trace_event" where
  "new_request e req key primary_osd info =
     (let km = f_km e in
      read_req_ops km req (read_flags km req (read_spgid km req (read_oid km req (read_acting km req
        (info\<lparr>kt_tid := rk_tid key, kt_client_id := rk_client_id key, kt_start_time := f_ktime e,
              kt_primary_osd := primary_osd, kt_pid := ucast (drop_bit 32 (f_pid_tgid e)),
              kt_comm := f_comm e, kt_attempts := 1\<rparr>))))))"

definition trace_send_request :: "kfs_cfg \<Rightarrow> kfs_env \<Rightarrow> kfs_bpf \<Rightarrow> kfs_bpf" where
  "trace_send_request c e s =
     (let req = f_parm1 e; km = f_km e in
      case core_read km req ''r_tid'' 8 of None \<Rightarrow> s | Some tb \<Rightarrow>
      case core_read km req ''r_osd'' 8 of None \<Rightarrow> s | Some ob \<Rightarrow>
      case core_read km (u64_of ob) ''o_osd'' 4 of None \<Rightarrow> s | Some pb \<Rightarrow>
      let client_id = (case core_read km req ''r_osdc'' 8 of
                         None \<Rightarrow> 0 | Some osdc \<Rightarrow> osdc_client_id km (u64_of osdc));
          key = \<lparr>rk_client_id = client_id, rk_tid = u64_of tb\<rparr>
      in
      case pending_requests s key of
        Some existing \<Rightarrow> put_req key (existing\<lparr>kt_attempts := kt_attempts existing + 1\<rparr>) s
      | None \<Rightarrow>
          let s1 = initialize_kernel_trace_event c key s in
          (case pending_requests s1 key of
             None \<Rightarrow> s1
           | Some info \<Rightarrow> put_req key (new_request e req key (u32_of pb) info) s1))"

definition trace_osd_dispatch :: "kfs_cfg \<Rightarrow> kfs_env \<Rightarrow> kfs_bpf \<Rightarrow> kfs_bpf" where
  "trace_osd_dispatch c e s =
     (let con = f_parm1 e; msg = f_parm2 e; km = f_km e in
      case core_read km msg ''hdr.tid'' 8 of None \<Rightarrow> s | Some tb \<Rightarrow>
      let client_id =
            (case core_read km con ''private'' 8 of None \<Rightarrow> 0 | Some osd \<Rightarrow>
             case core_read km (u64_of osd) ''o_osdc'' 8 of None \<Rightarrow> 0 | Some osdc \<Rightarrow>
             osdc_client_id km (u64_of osdc));
          key = \<lparr>rk_client_id = client_id, rk_tid = u64_of tb\<rparr>
      in
      case pending_requests s key of
        None \<Rightarrow> s
      | Some info \<Rightarrow>
          let s1 = s\<lparr>pending_requests := (pending_requests s)(key := None)\<rparr>;
              end_time = f_ktime e
          in
          if f_rb_ok e
          then s1\<lparr>kfs_rb := kfs_rb s @ [info\<lparr>kt_end_time := end_time,
                                             kt_latency_us := (end_time - kt_start_time info) div 1000\<rparr>]\<rparr>
          else s1)"

section \<open>MDS requests\<close>

text \<open>
  The client id behind an MDS session. The submission hook checks every pointer of the chain, the
  dispatch hook all but the first (\<open>check_mdsc\<close>).
\<close>

definition session_client_id :: "kmem \<Rightarrow> bool \<Rightarrow> u64 \<Rightarrow> u64" where
  "session_client_id km check_mdsc session =
     (case core_read km session ''s_mdsc'' 8 of None \<Rightarrow> 0 | Some mdsc \<Rightarrow>
      if check_mdsc \<and> u64_of mdsc = 0 then 0
      else case core_read km (u64_of mdsc) ''fsc'' 8 of None \<Rightarrow> 0 | Some fsc \<Rightarrow>
      if u64_of fsc = 0 then 0
      else case core_read km (u64_of fsc) ''client'' 8 of None \<Rightarrow> 0 | Some cl \<Rightarrow>
      (case core_read km (u64_of cl) ''msgr.inst.name'' (entity_name_size km) of
         None \<Rightarrow> 0 | Some nm \<Rightarrow> entity_name_num km nm))"

definition dentry_path :: "kmem \<Rightarrow> u64 \<Rightarrow> bytes \<Rightarrow> bytes" where
  "dentry_path km req path0 =
     (let empty_path = path0[0 := 0] in
      case core_read km req ''r_dentry'' 8 of None \<Rightarrow> empty_path | Some db \<Rightarrow>
      if u64_of db = 0 then empty_path
      else case core_read km (u64_of db) ''d_name.name'' 8 of None \<Rightarrow> empty_path | Some nb \<Rightarrow>
      if u64_of nb = 0 then empty_path
      else case core_read km (u64_of db) ''d_name.len'' 4 of None \<Rightarrow> empty_path | Some lb \<Rightarrow>
      if u32_of lb = 0 then empty_path
      else
        let n = min (unat (u32_of lb)) (CEPH_MDS_PATH_MAX - 1) in
        (case core_read_str km (u64_of nb) [] (n + 1) of
           None \<Rightarrow> (overlay (replicate (n + 1) 0) empty_path)[0 := 0]
         | Some b \<Rightarrow> overlay b empty_path))"

definition new_mds_event :: "kfs_env \<Rightarrow> u64 \<Rightarrow> mds_request_key \<Rightarrow> u32 \<Rightarrow> u32 \<Rightarrow> mds_trace_event \<Rightarrow> mds_trace_event" where
  "new_mds_event e req key op mds_rank ev =
     (let path = dentry_path (f_km e) req (mt_path ev);
          path1 = (if path ! 0 = 0 then path[0 := 63, 1 := 0] else path)
      in ev\<lparr>mt_tid := mk_tid key, mt_client_id := mk_client_id key, mt_submit_time := f_ktime e,
            mt_unsafe_reply_time := 0, mt_safe_reply_time := 0, mt_unsafe_latency_us := 0,
            mt_safe_latency_us := 0, mt_op := op, mt_pid := ucast (drop_bit 32 (f_pid_tgid e)),
            mt_comm := f_comm e, mt_mds_rank := mds_rank, mt_result := 0, mt_attempts := 1,
            mt_got_unsafe_reply := 0, mt_got_safe_reply := 0,
            mt_is_write_op := (if is_mds_write_op op then 1 else 0),
            mt_op_name := get_mds_op_name op, mt_path := path1\<rparr>)"

definition trace_prepare_send_request :: "kfs_cfg \<Rightarrow> kfs_env \<Rightarrow> kfs_bpf \<Rightarrow> kfs_bpf" where
  "trace_prepare_send_request c e s =
     (let session = f_parm1 e; req = f_parm2 e; km = f_km e in
      if req = 0 then s
      else
      case core_read km req ''r_tid'' 8 of None \<Rightarrow> s | Some tb \<Rightarrow>
      case core_read km req ''r_op'' 4 of None \<Rightarrow> s | Some ob \<Rightarrow>
      let client_id = session_client_id km True session;
          mds_rank = (if session = 0 then 0
                      else case core_read km session ''s_mds'' 4 of Some rb \<Rightarrow> u32_of rb | None \<Rightarrow> 0);
          key = \<lparr>mk_client_id = client_id, mk_tid = u64_of tb\<rparr>
      in
      case pending_mds_requests s key of
        Some existing \<Rightarrow> put_mds key (existing\<lparr>mt_attempts := mt_attempts existing + 1\<rparr>) s
      | None \<Rightarrow>
          let s1 = initialize_mds_trace_event c key s in
          (case pending_mds_requests s1 key of
             None \<Rightarrow> s1
           | Some ev \<Rightarrow> put_mds key (new_mds_event e req key (u32_of ob) mds_rank ev) s1))"

text \<open>
  The state of a reply: the first one of a write is unsafe and only recorded, the safe one
  completes the request.
\<close>

definition safe_reply :: "u64 \<Rightarrow> u32 \<Rightarrow> mds_trace_event \<Rightarrow> mds_trace_event" where
  "safe_reply now result ev =
     ev\<lparr>mt_result := result, mt_got_safe_reply := 1, mt_safe_reply_time := now,
        mt_safe_latency_us := (now - mt_submit_time ev) div 1000\<rparr>"

definition unsafe_reply :: "u64 \<Rightarrow> u32 \<Rightarrow> mds_trace_event \<Rightarrow> mds_trace_event" where
  "unsafe_reply now result ev =
     ev\<lparr>mt_result := result, mt_got_unsafe_reply := 1, mt_unsafe_reply_time := now,
        mt_unsafe_latency_us := (now - mt_submit_time ev) div 1000\<rparr>"

definition CEPH_MSG_CLIENT_REPLY :: u16 where "CEPH_MSG_CLIENT_REPLY = 26"

definition trace_mds_dispatch :: "kfs_cfg \<Rightarrow> kfs_env \<Rightarrow> kfs_bpf \<Rightarrow> kfs_bpf" where
  "trace_mds_dispatch c e s =
     (let con = f_parm1 e; msg = f_parm2 e; km = f_km e in
      case core_read km msg ''hdr.type'' 2 of None \<Rightarrow> s | Some mb \<Rightarrow>
      if u16_of mb \<noteq> CEPH_MSG_CLIENT_REPLY then s
      else
      case core_read km msg ''hdr.tid'' 8 of None \<Rightarrow> s | Some tb \<Rightarrow>
      case core_read km con ''private'' 8 of None \<Rightarrow> s | Some sb \<Rightarrow>
      if u64_of sb = 0 then s
      else
      let key = \<lparr>mk_client_id = session_client_id km False (u64_of sb), mk_tid = u64_of tb\<rparr> in
      case pending_mds_requests s key of None \<Rightarrow> s | Some ev \<Rightarrow>
      case core_read km msg ''front.iov_base'' 8 of None \<Rightarrow> s | Some hb \<Rightarrow>
      case core_read km (u64_of hb) ''safe'' 1 of None \<Rightarrow> s | Some fb \<Rightarrow>
      case core_read km (u64_of hb) ''result'' 4 of None \<Rightarrow> s | Some rb \<Rightarrow>
      let now = f_ktime e in
      if hd fb \<noteq> 0 then
        (let ev1 = safe_reply now (u32_of rb) ev;
             s1 = s\<lparr>pending_mds_requests := (pending_mds_requests s)(key := None)\<rparr>
         in if f_rb_ok e then s1\<lparr>kfs_mds_rb := kfs_mds_rb s @ [ev1]\<rparr> else s1)
      else put_mds key (unsafe_reply now (u32_of rb) ev) s)"

datatype kfs_probe = SendRequest | OsdDispatch | PrepareSendRequest | MdsDispatch

fun kfs_step :: "kfs_cfg \<Rightarrow> kfs_probe \<times> kfs_env \<Rightarrow> kfs_bpf \<Rightarrow> kfs_bpf" where
  "kfs_step c (SendRequest, e) s = trace_send_request c e s"
| "kfs_step c (OsdDispatch, e) s = trace_osd_dispatch c e s"
| "kfs_step c (PrepareSendRequest, e) s = trace_prepare_send_request c e s"
| "kfs_step c (MdsDispatch, e) s = trace_mds_dispatch c e s"

end
