(* ===== verification/Kfs_Report.thy ===== *)
theory Kfs_Report
  imports Kfs_Probes Osd_Report
begin

text \<open>
  The userspace side of kfstrace (\<open>src/kfstrace.cc\<close>): the two event handlers, the command line,
  and the poll loop. The wall clock text and the C library's \<open>%.1f\<close> of a number of milliseconds
  are parameters; standard output is a list of lines, standard error is left out except for the
  rejected events, which are counted.
\<close>

section \<open>The structures userspace expects\<close>

text \<open>
  The members of the two packed structures, as sizes and alignments. The BPF side and the userspace
  side declare \<open>kernel_trace_event\<close> separately; they differ in the class name of \<open>cls_op\<close>.
\<close>

definition kernel_trace_event_head :: "(nat \<times> nat) list" where
  "kernel_trace_event_head =
     [(8, 8), (8, 8), (8, 8), (8, 8), (8, 8), (4, 4), (4 * CEPH_PG_MAX_SIZE, 4), (4, 4), (4, 4), (4, 4),
      (TASK_COMM_LEN, 1), (CEPH_OID_INLINE_LEN, 1), (4, 4), (1, 1), (1, 1), (8, 8), (4, 4),
      (2 * CEPH_OSD_MAX_OPS, 2), (1, 1), (8, 8), (8, 8)]"

definition bpf_cls_op_members :: "(nat \<times> nat) list" where
  "bpf_cls_op_members = [(CLS_NAME_LEN, 1), (METHOD_NAME_LEN, 1)]"

definition user_cls_op_members :: "(nat \<times> nat) list" where
  "user_cls_op_members = [(16, 1), (32, 1)]"

definition bpf_event_size :: nat where
  "bpf_event_size = packed_sizeof (kernel_trace_event_head @ [(CEPH_OSD_MAX_OPS * c_sizeof bpf_cls_op_members, 1)])"

definition user_event_size :: nat where
  "user_event_size = packed_sizeof (kernel_trace_event_head @ [(CEPH_OSD_MAX_OPS * c_sizeof user_cls_op_members, 1)])"

definition mds_trace_event_members :: "(nat \<times> nat) list" where
  "mds_trace_event_members =
     [(8, 8), (8, 8), (8, 8), (8, 8), (8, 8), (8, 8), (8, 8), (4, 4), (4, 4), (4, 4), (4, 4),
      (TASK_COMM_LEN, 1), (4, 4), (1, 1), (1, 1), (1, 1), (CEPH_MDS_OP_NAME_MAX, 1), (CEPH_MDS_PATH_MAX, 1)]"

definition mds_event_size :: nat where
  "mds_event_size = packed_sizeof mds_trace_event_members"

section \<open>State\<close>

record kfs_ui =
  ku_out :: "string list"
  ku_rejected :: nat

record kfs_libc =
  lc_time :: string                 \<comment> \<open>\<open>%H:%M:%S\<close> of now\<close>
  lc_ms :: "nat \<Rightarrow> string"          \<comment> \<open>\<open>%.1fms\<close> of this many microseconds divided by 1000\<close>

definition micro_s :: string where
  "micro_s = [CHR 0xCE, CHR 0xBC, CHR ''s'']"

definition lpad :: "nat \<Rightarrow> string \<Rightarrow> string" where
  "lpad n s = s @ replicate (n - length s) (CHR '' '') @ '' ''"

section \<open>OSD events\<close>

definition format_ops_item :: "kernel_trace_event \<Rightarrow> nat \<Rightarrow> string" where
  "format_ops_item ev i =
     (let opc = kt_ops ev ! i; cls = c_str (cls_name (kt_cls_ops ev ! i));
          meth = c_str (method_name (kt_cls_ops ev ! i))
      in
      if uint opc = CEPH_OSD_OP_CALL \<and> cls \<noteq> [] \<and> meth \<noteq> [] then ''call('' @ cls @ ''.'' @ meth @ '')''
      else
        (case ceph_osd_op_str (uint opc) of Some nm \<Rightarrow> nm | None \<Rightarrow> ''op_'' @ show_nat (unat opc)) @
        (if ceph_osd_op_extent (uint opc) \<and> 0 < kt_length ev
         then ''('' @ show_nat (unat (kt_offset ev)) @ '','' @ show_nat (unat (kt_length ev)) @ '')'' else []))"

definition format_ops :: "kernel_trace_event \<Rightarrow> string" where
  "format_ops ev =
     ''['' @
     concat (map (\<lambda>i. (if 0 < i then '' ,'' else []) @ format_ops_item ev i)
              [0..<min (unat (kt_ops_size ev)) CEPH_OSD_MAX_OPS]) @ '']''"

definition acting_set :: "kernel_trace_event \<Rightarrow> string" where
  "acting_set ev =
     (if 0 < kt_acting_size ev
      then ''['' @ str_join '','' (map (\<lambda>i. show_nat (unat (kt_acting_osds ev ! i)))
                     [0..<min (unat (kt_acting_size ev)) CEPH_PG_MAX_SIZE]) @ '']''
      else ''['' @ show_nat (unat (kt_primary_osd ev)) @ '']'')"

definition event_object_name :: "kernel_trace_event \<Rightarrow> string" where
  "event_object_name ev =
     (let n = unat (kt_object_name_len ev) in
      if 0 < n \<and> n < CEPH_OID_INLINE_LEN then c_str (take n (kt_object_name ev) @ [0]) else ''<unknown>'')"

definition event_op_str :: "kernel_trace_event \<Rightarrow> string" where
  "event_op_str ev =
     (if kt_is_read ev \<noteq> 0 \<and> kt_is_write ev \<noteq> 0 then ''RMW''
      else if kt_is_read ev \<noteq> 0 then ''READ''
      else if kt_is_write ev \<noteq> 0 then ''WRITE''
      else ''OTHER'')"

definition osd_line :: "kfs_libc \<Rightarrow> kernel_trace_event \<Rightarrow> string" where
  "osd_line lc ev =
     lpad 8 (lc_time lc) @ lpad 8 (show_nat (unat (kt_pid ev))) @ lpad 12 (c_str (kt_comm ev)) @
     lpad 10 (show_nat (unat (kt_client_id ev))) @ lpad 16 (show_nat (unat (kt_tid ev))) @
     lpad 8 (show_nat (unat (kt_pool_id ev))) @ lpad 8 (show_nat (unat (kt_pg_id ev))) @
     lpad 6 (event_op_str ev) @ lpad 20 (acting_set ev) @ lpad 32 (event_object_name ev) @
     lpad 8 (show_nat (unat (kt_attempts ev))) @ lpad 30 (format_ops ev) @
     show_nat (unat (kt_latency_us ev)) @ micro_s"

definition kfs_handle_event :: "kfs_libc \<Rightarrow> int \<Rightarrow> nat \<Rightarrow> kernel_trace_event \<Rightarrow> kfs_ui \<Rightarrow> kfs_ui" where
  "kfs_handle_event lc latency_threshold data_sz ev ui =
     (if data_sz < user_event_size then ui\<lparr>ku_rejected := ku_rejected ui + 1\<rparr>
      else if kt_latency_us ev < of_int latency_threshold then ui
      else ui\<lparr>ku_out := ku_out ui @ [osd_line lc ev]\<rparr>)"

section \<open>MDS events\<close>

definition lat_text :: "kfs_libc \<Rightarrow> u64 \<Rightarrow> string" where
  "lat_text lc us =
     take 15 (if 1000 \<le> us then lc_ms lc (unat us) else show_nat (unat us) @ micro_s)"

definition display_path :: "mds_trace_event \<Rightarrow> string" where
  "display_path ev =
     (let p = c_str (mt_path ev) in if 60 < length p then take 57 p @ ''...'' else p)"

definition mds_line :: "kfs_libc \<Rightarrow> mds_trace_event \<Rightarrow> string" where
  "mds_line lc ev =
     lpad 8 (lc_time lc) @ lpad 8 (show_nat (unat (mt_pid ev))) @ lpad 12 (c_str (mt_comm ev)) @
     lpad 10 (show_nat (unat (mt_client_id ev))) @ lpad 16 (show_nat (unat (mt_tid ev))) @
     lpad 3 (show_nat (unat (mt_mds_rank ev))) @ lpad 8 (c_str (mt_op_name ev)) @
     lpad 32 (display_path ev) @ lpad 8 (show_nat (unat (mt_attempts ev))) @
     lpad 10 (if mt_got_unsafe_reply ev \<noteq> 0 \<and> 0 < mt_unsafe_latency_us ev
              then lat_text lc (mt_unsafe_latency_us ev) else ''-'') @
     lpad 10 (lat_text lc (mt_safe_latency_us ev)) @
     (if mt_result ev = 0 then ''OK    '' else ''ERR   '')"

text \<open>Below the threshold (its unsafe latency when it has one, else its safe latency) nothing is shown.\<close>

definition mds_below :: "int \<Rightarrow> mds_trace_event \<Rightarrow> bool" where
  "mds_below latency_threshold ev \<longleftrightarrow>
     (if mt_got_unsafe_reply ev \<noteq> 0 \<and> 0 < mt_unsafe_latency_us ev
      then mt_unsafe_latency_us ev < of_int latency_threshold
      else mt_safe_latency_us ev < of_int latency_threshold)"

definition handle_mds_event :: "kfs_libc \<Rightarrow> int \<Rightarrow> nat \<Rightarrow> mds_trace_event \<Rightarrow> kfs_ui \<Rightarrow> kfs_ui" where
  "handle_mds_event lc latency_threshold data_sz ev ui =
     (if data_sz < mds_event_size then ui\<lparr>ku_rejected := ku_rejected ui + 1\<rparr>
      else if mds_below latency_threshold ev then ui
      else ui\<lparr>ku_out := ku_out ui @ [mds_line lc ev]\<rparr>)"

section \<open>The kernel module\<close>

text \<open>\<open>fgets\<close> with a buffer of 256 returns a longer line in pieces.\<close>

function line_pieces :: "string \<Rightarrow> string list" where
  "line_pieces s = (if length s \<le> 255 then [s] else take 255 s # line_pieces (drop 255 s))"
  by auto
termination by (relation "measure length") auto

declare line_pieces.simps [simp del]

definition check_ceph_module_loaded :: "host \<Rightarrow> bool" where
  "check_ceph_module_loaded h =
     (case h_lines h ''/proc/modules'' of
        None \<Rightarrow> False
      | Some ls \<Rightarrow> list_ex (\<lambda>l. starts_with ''ceph '' l \<or> starts_with ''libceph '' l)
                    (concat (map (\<lambda>l. line_pieces (l @ [CHR 0x0A])) ls)))"

section \<open>Command line\<close>

datatype trace_mode = MODE_OSD | MODE_MDS | MODE_ALL

record kfs_args =
  ka_timeout :: int
  ka_mode :: trace_mode
  ka_threshold :: int

definition kfs_args_init :: kfs_args where
  "kfs_args_init = \<lparr>ka_timeout = 0, ka_mode = MODE_MDS, ka_threshold = 0\<rparr>"

definition atoi :: "string \<Rightarrow> int" where
  "atoi s = (case scan_int s of None \<Rightarrow> 0 | Some (v, _) \<Rightarrow> to_c_int v)"

definition atoll :: "string \<Rightarrow> int" where
  "atoll s = (case scan_int s of None \<Rightarrow> 0 | Some (v, _) \<Rightarrow> signed_take_bit 63 v)"

text \<open>One option with its argument: the new settings, or the exit status.\<close>

definition kfs_opt_step :: "char \<times> string \<Rightarrow> kfs_args \<Rightarrow> int + kfs_args" where
  "kfs_opt_step opt a =
     (case opt of (c, arg) \<Rightarrow>
        if c = CHR ''h'' \<or> c = CHR ''V'' then Inl 0
        else if c = CHR ''t'' then
          (if atoi arg \<le> 0 then Inl 1 else Inr (a\<lparr>ka_timeout := atoi arg\<rparr>))
        else if c = CHR ''m'' then
          (if arg = ''osd'' then Inr (a\<lparr>ka_mode := MODE_OSD\<rparr>)
           else if arg = ''mds'' then Inr (a\<lparr>ka_mode := MODE_MDS\<rparr>)
           else if arg = ''all'' then Inr (a\<lparr>ka_mode := MODE_ALL\<rparr>)
           else Inl 1)
        else if c = CHR ''l'' then
          (if atoll arg \<le> 0 then Inl 1 else Inr (a\<lparr>ka_threshold := atoll arg\<rparr>))
        else Inl 1)"

fun kfs_parse_args :: "(char \<times> string) list \<Rightarrow> kfs_args \<Rightarrow> int + kfs_args" where
  "kfs_parse_args [] a = Inr a"
| "kfs_parse_args (opt # opts) a =
     (case kfs_opt_step opt a of Inl n \<Rightarrow> Inl n | Inr a' \<Rightarrow> kfs_parse_args opts a')"

section \<open>Attaching and polling\<close>

definition mode_osd :: "trace_mode \<Rightarrow> bool" where
  "mode_osd m \<longleftrightarrow> m = MODE_OSD \<or> m = MODE_ALL"

definition mode_mds :: "trace_mode \<Rightarrow> bool" where
  "mode_mds m \<longleftrightarrow> m = MODE_MDS \<or> m = MODE_ALL"

definition kfs_programs :: "trace_mode \<Rightarrow> kfs_probe list" where
  "kfs_programs m =
     (if mode_osd m then [SendRequest, OsdDispatch] else []) @
     (if mode_mds m then [PrepareSendRequest, MdsDispatch] else [])"

record kfs_services =
  ks_open :: bool
  ks_load :: int
  ks_attach :: "kfs_probe \<Rightarrow> bool"
  ks_osd_ring :: bool
  ks_mds_ring :: bool

text \<open>The programs attached, or the exit status 1 at the first failure.\<close>

definition kfs_setup :: "kfs_services \<Rightarrow> trace_mode \<Rightarrow> kfs_probe list option" where
  "kfs_setup b m =
     (if \<not> ks_open b \<or> ks_load b \<noteq> 0 then None
      else if \<not> list_all (ks_attach b) (kfs_programs m) then None
      else if mode_osd m \<and> \<not> ks_osd_ring b then None
      else if mode_mds m \<and> \<not> ks_mds_ring b then None
      else Some (kfs_programs m))"

definition kfs_header :: "trace_mode \<Rightarrow> string list" where
  "kfs_header m =
     (case m of
        MODE_OSD \<Rightarrow>
          [''Tracing Ceph kernel OSD requests... Press Ctrl+C to stop.'',
           lpad 8 ''TIME'' @ lpad 8 ''PID'' @ lpad 12 ''COMMAND'' @ lpad 10 ''CLIENT_ID'' @ lpad 16 ''TID'' @
           lpad 8 ''POOL'' @ lpad 8 ''PG'' @ lpad 6 ''OP'' @ lpad 20 ''ACTING_SET'' @ lpad 32 ''OBJECT'' @
           lpad 8 ''ATTEMPTS'' @ lpad 30 ''OPS'' @ ''LATENCY(us) '']
      | MODE_MDS \<Rightarrow>
          [''Tracing Ceph kernel MDS requests... Press Ctrl+C to stop.'',
           lpad 8 ''TIME'' @ lpad 8 ''PID'' @ lpad 12 ''COMMAND'' @ lpad 10 ''CLIENT_ID'' @ lpad 16 ''TID'' @
           lpad 3 ''MDS'' @ lpad 8 ''OP'' @ lpad 32 ''FILE'' @ lpad 8 ''ATTEMPTS'' @ lpad 10 ''UNSAFE_LAT'' @
           lpad 10 ''SAFE_LAT'' @ ''RESULT'']
      | MODE_ALL \<Rightarrow> [''Tracing Ceph kernel OSD and MDS requests... Press Ctrl+C to stop.''])"

text \<open>
  One turn of the poll loop: whether a signal has come, what each poll returns and delivers (an
  event with its size), and the seconds since the start when the turn ends.
\<close>

record kfs_turn =
  kp_exiting :: bool
  kp_osd :: "int \<times> (nat \<times> kernel_trace_event) list"
  kp_mds :: "int \<times> (nat \<times> mds_trace_event) list"
  kp_elapsed :: int

fun kfs_loop ::
  "kfs_libc \<Rightarrow> kfs_args \<Rightarrow> kfs_turn list \<Rightarrow> int \<Rightarrow> kfs_ui \<Rightarrow> (int \<times> kfs_ui) option" where
  "kfs_loop lc a [] err ui = None"
| "kfs_loop lc a (t # ts) err ui =
     (if kp_exiting t then Some (err, ui)
      else
        let ui1 = (if mode_osd (ka_mode a)
                   then fold (\<lambda>(n, ev). kfs_handle_event lc (ka_threshold a) n ev) (snd (kp_osd t)) ui else ui);
            err1 = (if mode_osd (ka_mode a) then fst (kp_osd t) else err)
        in
        if mode_osd (ka_mode a) \<and> err1 < 0 then Some (err1, ui1)
        else
          let ui2 = (if mode_mds (ka_mode a)
                     then fold (\<lambda>(n, ev). handle_mds_event lc (ka_threshold a) n ev) (snd (kp_mds t)) ui1 else ui1);
              err2 = (if mode_mds (ka_mode a) then fst (kp_mds t) else err1)
          in
          if mode_mds (ka_mode a) \<and> err2 < 0 then Some (err2, ui2)
          else if 0 < ka_timeout a \<and> ka_timeout a \<le> kp_elapsed t
          then Some (err2, ui2\<lparr>ku_out := ku_out ui2 @ [[], ''Timeout reached, exiting...'']\<rparr>)
          else kfs_loop lc a ts err2 ui2)"

text \<open>The exit status and what was printed; \<open>None\<close> while the loop still runs.\<close>

definition kfstrace_main ::
  "host \<Rightarrow> kfs_services \<Rightarrow> kfs_libc \<Rightarrow> (char \<times> string) list \<Rightarrow> kfs_turn list \<Rightarrow> (int \<times> kfs_ui) option" where
  "kfstrace_main h b lc opts turns =
     (let nothing = \<lparr>ku_out = [], ku_rejected = 0\<rparr> in
      case kfs_parse_args opts kfs_args_init of
        Inl n \<Rightarrow> Some (n, nothing)
      | Inr a \<Rightarrow>
          if \<not> check_ceph_module_loaded h then Some (1, nothing)
          else (case kfs_setup b (ka_mode a) of
                  None \<Rightarrow> Some (1, nothing)
                | Some _ \<Rightarrow>
                    map_option (\<lambda>(err, ui). (if err \<noteq> 0 then 1 else 0, ui))
                      (kfs_loop lc a turns 0 (nothing\<lparr>ku_out := kfs_header (ka_mode a)\<rparr>))))"

end
