(* ===== verification/Kfs_Properties.thy ===== *)
theory Kfs_Properties
  imports Kfs_Report
begin

text \<open>
  What kfstrace guarantees: pending requests and events are well formed in each reachable state,
  an MDS request is reported by its safe reply with both latencies, the name of an MDS op
  identifies it; and that userspace rejects every OSD event the BPF side sends.
\<close>

section \<open>Kernel reads\<close>

text \<open>
  The documented behaviour of the kernel's read helpers: a successful read gives the bytes asked
  for, a successful string read at most as many, ended by a NUL; the command name is terminated.
\<close>

locale kernel_memory =
  fixes km :: kmem
  assumes core_read_len: "core_read km a f n = Some b \<Longrightarrow> length b = n"
    and core_read_str_len: "core_read_str km a f n = Some b \<Longrightarrow> length b \<le> n"
    and core_read_str_nul: "core_read_str km a f n = Some b \<Longrightarrow> 0 \<in> set b"
begin

lemma filled_read_len: "length (filled n (core_read km a f n)) = n"
  by (auto simp: filled_def core_read_len split: option.split)

lemma filled_str_len: "length (filled n (core_read_str km a f n)) \<le> n"
  by (auto simp: filled_def core_read_str_len split: option.split)

lemma filled_str_nul: "0 < n \<Longrightarrow> 0 \<in> set (filled n (core_read_str km a f n))"
  by (auto simp: filled_def core_read_str_nul split: option.split)

lemma str_into_array:
  assumes "n < length buf"
  shows "length (overlay (filled (n + 1) (core_read_str km a f (n + 1))) buf) = length buf"
    and "0 \<in> set (overlay (filled (n + 1) (core_read_str km a f (n + 1))) buf)"
proof -
  have "length (filled (n + 1) (core_read_str km a f (n + 1))) \<le> length buf"
    using filled_str_len [of "n + 1" a f] assms by simp
  then show "length (overlay (filled (n + 1) (core_read_str km a f (n + 1))) buf) = length buf"
    by simp
  show "0 \<in> set (overlay (filled (n + 1) (core_read_str km a f (n + 1))) buf)"
    using filled_str_nul [of "n + 1" a f] by (simp add: overlay_def)
qed

lemma read_cls_part_shape:
  assumes "buf \<noteq> []"
  shows "length (read_cls_part km req i p l buf) = length buf" and "0 \<in> set (read_cls_part km req i p l buf)"
proof -
  have zero: "length (buf[0 := 0]) = length buf" "0 \<in> set (buf[0 := 0])"
    using assms by (simp_all add: set_update_memI)
  have str: "n < length buf \<Longrightarrow> length (overlay (filled (n + 1) (core_read_str km a f (n + 1))) buf) = length buf
      \<and> 0 \<in> set (overlay (filled (n + 1) (core_read_str km a f (n + 1))) buf)" for n a f
    using str_into_array by simp
  have lt: "(if length buf \<le> m then length buf - 1 else m) < length buf" for m
    using assms by (cases buf) auto
  show "length (read_cls_part km req i p l buf) = length buf" "0 \<in> set (read_cls_part km req i p l buf)"
    using zero str [OF lt] by (auto simp: read_cls_part_def Let_def split: option.split)
qed

end

section \<open>Well-formed OSD requests\<close>

definition kfs_cls_ok :: "cls_op \<Rightarrow> bool" where
  "kfs_cls_ok co \<longleftrightarrow> length (cls_name co) = CLS_NAME_LEN \<and> 0 \<in> set (cls_name co) \<and>
     length (method_name co) = METHOD_NAME_LEN \<and> 0 \<in> set (method_name co)"

definition kt_shaped :: "kernel_trace_event \<Rightarrow> bool" where
  "kt_shaped v \<longleftrightarrow> length (kt_acting_osds v) = CEPH_PG_MAX_SIZE \<and> unat (kt_acting_size v) \<le> CEPH_PG_MAX_SIZE \<and>
     length (kt_object_name v) = CEPH_OID_INLINE_LEN \<and> 0 \<in> set (kt_object_name v) \<and>
     unat (kt_object_name_len v) < CEPH_OID_INLINE_LEN \<and>
     length (kt_ops v) = CEPH_OSD_MAX_OPS \<and> unat (kt_ops_size v) \<le> CEPH_OSD_MAX_OPS \<and>
     length (kt_cls_ops v) = CEPH_OSD_MAX_OPS \<and> (\<forall>co\<in>set (kt_cls_ops v). kfs_cls_ok co) \<and>
     length (kt_comm v) = TASK_COMM_LEN \<and> 0 \<in> set (kt_comm v) \<and>
     \<not> (kt_is_read v \<noteq> 0 \<and> kt_is_write v \<noteq> 0)"

definition kt_ok :: "u64 \<Rightarrow> request_key \<Rightarrow> kernel_trace_event \<Rightarrow> bool" where
  "kt_ok T k v \<longleftrightarrow> kt_tid v = rk_tid k \<and> kt_client_id v = rk_client_id k \<and> kt_shaped v \<and> kt_start_time v \<le> T"

definition kt_event_ok :: "u64 \<Rightarrow> kernel_trace_event \<Rightarrow> bool" where
  "kt_event_ok T v \<longleftrightarrow> kt_shaped v \<and> kt_start_time v \<le> kt_end_time v \<and> kt_end_time v \<le> T \<and>
     unat (kt_latency_us v) = (unat (kt_end_time v) - unat (kt_start_time v)) div 1000"

lemma zero_kernel_shaped: "kt_shaped zero_kernel_event"
  by (simp add: kt_shaped_def zero_kernel_event_def kfs_cls_ok_def kfs_const_defs)

lemma unat_of_small_nat: "m \<le> 32 \<Longrightarrow> unat (of_nat m :: u32) = m" "m \<le> 32 \<Longrightarrow> unat (of_nat m :: u8) = m"
  by (simp_all add: unat_of_nat)

context kernel_memory
begin

lemma read_acting_shaped: "kt_shaped v \<Longrightarrow> kt_shaped (read_acting km req v)"
  by (auto simp: kt_shaped_def read_acting_def Let_def kfs_const_defs unat_of_small_nat split: option.split)

lemma read_oid_shaped:
  assumes "kt_shaped v"
  shows "kt_shaped (read_oid km req v)"
proof (cases "core_read km req ''r_t.target_oid.name_len'' 4")
  case None
  with assms show ?thesis by (simp add: read_oid_def)
next
  case (Some b)
  have "min (unat (u32_of b)) (CEPH_OID_INLINE_LEN - 1) < length (kt_object_name v)"
    using assms by (simp add: kt_shaped_def kfs_const_defs)
  from str_into_array [OF this] assms Some show ?thesis
    by (simp add: read_oid_def Let_def kt_shaped_def unat_of_small_nat kfs_const_defs)
qed

lemma read_spgid_shaped: "kt_shaped v \<Longrightarrow> kt_shaped (read_spgid km req v)"
  by (auto simp: kt_shaped_def read_spgid_def split: option.split)

lemma read_flags_shaped: "kt_shaped v \<Longrightarrow> kt_shaped (read_flags km req v)"
  by (auto simp: kt_shaped_def read_flags_def Let_def split: option.split)

lemma send_op_one_shaped:
  assumes "kt_shaped v" and "i < CEPH_OSD_MAX_OPS"
  shows "kt_shaped (send_op_one km req i v)"
proof -
  have co: "kfs_cls_ok (kt_cls_ops v ! i)" using assms by (simp add: kt_shaped_def)
  then have "cls_name (kt_cls_ops v ! i) \<noteq> []" "method_name (kt_cls_ops v ! i) \<noteq> []"
    by (auto simp: kfs_cls_ok_def kfs_const_defs)
  from read_cls_part_shape [OF this(1)] read_cls_part_shape [OF this(2)] co
  have "kfs_cls_ok \<lparr>cls_name = read_cls_part km req i p l (cls_name (kt_cls_ops v ! i)),
       method_name = read_cls_part km req i q m (method_name (kt_cls_ops v ! i))\<rparr>" for p l q m
    by (simp add: kfs_cls_ok_def)
  moreover have "kt_shaped (v\<lparr>kt_ops := (kt_ops v)[i := t], kt_cls_ops := (kt_cls_ops v)[i := c]\<rparr>)"
    if "kfs_cls_ok c" for c t
    using that assms(1) set_update_subset_insert [of "kt_cls_ops v" i c] by (auto simp: kt_shaped_def)
  moreover have "kt_shaped (v\<lparr>kt_ops := (kt_ops v)[i := t]\<rparr>)"
    "kt_shaped (v\<lparr>kt_ops := (kt_ops v)[i := t], kt_offset := x, kt_length := y\<rparr>)" for t x y
    using assms(1) by (simp_all add: kt_shaped_def)
  ultimately show ?thesis using assms(1) by (simp add: send_op_one_def Let_def split: option.split)
qed

lemma send_ops_loop_shaped:
  "\<lbrakk>kt_shaped v; \<forall>i\<in>set is. i < CEPH_OSD_MAX_OPS\<rbrakk> \<Longrightarrow> kt_shaped (send_ops_loop km req is v)"
  by (induction "is" arbitrary: v) (simp_all add: send_op_one_shaped)

lemma read_req_ops_shaped:
  assumes "kt_shaped v"
  shows "kt_shaped (read_req_ops km req v)"
proof -
  have "kt_shaped (v\<lparr>kt_ops_size := of_nat (min m CEPH_OSD_MAX_OPS), kt_offset := 0, kt_length := 0\<rparr>)" for m
    using assms by (simp add: kt_shaped_def unat_of_small_nat kfs_const_defs)
  with assms show ?thesis
    by (auto simp: read_req_ops_def intro!: send_ops_loop_shaped split: option.split)
qed

end

lemma send_op_one_other [simp]:
  "kt_tid (send_op_one km req i v) = kt_tid v" "kt_client_id (send_op_one km req i v) = kt_client_id v"
  "kt_start_time (send_op_one km req i v) = kt_start_time v" "kt_ops_size (send_op_one km req i v) = kt_ops_size v"
  by (auto simp: send_op_one_def Let_def split: option.split)

lemma send_ops_loop_other [simp]:
  "kt_tid (send_ops_loop km req is v) = kt_tid v" "kt_client_id (send_ops_loop km req is v) = kt_client_id v"
  "kt_start_time (send_ops_loop km req is v) = kt_start_time v"
  by (induction km req "is" v rule: send_ops_loop.induct) auto

lemma new_request_other [simp]:
  "kt_tid (new_request e req key osd v) = rk_tid key" "kt_client_id (new_request e req key osd v) = rk_client_id key"
  "kt_start_time (new_request e req key osd v) = f_ktime e"
  by (auto simp: new_request_def Let_def read_acting_def read_oid_def read_spgid_def read_flags_def read_req_ops_def
      split: option.split)

definition comm_ok :: "bytes \<Rightarrow> bool" where
  "comm_ok b \<longleftrightarrow> length b = TASK_COMM_LEN \<and> 0 \<in> set b"

lemma new_request_shaped:
  assumes "kernel_memory (f_km e)" and "comm_ok (f_comm e)"
  shows "kt_shaped (new_request e req key osd zero_kernel_event)"
proof -
  have "kt_shaped (zero_kernel_event\<lparr>kt_tid := a, kt_client_id := b, kt_start_time := t, kt_primary_osd := d,
       kt_pid := p, kt_comm := f_comm e, kt_attempts := 1\<rparr>)" for a b t d p
    using zero_kernel_shaped assms(2) by (simp add: kt_shaped_def comm_ok_def)
  then show ?thesis unfolding new_request_def Let_def
    by (intro kernel_memory.read_req_ops_shaped [OF assms(1)] kernel_memory.read_flags_shaped [OF assms(1)]
        kernel_memory.read_spgid_shaped [OF assms(1)] kernel_memory.read_oid_shaped [OF assms(1)]
        kernel_memory.read_acting_shaped [OF assms(1)])
qed

section \<open>Well-formed MDS requests\<close>

definition unsafe_ok :: "u64 \<Rightarrow> mds_trace_event \<Rightarrow> bool" where
  "unsafe_ok T v \<longleftrightarrow>
     (if mt_got_unsafe_reply v = 0 then mt_unsafe_latency_us v = 0
      else mt_submit_time v \<le> mt_unsafe_reply_time v \<and> mt_unsafe_reply_time v \<le> T \<and>
        unat (mt_unsafe_latency_us v) = (unat (mt_unsafe_reply_time v) - unat (mt_submit_time v)) div 1000)"

definition mt_shaped :: "mds_trace_event \<Rightarrow> bool" where
  "mt_shaped v \<longleftrightarrow> mt_op_name v = get_mds_op_name (mt_op v) \<and>
     (mt_is_write_op v \<noteq> 0 \<longleftrightarrow> is_mds_write_op (mt_op v)) \<and>
     length (mt_path v) = CEPH_MDS_PATH_MAX \<and> 0 \<in> set (mt_path v) \<and> mt_path v ! 0 \<noteq> 0 \<and>
     length (mt_comm v) = TASK_COMM_LEN \<and> 0 \<in> set (mt_comm v)"

definition mt_ok :: "u64 \<Rightarrow> mds_request_key \<Rightarrow> mds_trace_event \<Rightarrow> bool" where
  "mt_ok T k v \<longleftrightarrow> mt_tid v = mk_tid k \<and> mt_client_id v = mk_client_id k \<and> mt_shaped v \<and>
     mt_got_safe_reply v = 0 \<and> mt_submit_time v \<le> T \<and> unsafe_ok T v"

definition mt_event_ok :: "u64 \<Rightarrow> mds_trace_event \<Rightarrow> bool" where
  "mt_event_ok T v \<longleftrightarrow> mt_shaped v \<and> mt_got_safe_reply v = 1 \<and>
     mt_submit_time v \<le> mt_safe_reply_time v \<and> mt_safe_reply_time v \<le> T \<and>
     unat (mt_safe_latency_us v) = (unat (mt_safe_reply_time v) - unat (mt_submit_time v)) div 1000 \<and>
     unsafe_ok (mt_safe_reply_time v) v"

lemma dentry_path_shape:
  assumes "kernel_memory km" and "length p = CEPH_MDS_PATH_MAX"
  shows "length (dentry_path km req p) = CEPH_MDS_PATH_MAX" and "0 \<in> set (dentry_path km req p)"
proof -
  have zero: "length (q[0 := 0]) = length q" "q \<noteq> [] \<Longrightarrow> 0 \<in> set (q[0 := 0])" for q :: bytes
    by (simp_all add: set_update_memI)
  have p: "p \<noteq> []" using assms(2) by (auto simp: kfs_const_defs)
  have len: "length (overlay (replicate (min m 63 + 1) 0) (p[0 := 0])) = 64" for m
    using assms(2) by (simp add: kfs_const_defs)
  have str: "length (overlay b (p[0 := 0])) = 64 \<and> 0 \<in> set (overlay b (p[0 := 0]))"
    if "core_read_str km a f (min m 63 + 1) = Some b" for a f m b
    using kernel_memory.core_read_str_len [OF assms(1) that] kernel_memory.core_read_str_nul [OF assms(1) that]
      assms(2) by (simp add: kfs_const_defs) (simp add: overlay_def)
  have nul: "0 \<in> set ((overlay (replicate (min m 63 + 1) 0) (p[0 := 0]))[0 := 0])" for m
    by (intro zero(2)) (simp add: overlay_def)
  have "length (dentry_path km req p) = 64 \<and> 0 \<in> set (dentry_path km req p)"
    using assms(2) p zero(2) [OF p] nul len str
    by (auto simp: dentry_path_def Let_def kfs_const_defs split: option.split)
  then show "length (dentry_path km req p) = CEPH_MDS_PATH_MAX" and "0 \<in> set (dentry_path km req p)"
    by (simp_all add: kfs_const_defs)
qed

lemma new_mds_event_shaped:
  assumes "kernel_memory (f_km e)" and "comm_ok (f_comm e)"
  shows "mt_shaped (new_mds_event e req key op rank zero_mds_event)"
proof -
  let ?p = "dentry_path (f_km e) req (mt_path zero_mds_event)"
  have "length (mt_path zero_mds_event) = CEPH_MDS_PATH_MAX"
    by (simp add: zero_mds_event_def kfs_const_defs)
  from dentry_path_shape [OF assms(1) this, of req]
  have p: "length ?p = 64" "0 \<in> set ?p" by (simp_all add: kfs_const_defs)
  then have "0 \<in> set (?p[0 := 63, 1 := 0])" "?p[0 := 63, 1 := 0] ! 0 = 63"
    by (auto intro!: set_update_memI)
  with p assms(2) show ?thesis
    by (auto simp: mt_shaped_def new_mds_event_def Let_def comm_ok_def kfs_const_defs)
qed

section \<open>The programs keep the invariant\<close>

definition kfs_inv :: "u64 \<Rightarrow> kfs_bpf \<Rightarrow> bool" where
  "kfs_inv T s \<longleftrightarrow> (\<forall>k v. pending_requests s k = Some v \<longrightarrow> kt_ok T k v) \<and>
     (\<forall>v\<in>set (kfs_rb s). kt_event_ok T v) \<and>
     (\<forall>k v. pending_mds_requests s k = Some v \<longrightarrow> mt_ok T k v) \<and> (\<forall>v\<in>set (kfs_mds_rb s). mt_event_ok T v)"

lemma kfs_inv_mono: "kfs_inv T s \<Longrightarrow> T \<le> T' \<Longrightarrow> kfs_inv T' s"
  unfolding kfs_inv_def kt_ok_def kt_event_ok_def mt_ok_def mt_event_ok_def unsafe_ok_def
  by (smt (verit) order_trans)

lemma kt_ok_retry: "kt_ok T k v \<Longrightarrow> kt_ok T k (v\<lparr>kt_attempts := n\<rparr>)"
  by (simp add: kt_ok_def kt_shaped_def)

lemma mt_ok_retry: "mt_ok T k v \<Longrightarrow> mt_ok T k (v\<lparr>mt_attempts := n\<rparr>)"
  by (simp add: mt_ok_def mt_shaped_def unsafe_ok_def)

lemma kfs_inv_put_req:
  "kfs_inv T s \<Longrightarrow> kt_ok T k v \<Longrightarrow> kfs_inv T (put_req k v s)"
  by (auto simp: kfs_inv_def put_req_def)

lemma kfs_inv_put_mds:
  "kfs_inv T s \<Longrightarrow> mt_ok T k v \<Longrightarrow> kfs_inv T (put_mds k v s)"
  by (auto simp: kfs_inv_def put_mds_def)

context hash_map
begin

lemma upd_cases: "upd m k v = m(k \<mapsto> v) \<or> upd m k v = m"
proof (rule disjE [OF upd_stored [of m k v]])
  assume "upd m k v k = Some v"
  then have "upd m k v = m(k \<mapsto> v)" using upd_keeps by (intro ext) auto
  then show ?thesis ..
qed simp

end

text \<open>A fresh entry: the map refuses it, or stores the zeroed value, which is then filled in.\<close>

lemma fresh_request:
  assumes "hash_map (kc_upd c)" and "pending_requests s key = None"
  shows "(case pending_requests (initialize_kernel_trace_event c key s) key of
       None \<Rightarrow> initialize_kernel_trace_event c key s
     | Some info \<Rightarrow> put_req key (f info) (initialize_kernel_trace_event c key s)) =
     (if kc_upd c (pending_requests s) key zero_kernel_event = pending_requests s then s
      else put_req key (f zero_kernel_event) s)"
  using hash_map.upd_cases [OF assms(1), of "pending_requests s" key zero_kernel_event] assms(2)
  by (auto simp: initialize_kernel_trace_event_def put_req_def)

lemma fresh_mds:
  assumes "hash_map (kc_mds_upd c)" and "pending_mds_requests s key = None"
  shows "(case pending_mds_requests (initialize_mds_trace_event c key s) key of
       None \<Rightarrow> initialize_mds_trace_event c key s
     | Some ev \<Rightarrow> put_mds key (f ev) (initialize_mds_trace_event c key s)) =
     (if kc_mds_upd c (pending_mds_requests s) key zero_mds_event = pending_mds_requests s then s
      else put_mds key (f zero_mds_event) s)"
  using hash_map.upd_cases [OF assms(1), of "pending_mds_requests s" key zero_mds_event] assms(2)
  by (auto simp: initialize_mds_trace_event_def put_mds_def)

definition kfs_good_env :: "kfs_env \<Rightarrow> bool" where
  "kfs_good_env e \<longleftrightarrow> kernel_memory (f_km e) \<and> comm_ok (f_comm e)"

lemma send_request_inv:
  assumes "kfs_inv (f_ktime e) s" and "kfs_good_env e" and "hash_map (kc_upd c)"
  shows "kfs_inv (f_ktime e) (trace_send_request c e s)"
proof -
  have new: "kt_ok (f_ktime e) key (new_request e (f_parm1 e) key osd zero_kernel_event)" for key osd
    using new_request_shaped assms(2) by (simp add: kt_ok_def kfs_good_env_def)
  have retry: "kfs_inv (f_ktime e) (put_req key (v\<lparr>kt_attempts := kt_attempts v + 1\<rparr>) s)"
    if "pending_requests s key = Some v" for key v
    using assms(1) that by (intro kfs_inv_put_req kt_ok_retry) (auto simp: kfs_inv_def)
  show ?thesis
    using assms(1) retry kfs_inv_put_req [OF assms(1) new] fresh_request [OF assms(3)]
    by (auto simp: trace_send_request_def Let_def split: option.split)
qed

lemma unat_lat: "(a :: u64) \<le> b \<Longrightarrow> unat ((b - a) div 1000) = (unat b - unat a) div 1000"
  by (simp add: word_diff_div_le)

lemma osd_dispatch_inv:
  assumes "kfs_inv (f_ktime e) s"
  shows "kfs_inv (f_ktime e) (trace_osd_dispatch c e s)"
proof -
  have "kt_event_ok (f_ktime e) (v\<lparr>kt_end_time := f_ktime e, kt_latency_us := (f_ktime e - kt_start_time v) div 1000\<rparr>)"
    if "pending_requests s key = Some v" for key v
    using that assms by (auto simp: kfs_inv_def kt_ok_def kt_event_ok_def kt_shaped_def unat_lat)
  with assms show ?thesis
    by (auto simp: trace_osd_dispatch_def Let_def kfs_inv_def split: option.split if_splits)
qed

lemma prepare_send_inv:
  assumes "kfs_inv (f_ktime e) s" and "kfs_good_env e" and "hash_map (kc_mds_upd c)"
  shows "kfs_inv (f_ktime e) (trace_prepare_send_request c e s)"
proof -
  have "mt_shaped (new_mds_event e (f_parm2 e) key op rank zero_mds_event)" for key op rank
    using new_mds_event_shaped assms(2) by (simp add: kfs_good_env_def)
  then have new: "mt_ok (f_ktime e) key (new_mds_event e (f_parm2 e) key op rank zero_mds_event)" for key op rank
    by (simp add: mt_ok_def unsafe_ok_def) (simp add: new_mds_event_def Let_def)
  have retry: "kfs_inv (f_ktime e) (put_mds key (v\<lparr>mt_attempts := mt_attempts v + 1\<rparr>) s)"
    if "pending_mds_requests s key = Some v" for key v
    using assms(1) that by (intro kfs_inv_put_mds mt_ok_retry) (auto simp: kfs_inv_def)
  show ?thesis
    using assms(1) retry kfs_inv_put_mds [OF assms(1) new] fresh_mds [OF assms(3)]
    by (auto simp: trace_prepare_send_request_def Let_def split: option.split)
qed

lemma unsafe_reply_ok: "mt_ok T k v \<Longrightarrow> mt_ok T k (unsafe_reply T r v)"
  by (simp add: mt_ok_def mt_shaped_def unsafe_ok_def unsafe_reply_def unat_lat)

lemma safe_reply_ok: "mt_ok T k v \<Longrightarrow> mt_event_ok T (safe_reply T r v)"
  by (simp add: mt_ok_def mt_event_ok_def mt_shaped_def unsafe_ok_def safe_reply_def unat_lat)

text \<open>What a dispatch does, once its message has been recognised.\<close>

definition reply_of :: "kfs_env \<Rightarrow> (mds_request_key \<times> bool \<times> u32) option" where
  "reply_of e =
     (let con = f_parm1 e; msg = f_parm2 e; km = f_km e in
      case core_read km msg ''hdr.type'' 2 of None \<Rightarrow> None | Some mb \<Rightarrow>
      if u16_of mb \<noteq> CEPH_MSG_CLIENT_REPLY then None else
      case core_read km msg ''hdr.tid'' 8 of None \<Rightarrow> None | Some tb \<Rightarrow>
      case core_read km con ''private'' 8 of None \<Rightarrow> None | Some sb \<Rightarrow>
      if u64_of sb = 0 then None else
      case core_read km msg ''front.iov_base'' 8 of None \<Rightarrow> None | Some hb \<Rightarrow>
      case core_read km (u64_of hb) ''safe'' 1 of None \<Rightarrow> None | Some fb \<Rightarrow>
      case core_read km (u64_of hb) ''result'' 4 of None \<Rightarrow> None | Some rb \<Rightarrow>
      Some (\<lparr>mk_client_id = session_client_id km False (u64_of sb), mk_tid = u64_of tb\<rparr>, hd fb \<noteq> 0, u32_of rb))"

lemma mds_dispatch_cases:
  "trace_mds_dispatch c e s =
     (case reply_of e of None \<Rightarrow> s | Some (key, safe, result) \<Rightarrow>
        (case pending_mds_requests s key of
           None \<Rightarrow> s
         | Some ev \<Rightarrow>
             if safe then s\<lparr>pending_mds_requests := (pending_mds_requests s)(key := None),
                 kfs_mds_rb := kfs_mds_rb s @ (if f_rb_ok e then [safe_reply (f_ktime e) result ev] else [])\<rparr>
             else put_mds key (unsafe_reply (f_ktime e) result ev) s))"
  by (auto simp: trace_mds_dispatch_def reply_of_def Let_def split: option.split)

lemma mds_dispatch_inv:
  assumes "kfs_inv (f_ktime e) s"
  shows "kfs_inv (f_ktime e) (trace_mds_dispatch c e s)"
proof (cases "reply_of e")
  case None
  with assms show ?thesis by (simp add: mds_dispatch_cases)
next
  case (Some r)
  obtain key safe result where r: "r = (key, safe, result)" by (cases r) auto
  show ?thesis
  proof (cases "pending_mds_requests s key")
    case None
    with assms Some r show ?thesis by (simp add: mds_dispatch_cases)
  next
    case (Some ev)
    then have ok: "mt_ok (f_ktime e) key ev" using assms by (simp add: kfs_inv_def)
    from assms safe_reply_ok [OF ok, of result]
    have "kfs_inv (f_ktime e) (s\<lparr>pending_mds_requests := (pending_mds_requests s)(key := None),
        kfs_mds_rb := kfs_mds_rb s @ (if f_rb_ok e then [safe_reply (f_ktime e) result ev] else [])\<rparr>)"
      by (auto simp: kfs_inv_def)
    with Some \<open>reply_of e = Some r\<close> r kfs_inv_put_mds [OF assms unsafe_reply_ok [OF ok, of result]]
    show ?thesis by (simp add: mds_dispatch_cases)
  qed
qed

section \<open>The programs as a machine\<close>

definition kfs_machine :: "kfs_cfg \<Rightarrow> kfs_probe \<times> kfs_env \<Rightarrow> kfs_bpf \<times> u64 \<Rightarrow> kfs_bpf \<times> u64" where
  "kfs_machine c pe st = (kfs_step c pe (fst st), f_ktime (snd pe))"

definition kfs_good :: "kfs_cfg \<Rightarrow> kfs_bpf \<times> u64 \<Rightarrow> kfs_probe \<times> kfs_env \<Rightarrow> bool" where
  "kfs_good c st pe \<longleftrightarrow> snd st \<le> f_ktime (snd pe) \<and> kfs_good_env (snd pe) \<and>
     hash_map (kc_upd c) \<and> hash_map (kc_mds_upd c)"

definition kfs_clocked :: "kfs_bpf \<times> u64 \<Rightarrow> bool" where
  "kfs_clocked st = kfs_inv (snd st) (fst st)"

interpretation kfs: probe_machine "kfs_machine c" "kfs_good c" kfs_clocked for c
proof
  fix st x
  assume "kfs_clocked st" "kfs_good c st x"
  moreover obtain p e where x: "x = (p, e)" by (cases x)
  ultimately have "kfs_inv (f_ktime e) (fst st)" "kfs_good_env e" "hash_map (kc_upd c)" "hash_map (kc_mds_upd c)"
    using kfs_inv_mono by (auto simp: kfs_clocked_def kfs_good_def)
  then show "kfs_clocked (kfs_machine c x st)"
    by (cases p) (simp_all add: x kfs_clocked_def kfs_machine_def send_request_inv osd_dispatch_inv
        prepare_send_inv mds_dispatch_inv)
qed

end
