(* ===== verification/Kfs_Report_Properties.thy ===== *)
theory Kfs_Report_Properties
  imports Kfs_Properties
begin

text \<open>
  The properties of kfstrace, over the invariants of its programs, and a concrete kernel for the
  witnesses.
\<close>

section \<open>Names of MDS ops\<close>

definition nibble :: "u32 \<Rightarrow> nat \<Rightarrow> u8" where
  "nibble op i = ucast (drop_bit (4 * i) op AND 15)"

lemma unknown_op_name:
  "map_of mds_op_names op = None \<Longrightarrow>
   get_mds_op_name op = ascii ''OP_'' @ map (\<lambda>i. hex_ascii (nibble op i)) [4, 3, 2, 1, 0] @ replicate 24 0"
proof -
  assume "map_of mds_op_names op = None"
  moreover have "rev [3..<8] = [7, 6, 5, 4, 3 :: nat]" by (simp add: upt_rec)
  moreover have "overlay (ascii ''OP_'') (replicate CEPH_MDS_OP_NAME_MAX 0) = ascii ''OP_'' @ replicate 29 0"
    "length (ascii ''OP_'') = 3" "replicate 29 (0 :: u8) = [0, 0, 0, 0, 0, 0] @ replicate 23 0"
    "replicate 24 (0 :: u8) = 0 # replicate 23 0"
    by (simp_all add: overlay_def ascii_def kfs_const_defs eval_nat_numeral)
  ultimately show ?thesis
    by (simp add: get_mds_op_name_def Let_def list_update_append nibble_def eval_nat_numeral)
qed

lemma hex_ascii_inj: "a < 16 \<Longrightarrow> b < 16 \<Longrightarrow> hex_ascii a = hex_ascii b \<Longrightarrow> a = b"
proof -
  have "list_all (\<lambda>m. list_all (\<lambda>n. hex_ascii (of_nat m) = hex_ascii (of_nat n) \<longrightarrow> m = n) [0..<16]) [0..<16]"
    by code_simp
  then have *: "hex_ascii (of_nat m) = hex_ascii (of_nat n) \<Longrightarrow> m = n" if "m < 16" "n < 16" for m n
    using that by (simp add: list_all_iff)
  assume "a < 16" "b < 16" "hex_ascii a = hex_ascii b"
  have "unat a = unat b"
  proof -
    have "unat a < 16" "unat b < 16" using \<open>a < 16\<close> \<open>b < 16\<close> by (simp_all add: word_less_nat_alt)
    with * [of "unat a" "unat b"] \<open>hex_ascii a = hex_ascii b\<close> show ?thesis by simp
  qed
  then show "a = b" by (simp only: word_unat_eq_iff)
qed

lemma nibble_less: "nibble op i < 16"
proof -
  have le: "unat (drop_bit (4 * i) op AND 15) \<le> 15"
    using word_and_le1 [of "drop_bit (4 * i) op" 15] by (simp add: word_le_nat_alt)
  then have "take_bit 8 (unat (drop_bit (4 * i) op AND 15)) = unat (drop_bit (4 * i) op AND 15)"
    by (simp add: take_bit_nat_eq_self)
  with le show ?thesis by (simp add: nibble_def word_less_nat_alt unsigned_ucast_eq)
qed

lemma bit_nibble: "j < 4 \<Longrightarrow> bit (nibble op i) j \<longleftrightarrow> bit op (4 * i + j)"
proof -
  assume j: "j < 4"
  have m: "(15 :: u32) = mask 4" by (simp add: mask_eq_exp_minus_1)
  show ?thesis using j unfolding nibble_def m by (auto simp: bit_simps)
qed

lemma nibbles_determine:
  assumes "unat a < 2 ^ 20" and "unat b < 2 ^ 20" and "\<And>i. i < 5 \<Longrightarrow> nibble a i = nibble b i"
  shows "a = b"
proof (rule bit_word_eqI)
  fix n assume "n < LENGTH(32)"
  show "bit a n \<longleftrightarrow> bit b n"
  proof (cases "n < 20")
    case True
    then have "n div 4 < 5" by simp
    with assms(3) have "nibble a (n div 4) = nibble b (n div 4)" by simp
    then have "bit (nibble a (n div 4)) (n mod 4) = bit (nibble b (n div 4)) (n mod 4)" by simp
    then show ?thesis by (simp add: bit_nibble)
  next
    case False
    have "\<not> bit w n" if "unat w < 2 ^ 20" for w :: u32
    proof -
      have "unat w < 2 ^ n" using that False power_increasing [of 20 n "2 :: nat"] by simp
      then have "\<not> bit (unat w) n" by (simp add: bit_iff_odd)
      then show ?thesis by (simp add: bit_unsigned_iff \<open>n < LENGTH(32)\<close>)
    qed
    with assms(1,2) show ?thesis by simp
  qed
qed

lemma known_op_names:
  assumes "map_of mds_op_names op = Some nm"
  shows "get_mds_op_name op ! 2 \<noteq> 95 \<and> (map_of mds_op_names op' = Some nm' \<longrightarrow>
     get_mds_op_name op = get_mds_op_name op' \<longrightarrow> op = op')"
proof -
  have third: "list_all (\<lambda>x. get_mds_op_name (fst x) ! 2 \<noteq> 95) mds_op_names" by code_simp
  have dist: "distinct (map (\<lambda>x. get_mds_op_name (fst x)) mds_op_names)" by code_simp
  have mem: "(op, nm) \<in> set mds_op_names" using assms by (rule map_of_SomeD)
  moreover have "op = op'" if "map_of mds_op_names op' = Some nm'" "get_mds_op_name op = get_mds_op_name op'"
  proof -
    have "(op', nm') \<in> set mds_op_names" using that(1) by (rule map_of_SomeD)
    with dist mem that(2) have "(op, nm) = (op', nm')"
      using inj_onD [of "\<lambda>x. get_mds_op_name (fst x)" "set mds_op_names" "(op, nm)" "(op', nm')"]
      by (simp add: distinct_map)
    then show ?thesis by simp
  qed
  ultimately show ?thesis using third by (auto simp: list_all_iff)
qed

text \<open>C37: the name kfstrace shows for an MDS op identifies it: no two op codes below 2^20, known by
  name or shown by their five hex digits, have the same name.\<close>

theorem mds_op_name_identifies:
  assumes "unat a < 2 ^ 20" and "unat b < 2 ^ 20" and "get_mds_op_name a = get_mds_op_name b"
  shows "a = b"
proof (cases "map_of mds_op_names a"; cases "map_of mds_op_names b")
  assume none: "map_of mds_op_names a = None" "map_of mds_op_names b = None"
  have "map (\<lambda>i. hex_ascii (nibble a i)) [4, 3, 2, 1, 0] = map (\<lambda>i. hex_ascii (nibble b i)) [4, 3, 2, 1, 0]"
    using assms(3) unknown_op_name [OF none(1)] unknown_op_name [OF none(2)] by simp
  then have "\<forall>i\<in>set [4, 3, 2, 1, 0]. hex_ascii (nibble a i) = hex_ascii (nibble b i)"
    by (simp add: map_eq_conv)
  moreover have "i < 5 \<Longrightarrow> i \<in> set [4, 3, 2, 1, 0]" for i :: nat by auto
  ultimately have "i < 5 \<Longrightarrow> nibble a i = nibble b i" for i
    using hex_ascii_inj [OF nibble_less nibble_less] by blast
  with assms(1,2) show ?thesis by (rule nibbles_determine)
next
  fix nm assume "map_of mds_op_names a = None" "map_of mds_op_names b = Some nm"
  then show ?thesis using unknown_op_name [of a] known_op_names [of b nm] assms(3)
    by (simp add: ascii_def)
next
  fix nm assume "map_of mds_op_names a = Some nm" "map_of mds_op_names b = None"
  then show ?thesis using unknown_op_name [of b] known_op_names [of a nm] assms(3)
    by (simp add: ascii_def)
next
  fix nm nm' assume "map_of mds_op_names a = Some nm" "map_of mds_op_names b = Some nm'"
  then show ?thesis using known_op_names [of a nm b nm'] assms(3) by simp
qed

lemma mds_op_name_identifies_witness: "get_mds_op_name 0x306 \<noteq> get_mds_op_name 0x305"
  using mds_op_name_identifies [where a = "0x306" and b = "0x305"] by auto

section \<open>A kernel given by its fields\<close>

text \<open>Kernel memory given by the number each field holds and the string each address holds.\<close>

definition le_bytes :: "nat \<Rightarrow> u64 \<Rightarrow> bytes" where
  "le_bytes n v = map (\<lambda>i. ucast (drop_bit (8 * i) v)) [0..<n]"

definition field_read :: "(u64 \<Rightarrow> string \<Rightarrow> u64 option) \<Rightarrow> u64 \<Rightarrow> string \<Rightarrow> nat \<Rightarrow> bytes option" where
  "field_read val a f n = map_option (le_bytes n) (val a f)"

definition field_read_str :: "(u64 \<Rightarrow> string \<Rightarrow> bytes) \<Rightarrow> u64 \<Rightarrow> string \<Rightarrow> nat \<Rightarrow> bytes option" where
  "field_read_str str a f n =
     (if n = 0 then None else Some (take (n - 1) (takeWhile (\<lambda>b. b \<noteq> 0) (str a f)) @ [0]))"

definition spg_pool_of :: "bytes \<Rightarrow> u64" where "spg_pool_of b = u64_of (take 8 b)"
definition spg_seed_of :: "bytes \<Rightarrow> u32" where "spg_seed_of b = u32_of (drop 8 b)"

definition field_kmem :: "(u64 \<Rightarrow> string \<Rightarrow> u64 option) \<Rightarrow> (u64 \<Rightarrow> string \<Rightarrow> bytes) \<Rightarrow> kmem" where
  "field_kmem val str = \<lparr>core_read = field_read val, core_read_str = field_read_str str,
     entity_name_num = u64_of, entity_name_size = 8, spg_pool = spg_pool_of, spg_seed = spg_seed_of,
     spg_size = 12\<rparr>"

interpretation field_kmem: kernel_memory "field_kmem val str" for val str
  by unfold_locales
    (auto simp: field_kmem_def field_read_def field_read_str_def le_bytes_def split: if_splits)

definition kdemo_fields :: "u64 \<Rightarrow> u64 \<Rightarrow> string \<Rightarrow> u64 option" where
  "kdemo_fields safe a f = map_of [(''r_tid'', 7), (''r_op'', 0x1301), (''s_mdsc'', 4096), (''fsc'', 8192),
     (''client'', 12288), (''msgr.inst.name'', 4), (''s_mds'', 2), (''hdr.type'', 26), (''hdr.tid'', 7),
     (''private'', 256), (''front.iov_base'', 16384), (''safe'', safe), (''result'', 0),
     (''r_dentry'', 512), (''d_name.name'', 640), (''d_name.len'', 1)] f"

definition kdemo_str :: "u64 \<Rightarrow> string \<Rightarrow> bytes" where "kdemo_str a f = [97]"

definition kdemo_env :: "u64 \<Rightarrow> u64 \<Rightarrow> kfs_env" where
  "kdemo_env t safe = \<lparr>f_parm1 = 256, f_parm2 = 1024,
     f_km = field_kmem (kdemo_fields safe) kdemo_str, f_pid_tgid = 30064771081,
     f_comm = 99 # 112 # replicate 14 0, f_ktime = t, f_rb_ok = True\<rparr>"

definition kdemo_cfg :: kfs_cfg where
  "kdemo_cfg = \<lparr>kc_upd = plain_update, kc_mds_upd = plain_update\<rparr>"

definition kdemo_key :: mds_request_key where
  "kdemo_key = \<lparr>mk_client_id = 4, mk_tid = 7\<rparr>"

definition kdemo_entry :: mds_trace_event where
  "kdemo_entry = zero_mds_event\<lparr>mt_tid := 7, mt_client_id := 4, mt_submit_time := 1000, mt_op := 0x1301,
     mt_pid := 7, mt_mds_rank := 2, mt_comm := 99 # 112 # replicate 14 0, mt_attempts := 1,
     mt_is_write_op := 1, mt_op_name := overlay (ascii ''CREATE'') (replicate 32 0),
     mt_path := 97 # replicate 63 0\<rparr>"

lemma kdemo_good: "kfs_good_env (kdemo_env t safe)"
proof -
  have "kernel_memory (f_km (kdemo_env t safe))"
    by (simp add: kdemo_env_def field_kmem.kernel_memory_axioms)
  then show ?thesis by (simp add: kfs_good_env_def) (simp add: kdemo_env_def comm_ok_def kfs_const_defs)
qed

lemma kdemo_maps: "hash_map (kc_upd kdemo_cfg)" "hash_map (kc_mds_upd kdemo_cfg)"
  by (simp_all add: kdemo_cfg_def plain.hash_map_axioms)

lemma kdemo_prepared:
  "pending_mds_requests (trace_prepare_send_request kdemo_cfg (kdemo_env 1000 0) kfs_init) kdemo_key = Some kdemo_entry"
  by code_simp

section \<open>Reachable states\<close>

text \<open>C38: in every state the kfstrace programs can reach from the empty maps, in any order, each
  pending request carries its own key and its arrays are in their C bounds with terminated strings,
  no pending MDS request has a safe reply yet, and an unsafe latency is that between submission and
  unsafe reply; each reported event has latencies that are the differences of its own stamps, in
  order.\<close>

theorem kfs_reachable_ok:
  assumes "kfs.reach c (kfs_init, T0) (s, T)"
  shows "kfs_inv T s"
proof -
  have "kfs_clocked (kfs_init, T0)" by (simp add: kfs_clocked_def kfs_inv_def kfs_init_def)
  with kfs.reach_inv [OF assms] show ?thesis by (simp add: kfs_clocked_def)
qed

lemma kfs_reachable_ok_witness: "mt_ok 1000 kdemo_key kdemo_entry"
proof -
  let ?s = "trace_prepare_send_request kdemo_cfg (kdemo_env 1000 0) kfs_init"
  have "kfs.reach kdemo_cfg (kfs_init, 0) (?s, 1000)"
    using kfs.reach_step [OF kfs.reach_init, of kdemo_cfg "(kfs_init, 0)" "(PrepareSendRequest, kdemo_env 1000 0)"]
      kdemo_good kdemo_maps
    by (simp add: kfs_good_def kfs_machine_def) (simp add: kdemo_env_def)
  from kfs_reachable_ok [OF this] kdemo_prepared show ?thesis by (simp add: kfs_inv_def)
qed

section \<open>Two-phase replies\<close>

text \<open>The pending MDS request a probe hit works on.\<close>

fun mds_probe_key :: "kfs_probe \<times> kfs_env \<Rightarrow> mds_request_key option" where
  "mds_probe_key (PrepareSendRequest, e) =
     (let km = f_km e in
      if f_parm2 e = 0 then None else
      case (core_read km (f_parm2 e) ''r_tid'' 8, core_read km (f_parm2 e) ''r_op'' 4) of
        (Some tb, Some _) \<Rightarrow> Some \<lparr>mk_client_id = session_client_id km True (f_parm1 e), mk_tid = u64_of tb\<rparr>
      | _ \<Rightarrow> None)"
| "mds_probe_key (MdsDispatch, e) = map_option fst (reply_of e)"
| "mds_probe_key (_, e) = None"

lemma prepare_other:
  assumes "hash_map (kc_mds_upd c)" and "mds_probe_key (PrepareSendRequest, e) \<noteq> Some k"
  shows "pending_mds_requests (trace_prepare_send_request c e s) k = pending_mds_requests s k"
proof -
  have put: "pending_mds_requests (put_mds key v t) k = pending_mds_requests t k" if "key \<noteq> k" for key v t
    using that by (simp add: put_mds_def)
  have init: "pending_mds_requests (initialize_mds_trace_event c key s) k = pending_mds_requests s k" if "key \<noteq> k" for key
    using hash_map.upd_keeps [OF assms(1)] that unfolding initialize_mds_trace_event_def by simp
  show ?thesis
  proof (cases "f_parm2 e = 0 \<or> core_read (f_km e) (f_parm2 e) ''r_tid'' 8 = None \<or> core_read (f_km e) (f_parm2 e) ''r_op'' 4 = None")
    case True
    then show ?thesis by (auto simp: trace_prepare_send_request_def Let_def split: option.split)
  next
    case False
    then obtain tb ob where rd: "f_parm2 e \<noteq> 0" "core_read (f_km e) (f_parm2 e) ''r_tid'' 8 = Some tb"
      "core_read (f_km e) (f_parm2 e) ''r_op'' 4 = Some ob" by auto
    define key where "key = \<lparr>mk_client_id = session_client_id (f_km e) True (f_parm1 e), mk_tid = u64_of tb\<rparr>"
    define rank where "rank = (if f_parm1 e = 0 then 0
        else case core_read (f_km e) (f_parm1 e) ''s_mds'' 4 of Some rb \<Rightarrow> u32_of rb | None \<Rightarrow> 0)"
    have "key \<noteq> k" using assms(2) rd by (simp add: key_def)
    moreover have "trace_prepare_send_request c e s =
        (case pending_mds_requests s key of
           Some x \<Rightarrow> put_mds key (x\<lparr>mt_attempts := mt_attempts x + 1\<rparr>) s
         | None \<Rightarrow> (case pending_mds_requests (initialize_mds_trace_event c key s) key of
             None \<Rightarrow> initialize_mds_trace_event c key s
           | Some ev \<Rightarrow> put_mds key (new_mds_event e (f_parm2 e) key (u32_of ob) rank ev)
                          (initialize_mds_trace_event c key s)))"
      using rd unfolding trace_prepare_send_request_def Let_def key_def rank_def by simp
    ultimately show ?thesis using put [of key] init [of key] by (simp split: option.split)
  qed
qed

lemma other_mds_step:
  assumes "hash_map (kc_mds_upd c)" and "mds_probe_key pe \<noteq> Some k"
  shows "pending_mds_requests (kfs_step c pe s) k = pending_mds_requests s k"
proof -
  obtain p e where pe: "pe = (p, e)" by (cases pe)
  show ?thesis
  proof (cases p)
    case SendRequest
    then show ?thesis
      by (simp add: pe trace_send_request_def Let_def put_req_def initialize_kernel_trace_event_def split: option.split)
  next
    case OsdDispatch
    then show ?thesis by (simp add: pe trace_osd_dispatch_def Let_def split: option.split)
  next
    case PrepareSendRequest
    with prepare_other [OF assms(1)] assms(2) show ?thesis by (simp add: pe)
  next
    case MdsDispatch
    with assms(2) show ?thesis by (auto simp: pe mds_dispatch_cases put_mds_def split: option.split)
  qed
qed

lemma other_mds_steps:
  "\<lbrakk>hash_map (kc_mds_upd c); list_all (\<lambda>pe. mds_probe_key pe \<noteq> Some k) pes\<rbrakk> \<Longrightarrow>
     pending_mds_requests (fold (kfs_step c) pes s) k = pending_mds_requests s k"
  by (induction pes arbitrary: s) (simp_all add: other_mds_step)

text \<open>C39: a pending MDS request that gets its unsafe and later its safe reply, with any activity on
  other requests between, is reported exactly at the safe reply: nothing is sent at the unsafe
  one, the event carries both reply times and both latencies, and the request is no longer
  pending.\<close>

theorem two_phase_reply_reported:
  assumes "hash_map (kc_mds_upd c)" and "pending_mds_requests s k = Some ev"
    and "list_all (\<lambda>pe. mds_probe_key pe \<noteq> Some k) others1" and "reply_of e2 = Some (k, False, r2)"
    and "list_all (\<lambda>pe. mds_probe_key pe \<noteq> Some k) others2" and "reply_of e3 = Some (k, True, r3)"
    and "s1 = fold (kfs_step c) others1 s" and "s2 = trace_mds_dispatch c e2 s1"
    and "s3 = fold (kfs_step c) others2 s2"
  shows "kfs_mds_rb s2 = kfs_mds_rb s1 \<and>
     kfs_mds_rb (trace_mds_dispatch c e3 s3) = kfs_mds_rb s3 @
       (if f_rb_ok e3 then [safe_reply (f_ktime e3) r3 (unsafe_reply (f_ktime e2) r2 ev)] else []) \<and>
     pending_mds_requests (trace_mds_dispatch c e3 s3) k = None"
proof -
  have "pending_mds_requests s1 k = Some ev" using other_mds_steps [OF assms(1,3)] assms(2,7) by simp
  then have s2: "s2 = put_mds k (unsafe_reply (f_ktime e2) r2 ev) s1"
    using assms(4,8) by (simp add: mds_dispatch_cases)
  then have "pending_mds_requests s3 k = Some (unsafe_reply (f_ktime e2) r2 ev)"
    using other_mds_steps [OF assms(1,5)] assms(9) by (simp add: put_mds_def)
  with assms(6) s2 show ?thesis by (simp add: mds_dispatch_cases put_mds_def)
qed

lemma two_phase_reply_reported_witness:
  "kfs_mds_rb (trace_mds_dispatch kdemo_cfg (kdemo_env 9000 1) (trace_mds_dispatch kdemo_cfg (kdemo_env 4000 0)
      (trace_prepare_send_request kdemo_cfg (kdemo_env 1000 0) kfs_init))) =
   [safe_reply 9000 0 (unsafe_reply 4000 0 kdemo_entry)]"
proof -
  have r: "reply_of (kdemo_env 4000 0) = Some (kdemo_key, False, 0)"
    "reply_of (kdemo_env 9000 1) = Some (kdemo_key, True, 0)" by code_simp+
  have e: "f_rb_ok (kdemo_env t w)" "f_ktime (kdemo_env t w) = t" for t w by (simp_all add: kdemo_env_def)
  have none: "list_all (\<lambda>pe. mds_probe_key pe \<noteq> Some kdemo_key) []" by simp
  have "kfs_mds_rb (trace_prepare_send_request kdemo_cfg (kdemo_env 1000 0) kfs_init) = []" by code_simp
  then show ?thesis
    using two_phase_reply_reported [OF kdemo_maps(2) kdemo_prepared none r(1) none r(2) refl refl refl]
    by (simp only: fold.simps id_apply e if_True append.simps)
qed

section \<open>Userspace and the OSD events\<close>

lemma kfs_event_sizes: "bpf_event_size = 289" "user_event_size = 313" "mds_event_size = 191"
  by (simp_all add: bpf_event_size_def user_event_size_def mds_event_size_def packed_sizeof_def
      kernel_trace_event_head_def mds_trace_event_members_def bpf_cls_op_members_def user_cls_op_members_def
      c_sizeof_def round_up_def kfs_const_defs)

text \<open>C40: userspace rejects every OSD event of the BPF side, whatever it holds: the BPF structure is
  24 bytes shorter than the one userspace expects, because the class name is declared with eight
  bytes in the one and sixteen in the other, so that the OSD mode never prints a request.\<close>

theorem osd_events_rejected:
  "fold (kfs_handle_event lc threshold bpf_event_size) evs ui = ui\<lparr>ku_rejected := ku_rejected ui + length evs\<rparr>"
proof (induction evs arbitrary: ui)
  case (Cons ev evs)
  then show ?case by (simp add: kfs_handle_event_def kfs_event_sizes)
qed simp

text \<open>An MDS event of the BPF side is always of the size userspace expects, and is printed exactly
  when the latency it is judged by reaches the threshold.\<close>

lemma mds_events_printed:
  "ku_out (fold (handle_mds_event lc threshold mds_event_size) evs ui) =
     ku_out ui @ map (mds_line lc) (filter (\<lambda>ev. \<not> mds_below threshold ev) evs) \<and>
   ku_rejected (fold (handle_mds_event lc threshold mds_event_size) evs ui) = ku_rejected ui"
  by (induction evs arbitrary: ui) (simp_all add: handle_mds_event_def)

end
