(* ===== verification/Spec2Isabelle.thy ===== *)
theory Spec2Isabelle
  imports Osd_Report_Properties Dwarf_Data_Properties Dwarf_Properties Analysis_Export Rados_Analysis Osd_Control_Properties
    Rados_Report_Properties Rados_Control_Properties Kfs_Report_Properties
begin

text \<open>
  A verification development for cephtrace, the eBPF tracers \<open>osdtrace\<close>, \<open>radostrace\<close> and
  \<open>kfstrace\<close> for Ceph.

  Parts and their theories (sources are under \<open>src/src\<close>):

  \<^item> \<open>Cephtrace_Prelude\<close>, \<open>CxxString\<close>, \<open>Host\<close>, \<open>Sorted_Map\<close>: the integer types, the \<open>std::string\<close>
    and \<open>std::map\<close> operations the code uses, and the operating system as a record \<open>host\<close> of
    functions (the lines of a file, link targets, the entries of \<open>/proc\<close>, the output of a command).
  \<^item> \<open>Process_Utils\<close> (utils.h) and \<open>Version_Utils\<close> (version_utils.cc): names and ids of processes,
    package versions, libraries and executables of a process, deleted files, build-ids.
  \<^item> \<open>Ceph_Types\<close> (bpf_ceph_types.h) and \<open>Bpf_Runtime\<close> (bpf_utils.h): the records the kernel and the
    user side share, the opcode tables, the walk over member chains in user memory. The kernel is a
    parameter: memory reads, clock, ring buffer and map updates; what the proofs use of them is the
    locales of \<open>Bpf_Runtime\<close> (a map keeps or loses other keys, a read returns as many bytes as asked).
  \<^item> osdtrace: \<open>Osd_Probes\<close> (osdtrace.bpf.c: one function per uprobe program on the state
    \<open>osd_bpf\<close> of its maps), \<open>Osd_Invariants\<close> and \<open>Osd_Properties\<close>; \<open>Osd_Report\<close> (the event
    handlers and histograms of osdtrace.cc) and \<open>Osd_Report_Properties\<close>; \<open>Osd_Tables\<close> and
    \<open>Osd_Control\<close> (tables, command line, discovery, targets, attaching, main loop) and
    \<open>Osd_Control_Properties\<close>.
  \<^item> radostrace: \<open>Rados_Probes\<close> (radostrace.bpf.c), \<open>Rados_Report\<close> (rows, CSV, unfinished requests)
    and \<open>Rados_Control\<close> (client discovery, layout facts, collapsed member chains, attaching) of
    radostrace.cc; \<open>Rados_Properties\<close>, \<open>Rados_Report_Properties\<close>, \<open>Rados_Control_Properties\<close>.
  \<^item> kfstrace: \<open>Kfs_Probes\<close> (kfstrace.bpf.c), \<open>Kfs_Report\<close> (kfstrace.cc), \<open>Kfs_Properties\<close> and
    \<open>Kfs_Report_Properties\<close>.
  \<^item> \<open>Dwarf_Data\<close> (the data store of dwarf_parser.cc: export, import, compiled-in tables) and
    \<open>Dwarf_Data_Properties\<close>.
  \<^item> The DWARF analysis of dwarf_parser.cc: \<open>Dwarf_Model\<close> (libdw as a record of functions on opaque
    DIEs; the cache of named types, sizes, member offsets), \<open>Dwarf_Location\<close> (location expressions,
    the calling convention as a fallback, entry addresses) and \<open>Dwarf_Parser\<close> (member paths,
    \<open>handle_function\<close>, \<open>handle_module\<close>, \<open>preprocess_module\<close>, \<open>parse\<close>).
  \<^item> On it: \<open>Dwarf_Types\<close> (the laws of well-formed type information, the layout a member offset
    refers to), \<open>Dwarf_Paths\<close> (what a member path denotes), \<open>Dwarf_Calling\<close> (the x86-64 convention),
    \<open>Dwarf_Cache\<close> (what the type cache holds), \<open>Dwarf_Recorded\<close> (what the passes record),
    \<open>Dwarf_Table\<close> and \<open>Dwarf_Properties\<close> (debug information given by a table, on which the laws are
    checked and the properties applied).
  \<^item> The composition: \<open>Analysis_Properties\<close> and \<open>Rados_Analysis\<close> follow a value from the debug
    information over the data store and the BPF map or constants to what the probe reads;
    \<open>Analysis_Export\<close> follows the recorded data through the JSON file into a later run.

  How the parts meet. The control theories fill the \<open>dwarf_data\<close> store, turn it into the constants
  and variable maps of the BPF programs, and attach the programs; a probe theory takes a state of the
  maps to the next one and appends events to the ring buffer; a report theory folds its handler over
  the events. An invocation of a BPF program is one atomic step; runs are lists of steps, with any
  program and any kernel behaviour at each, so every interleaving of invocations is covered.

  What the lemmas show. For each tracer: an invariant of the maps that every program keeps, hence of
  each reachable state; what a completion reports and that it consumes its entry; that programs
  working on other keys leave an entry alone. For the reports: rows and CSV files can be read back,
  latencies are bounded, which samples are shown. For the control code: that the arguments and
  targets a run accepts are consistent, that the offsets handed to BPF read what the member walk
  reads, that exactly the right symbols are probed. For the data store: round trips of the JSON form
  and completeness of the compiled-in form. For the analysis: that it ends on well-formed types, that
  member offsets are those of the layout, that a parameter's place is that of the convention, that
  recorded fields lead to the object a path denotes; and, across the components, that the value a
  probe reads in the traced process is the member its path names.

  Loops. All loops are structural recursion or have a measure; the loops that end only with the
  tracer take the list of their turns and say when they still run. The member walk and the capture
  loops have the bounds of the source. A loop of the DWARF analysis that ends only on well-formed
  type information is a \<open>partial_function\<close> into \<open>option\<close>, where \<open>None\<close> is not returning; that it
  returns is proved under the laws of the locales \<open>type_info\<close> and \<open>path_info\<close> (typedefs, pointers,
  base classes and anonymous members lead to types of smaller depth).

  Conventions. A C \<open>int\<close> is an \<open>int\<close> narrowed with \<open>to_c_int\<close> where the code narrows; unsigned values
  are words of their width. Text goes to lists of lines; log lines, usage texts and \<open>bpf_printk\<close> are
  left out. What is not under \<open>src\<close> is a parameter: libbpf, libelf, libdw, nlohmann::json's text form,
  the header generated from the DWARF files, kernel memory.

  Not modelled: opening a file for libdw (\<open>create_dwfl\<close>, the parameter \<open>ds_open_dwfl\<close>) and the
  names of attributes and forms for log output; signal handlers; unused functions (\<open>digitnum\<close>,
  \<open>attach_retuprobe\<close>, \<open>print_vf\<close>); build files, tests, tools and data files.
\<close>

end
